(* ===== verification/Prelude.thy ===== *)
theory Prelude
  imports Main "HOL-Library.Word"
begin

text \<open>
  Shared vocabulary of the LAN Chat development: the machine types, the pieces of the C++
  standard library that several components use (\<open>std::to_string\<close>, \<open>std::string::find\<close>,
  \<open>find_first_of\<close>, \<open>substr\<close>), big-endian byte order, and the generic lemmas on lists, options
  and words that the component theories rely on.

  A \<open>std::string\<close> is a \<^typ>\<open>string\<close>: a list of 8-bit characters, so that \<open>length\<close> counts
  bytes as \<open>size()\<close> does.
\<close>

section \<open>Collections of facts\<close>

named_theorems frame_simps \<open>equations of the framing layer\<close>
named_theorems inv_intros \<open>an operation preserves its component's invariant\<close>

section \<open>Machine types\<close>

type_synonym u32 = "32 word"
type_synonym u64 = "64 word"
type_synonym i64 = "64 word"

text \<open>The range of \<open>std::int64_t\<close>: integers that a component computes with as mathematical
  integers are kept inside it.\<close>

definition int64_range :: "int \<Rightarrow> bool" where
  "int64_range i \<longleftrightarrow> - (2 ^ 63) \<le> i \<and> i < 2 ^ 63"

text \<open>Division of C++ integers truncates towards zero.\<close>

definition cdiv :: "int \<Rightarrow> int \<Rightarrow> int" where
  "cdiv a b = sgn a * sgn b * (\<bar>a\<bar> div \<bar>b\<bar>)"

lemma cdiv_nonneg [simp]: "0 \<le> a \<Longrightarrow> 0 < b \<Longrightarrow> cdiv a b = a div b"
  by (cases "a = 0") (simp_all add: cdiv_def)

section \<open>Decimal text: std::to_string\<close>

definition digit_char :: "nat \<Rightarrow> char" where
  "digit_char d = char_of (48 + d)"

fun nat_to_string :: "nat \<Rightarrow> string" where
  "nat_to_string n =
     (if n < 10 then [digit_char n] else nat_to_string (n div 10) @ [digit_char (n mod 10)])"

declare nat_to_string.simps [simp del]

definition to_string :: "int \<Rightarrow> string" where
  "to_string i = (if i < 0 then CHR ''-'' # nat_to_string (nat (- i)) else nat_to_string (nat i))"

lemma digit_char_eq_iff: "d < 10 \<Longrightarrow> e < 10 \<Longrightarrow> digit_char d = digit_char e \<longleftrightarrow> d = e"
proof
  assume "d < 10" "e < 10" "digit_char d = digit_char e"
  then have "of_char (char_of (48 + d) :: char) = (of_char (char_of (48 + e) :: char) :: nat)"
    by (simp add: digit_char_def)
  with \<open>d < 10\<close> \<open>e < 10\<close> show "d = e" by simp
qed simp

lemma digit_char_not:
  assumes "d < 10"
  shows "digit_char d \<noteq> CHR ''-''" and "digit_char d \<noteq> CHR 0x0A"
proof -
  have c: "of_char (digit_char d) = (48 + d :: nat)" using assms by (simp add: digit_char_def)
  show "digit_char d \<noteq> CHR ''-''"
  proof
    assume "digit_char d = CHR ''-''"
    with c have "48 + d = (of_char (CHR ''-'') :: nat)" by simp
    then show False by simp
  qed
  show "digit_char d \<noteq> CHR 0x0A"
  proof
    assume "digit_char d = CHR 0x0A"
    with c have "48 + d = (of_char (CHR 0x0A) :: nat)" by simp
    then show False by simp
  qed
qed

lemma nat_to_string_nonempty [simp]: "nat_to_string n \<noteq> []" "[] \<noteq> nat_to_string n"
  by (simp_all add: nat_to_string.simps [of n])

lemma nat_to_string_digits: "\<forall>c \<in> set (nat_to_string n). \<exists>d < 10. c = digit_char d"
proof (induction n rule: nat_to_string.induct)
  case (1 n)
  have "\<exists>d<10. digit_char (n mod 10) = digit_char d" by (rule exI [of _ "n mod 10"]) simp
  with 1 show ?case
    by (cases "n < 10") (auto simp: nat_to_string.simps [of n])
qed

lemma nat_to_string_inject: "nat_to_string m = nat_to_string n \<Longrightarrow> m = n"
proof (induction m arbitrary: n rule: nat_to_string.induct)
  case (1 m)
  have snoc: "nat_to_string k = (if k < 10 then [] else nat_to_string (k div 10)) @ [digit_char (k mod 10)]" for k
    by (simp add: nat_to_string.simps [of k])
  let ?pre = "\<lambda>k. if k < 10 then [] else nat_to_string (k div 10)"
  have "?pre m @ [digit_char (m mod 10)] = ?pre n @ [digit_char (n mod 10)]"
    using "1.prems" unfolding snoc [of m] snoc [of n] .
  then have pre: "?pre m = ?pre n" and "digit_char (m mod 10) = digit_char (n mod 10)"
    by (simp_all only: append1_eq_conv)
  then have last: "m mod 10 = n mod 10" by (simp add: digit_char_eq_iff)
  show ?case
  proof (cases "m < 10")
    case True
    with pre have "n < 10" by (auto split: if_splits)
    with True last show ?thesis by simp
  next
    case False
    with pre have n: "\<not> n < 10" and eq: "nat_to_string (m div 10) = nat_to_string (n div 10)"
      by (auto split: if_splits)
    from "1.IH" [OF False eq] last show ?thesis
      by (metis div_mult_mod_eq)
  qed
qed

lemma to_string_chars: "c \<in> set (to_string i) \<Longrightarrow> c = CHR ''-'' \<or> (\<exists>d < 10. c = digit_char d)"
  using nat_to_string_digits by (auto simp: to_string_def split: if_splits)

lemma to_string_no_newline [simp]: "CHR 0x0A \<notin> set (to_string i)"
proof
  assume "CHR 0x0A \<in> set (to_string i)"
  from to_string_chars [OF this] obtain d where "d < 10" "CHR 0x0A = digit_char d" by auto
  with digit_char_not(2) show False by metis
qed

lemma nat_to_string_no_minus: "CHR ''-'' \<notin> set (nat_to_string n)"
  using nat_to_string_digits [of n] digit_char_not(1) by metis

lemma to_string_inject [simp]: "to_string i = to_string j \<longleftrightarrow> i = j"
proof
  assume eq: "to_string i = to_string j"
  have sign: "i < 0 \<longleftrightarrow> CHR ''-'' \<in> set (to_string i)" for i
    using nat_to_string_no_minus by (simp add: to_string_def)
  from eq sign [of i] sign [of j] have "i < 0 \<longleftrightarrow> j < 0" by simp
  with eq show "i = j"
    by (auto simp: to_string_def dest!: nat_to_string_inject split: if_splits)
qed simp

section \<open>std::string searching\<close>

text \<open>\<open>find_index P s pos\<close> is the first position at or after \<open>pos\<close> whose character satisfies
  \<open>P\<close>; \<open>None\<close> is \<open>std::string::npos\<close>.\<close>

fun first_index :: "('a \<Rightarrow> bool) \<Rightarrow> 'a list \<Rightarrow> nat option" where
  "first_index P [] = None"
| "first_index P (c # cs) = (if P c then Some 0 else map_option Suc (first_index P cs))"

definition find_index :: "(char \<Rightarrow> bool) \<Rightarrow> string \<Rightarrow> nat \<Rightarrow> nat option" where
  "find_index P s pos = map_option ((+) pos) (first_index P (drop pos s))"

lemma first_index_None: "first_index P s = None \<longleftrightarrow> (\<forall>c \<in> set s. \<not> P c)"
  by (induction s) auto

lemma first_index_Some:
  "first_index P s = Some i \<longleftrightarrow>
     i < length s \<and> P (s ! i) \<and> (\<forall>c \<in> set (take i s). \<not> P c)"
proof (induction s arbitrary: i)
  case (Cons c cs)
  then show ?case by (cases i) auto
qed simp

lemma first_index_append_Some:
  "(\<forall>c \<in> set xs. \<not> P c) \<Longrightarrow> P y \<Longrightarrow> first_index P (xs @ y # ys) = Some (length xs)"
  by (induction xs) auto

lemma first_index_append_skip:
  "(\<forall>c \<in> set xs. \<not> P c) \<Longrightarrow> first_index P (xs @ ys) = map_option (\<lambda>i. length xs + i) (first_index P ys)"
  by (induction xs) (cases "first_index P ys"; simp)+

lemma find_index_append:
  "length pre = pos \<Longrightarrow> \<forall>c \<in> set xs. \<not> P c \<Longrightarrow> P y \<Longrightarrow>
   find_index P (pre @ xs @ y # ys) pos = Some (pos + length xs)"
  by (simp add: find_index_def first_index_append_Some)

lemma find_index_None: "length pre = pos \<Longrightarrow> find_index P (pre @ xs) pos = None \<longleftrightarrow> (\<forall>c \<in> set xs. \<not> P c)"
  by (simp add: find_index_def first_index_None)

lemma find_index_Some_split:
  assumes "find_index P s pos = Some e"
  shows "\<exists>xs y ys. drop pos s = xs @ y # ys \<and> e = pos + length xs \<and> P y \<and> (\<forall>c \<in> set xs. \<not> P c)"
proof -
  from assms obtain i where i: "first_index P (drop pos s) = Some i" and e: "e = pos + i"
    by (auto simp: find_index_def)
  from i have "i < length (drop pos s)" "P (drop pos s ! i)" "\<forall>c \<in> set (take i (drop pos s)). \<not> P c"
    unfolding first_index_Some by blast+
  then show ?thesis
    using e id_take_nth_drop [of i "drop pos s"] by (metis length_take min.absorb4)
qed

lemma append_before_char:
  assumes "xs @ ys = l @ c # r" "c \<notin> set xs"
  shows "\<exists>l2. l = xs @ l2 \<and> ys = l2 @ c # r"
proof -
  from assms(1) obtain us where "xs = l @ us \<and> us @ ys = c # r \<or> xs @ us = l \<and> ys = us @ c # r"
    by (auto simp: append_eq_append_conv2)
  then show ?thesis using assms(2) by (cases us) auto
qed

lemma first_char_unique:
  assumes "xs @ c # ys = l @ c # r" "c \<notin> set xs" "c \<notin> set l"
  shows "xs = l \<and> ys = r"
proof -
  from append_before_char [OF assms(1,2)] obtain l2 where l: "l = xs @ l2" and y: "c # ys = l2 @ c # r" by blast
  from l assms(3) have "c \<notin> set l2" by simp
  with y have "l2 = []" by (cases l2) auto
  with l y show ?thesis by simp
qed

text \<open>\<open>substr(pos, n)\<close> and \<open>substr(pos)\<close>, for a position inside the string.\<close>

definition substr :: "string \<Rightarrow> nat \<Rightarrow> nat \<Rightarrow> string" where
  "substr s pos n = take n (drop pos s)"

definition starts_with :: "string \<Rightarrow> string \<Rightarrow> bool" where
  "starts_with p s \<longleftrightarrow> take (length p) s = p"

lemma starts_with_append [simp]: "starts_with p (p @ s)"
  by (simp add: starts_with_def)

lemma starts_with_iff: "starts_with p s \<longleftrightarrow> (\<exists>t. s = p @ t)"
  unfolding starts_with_def by (metis append_eq_conv_conj append_take_drop_id)

text \<open>Lower case of the ASCII letters, as \<open>QByteArray::toLower\<close> and \<open>normalize_user_code\<close> compute it.\<close>

definition lower_ascii :: "char \<Rightarrow> char" where
  "lower_ascii c = (let n = of_char c :: nat in if 65 \<le> n \<and> n \<le> 90 then char_of (n - 65 + 97) else c)"

section \<open>Network byte order\<close>

definition be32 :: "u32 \<Rightarrow> string" where
  "be32 w = [char_of (unat w div 2 ^ 24), char_of (unat w div 2 ^ 16),
             char_of (unat w div 2 ^ 8), char_of (unat w)]"

definition be32_value :: "string \<Rightarrow> u32" where
  "be32_value bs = word_of_nat (foldl (\<lambda>acc c. acc * 256 + of_char c) 0 bs)"

lemma length_be32 [simp]: "length (be32 w) = 4"
  by (simp add: be32_def)

lemma base256_digits:
  fixes n :: nat
  assumes "n < 2 ^ 32"
  shows "((n div 2 ^ 24 mod 256 * 256 + n div 2 ^ 16 mod 256) * 256 + n div 2 ^ 8 mod 256) * 256 + n mod 256 = n"
proof -
  have step: "(n div (2 ^ k * 256)) * 256 + n div 2 ^ k mod 256 = n div 2 ^ k" for k
    by (metis div_mult2_eq div_mult_mod_eq)
  from assms have "n div 2 ^ 24 mod 256 = n div 2 ^ 24" by simp
  with step [of 16] step [of 8] step [of 0] show ?thesis by simp
qed

lemma be32_value_be32 [simp]: "be32_value (be32 w) = w"
proof -
  let ?n = "unat w"
  let ?v = "((?n div 2 ^ 24 mod 256 * 256 + ?n div 2 ^ 16 mod 256) * 256 + ?n div 2 ^ 8 mod 256) * 256 + ?n mod 256"
  have "?n < 2 ^ 32" using unsigned_less [of w] by simp
  then have "?v = ?n" by (rule base256_digits)
  moreover have "be32_value (be32 w) = word_of_nat ?v"
    unfolding be32_value_def be32_def
    by (simp only: foldl_Cons foldl_Nil of_char_of mult_0 add_0)
  ultimately have "be32_value (be32 w) = word_of_nat ?n" by (simp only:)
  then show ?thesis by simp
qed

lemma base256_div:
  fixes a b c d :: nat
  assumes "b < 256" "c < 256" "d < 256"
  defines "n \<equiv> ((a * 256 + b) * 256 + c) * 256 + d"
  shows "n div 256 = (a * 256 + b) * 256 + c" "n div 65536 = a * 256 + b" "n div 16777216 = a"
proof -
  show 1: "n div 256 = (a * 256 + b) * 256 + c" using assms(3) by (simp add: n_def)
  have "n div 65536 = n div 256 div 256" by (simp add: div_mult2_eq [symmetric])
  then show 2: "n div 65536 = a * 256 + b" using assms(2) by (simp add: 1)
  have "n div 16777216 = n div 65536 div 256" by (simp add: div_mult2_eq [symmetric])
  then show "n div 16777216 = a" using assms(1) by (simp add: 2)
qed

lemma unat_word_of_nat: "n < 2 ^ 32 \<Longrightarrow> unat (word_of_nat n :: u32) = n"
  by (simp add: unat_of_nat)

lemma base256_bound:
  fixes a b c d :: nat
  assumes "a < 256" "b < 256" "c < 256" "d < 256"
  shows "((a * 256 + b) * 256 + c) * 256 + d < 2 ^ 32"
  using assms by simp

lemma be32_be32_value:
  assumes "length h = 4"
  shows "be32 (be32_value h) = h"
proof -
  from assms obtain x1 x2 x3 x4 where h: "h = [x1, x2, x3, x4]"
    by (auto simp: length_Suc_conv eval_nat_numeral)
  let ?a = "of_char x1 :: nat" and ?b = "of_char x2 :: nat" and ?c = "of_char x3 :: nat" and ?d = "of_char x4 :: nat"
  let ?n = "((?a * 256 + ?b) * 256 + ?c) * 256 + ?d"
  have lt: "?a < 256" "?b < 256" "?c < 256" "?d < 256"
    by simp_all
  have v: "be32_value h = word_of_nat ?n" by (simp only: h be32_value_def foldl_Cons foldl_Nil mult_0 add_0)
  have "?n < 2 ^ 32" using lt by (rule base256_bound)
  then have u: "unat (be32_value h) = ?n" unfolding v by (rule unat_word_of_nat)
  note d = base256_div [OF lt(2,3,4), of ?a]
  have c: "(char_of (x * 256 + of_char y) :: char) = y" for x :: nat and y
  proof -
    have "(x * 256 + of_char y) mod 256 = (of_char y :: nat)" by simp
    then show ?thesis by (metis char_of_char char_of_mod_256)
  qed
  have "be32 (be32_value h) = [char_of ?a, char_of (?a * 256 + ?b), char_of ((?a * 256 + ?b) * 256 + ?c), char_of ?n]"
    unfolding be32_def u using d by (simp only: power_numeral_reduce) simp
  also have "\<dots> = h" unfolding c h by simp
  finally show ?thesis .
qed

section \<open>Lists and options\<close>

lemma buffer_progress: "length xs < n \<Longrightarrow> ys \<noteq> [] \<Longrightarrow> n - length (xs @ ys) < n - length xs"
  by (cases ys) auto

lemma take_min_length [simp]: "take (min (length xs) n) xs = take n xs"
  by (simp add: min_def)

lemma list_all_mem: "list_all P xs \<Longrightarrow> x \<in> set xs \<Longrightarrow> P x"
  by (simp add: list_all_iff)

fun map_result :: "('a \<Rightarrow> 'e + 'b) \<Rightarrow> 'a list \<Rightarrow> 'e + 'b list" where
  "map_result f [] = Inr []"
| "map_result f (x # xs) =
     (case f x of Inl e \<Rightarrow> Inl e
      | Inr y \<Rightarrow> (case map_result f xs of Inl e \<Rightarrow> Inl e | Inr ys \<Rightarrow> Inr (y # ys)))"

lemma map_result_map: "(\<And>x. x \<in> set xs \<Longrightarrow> f (g x) = Inr (h x)) \<Longrightarrow> map_result f (map g xs) = Inr (map h xs)"
  by (induction xs) auto

lemma map_result_Inr:
  "map_result f xs = Inr ys \<Longrightarrow> list_all2 (\<lambda>x y. f x = Inr y) xs ys"
  by (induction xs arbitrary: ys) (auto split: sum.splits)

end
