(* ===== verification/Protocol.thy ===== *)
theory Protocol
  imports Prelude
begin

text \<open>
  The framing layer, \<open>client-cpp/src/protocol.cpp\<close>: \<open>send_all\<close>, \<open>recv_all\<close>, \<open>send_frame\<close> and
  \<open>recv_frame\<close>, each in its two overloads (plain socket and TLS).

  The operating system's \<open>send\<close>/\<open>recv\<close>/\<open>WSAGetLastError\<close> and OpenSSL's
  \<open>SSL_write\<close>/\<open>SSL_read\<close>/\<open>SSL_get_error\<close>/\<open>ERR_get_error\<close> are parameters, collected in the
  records \<open>sock_api\<close> and \<open>ssl_api\<close> over a world state \<open>'w\<close>. A call's return value is \<open>None\<close>
  for the failure value (\<open>SOCKET_ERROR\<close>; a negative result for OpenSSL) and otherwise the
  number of bytes transferred. What the code relies on, that a call transfers at most the
  bytes it was given and that those are the next bytes of the stream, is stated once
  (\<open>sock_ok\<close>, \<open>ssl_ok\<close>) and is a hypothesis of the theorems that need it.

  \<open>g_last_error\<close> is thread-local state; it is part of the record \<open>net\<close> every operation
  threads through.
\<close>

section \<open>State and external calls\<close>

definition kMaxMessageSize :: nat where
  "kMaxMessageSize = 64 * 1024"

definition int_max :: nat where
  "int_max = 2147483647"

record 'w net =
  world :: 'w
  g_last_error :: string

record 'w sock_api =
  os_send :: "'w \<Rightarrow> string \<Rightarrow> nat option \<times> 'w"
  os_recv :: "'w \<Rightarrow> nat \<Rightarrow> string option \<times> 'w"
  wsa_last_error :: "'w \<Rightarrow> int"

record 'w ssl_api =
  ssl_write :: "'w \<Rightarrow> string \<Rightarrow> nat option \<times> 'w"
  ssl_read :: "'w \<Rightarrow> nat \<Rightarrow> string option \<times> 'w"
  ssl_zero_return :: "'w \<Rightarrow> bool"
  err_get_error :: "'w \<Rightarrow> string option \<times> 'w"

definition set_error :: "string \<Rightarrow> 'w net \<Rightarrow> 'w net" where
  "set_error error s = s\<lparr>g_last_error := error\<rparr>"

definition last_error :: "'w net \<Rightarrow> string" where
  "last_error s = g_last_error s"

definition ssl_error :: "'w ssl_api \<Rightarrow> string \<Rightarrow> 'w net \<Rightarrow> string \<times> 'w net" where
  "ssl_error api operation s =
     (case err_get_error api (world s) of
        (None, w) \<Rightarrow> (operation, s\<lparr>world := w\<rparr>)
      | (Some buffer, w) \<Rightarrow> (operation @ '': '' @ buffer, s\<lparr>world := w\<rparr>))"

section \<open>The plain socket overloads\<close>

function sock_send_loop :: "'w sock_api \<Rightarrow> string \<Rightarrow> nat \<Rightarrow> 'w net \<Rightarrow> bool \<times> 'w net" where
  "sock_send_loop api data total_sent s =
     (if total_sent < length data then
        let remaining = length data - total_sent;
            chunk_size = min remaining int_max
        in (case os_send api (world s) (take chunk_size (drop total_sent data)) of
              (sent, w) \<Rightarrow>
                if sent = None \<or> sent = Some 0
                then (False, set_error (''send failed: WSA error '' @ to_string (wsa_last_error api w))
                               (s\<lparr>world := w\<rparr>))
                else sock_send_loop api data (total_sent + the sent) (s\<lparr>world := w\<rparr>))
      else (True, s))"
  by pat_completeness auto
termination
  by (relation "measure (\<lambda>(api, data, total, s). length data - total)") auto

definition sock_send_all :: "'w sock_api \<Rightarrow> 'w net \<Rightarrow> string \<Rightarrow> bool \<times> 'w net" where
  "sock_send_all api s data = sock_send_loop api data 0 s"

text \<open>The receive loop returns the bytes stored into the buffer so far; \<open>total_received\<close> is
  their number.\<close>

function sock_recv_loop :: "'w sock_api \<Rightarrow> nat \<Rightarrow> string \<Rightarrow> 'w net \<Rightarrow> bool \<times> string \<times> 'w net" where
  "sock_recv_loop api len buffer s =
     (if length buffer < len then
        let remaining = len - length buffer;
            chunk_size = min remaining int_max
        in (case os_recv api (world s) chunk_size of
              (None, w) \<Rightarrow>
                (False, buffer, set_error (''recv failed: WSA error '' @ to_string (wsa_last_error api w))
                                  (s\<lparr>world := w\<rparr>))
            | (Some bytes, w) \<Rightarrow>
                if bytes = []
                then (False, buffer, set_error ''peer closed the TCP connection'' (s\<lparr>world := w\<rparr>))
                else sock_recv_loop api len (buffer @ bytes) (s\<lparr>world := w\<rparr>))
      else (True, buffer, s))"
  by pat_completeness auto
termination
  by (relation "measure (\<lambda>(api, len, buffer, s). len - length buffer)")
    (auto dest: buffer_progress)

definition sock_recv_all :: "'w sock_api \<Rightarrow> 'w net \<Rightarrow> nat \<Rightarrow> bool \<times> string \<times> 'w net" where
  "sock_recv_all api s len = sock_recv_loop api len [] s"

definition sock_send_frame :: "'w sock_api \<Rightarrow> 'w net \<Rightarrow> string \<Rightarrow> bool \<times> 'w net" where
  "sock_send_frame api s payload =
     (if payload = [] \<or> kMaxMessageSize < length payload
      then (False, set_error ''invalid outgoing payload length'' s)
      else (case sock_send_all api s (be32 (word_of_nat (length payload))) of
              (False, s1) \<Rightarrow> (False, s1)
            | (True, s1) \<Rightarrow> sock_send_all api s1 payload))"

definition sock_recv_frame :: "'w sock_api \<Rightarrow> 'w net \<Rightarrow> bool \<times> string \<times> 'w net" where
  "sock_recv_frame api s =
     (case sock_recv_all api s 4 of
        (False, _, s1) \<Rightarrow> (False, [], s1)
      | (True, header, s1) \<Rightarrow>
          let payload_length = be32_value header
          in if payload_length = 0 \<or> kMaxMessageSize < unat payload_length
             then (False, [], set_error (''invalid incoming payload length: '' @
                                         to_string (uint payload_length)) s1)
             else sock_recv_all api s1 (unat payload_length))"

section \<open>The TLS overloads\<close>

function ssl_send_loop :: "'w ssl_api \<Rightarrow> string \<Rightarrow> nat \<Rightarrow> 'w net \<Rightarrow> bool \<times> 'w net" where
  "ssl_send_loop api data total_sent s =
     (if total_sent < length data then
        let remaining = length data - total_sent;
            chunk_size = min remaining int_max
        in (case ssl_write api (world s) (take chunk_size (drop total_sent data)) of
              (sent, w) \<Rightarrow>
                if sent = None \<or> sent = Some 0
                then (let (e, s1) = ssl_error api ''SSL_write failed'' (s\<lparr>world := w\<rparr>)
                      in (False, set_error e s1))
                else ssl_send_loop api data (total_sent + the sent) (s\<lparr>world := w\<rparr>))
      else (True, s))"
  by pat_completeness auto
termination
  by (relation "measure (\<lambda>(api, data, total, s). length data - total)") auto

definition ssl_send_all :: "'w ssl_api \<Rightarrow> 'w net \<Rightarrow> string \<Rightarrow> bool \<times> 'w net" where
  "ssl_send_all api s data = ssl_send_loop api data 0 s"

function ssl_recv_loop :: "'w ssl_api \<Rightarrow> nat \<Rightarrow> string \<Rightarrow> 'w net \<Rightarrow> bool \<times> string \<times> 'w net" where
  "ssl_recv_loop api len buffer s =
     (if length buffer < len then
        let remaining = len - length buffer;
            chunk_size = min remaining int_max
        in (case ssl_read api (world s) chunk_size of
              (received, w) \<Rightarrow>
                if received = None \<or> received = Some []
                then (let (e, s1) = ssl_error api
                            (if ssl_zero_return api w then ''TLS peer closed the connection''
                             else ''SSL_read failed'') (s\<lparr>world := w\<rparr>)
                      in (False, buffer, set_error e s1))
                else ssl_recv_loop api len (buffer @ the received) (s\<lparr>world := w\<rparr>))
      else (True, buffer, s))"
  by pat_completeness auto
termination
  by (relation "measure (\<lambda>(api, len, buffer, s). len - length buffer)")
    (auto dest: buffer_progress)

definition ssl_recv_all :: "'w ssl_api \<Rightarrow> 'w net \<Rightarrow> nat \<Rightarrow> bool \<times> string \<times> 'w net" where
  "ssl_recv_all api s len = ssl_recv_loop api len [] s"

text \<open>Unlike the socket overload, this one leaves \<open>g_last_error\<close> alone when it refuses a
  payload.\<close>

definition ssl_send_frame :: "'w ssl_api \<Rightarrow> 'w net \<Rightarrow> string \<Rightarrow> bool \<times> 'w net" where
  "ssl_send_frame api s payload =
     (if payload = [] \<or> kMaxMessageSize < length payload then (False, s)
      else (case ssl_send_all api s (be32 (word_of_nat (length payload))) of
              (False, s1) \<Rightarrow> (False, s1)
            | (True, s1) \<Rightarrow> ssl_send_all api s1 payload))"

definition ssl_recv_frame :: "'w ssl_api \<Rightarrow> 'w net \<Rightarrow> bool \<times> string \<times> 'w net" where
  "ssl_recv_frame api s =
     (case ssl_recv_all api s 4 of
        (False, _, s1) \<Rightarrow> (False, [], s1)
      | (True, header, s1) \<Rightarrow>
          let payload_length = be32_value header
          in if payload_length = 0 \<or> kMaxMessageSize < unat payload_length
             then (False, [], set_error (''invalid incoming TLS payload length: '' @
                                         to_string (uint payload_length)) s1)
             else ssl_recv_all api s1 (unat payload_length))"

declare sock_send_loop.simps [simp del] sock_recv_loop.simps [simp del]
declare ssl_send_loop.simps [simp del] ssl_recv_loop.simps [simp del]

section \<open>What the layer relies on\<close>

text \<open>
  \<open>out w\<close> is the stream of bytes handed over to the peer, \<open>inp w\<close> the stream still to arrive.
  A call moves a prefix of its argument (of the incoming stream) and nothing else.
\<close>

definition send_contract ::
    "('w \<Rightarrow> string) \<Rightarrow> ('w \<Rightarrow> string) \<Rightarrow> ('w \<Rightarrow> string \<Rightarrow> nat option \<times> 'w) \<Rightarrow> bool" where
  "send_contract out inp f \<longleftrightarrow>
     (\<forall>w d r w'. f w d = (r, w') \<longrightarrow>
        (case r of None \<Rightarrow> out w' = out w | Some n \<Rightarrow> n \<le> length d \<and> out w' = out w @ take n d) \<and>
        inp w' = inp w)"

definition recv_contract ::
    "('w \<Rightarrow> string) \<Rightarrow> ('w \<Rightarrow> string) \<Rightarrow> ('w \<Rightarrow> nat \<Rightarrow> string option \<times> 'w) \<Rightarrow> bool" where
  "recv_contract out inp f \<longleftrightarrow>
     (\<forall>w k r w'. f w k = (r, w') \<longrightarrow>
        (case r of None \<Rightarrow> inp w' = inp w | Some bs \<Rightarrow> length bs \<le> k \<and> inp w = bs @ inp w') \<and>
        out w' = out w)"

text \<open>A call makes progress whenever there is something to move.\<close>

definition live_contract ::
    "('w \<Rightarrow> string) \<Rightarrow> ('w \<Rightarrow> string \<Rightarrow> nat option \<times> 'w) \<Rightarrow>
     ('w \<Rightarrow> nat \<Rightarrow> string option \<times> 'w) \<Rightarrow> bool" where
  "live_contract inp f g \<longleftrightarrow>
     (\<forall>w d. d \<noteq> [] \<longrightarrow> (\<exists>n. fst (f w d) = Some n \<and> 0 < n)) \<and>
     (\<forall>w k. 0 < k \<and> inp w \<noteq> [] \<longrightarrow> (\<exists>bs. fst (g w k) = Some bs \<and> bs \<noteq> []))"

definition sock_ok :: "('w \<Rightarrow> string) \<Rightarrow> ('w \<Rightarrow> string) \<Rightarrow> 'w sock_api \<Rightarrow> bool" where
  "sock_ok out inp api \<longleftrightarrow> send_contract out inp (os_send api) \<and> recv_contract out inp (os_recv api)"

definition sock_live :: "('w \<Rightarrow> string) \<Rightarrow> 'w sock_api \<Rightarrow> bool" where
  "sock_live inp api \<longleftrightarrow> live_contract inp (os_send api) (os_recv api)"

text \<open>Reading OpenSSL's error queue does not touch the streams.\<close>

definition ssl_ok :: "('w \<Rightarrow> string) \<Rightarrow> ('w \<Rightarrow> string) \<Rightarrow> 'w ssl_api \<Rightarrow> bool" where
  "ssl_ok out inp api \<longleftrightarrow> send_contract out inp (ssl_write api) \<and> recv_contract out inp (ssl_read api) \<and>
     (\<forall>w e w'. err_get_error api w = (e, w') \<longrightarrow> out w' = out w \<and> inp w' = inp w)"

definition ssl_live :: "('w \<Rightarrow> string) \<Rightarrow> 'w ssl_api \<Rightarrow> bool" where
  "ssl_live inp api \<longleftrightarrow> live_contract inp (ssl_write api) (ssl_read api)"

lemma send_contract_Some:
  assumes "send_contract out inp f" "f w d = (Some n, w')"
  shows "n \<le> length d" "out w' = out w @ take n d" "inp w' = inp w"
  using assms(1) [unfolded send_contract_def, rule_format, OF assms(2)] by simp_all

lemma send_contract_None:
  assumes "send_contract out inp f" "f w d = (None, w')"
  shows "out w' = out w" "inp w' = inp w"
  using assms(1) [unfolded send_contract_def, rule_format, OF assms(2)] by simp_all

lemma recv_contract_Some:
  assumes "recv_contract out inp f" "f w k = (Some bs, w')"
  shows "length bs \<le> k" "inp w = bs @ inp w'" "out w' = out w"
  using assms(1) [unfolded recv_contract_def, rule_format, OF assms(2)] by simp_all

lemma recv_contract_None:
  assumes "recv_contract out inp f" "f w k = (None, w')"
  shows "inp w' = inp w" "out w' = out w"
  using assms(1) [unfolded recv_contract_def, rule_format, OF assms(2)] by simp_all

section \<open>Frames\<close>

text \<open>The bytes of one frame: the big-endian length and the payload.\<close>

definition frame_bytes :: "string \<Rightarrow> string" where
  "frame_bytes payload = be32 (word_of_nat (length payload)) @ payload"

definition valid_payload :: "string \<Rightarrow> bool" where
  "valid_payload payload \<longleftrightarrow> payload \<noteq> [] \<and> length payload \<le> kMaxMessageSize"

lemma valid_payload_length:
  assumes "valid_payload payload"
  shows "unat (word_of_nat (length payload) :: u32) = length payload" "(word_of_nat (length payload) :: u32) \<noteq> 0"
proof -
  have lt: "length payload < 2 ^ 32" and pos: "0 < length payload"
    using assms by (auto simp: valid_payload_def kMaxMessageSize_def)
  from lt show u: "unat (word_of_nat (length payload) :: u32) = length payload"
    by (simp add: unat_of_nat)
  show "(word_of_nat (length payload) :: u32) \<noteq> 0"
  proof
    assume "(word_of_nat (length payload) :: u32) = 0"
    with u have "length payload = 0" by simp
    with pos show False by simp
  qed
qed

lemma frame_bytes_inject:
  assumes "valid_payload p" "valid_payload q" "frame_bytes p @ x = frame_bytes q @ y"
  shows "p = q \<and> x = y"
proof -
  from assms(3) have h: "be32 (word_of_nat (length p)) = be32 (word_of_nat (length q))" and t: "p @ x = q @ y"
    by (simp_all add: frame_bytes_def append_eq_append_conv)
  from h have "(word_of_nat (length p) :: u32) = word_of_nat (length q)" by (metis be32_value_be32)
  with valid_payload_length(1) assms(1,2) have "length p = length q" by metis
  with t show ?thesis by simp
qed

section \<open>The byte-stream interface the framing relies on\<close>

text \<open>
  \<open>send_all\<close> puts a prefix of its argument on the stream, all of it exactly when it succeeds;
  \<open>recv_all\<close> takes a prefix of the incoming stream, of the requested length exactly when it
  succeeds; both succeed on a live transport.
\<close>

locale byte_stream =
  fixes ok :: "'a \<Rightarrow> bool" and live :: "'a \<Rightarrow> bool"
    and send_all :: "'a \<Rightarrow> 's \<Rightarrow> string \<Rightarrow> bool \<times> 's"
    and recv_all :: "'a \<Rightarrow> 's \<Rightarrow> nat \<Rightarrow> bool \<times> string \<times> 's"
    and sent :: "'s \<Rightarrow> string" and pending :: "'s \<Rightarrow> string"
  assumes send_all_prefix: "ok a \<Longrightarrow> send_all a s d = (b, s') \<Longrightarrow>
      \<exists>k \<le> length d. (b \<longrightarrow> k = length d) \<and> sent s' = sent s @ take k d \<and> pending s' = pending s"
    and recv_all_prefix: "ok a \<Longrightarrow> recv_all a s n = (b, bs, s') \<Longrightarrow>
      pending s = bs @ pending s' \<and> sent s' = sent s \<and> length bs \<le> n \<and> (b \<longrightarrow> length bs = n)"
    and send_all_live: "ok a \<Longrightarrow> live a \<Longrightarrow> fst (send_all a s d)"
    and recv_all_live: "ok a \<Longrightarrow> live a \<Longrightarrow> n \<le> length (pending s) \<Longrightarrow> fst (recv_all a s n)"
begin

lemma send_all_complete:
  "ok a \<Longrightarrow> send_all a s d = (True, s') \<Longrightarrow> sent s' = sent s @ d \<and> pending s' = pending s"
  by (drule (1) send_all_prefix) auto

lemma send_two:
  assumes "ok a" "send_all a s h = (True, s1)" "send_all a s1 p = (b, s2)"
  shows "\<exists>k \<le> length p. (b \<longrightarrow> k = length p) \<and> sent s2 = sent s @ h @ take k p \<and> pending s2 = pending s"
proof -
  from send_all_prefix [OF assms(1,3)] obtain k where "k \<le> length p" "b \<longrightarrow> k = length p"
    "sent s2 = sent s1 @ take k p" "pending s2 = pending s1" by blast
  with send_all_complete [OF assms(1,2)] show ?thesis by (intro exI [of _ k]) simp
qed

lemma recv_all_exact:
  assumes "ok a" "live a" "pending s = xs @ rest"
  obtains s' where "recv_all a s (length xs) = (True, xs, s')" "pending s' = rest" "sent s' = sent s"
proof -
  obtain b bs s' where r: "recv_all a s (length xs) = (b, bs, s')" by (cases "recv_all a s (length xs)") auto
  from assms have "fst (recv_all a s (length xs))" by (intro recv_all_live) simp_all
  with r have b by simp
  from recv_all_prefix [OF assms(1) r] \<open>b\<close> have "pending s = bs @ pending s'" "length bs = length xs"
    and sent: "sent s' = sent s" by simp_all
  with assms(3) have "bs = xs" "pending s' = rest" by (simp_all add: append_eq_append_conv)
  with sent r \<open>b\<close> show ?thesis by (intro that [of s']) simp_all
qed

lemma recv_frame_parts:
  assumes "ok a" "live a" "pending r = frame_bytes p @ rest"
  obtains r1 r2 where "recv_all a r 4 = (True, be32 (word_of_nat (length p)), r1)"
    "recv_all a r1 (length p) = (True, p, r2)" "pending r2 = rest"
proof -
  let ?h = "be32 (word_of_nat (length p)) :: string"
  have "pending r = ?h @ (p @ rest)" using assms(3) by (simp add: frame_bytes_def)
  from recv_all_exact [OF assms(1,2) this] obtain r1 where
    r1: "recv_all a r 4 = (True, ?h, r1)" "pending r1 = p @ rest" by auto
  from recv_all_exact [OF assms(1,2) r1(2)] obtain r2 where
    "recv_all a r1 (length p) = (True, p, r2)" "pending r2 = rest" by auto
  with r1 show ?thesis by (intro that) simp_all
qed

lemma recv_all_short:
  assumes "ok a" "length (pending s) < n"
  shows "\<not> fst (recv_all a s n)"
proof
  obtain b bs s' where r: "recv_all a s n = (b, bs, s')" by (cases "recv_all a s n") auto
  assume "fst (recv_all a s n)"
  with r have b by simp
  with recv_all_prefix [OF assms(1) r] have "length bs = n" "pending s = bs @ pending s'" by auto
  with assms(2) show False by simp
qed

end

section \<open>The loops implement the interface\<close>

text \<open>
  The four loops have two shapes. Each shape is analysed once, for any function \<open>L\<close> that
  satisfies the loop's equation, any external call \<open>f\<close> and any error handler \<open>E\<close>; the
  overloads are instances.
\<close>

definition send_step ::
    "('w \<Rightarrow> string \<Rightarrow> nat option \<times> 'w) \<Rightarrow> ('w net \<Rightarrow> 'w net) \<Rightarrow>
     (nat \<Rightarrow> 'w net \<Rightarrow> bool \<times> 'w net) \<Rightarrow> string \<Rightarrow> nat \<Rightarrow> 'w net \<Rightarrow> bool \<times> 'w net" where
  "send_step f E L data pos s =
     (if pos < length data then
        (case f (world s) (take (min (length data - pos) int_max) (drop pos data)) of
           (sent, w) \<Rightarrow> if sent = None \<or> sent = Some 0 then (False, E (s\<lparr>world := w\<rparr>))
                        else L (pos + the sent) (s\<lparr>world := w\<rparr>))
      else (True, s))"

definition recv_step ::
    "('w \<Rightarrow> nat \<Rightarrow> string option \<times> 'w) \<Rightarrow> (string option \<Rightarrow> 'w net \<Rightarrow> 'w net) \<Rightarrow>
     (string \<Rightarrow> 'w net \<Rightarrow> bool \<times> string \<times> 'w net) \<Rightarrow> nat \<Rightarrow> string \<Rightarrow> 'w net \<Rightarrow> bool \<times> string \<times> 'w net" where
  "recv_step f E L len buffer s =
     (if length buffer < len then
        (case f (world s) (min (len - length buffer) int_max) of
           (r, w) \<Rightarrow> if r = None \<or> r = Some [] then (False, buffer, E r (s\<lparr>world := w\<rparr>))
                     else L (buffer @ the r) (s\<lparr>world := w\<rparr>))
      else (True, buffer, s))"

lemma send_loop_prefix:
  assumes eq: "\<And>pos s. L pos s = send_step f E L data pos s"
    and f: "send_contract out inp f"
    and E: "\<And>s. out (world (E s)) = out (world s) \<and> inp (world (E s)) = inp (world s)"
    and "pos \<le> length data" "L pos s = (b, s')"
  shows "\<exists>k \<le> length data - pos. (b \<longrightarrow> k = length data - pos) \<and>
     out (world s') = out (world s) @ take k (drop pos data) \<and> inp (world s') = inp (world s)"
  using assms(4,5)
proof (induction "length data - pos" arbitrary: pos s rule: less_induct)
  case less
  show ?case
  proof (cases "pos < length data")
    case False
    with less.prems(2) have "s' = s" by (simp add: eq [of pos] send_step_def)
    with False less.prems(1) show ?thesis by simp
  next
    case True
    define d where "d = take (min (length data - pos) int_max) (drop pos data)"
    obtain r w where call: "f (world s) d = (r, w)" by (cases "f (world s) d") auto
    note unfolded = less.prems(2) [unfolded eq [of pos] send_step_def d_def [symmetric] call]
    show ?thesis
    proof (cases r)
      case None
      with unfolded True E send_contract_None [OF f call [unfolded None]] show ?thesis
        by (intro exI [of _ 0]) auto
    next
      case (Some n)
      note c = send_contract_Some [OF f call [unfolded Some]]
      show ?thesis
      proof (cases "n = 0")
        case True
        with unfolded \<open>pos < length data\<close> Some E c show ?thesis by (intro exI [of _ 0]) auto
      next
        case False
        with unfolded True Some have rec: "L (pos + n) (s\<lparr>world := w\<rparr>) = (b, s')" by simp
        from c(1) have n: "n \<le> length data - pos" by (simp add: d_def)
        from n False True have "length data - (pos + n) < length data - pos" "pos + n \<le> length data"
          by linarith+
        from less.hyps [OF this rec] obtain k where
          "k \<le> length data - (pos + n)" "b \<longrightarrow> k = length data - (pos + n)"
          "out (world s') = out w @ take k (drop (pos + n) data)" "inp (world s') = inp w" by auto
        note k = this
        moreover have "n \<le> min (length data - pos) int_max" using c(1) unfolding d_def by simp
        then have "take n d = take n (drop pos data)" unfolding d_def take_take by (simp only: min_absorb1)
        moreover have "take (n + k) (drop pos data) = take n (drop pos data) @ take k (drop (pos + n) data)"
          by (subst take_add) (simp add: add.commute)
        ultimately show ?thesis using c n by (intro exI [of _ "n + k"]) (simp, linarith)
      qed
    qed
  qed
qed

lemma recv_loop_prefix:
  assumes eq: "\<And>buffer s. L buffer s = recv_step f E L len buffer s"
    and f: "recv_contract out inp f"
    and E: "\<And>r s. out (world (E r s)) = out (world s) \<and> inp (world (E r s)) = inp (world s)"
    and "length buffer \<le> len" "L buffer s = (b, bs, s')"
  shows "\<exists>x. bs = buffer @ x \<and> inp (world s) = x @ inp (world s') \<and> out (world s') = out (world s) \<and>
     length bs \<le> len \<and> (b \<longrightarrow> length bs = len)"
  using assms(4,5)
proof (induction "len - length buffer" arbitrary: buffer s rule: less_induct)
  case less
  show ?case
  proof (cases "length buffer < len")
    case False
    with less.prems show ?thesis by (simp add: eq [of buffer] recv_step_def)
  next
    case True
    define k where "k = min (len - length buffer) int_max"
    obtain r w where call: "f (world s) k = (r, w)" by (cases "f (world s) k") auto
    note unfolded = less.prems(2) [unfolded eq [of buffer] recv_step_def k_def [symmetric] call]
    show ?thesis
    proof (cases r)
      case None
      with unfolded True E recv_contract_None [OF f call [unfolded None]] show ?thesis by auto
    next
      case (Some x)
      note c = recv_contract_Some [OF f call [unfolded Some]]
      show ?thesis
      proof (cases "x = []")
        case True
        with unfolded \<open>length buffer < len\<close> Some E c show ?thesis by auto
      next
        case False
        with unfolded True Some have rec: "L (buffer @ x) (s\<lparr>world := w\<rparr>) = (b, bs, s')" by simp
        have fits: "length (buffer @ x) \<le> len" using c(1) True by (simp add: k_def) linarith
        from less.hyps [OF buffer_progress [OF True False] fits rec] c show ?thesis by auto
      qed
    qed
  qed
qed

lemma send_loop_live:
  assumes eq: "\<And>pos s. L pos s = send_step f E L data pos s"
    and "live_contract inp f g"
  shows "fst (L pos s)"
proof (induction "length data - pos" arbitrary: pos s rule: less_induct)
  case less
  show ?case
  proof (cases "pos < length data")
    case False
    then show ?thesis by (simp add: eq [of pos] send_step_def)
  next
    case True
    define d where "d = take (min (length data - pos) int_max) (drop pos data)"
    have "d \<noteq> []" using True by (simp add: d_def int_max_def)
    with assms(2) obtain n w where call: "f (world s) d = (Some n, w)" "0 < n"
      unfolding live_contract_def by (metis fst_conv surj_pair)
    with True less.hyps [of "pos + n" "s\<lparr>world := w\<rparr>"] show ?thesis
      by (simp add: eq [of pos] send_step_def d_def [symmetric])
  qed
qed

lemma recv_loop_live:
  assumes eq: "\<And>buffer s. L buffer s = recv_step f E L len buffer s"
    and f: "recv_contract out inp f" and live: "live_contract inp g f"
    and "len \<le> length buffer + length (inp (world s))"
  shows "fst (L buffer s)"
  using assms(4)
proof (induction "len - length buffer" arbitrary: buffer s rule: less_induct)
  case less
  show ?case
  proof (cases "length buffer < len")
    case False
    then show ?thesis by (simp add: eq [of buffer] recv_step_def)
  next
    case True
    define k where "k = min (len - length buffer) int_max"
    have "0 < k" "inp (world s) \<noteq> []" using True less.prems by (auto simp: k_def int_max_def)
    with live obtain x w where call: "f (world s) k = (Some x, w)" "x \<noteq> []"
      unfolding live_contract_def by (metis fst_conv surj_pair)
    note c = recv_contract_Some [OF f call(1)]
    have "fst (L (buffer @ x) (s\<lparr>world := w\<rparr>))"
      using less.hyps [OF buffer_progress [OF True call(2)]] less.prems c by simp
    with True call show ?thesis by (simp add: eq [of buffer] recv_step_def k_def [symmetric])
  qed
qed

lemma sock_send_loop_eq:
  "sock_send_loop api data pos s =
     send_step (os_send api) (\<lambda>s. set_error (''send failed: WSA error '' @ to_string (wsa_last_error api (world s))) s)
       (sock_send_loop api data) data pos s"
  by (simp add: sock_send_loop.simps [of api data pos s] send_step_def Let_def split: prod.split)

lemma sock_recv_loop_eq:
  "sock_recv_loop api len buffer s =
     recv_step (os_recv api)
       (\<lambda>r s. set_error (case r of None \<Rightarrow> ''recv failed: WSA error '' @ to_string (wsa_last_error api (world s))
                        | Some _ \<Rightarrow> ''peer closed the TCP connection'') s)
       (sock_recv_loop api len) len buffer s"
  by (simp add: sock_recv_loop.simps [of api len buffer s] recv_step_def Let_def split: prod.split option.split)

lemma ssl_send_loop_eq:
  "ssl_send_loop api data pos s =
     send_step (ssl_write api) (\<lambda>s. let (e, s1) = ssl_error api ''SSL_write failed'' s in set_error e s1)
       (ssl_send_loop api data) data pos s"
  by (simp add: ssl_send_loop.simps [of api data pos s] send_step_def Let_def split: prod.split)

lemma ssl_recv_loop_eq:
  "ssl_recv_loop api len buffer s =
     recv_step (ssl_read api)
       (\<lambda>_ s. let (e, s1) = ssl_error api (if ssl_zero_return api (world s) then ''TLS peer closed the connection''
                                          else ''SSL_read failed'') s
              in set_error e s1)
       (ssl_recv_loop api len) len buffer s"
  by (simp add: ssl_recv_loop.simps [of api len buffer s] recv_step_def Let_def split: prod.split)

lemma world_set_error [simp]: "world (set_error e s) = world s"
  by (simp add: set_error_def)

lemma ssl_error_streams:
  assumes "ssl_ok out inp api"
  shows "out (world (let (e, s1) = ssl_error api t s in set_error e s1)) = out (world s) \<and>
         inp (world (let (e, s1) = ssl_error api t s in set_error e s1)) = inp (world s)"
  using assms by (auto simp: ssl_error_def ssl_ok_def split: prod.split option.split)

interpretation sock: byte_stream "sock_ok out inp" "sock_live inp" sock_send_all sock_recv_all
    "\<lambda>s. out (world s)" "\<lambda>s. inp (world s)" for out inp :: "'w \<Rightarrow> string"
proof
  fix a :: "'w sock_api" and s d b s'
  assume "sock_ok out inp a" "sock_send_all a s d = (b, s')"
  then show "\<exists>k\<le>length d. (b \<longrightarrow> k = length d) \<and> out (world s') = out (world s) @ take k d \<and> inp (world s') = inp (world s)"
    using send_loop_prefix [OF sock_send_loop_eq, where out = out and inp = inp and pos = 0]
    by (fastforce simp: sock_ok_def sock_send_all_def)
next
  fix a :: "'w sock_api" and s :: "'w net" and n b bs s'
  assume "sock_ok out inp a" "sock_recv_all a s n = (b, bs, s')"
  then show "inp (world s) = bs @ inp (world s') \<and> out (world s') = out (world s) \<and> length bs \<le> n \<and> (b \<longrightarrow> length bs = n)"
    using recv_loop_prefix [OF sock_recv_loop_eq, where out = out and inp = inp and buffer = "[]"]
    by (fastforce simp: sock_ok_def sock_recv_all_def)
next
  fix a :: "'w sock_api" and s d
  assume "sock_live inp a"
  then show "fst (sock_send_all a s d)"
    using send_loop_live [OF sock_send_loop_eq] by (simp add: sock_live_def sock_send_all_def)
next
  fix a :: "'w sock_api" and s :: "'w net" and n
  assume "sock_ok out inp a" "sock_live inp a" "n \<le> length (inp (world s))"
  then show "fst (sock_recv_all a s n)"
    using recv_loop_live [OF sock_recv_loop_eq, where buffer = "[]" and out = out and inp = inp]
    by (fastforce simp: sock_ok_def sock_live_def sock_recv_all_def)
qed

interpretation tls: byte_stream "ssl_ok out inp" "ssl_live inp" ssl_send_all ssl_recv_all
    "\<lambda>s. out (world s)" "\<lambda>s. inp (world s)" for out inp :: "'w \<Rightarrow> string"
proof
  fix a :: "'w ssl_api" and s d b s'
  assume a: "ssl_ok out inp a" "ssl_send_all a s d = (b, s')"
  then show "\<exists>k\<le>length d. (b \<longrightarrow> k = length d) \<and> out (world s') = out (world s) @ take k d \<and> inp (world s') = inp (world s)"
    using send_loop_prefix [OF ssl_send_loop_eq _ ssl_error_streams [OF a(1)], where pos = 0]
    by (fastforce simp: ssl_ok_def ssl_send_all_def)
next
  fix a :: "'w ssl_api" and s :: "'w net" and n b bs s'
  assume a: "ssl_ok out inp a" "ssl_recv_all a s n = (b, bs, s')"
  then show "inp (world s) = bs @ inp (world s') \<and> out (world s') = out (world s) \<and> length bs \<le> n \<and> (b \<longrightarrow> length bs = n)"
    using recv_loop_prefix [OF ssl_recv_loop_eq _ ssl_error_streams [OF a(1)], where buffer = "[]"]
    by (fastforce simp: ssl_ok_def ssl_recv_all_def)
next
  fix a :: "'w ssl_api" and s d
  assume "ssl_live inp a"
  then show "fst (ssl_send_all a s d)"
    using send_loop_live [OF ssl_send_loop_eq] by (simp add: ssl_live_def ssl_send_all_def)
next
  fix a :: "'w ssl_api" and s :: "'w net" and n
  assume "ssl_ok out inp a" "ssl_live inp a" "n \<le> length (inp (world s))"
  then show "fst (ssl_recv_all a s n)"
    using recv_loop_live [OF ssl_recv_loop_eq, where buffer = "[]" and out = out and inp = inp]
    by (fastforce simp: ssl_ok_def ssl_live_def ssl_recv_all_def)
qed

section \<open>Sending and receiving frames\<close>

lemma ssl_send_frame_prefix:
  assumes "ssl_ok out inp a" "ssl_send_frame a s p = (b, s')"
  shows "\<exists>k \<le> length (frame_bytes p). out (world s') = out (world s) @ take k (frame_bytes p) \<and>
     inp (world s') = inp (world s) \<and> (b \<longrightarrow> valid_payload p \<and> k = length (frame_bytes p))"
proof (cases "valid_payload p")
  case False
  with assms(2) show ?thesis by (intro exI [of _ 0]) (auto simp: ssl_send_frame_def valid_payload_def)
next
  case True
  let ?h = "be32 (word_of_nat (length p))"
  obtain b1 s1 where h: "ssl_send_all a s ?h = (b1, s1)" by (cases "ssl_send_all a s ?h")
  show ?thesis
  proof (cases b1)
    case False
    with True h assms(2) have "\<not> b" "s' = s1" by (auto simp: ssl_send_frame_def valid_payload_def)
    moreover from tls.send_all_prefix [OF assms(1) h] obtain k where "k \<le> length ?h"
      "out (world s1) = out (world s) @ take k ?h" "inp (world s1) = inp (world s)" by blast
    ultimately show ?thesis by (intro exI [of _ k]) (simp add: frame_bytes_def)
  next
    case ok: True
    with True h assms(2) have p: "ssl_send_all a s1 p = (b, s')"
      by (simp add: ssl_send_frame_def valid_payload_def)
    from tls.send_two [OF assms(1) _ p, of s ?h] h ok obtain k where "k \<le> length p" "b \<longrightarrow> k = length p"
      "out (world s') = out (world s) @ ?h @ take k p" "inp (world s') = inp (world s)" by auto
    with True show ?thesis by (intro exI [of _ "4 + k"]) (simp add: frame_bytes_def)
  qed
qed

lemma sock_send_frame_complete:
  assumes "sock_ok out inp a" "sock_send_frame a s p = (True, s')"
  shows "valid_payload p \<and> out (world s') = out (world s) @ frame_bytes p"
proof -
  let ?h = "be32 (word_of_nat (length p)) :: string"
  from assms(2) obtain s1 where "valid_payload p"
    and h: "sock_send_all a s ?h = (True, s1)" and p: "sock_send_all a s1 p = (True, s')"
    by (auto simp: sock_send_frame_def valid_payload_def split: prod.splits bool.splits if_splits)
  with sock.send_all_complete [OF assms(1) h] sock.send_all_complete [OF assms(1) p] show ?thesis
    by (simp add: frame_bytes_def)
qed

lemma sock_recv_frame_frame:
  assumes "sock_ok out inp a" "sock_live inp a" "valid_payload p" "inp (world r) = frame_bytes p @ rest"
  shows "\<exists>r'. sock_recv_frame a r = (True, p, r') \<and> inp (world r') = rest"
proof -
  from sock.recv_frame_parts [OF assms(1,2,4)] obtain r1 r2 where
    "sock_recv_all a r 4 = (True, be32 (word_of_nat (length p)), r1)"
    "sock_recv_all a r1 (length p) = (True, p, r2)" "inp (world r2) = rest" by metis
  with valid_payload_length [OF assms(3)] assms(3) show ?thesis
    by (simp add: sock_recv_frame_def Let_def valid_payload_def)
qed

lemma ssl_recv_frame_frame:
  assumes "ssl_ok out inp a" "ssl_live inp a" "valid_payload p" "inp (world r) = frame_bytes p @ rest"
  shows "\<exists>r'. ssl_recv_frame a r = (True, p, r') \<and> inp (world r') = rest"
proof -
  from tls.recv_frame_parts [OF assms(1,2,4)] obtain r1 r2 where
    "ssl_recv_all a r 4 = (True, be32 (word_of_nat (length p)), r1)"
    "ssl_recv_all a r1 (length p) = (True, p, r2)" "inp (world r2) = rest" by metis
  with valid_payload_length [OF assms(3)] assms(3) show ?thesis
    by (simp add: ssl_recv_frame_def Let_def valid_payload_def)
qed

lemma ssl_recv_frame_valid:
  assumes "ssl_ok out inp a" "ssl_recv_frame a r = (True, p, r')"
  shows "valid_payload p \<and> inp (world r) = frame_bytes p @ inp (world r')"
proof -
  from assms(2) obtain h r1 where h: "ssl_recv_all a r 4 = (True, h, r1)"
    and len: "be32_value h \<noteq> 0" "unat (be32_value h) \<le> kMaxMessageSize"
    and p: "ssl_recv_all a r1 (unat (be32_value h)) = (True, p, r')"
    by (auto simp: ssl_recv_frame_def Let_def split: prod.splits bool.splits if_splits)
  note c = tls.recv_all_prefix [OF assms(1) h] tls.recv_all_prefix [OF assms(1) p]
  from c have l: "length p = unat (be32_value h)" "length h = 4" by simp_all
  then have "be32 (word_of_nat (length p)) = h" by (simp add: be32_be32_value)
  with c have "inp (world r) = frame_bytes p @ inp (world r')" by (simp add: frame_bytes_def)
  moreover from len l have "valid_payload p"
    by (auto simp: valid_payload_def simp flip: unat_eq_zero)
  ultimately show ?thesis by simp
qed

lemma ssl_recv_frame_bad_length:
  assumes "ssl_ok out inp a" "ssl_live inp a" "inp (world r) = be32 n @ rest"
    and "n = 0 \<or> kMaxMessageSize < unat n"
  shows "\<exists>r'. ssl_recv_frame a r = (False, [], r') \<and> inp (world r') = rest \<and>
     last_error r' = ''invalid incoming TLS payload length: '' @ to_string (uint n)"
proof -
  from tls.recv_all_exact [OF assms(1,2,3)] obtain r1 where
    "ssl_recv_all a r 4 = (True, be32 n, r1)" "inp (world r1) = rest" by auto
  with assms(4) show ?thesis
    by (auto simp: ssl_recv_frame_def Let_def set_error_def last_error_def)
qed

section \<open>An in-memory transport\<close>

text \<open>
  A transport over a pair of byte strings (delivered, still to arrive) that moves at most two
  bytes per call, so that the loops really iterate. It satisfies the contracts, and the
  witnesses of the properties below run on it.
\<close>

definition mem_write :: "string \<times> string \<Rightarrow> string \<Rightarrow> nat option \<times> (string \<times> string)" where
  "mem_write w d = (Some (min 2 (length d)), (fst w @ take 2 d, snd w))"

definition mem_read :: "string \<times> string \<Rightarrow> nat \<Rightarrow> string option \<times> (string \<times> string)" where
  "mem_read w k = (Some (take (min 2 k) (snd w)), (fst w, drop (min 2 k) (snd w)))"

definition mem_ssl :: "(string \<times> string) ssl_api" where
  "mem_ssl = \<lparr>ssl_write = mem_write, ssl_read = mem_read, ssl_zero_return = (\<lambda>_. False),
     err_get_error = (\<lambda>w. (None, w))\<rparr>"

definition mem_sock :: "(string \<times> string) sock_api" where
  "mem_sock = \<lparr>os_send = mem_write, os_recv = mem_read, wsa_last_error = (\<lambda>_. 0)\<rparr>"

definition mem_net :: "string \<Rightarrow> string \<Rightarrow> (string \<times> string) net" where
  "mem_net o' i = \<lparr>world = (o', i), g_last_error = []\<rparr>"

lemma mem_contracts:
  "send_contract fst snd mem_write" "recv_contract fst snd mem_read" "live_contract snd mem_write mem_read"
  by (auto simp: send_contract_def recv_contract_def live_contract_def mem_write_def mem_read_def min_def)

lemma mem_ssl_ok [simp]: "ssl_ok fst snd mem_ssl" "ssl_live snd mem_ssl"
  by (simp_all add: ssl_ok_def ssl_live_def mem_ssl_def mem_contracts)

lemma mem_sock_ok [simp]: "sock_ok fst snd mem_sock" "sock_live snd mem_sock"
  by (simp_all add: sock_ok_def sock_live_def mem_sock_def mem_contracts)

lemma ssl_send_frame_live:
  assumes "ssl_ok out inp a" "ssl_live inp a" "valid_payload p"
  shows "\<exists>s'. ssl_send_frame a s p = (True, s')"
  using tls.send_all_live [OF assms(1,2)] assms(3)
  by (auto simp: ssl_send_frame_def valid_payload_def split: prod.split bool.split) (metis fst_conv surj_pair)+

section \<open>Properties\<close>

text \<open>
  C6. A frame sent over TLS arrives: what a successful \<open>send_frame\<close> put on the wire, followed by
  any further bytes, makes the peer's \<open>recv_frame\<close> succeed with exactly that payload and leaves
  exactly the further bytes, however the transport splits the data into calls.
\<close>

theorem ssl_frame_roundtrip:
  assumes "ssl_ok out inp a" and "ssl_send_frame a s p = (True, s')"
    and "ssl_ok out' inp' b" and "ssl_live inp' b"
    and "inp' (world r) = drop (length (out (world s))) (out (world s')) @ rest"
  shows "\<exists>r'. ssl_recv_frame b r = (True, p, r') \<and> inp' (world r') = rest"
proof -
  from ssl_send_frame_prefix [OF assms(1,2)]
  have "valid_payload p" "out (world s') = out (world s) @ frame_bytes p" by auto
  with ssl_recv_frame_frame [OF assms(3,4)] assms(5) show ?thesis by simp
qed

theorem ssl_frame_roundtrip_witness:
  "\<exists>s' r'. ssl_send_frame mem_ssl (mem_net [] []) ''hello'' = (True, s') \<and>
     ssl_recv_frame mem_ssl (mem_net [] (fst (world s') @ ''x'')) = (True, ''hello'', r') \<and>
     snd (world r') = ''x''"
proof -
  have "valid_payload ''hello''" by (simp add: valid_payload_def kMaxMessageSize_def)
  then obtain s' where s': "ssl_send_frame mem_ssl (mem_net [] []) ''hello'' = (True, s')"
    using ssl_send_frame_live [OF mem_ssl_ok] by blast
  with ssl_frame_roundtrip [OF mem_ssl_ok(1) s' mem_ssl_ok, of "mem_net [] (fst (world s') @ ''x'')" "''x''"]
  show ?thesis by (auto simp: mem_net_def)
qed

text \<open>
  C20. Whatever a peer sends, \<open>recv_frame\<close> only ever delivers a payload of 1 to 65536 bytes, and it
  consumes exactly that payload's frame from the stream.
\<close>

theorem ssl_recv_frame_sound:
  assumes "ssl_ok out inp a" and "ssl_recv_frame a r = (True, p, r')"
  shows "1 \<le> length p \<and> length p \<le> 65536 \<and>
     inp (world r) = be32 (word_of_nat (length p)) @ p @ inp (world r')"
  using ssl_recv_frame_valid [OF assms]
  by (auto simp: valid_payload_def kMaxMessageSize_def frame_bytes_def Suc_le_eq)

theorem ssl_recv_frame_sound_witness:
  "\<exists>r'. ssl_recv_frame mem_ssl (mem_net [] (frame_bytes ''hi'')) = (True, ''hi'', r') \<and>
     frame_bytes ''hi'' = be32 (word_of_nat (length ''hi'')) @ ''hi'' @ snd (world r')"
proof -
  have "valid_payload ''hi''" by (simp add: valid_payload_def kMaxMessageSize_def)
  with ssl_recv_frame_frame [OF mem_ssl_ok, of "''hi''" "mem_net [] (frame_bytes ''hi'')" "[]"] obtain r' where
    r': "ssl_recv_frame mem_ssl (mem_net [] (frame_bytes ''hi'')) = (True, ''hi'', r')"
    by (auto simp: mem_net_def)
  show ?thesis using r' ssl_recv_frame_sound [OF mem_ssl_ok(1) r']
    by (intro exI [of _ r']) (simp add: mem_net_def)
qed

text \<open>
  A payload the TLS \<open>send_frame\<close> refuses never reaches the wire and, unlike in the socket
  overload, leaves the thread's last error untouched: the caller reads a stale error text.
\<close>

theorem ssl_send_frame_refuses:
  assumes "p = [] \<or> 65536 < length p"
  shows "ssl_send_frame a s p = (False, s) \<and>
     sock_send_frame b t p = (False, t\<lparr>g_last_error := ''invalid outgoing payload length''\<rparr>)"
  using assms by (auto simp: ssl_send_frame_def sock_send_frame_def set_error_def kMaxMessageSize_def)

theorem ssl_send_frame_refuses_witness:
  "ssl_send_frame mem_ssl (mem_net [] [])  [] = (False, mem_net [] []) \<and>
   fst (sock_send_frame mem_sock (mem_net [] []) []) = False"
  using ssl_send_frame_refuses [of "[]" mem_ssl "mem_net [] []" mem_sock "mem_net [] []"] by simp

end
