(* ===== verification/Json.thy ===== *)
theory Json
  imports Prelude "HOL-Library.Char_ord" "HOL-Library.List_Lexorder"
begin

text \<open>
  JSON values as \<open>nlohmann::json\<close> presents them to \<open>client-cpp/src/message.cpp\<close>: the value kinds
  the code distinguishes (\<open>is_string\<close>, \<open>is_boolean\<close>, \<open>is_number_integer\<close>,
  \<open>is_number_unsigned\<close>, \<open>is_array\<close>, \<open>is_object\<close>) and the accessors it uses.

  An integer is a 64-bit word: \<open>JUnsigned\<close> is a literal without a minus sign, \<open>JInteger\<close> one
  with it (or a value assigned from a signed C++ integer). A float is carried as its bit
  pattern; no code here looks into it. An object is a \<open>std::map\<close>, so it is an association list
  kept in key order.

  Text parsing and printing (\<open>json::parse\<close>, \<open>json::dump\<close>) belong to the vendored library and
  are parameters (\<open>json_codec\<close>); both can throw, which is an \<open>Inl\<close> carrying \<open>what()\<close>.
\<close>

datatype json =
    JNull
  | JBool bool
  | JInteger i64
  | JUnsigned u64
  | JFloat u64
  | JString string
  | JArray "json list"
  | JObject "(string \<times> json) list"

type_synonym jobj = "(string \<times> json) list"

record json_codec =
  json_parse :: "string \<Rightarrow> string + json"
  json_dump :: "json \<Rightarrow> string + string"

section \<open>Kinds and accessors\<close>

fun is_string :: "json \<Rightarrow> bool" where
  "is_string (JString _) = True"
| "is_string _ = False"

fun is_boolean :: "json \<Rightarrow> bool" where
  "is_boolean (JBool _) = True"
| "is_boolean _ = False"

fun is_number_integer :: "json \<Rightarrow> bool" where
  "is_number_integer (JInteger _) = True"
| "is_number_integer (JUnsigned _) = True"
| "is_number_integer _ = False"

fun is_number_unsigned :: "json \<Rightarrow> bool" where
  "is_number_unsigned (JUnsigned _) = True"
| "is_number_unsigned _ = False"

text \<open>\<open>get<T>()\<close>; the code calls each after the matching kind test. \<open>get<int>()\<close> keeps the low
  32 bits of the stored 64-bit integer.\<close>

fun get_string :: "json \<Rightarrow> string" where
  "get_string (JString s) = s"
| "get_string _ = []"

fun get_bool :: "json \<Rightarrow> bool" where
  "get_bool (JBool b) = b"
| "get_bool _ = False"

fun get_word64 :: "json \<Rightarrow> 64 word" where
  "get_word64 (JInteger w) = w"
| "get_word64 (JUnsigned w) = w"
| "get_word64 _ = 0"

definition get_int32 :: "json \<Rightarrow> 32 word" where
  "get_int32 j = ucast (get_word64 j)"

text \<open>\<open>object[key] = value\<close> on an ordered map.\<close>

fun jset :: "string \<Rightarrow> json \<Rightarrow> jobj \<Rightarrow> jobj" where
  "jset k v [] = [(k, v)]"
| "jset k v ((x, y) # xs) =
     (if k < x then (k, v) # (x, y) # xs
      else if k = x then (k, v) # xs
      else (x, y) # jset k v xs)"

lemma map_of_jset [simp]: "map_of (jset k v xs) = (map_of xs)(k \<mapsto> v)"
  by (induction k v xs rule: jset.induct) (auto simp: fun_eq_iff)

lemma set_jset: "set (jset k v xs) \<subseteq> insert (k, v) (set xs)"
  by (induction k v xs rule: jset.induct) auto

lemma sorted_jset: "sorted (map fst xs) \<Longrightarrow> distinct (map fst xs) \<Longrightarrow>
    sorted (map fst (jset k v xs)) \<and> distinct (map fst (jset k v xs)) \<and>
    fst ` set (jset k v xs) = insert k (fst ` set xs)"
proof (induction k v xs rule: jset.induct)
  case (2 k v x y xs)
  then show ?case by (cases "k < x"; cases "k = x") (auto simp: less_le)
qed auto

text \<open>A guarded sequence of assignments, one line of C++ each.\<close>

type_synonym entry = "bool \<times> string \<times> json"

definition assign_all :: "entry list \<Rightarrow> jobj \<Rightarrow> jobj" where
  "assign_all es obj = fold (\<lambda>(c, k, v) ob. if c then jset k v ob else ob) es obj"

lemma assign_all_Nil [simp]: "assign_all [] obj = obj"
  by (simp add: assign_all_def)

lemma assign_all_Cons [simp]:
  "assign_all ((c, k, v) # es) obj = assign_all es (if c then jset k v obj else obj)"
  by (simp add: assign_all_def)

lemma map_of_assign_all_other:
  "k \<notin> fst ` snd ` set es \<Longrightarrow> map_of (assign_all es obj) k = map_of obj k"
  by (induction es arbitrary: obj) auto

text \<open>With distinct keys, the value under a key is decided by its own line alone.\<close>

lemma map_of_assign_all:
  assumes "distinct (map (fst \<circ> snd) es)"
  shows "map_of (assign_all es obj) k =
     (case map_of (map (\<lambda>(c, k, v). (k, (c, v))) es) k of
        Some (c, v) \<Rightarrow> if c then Some v else map_of obj k
      | None \<Rightarrow> map_of obj k)"
  using assms
proof (induction es arbitrary: obj)
  case (Cons e es)
  obtain c k' v where e: "e = (c, k', v)" by (cases e) auto
  with Cons.prems have fresh: "k' \<notin> fst ` snd ` set es" by (simp add: image_image comp_def)
  note IH = Cons.IH [of "if c then jset k' v obj else obj"]
  show ?case
  proof (cases "k = k'")
    case True
    with fresh e show ?thesis by (simp add: map_of_assign_all_other)
  next
    case False
    with IH Cons.prems e show ?thesis by (simp split: option.split if_split)
  qed
qed simp

section \<open>Through the wire and back\<close>

text \<open>
  What comes back when a value is printed and parsed: the parser makes every literal without a
  minus sign an unsigned number (\<open>json.hpp\<close>, \<open>scan_number\<close>), so a non-negative signed integer
  returns as an unsigned one; everything else is unchanged.
\<close>

fun reparse :: "json \<Rightarrow> json" where
  "reparse (JInteger w) = (if 0 \<le> sint w then JUnsigned w else JInteger w)"
| "reparse (JArray xs) = JArray (map reparse xs)"
| "reparse (JObject kvs) = JObject (map (\<lambda>(k, v). (k, reparse v)) kvs)"
| "reparse j = j"

fun float_free :: "json \<Rightarrow> bool" where
  "float_free (JFloat _) = False"
| "float_free (JArray xs) = list_all float_free xs"
| "float_free (JObject kvs) = list_all (\<lambda>(k, v). float_free v) kvs"
| "float_free j = True"

text \<open>The documented round trip of the library, for values without floats.\<close>

definition codec_ok :: "json_codec \<Rightarrow> bool" where
  "codec_ok c \<longleftrightarrow> (\<forall>j s. float_free j \<longrightarrow> json_dump c j = Inr s \<longrightarrow> json_parse c s = Inr (reparse j))"

lemma codec_okD: "codec_ok c \<Longrightarrow> float_free j \<Longrightarrow> json_dump c j = Inr s \<Longrightarrow> json_parse c s = Inr (reparse j)"
  by (simp add: codec_ok_def)

lemma map_of_reparse: "map_of (map (\<lambda>(k, v). (k, reparse v)) kvs) k = map_option reparse (map_of kvs k)"
  by (induction kvs) auto

lemma reparse_simps_kinds [simp]:
  "is_string (reparse j) = is_string j"
  "is_boolean (reparse j) = is_boolean j"
  "is_number_integer (reparse j) = is_number_integer j"
  "get_string (reparse j) = get_string j"
  "get_bool (reparse j) = get_bool j"
  "get_word64 (reparse j) = get_word64 j"
  by (cases j; simp)+

lemma float_free_assign_all:
  "list_all (\<lambda>(c, k, v). c \<longrightarrow> float_free v) es \<Longrightarrow> list_all (\<lambda>(k, v). float_free v) obj \<Longrightarrow>
   list_all (\<lambda>(k, v). float_free v) (assign_all es obj)"
proof (induction es arbitrary: obj)
  case (Cons e es)
  obtain c k v where e: "e = (c, k, v)" by (cases e) auto
  have "list_all (\<lambda>(k, v). float_free v) (jset k v obj)" if "c"
    using Cons.prems e that set_jset [of k v obj] by (auto simp: list_all_iff)
  with Cons e show ?case by auto
qed simp

end
