(* ===== verification/Attachment_Limits.thy ===== *)
theory Attachment_Limits
  imports Prelude
begin

text \<open>\<open>client-cpp/include/attachment_limits.hpp\<close>: the limits shared by the message parser, the
  transfer client and the bridge.\<close>

definition MaxLogicalBytes :: int where
  "MaxLogicalBytes = 5 * 1024 * 1024 * 1024"

definition PlaintextChunkBytes :: int where
  "PlaintextChunkBytes = 47 * 1024"

definition MaxChunkCount :: int where
  "MaxChunkCount = cdiv (MaxLogicalBytes + PlaintextChunkBytes - 1) PlaintextChunkBytes"

lemma MaxChunkCount_value [simp]: "MaxChunkCount = 111551"
  by (simp add: MaxChunkCount_def MaxLogicalBytes_def PlaintextChunkBytes_def)

text \<open>The count is the least number of chunks that holds a file of the largest size.\<close>

lemma MaxChunkCount_covers:
  "MaxLogicalBytes \<le> MaxChunkCount * PlaintextChunkBytes"
  "(MaxChunkCount - 1) * PlaintextChunkBytes < MaxLogicalBytes"
  by (simp_all add: MaxLogicalBytes_def PlaintextChunkBytes_def)

end
