(* ===== verification/Message.thy ===== *)
theory Message
  imports Protocol Json Attachment_Limits
begin

text \<open>
  The message layer, \<open>client-cpp/src/message.cpp\<close> and \<open>include/message.hpp\<close>: the \<open>Message\<close> struct,
  \<open>serialize\<close>, \<open>receive_message_impl\<close> and the \<open>send_message\<close>/\<open>receive_message\<close> pair.

  \<open>Message\<close> is recursive through its member \<open>messages\<close>: all other members are the record
  \<open>msg_fields\<close>, and the datatype \<open>message\<close> pairs them with the nested messages. \<open>int\<close> members are
  32-bit words, \<open>std::int64_t\<close> and \<open>std::uint64_t\<close> members 64-bit words.
\<close>

section \<open>The Message struct\<close>

record OnlineUser =
  ou_username :: string
  ou_user_code :: string
  ou_room :: string
  ou_is_admin :: bool

record RoomInfo =
  ri_name :: string
  ri_owner_code :: string
  ri_is_private :: bool
  ri_can_manage :: bool

record msg_fields =
  mtype :: string
  username :: string
  user_code :: string
  content :: string
  users :: "string list"
  target_user_code :: string
  room :: string
  rooms :: "string list"
  user_details :: "OnlineUser list"
  room_details :: "RoomInfo list"
  password :: string
  message_id :: string
  command_id :: string
  delivery_state :: string
  created_at :: string
  before_message_id :: string
  search_query :: string
  crypto :: string
  limit :: "32 word"
  has_more :: bool
  recalled :: bool
  is_admin :: bool
  is_private :: bool
  protocol_version :: string
  group_id :: string
  epoch :: u64
  key_package :: string
  proposal_id :: string
  action :: string
  proposal :: string
  commit :: string
  mwelcome :: string
  welcome_digest :: string
  attachment_id :: string
  upload_id :: string
  logical_size :: i64
  chunk_size :: i64
  chunk_index :: i64
  ciphertext :: string
  cipher_sha256 :: string
  expires_at :: string
  received_indexes :: "i64 list"

datatype message = Message (mfields: msg_fields) (messages: "message list")

text \<open>The constructor with its eleven defaulted arguments, and \<open>Message{}\<close>.\<close>

definition mk_fields :: "string \<Rightarrow> string \<Rightarrow> string \<Rightarrow> string \<Rightarrow> string list \<Rightarrow> string \<Rightarrow> string \<Rightarrow>
    string list \<Rightarrow> string \<Rightarrow> string \<Rightarrow> string \<Rightarrow> msg_fields" where
  "mk_fields type_value username_value user_code_value content_value users_value target_value
     room_value rooms_value password_value message_id_value command_id_value =
   \<lparr>mtype = type_value, username = username_value, user_code = user_code_value,
    content = content_value, users = users_value, target_user_code = target_value,
    room = room_value, rooms = rooms_value, user_details = [], room_details = [],
    password = password_value, message_id = message_id_value, command_id = command_id_value,
    delivery_state = [], created_at = [], before_message_id = [], search_query = [], crypto = [],
    limit = 0, has_more = False, recalled = False, is_admin = False, is_private = False,
    protocol_version = [], group_id = [], epoch = 0, key_package = [], proposal_id = [],
    action = [], proposal = [], commit = [], mwelcome = [], welcome_digest = [],
    attachment_id = [], upload_id = [], logical_size = 0, chunk_size = 0, chunk_index = 0,
    ciphertext = [], cipher_sha256 = [], expires_at = [], received_indexes = []\<rparr>"

definition empty_fields :: msg_fields where
  "empty_fields = mk_fields [] [] [] [] [] [] [] [] [] [] []"

definition empty_message :: message where
  "empty_message = Message empty_fields []"

section \<open>is\_base64\<close>

definition base64_alphabet :: "char \<Rightarrow> bool" where
  "base64_alphabet c \<longleftrightarrow> (CHR ''A'' \<le> c \<and> c \<le> CHR ''Z'') \<or> (CHR ''a'' \<le> c \<and> c \<le> CHR ''z'') \<or>
     (CHR ''0'' \<le> c \<and> c \<le> CHR ''9'') \<or> c = CHR ''+'' \<or> c = CHR ''/''"

fun base64_loop :: "nat \<Rightarrow> nat \<Rightarrow> nat \<Rightarrow> string \<Rightarrow> bool" where
  "base64_loop n index padding [] = True"
| "base64_loop n index padding (c # cs) =
     (if c = CHR ''=''
      then (if index < n - 2 \<or> 2 < padding + 1 then False
            else base64_loop n (index + 1) (padding + 1) cs)
      else if \<not> base64_alphabet c \<or> padding \<noteq> 0 then False
      else base64_loop n (index + 1) padding cs)"

definition is_base64 :: "string \<Rightarrow> bool" where
  "is_base64 v = (if v = [] \<or> length v mod 4 \<noteq> 0 then False else base64_loop (length v) 0 0 v)"

section \<open>serialize\<close>

definition user_json :: "OnlineUser \<Rightarrow> json" where
  "user_json u = JObject (assign_all
     [(True, ''username'', JString (ou_username u)), (True, ''user_code'', JString (ou_user_code u)),
      (True, ''room'', JString (ou_room u)), (True, ''is_admin'', JBool (ou_is_admin u))] [])"

definition room_json :: "RoomInfo \<Rightarrow> json" where
  "room_json r = JObject (assign_all
     [(True, ''name'', JString (ri_name r)), (True, ''private'', JBool (ri_is_private r)),
      (True, ''can_manage'', JBool (ri_can_manage r)),
      (ri_owner_code r \<noteq> [], ''owner_code'', JString (ri_owner_code r))] [])"

text \<open>One entry per assignment of \<open>serialize\<close>, in order; \<open>crypto_value\<close> is the parsed \<open>crypto\<close>
  member and \<open>nested\<close> the serialized nested messages.\<close>

definition serialize_entries :: "msg_fields \<Rightarrow> json \<Rightarrow> json list \<Rightarrow> entry list" where
  "serialize_entries m crypto_value nested =
    [(True, ''type'', JString (mtype m)),
     (protocol_version m \<noteq> [], ''protocol_version'', JString (protocol_version m)),
     (message_id m \<noteq> [], ''message_id'', JString (message_id m)),
     (command_id m \<noteq> [], ''command_id'', JString (command_id m)),
     (delivery_state m \<noteq> [], ''delivery_state'', JString (delivery_state m)),
     (created_at m \<noteq> [], ''created_at'', JString (created_at m)),
     (before_message_id m \<noteq> [], ''before_message_id'', JString (before_message_id m)),
     (search_query m \<noteq> [], ''search_query'', JString (search_query m)),
     (crypto m \<noteq> [], ''crypto'', crypto_value),
     (0 < sint (limit m), ''limit'', JInteger (scast (limit m))),
     (has_more m, ''has_more'', JBool True),
     (recalled m, ''recalled'', JBool True),
     (username m \<noteq> [], ''username'', JString (username m)),
     (user_code m \<noteq> [], ''user_code'', JString (user_code m)),
     (target_user_code m \<noteq> [], ''target_user_code'', JString (target_user_code m)),
     (room m \<noteq> [], ''room'', JString (room m)),
     (content m \<noteq> [], ''content'', JString (content m)),
     (users m \<noteq> [], ''users'', JArray (map JString (users m))),
     (rooms m \<noteq> [], ''rooms'', JArray (map JString (rooms m))),
     (user_details m \<noteq> [], ''user_details'', JArray (map user_json (user_details m))),
     (room_details m \<noteq> [], ''room_details'', JArray (map room_json (room_details m))),
     (is_admin m, ''is_admin'', JBool True),
     (is_private m, ''private'', JBool True),
     (group_id m \<noteq> [], ''group_id'', JString (group_id m)),
     (epoch m \<noteq> 0, ''epoch'', JUnsigned (epoch m)),
     (key_package m \<noteq> [], ''key_package'', JString (key_package m)),
     (proposal_id m \<noteq> [], ''proposal_id'', JString (proposal_id m)),
     (action m \<noteq> [], ''action'', JString (action m)),
     (proposal m \<noteq> [], ''proposal'', JString (proposal m)),
     (commit m \<noteq> [], ''commit'', JString (commit m)),
     (mwelcome m \<noteq> [], ''welcome'', JString (mwelcome m)),
     (welcome_digest m \<noteq> [], ''welcome_digest'', JString (welcome_digest m)),
     (attachment_id m \<noteq> [], ''attachment_id'', JString (attachment_id m)),
     (upload_id m \<noteq> [], ''upload_id'', JString (upload_id m)),
     (logical_size m \<noteq> 0, ''logical_size'', JInteger (logical_size m)),
     (chunk_size m \<noteq> 0, ''chunk_size'', JInteger (chunk_size m)),
     (chunk_index m \<noteq> 0 \<or> mtype m = ''attachment.chunk'', ''chunk_index'', JInteger (chunk_index m)),
     (ciphertext m \<noteq> [], ''ciphertext'', JString (ciphertext m)),
     (cipher_sha256 m \<noteq> [], ''cipher_sha256'', JString (cipher_sha256 m)),
     (expires_at m \<noteq> [], ''expires_at'', JString (expires_at m)),
     (received_indexes m \<noteq> [], ''received_indexes'', JArray (map JInteger (received_indexes m))),
     (nested \<noteq> [], ''messages'', JArray nested)]"

lemma map_result_cong [fundef_cong]:
  "xs = ys \<Longrightarrow> (\<And>x. x \<in> set ys \<Longrightarrow> f x = g x) \<Longrightarrow> map_result f xs = map_result g ys"
proof -
  assume xs: "xs = ys" and fg: "\<And>x. x \<in> set ys \<Longrightarrow> f x = g x"
  from fg have "map_result f ys = map_result g ys"
    by (induction ys) (simp_all split: sum.split)
  with xs show ?thesis by simp
qed

text \<open>\<open>json::parse(message.crypto)\<close> throws on malformed text, in the message itself or in a nested
  one; the exception leaves \<open>serialize\<close>.\<close>

definition crypto_value :: "json_codec \<Rightarrow> msg_fields \<Rightarrow> string + json" where
  "crypto_value c m = (if crypto m \<noteq> [] then json_parse c (crypto m) else Inr JNull)"

fun serialize :: "json_codec \<Rightarrow> message \<Rightarrow> string + json" where
  "serialize c (Message m ms) =
     (case crypto_value c m of Inl e \<Rightarrow> Inl e
      | Inr cv \<Rightarrow>
         (case map_result (serialize c) ms of Inl e \<Rightarrow> Inl e
          | Inr nested \<Rightarrow> Inr (JObject (assign_all (serialize_entries m cv nested) []))))"

section \<open>receive\_message\_impl\<close>

text \<open>\<open>read_string\<close>: an absent key leaves the (empty) destination, a non-string value fails.\<close>

definition read_string :: "jobj \<Rightarrow> string \<Rightarrow> string option" where
  "read_string object key =
     (case map_of object key of None \<Rightarrow> Some []
      | Some v \<Rightarrow> if is_string v then Some (get_string v) else None)"

definition read_bool :: "jobj \<Rightarrow> string \<Rightarrow> bool option" where
  "read_bool object key =
     (case map_of object key of None \<Rightarrow> Some False
      | Some v \<Rightarrow> if is_boolean v then Some (get_bool v) else None)"

definition read_int64 :: "jobj \<Rightarrow> string \<Rightarrow> i64 option" where
  "read_int64 object key =
     (case map_of object key of None \<Rightarrow> Some 0
      | Some v \<Rightarrow> if is_number_integer v then Some (get_word64 v) else None)"

text \<open>\<open>require o e\<close>: a failed read is the error \<open>e\<close> and an early return.\<close>

definition require :: "'a option \<Rightarrow> string \<Rightarrow> string + 'a" where
  "require x e = (case x of None \<Rightarrow> Inl e | Some a \<Rightarrow> Inr a)"

definition bind_r :: "string + 'a \<Rightarrow> ('a \<Rightarrow> string + 'b) \<Rightarrow> string + 'b" where
  "bind_r x f = (case x of Inl e \<Rightarrow> Inl e | Inr a \<Rightarrow> f a)"

definition string_keys :: "string list" where
  "string_keys =
    [''username'', ''protocol_version'', ''message_id'', ''command_id'', ''delivery_state'',
     ''user_code'', ''target_user_code'', ''room'', ''content'', ''group_id'', ''key_package'',
     ''proposal_id'', ''action'', ''proposal'', ''commit'', ''welcome'', ''welcome_digest'',
     ''attachment_id'', ''upload_id'', ''ciphertext'', ''cipher_sha256'', ''expires_at'',
     ''created_at'', ''before_message_id'', ''search_query'']"

definition read_string_fields :: "string \<Rightarrow> jobj \<Rightarrow> string + msg_fields" where
  "read_string_fields ty object =
    (if list_all (\<lambda>k. read_string object k \<noteq> None) string_keys
     then (let s = (\<lambda>k. the (read_string object k)) in
       Inr (empty_fields\<lparr>mtype := ty, username := s ''username'',
         protocol_version := s ''protocol_version'', message_id := s ''message_id'',
         command_id := s ''command_id'', delivery_state := s ''delivery_state'',
         user_code := s ''user_code'', target_user_code := s ''target_user_code'',
         room := s ''room'', content := s ''content'', group_id := s ''group_id'',
         key_package := s ''key_package'', proposal_id := s ''proposal_id'',
         action := s ''action'', proposal := s ''proposal'', commit := s ''commit'',
         mwelcome := s ''welcome'', welcome_digest := s ''welcome_digest'',
         attachment_id := s ''attachment_id'', upload_id := s ''upload_id'',
         ciphertext := s ''ciphertext'', cipher_sha256 := s ''cipher_sha256'',
         expires_at := s ''expires_at'', created_at := s ''created_at'',
         before_message_id := s ''before_message_id'', search_query := s ''search_query''\<rparr>))
     else Inl ''JSON message contains a field with the wrong type'')"

definition read_scalar_fields :: "jobj \<Rightarrow> msg_fields \<Rightarrow> string + msg_fields" where
  "read_scalar_fields object m =
    bind_r (require (read_bool object ''is_admin'') ''is_admin is not a boolean'') (\<lambda>a.
    bind_r (require (read_bool object ''private'') ''private is not a boolean'') (\<lambda>p.
    bind_r (require (read_bool object ''has_more'') ''has_more is not a boolean'') (\<lambda>h.
    bind_r (require (read_bool object ''recalled'') ''recalled is not a boolean'') (\<lambda>r.
    bind_r (require (case map_of object ''limit'' of None \<Rightarrow> Some 0
                     | Some v \<Rightarrow> if is_number_integer v then Some (get_int32 v) else None)
              ''limit is not an integer'') (\<lambda>l.
    bind_r (require (case map_of object ''epoch'' of None \<Rightarrow> Some 0
                     | Some v \<Rightarrow> if is_number_unsigned v then Some (get_word64 v) else None)
              ''epoch is not an unsigned integer'') (\<lambda>e.
    (case (read_int64 object ''logical_size'', read_int64 object ''chunk_size'', read_int64 object ''chunk_index'') of
       (Some ls, Some cs, Some ci) \<Rightarrow>
         Inr (m\<lparr>is_admin := a, is_private := p, has_more := h, recalled := r, limit := l,
               epoch := e, logical_size := ls, chunk_size := cs, chunk_index := ci\<rparr>)
     | _ \<Rightarrow> Inl ''JSON attachment metadata has a non-integer field'')))))))"

text \<open>\<open>dump()\<close> may throw; the handler of \<open>receive_message_impl\<close> catches it.\<close>

definition read_crypto :: "json_codec \<Rightarrow> jobj \<Rightarrow> string + string" where
  "read_crypto c object =
    (case map_of object ''crypto'' of None \<Rightarrow> Inr []
     | Some v \<Rightarrow>
         (case v of
            JObject _ \<Rightarrow> (case json_dump c v of Inl what \<Rightarrow> Inl (''JSON parse failed: '' @ what) | Inr t \<Rightarrow> Inr t)
          | _ \<Rightarrow> Inl ''crypto is not an object''))"

definition hex_digit :: "char \<Rightarrow> int" where
  "hex_digit c =
    (if CHR ''0'' \<le> c \<and> c \<le> CHR ''9'' then of_char c - 48
     else if CHR ''a'' \<le> c \<and> c \<le> CHR ''f'' then of_char c - 97 + 10
     else if CHR ''A'' \<le> c \<and> c \<le> CHR ''F'' then of_char c - 65 + 10
     else -1)"

text \<open>The inner loop over the bits of one byte; \<open>base\<close> is \<open>offset / 2 * 8\<close>.\<close>

fun bitmap_bits :: "int \<Rightarrow> int \<Rightarrow> nat list \<Rightarrow> i64 list \<Rightarrow> string + i64 list" where
  "bitmap_bits bits base [] acc = Inr acc"
| "bitmap_bits bits base (b # bs) acc =
     (if \<not> bit bits b then bitmap_bits bits base bs acc
      else if MaxChunkCount \<le> base + int b
      then Inl ''received_bitmap contains an out-of-range chunk''
      else bitmap_bits bits base bs (acc @ [word_of_int (base + int b)]))"

fun bitmap_loop :: "nat \<Rightarrow> string \<Rightarrow> i64 list \<Rightarrow> string + i64 list" where
  "bitmap_loop offset (h # l # rest) acc =
     (if hex_digit h < 0 \<or> hex_digit l < 0 then Inl ''received_bitmap is not hexadecimal''
      else bind_r (bitmap_bits (hex_digit h * 16 + hex_digit l) (int (offset div 2 * 8)) [0..<8] acc)
             (\<lambda>acc'. bitmap_loop (offset + 2) rest acc'))"
| "bitmap_loop offset _ acc = Inr acc"

definition read_bitmap :: "jobj \<Rightarrow> string + i64 list" where
  "read_bitmap object =
    (case map_of object ''received_bitmap'' of None \<Rightarrow> Inr []
     | Some v \<Rightarrow>
        if \<not> is_string v \<or> map_of object ''received_indexes'' \<noteq> None
        then Inl ''invalid or ambiguous received_bitmap''
        else (let bitmap = get_string v in
          if length bitmap mod 2 \<noteq> 0 \<or> cdiv (MaxChunkCount + 7) 8 * 2 < int (length bitmap)
          then Inl ''received_bitmap has invalid length''
          else bitmap_loop 0 bitmap []))"

text \<open>An optional array whose elements are read one by one, appended to \<open>acc\<close>.\<close>

definition read_array :: "jobj \<Rightarrow> string \<Rightarrow> string \<Rightarrow> (json \<Rightarrow> string + 'a) \<Rightarrow> string + 'a list" where
  "read_array object key not_array element =
    (case map_of object key of None \<Rightarrow> Inr []
     | Some (JArray vs) \<Rightarrow> map_result element vs
     | Some _ \<Rightarrow> Inl not_array)"

definition read_index :: "json \<Rightarrow> string + i64" where
  "read_index v = (if is_number_integer v then Inr (get_word64 v)
                   else Inl ''received_indexes contains a non-integer value'')"

definition read_name :: "string \<Rightarrow> json \<Rightarrow> string + string" where
  "read_name error v = (if is_string v then Inr (get_string v) else Inl error)"

definition member_ok :: "(json \<Rightarrow> bool) \<Rightarrow> jobj \<Rightarrow> string \<Rightarrow> bool" where
  "member_ok kind object key = (case map_of object key of None \<Rightarrow> False | Some v \<Rightarrow> kind v)"

definition read_user :: "json \<Rightarrow> string + OnlineUser" where
  "read_user v =
    (case v of
       JObject ob \<Rightarrow>
         if member_ok is_string ob ''username'' \<and> member_ok is_string ob ''user_code'' \<and>
            member_ok is_string ob ''room'' \<and> member_ok is_boolean ob ''is_admin''
         then Inr \<lparr>ou_username = get_string (the (map_of ob ''username'')),
                   ou_user_code = get_string (the (map_of ob ''user_code'')),
                   ou_room = get_string (the (map_of ob ''room'')),
                   ou_is_admin = get_bool (the (map_of ob ''is_admin''))\<rparr>
         else Inl ''user_details contains an invalid member''
     | _ \<Rightarrow> Inl ''user_details contains an invalid member'')"

definition read_room :: "json \<Rightarrow> string + RoomInfo" where
  "read_room v =
    (case v of
       JObject ob \<Rightarrow>
         if member_ok is_string ob ''name'' \<and> member_ok is_boolean ob ''private'' \<and>
            member_ok is_boolean ob ''can_manage'' \<and>
            (map_of ob ''owner_code'' = None \<or> member_ok is_string ob ''owner_code'')
         then Inr \<lparr>ri_name = get_string (the (map_of ob ''name'')),
                   ri_owner_code = (case map_of ob ''owner_code'' of None \<Rightarrow> [] | Some w \<Rightarrow> get_string w),
                   ri_is_private = get_bool (the (map_of ob ''private'')),
                   ri_can_manage = get_bool (the (map_of ob ''can_manage''))\<rparr>
         else Inl ''room_details contains an invalid room''
     | _ \<Rightarrow> Inl ''room_details contains an invalid room'')"

text \<open>A nested history message: nine strings and two flags; nothing else is read.\<close>

definition nested_keys :: "string list" where
  "nested_keys = [''type'', ''message_id'', ''delivery_state'', ''username'', ''user_code'',
     ''target_user_code'', ''room'', ''content'', ''created_at'']"

definition read_nested :: "json \<Rightarrow> string + message" where
  "read_nested v =
    (case v of
       JObject ob \<Rightarrow>
         if list_all (\<lambda>k. read_string ob k \<noteq> None) nested_keys
         then (let s = (\<lambda>k. the (read_string ob k)) in
           bind_r (require (read_bool ob ''private'') ''nested private is not a boolean'') (\<lambda>p.
           bind_r (require (read_bool ob ''recalled'') ''nested recalled is not a boolean'') (\<lambda>r.
             Inr (Message (empty_fields\<lparr>mtype := s ''type'', message_id := s ''message_id'',
               delivery_state := s ''delivery_state'', username := s ''username'',
               user_code := s ''user_code'', target_user_code := s ''target_user_code'',
               room := s ''room'', content := s ''content'', created_at := s ''created_at'',
               is_private := p, recalled := r\<rparr>) []))))
         else Inl ''messages contains a field with the wrong type''
     | _ \<Rightarrow> Inl ''messages contains a non-object value'')"

definition check_base64 :: "msg_fields \<Rightarrow> string + unit" where
  "check_base64 m =
    (if mtype m = ''mls.key_package.publish'' \<and> key_package m \<noteq> [] \<and> \<not> is_base64 (key_package m)
     then Inl ''key_package is not base64''
     else if mtype m = ''mls.key_package.fetch'' \<and> key_package m \<noteq> [] \<and> \<not> is_base64 (key_package m)
     then Inl ''key_package is not base64''
     else if mtype m = ''mls.group.commit'' \<and> commit m \<noteq> [] \<and> \<not> is_base64 (commit m)
     then Inl ''commit is not base64''
     else if mtype m = ''mls.group.proposal'' \<and> proposal m \<noteq> [] \<and> \<not> is_base64 (proposal m)
     then Inl ''proposal is not base64''
     else if mtype m = ''mls.group.welcome'' \<and> mwelcome m \<noteq> [] \<and> \<not> is_base64 (mwelcome m)
     then Inl ''welcome is not base64''
     else Inr ())"

definition read_lists :: "jobj \<Rightarrow> msg_fields \<Rightarrow> string + message" where
  "read_lists object m =
    bind_r (read_bitmap object) (\<lambda>from_bitmap.
    bind_r (read_array object ''received_indexes'' ''received_indexes is not an array'' read_index) (\<lambda>indexes.
    bind_r (read_array object ''users'' ''users is not an array''
              (read_name ''users contains a non-string value'')) (\<lambda>us.
    bind_r (read_array object ''rooms'' ''rooms is not an array''
              (read_name ''rooms contains a non-string value'')) (\<lambda>rs.
    bind_r (read_array object ''user_details'' ''user_details is not an array'' read_user) (\<lambda>uds.
    bind_r (read_array object ''room_details'' ''room_details is not an array'' read_room) (\<lambda>rds.
    bind_r (read_array object ''messages'' ''messages is not an array'' read_nested) (\<lambda>ms.
      Inr (Message (m\<lparr>received_indexes := from_bitmap @ indexes, users := us, rooms := rs,
                     user_details := uds, room_details := rds\<rparr>) ms))))))))"

definition parse_object :: "json_codec \<Rightarrow> json \<Rightarrow> string + message" where
  "parse_object c j =
    (case j of
       JObject object \<Rightarrow>
         if member_ok is_string object ''type''
         then bind_r (read_string_fields (get_string (the (map_of object ''type''))) object) (\<lambda>m1.
              bind_r (read_scalar_fields object m1) (\<lambda>m2.
              bind_r (read_crypto c object) (\<lambda>cr.
              bind_r (read_lists object (m2\<lparr>crypto := cr\<rparr>)) (\<lambda>parsed.
              bind_r (check_base64 (mfields parsed)) (\<lambda>_. Inr parsed)))))
         else Inl ''JSON message has no string type field''
     | _ \<Rightarrow> Inl ''JSON message has no string type field'')"

definition parse_payload :: "json_codec \<Rightarrow> string \<Rightarrow> string + message" where
  "parse_payload c payload =
    (case json_parse c payload of
       Inl what \<Rightarrow> Inl (''JSON parse failed: '' @ what)
     | Inr j \<Rightarrow> parse_object c j)"

section \<open>send\_message and receive\_message\<close>

text \<open>The state of a thread of the message layer: the framing layer's state and the layer's own
  \<open>g_last_error\<close>.\<close>

record 'w mnet =
  frames :: "'w net"
  m_last_error :: string

definition m_set_error :: "string \<Rightarrow> 'w mnet \<Rightarrow> 'w mnet" where
  "m_set_error error s = s\<lparr>m_last_error := error\<rparr>"

text \<open>\<open>serialize(message).dump()\<close>: the payload, or the text of an escaping exception.\<close>

definition dump_message :: "json_codec \<Rightarrow> message \<Rightarrow> string + string" where
  "dump_message c m = bind_r (serialize c m) (json_dump c)"

definition ssl_send_message ::
    "'w ssl_api \<Rightarrow> json_codec \<Rightarrow> 'w mnet \<Rightarrow> message \<Rightarrow> string + (bool \<times> 'w mnet)" where
  "ssl_send_message api c s m =
     bind_r (dump_message c m) (\<lambda>payload.
       case ssl_send_frame api (frames s) payload of
         (sent, fs) \<Rightarrow> let s1 = s\<lparr>frames := fs\<rparr>
                       in Inr (sent, if \<not> sent then m_set_error (last_error fs) s1 else s1))"

definition sock_send_message ::
    "'w sock_api \<Rightarrow> json_codec \<Rightarrow> 'w mnet \<Rightarrow> message \<Rightarrow> string + (bool \<times> 'w mnet)" where
  "sock_send_message api c s m =
     bind_r (dump_message c m) (\<lambda>payload.
       case sock_send_frame api (frames s) payload of
         (sent, fs) \<Rightarrow> let s1 = s\<lparr>frames := fs\<rparr>
                       in Inr (sent, if \<not> sent then m_set_error (last_error fs) s1 else s1))"

definition receive_message_impl ::
    "('w net \<Rightarrow> bool \<times> string \<times> 'w net) \<Rightarrow> json_codec \<Rightarrow> 'w mnet \<Rightarrow> bool \<times> message \<times> 'w mnet" where
  "receive_message_impl receive_frame c s =
     (case receive_frame (frames s) of
        (False, _, fs) \<Rightarrow> (False, empty_message, m_set_error (last_error fs) (s\<lparr>frames := fs\<rparr>))
      | (True, payload, fs) \<Rightarrow>
          (case parse_payload c payload of
             Inl e \<Rightarrow> (False, empty_message, m_set_error e (s\<lparr>frames := fs\<rparr>))
           | Inr parsed \<Rightarrow> (True, parsed, s\<lparr>frames := fs\<rparr>)))"

definition ssl_receive_message ::
    "'w ssl_api \<Rightarrow> json_codec \<Rightarrow> 'w mnet \<Rightarrow> bool \<times> message \<times> 'w mnet" where
  "ssl_receive_message api = receive_message_impl (ssl_recv_frame api)"

definition sock_receive_message ::
    "'w sock_api \<Rightarrow> json_codec \<Rightarrow> 'w mnet \<Rightarrow> bool \<times> message \<times> 'w mnet" where
  "sock_receive_message api = receive_message_impl (sock_recv_frame api)"

section \<open>Looking up the fields of a serialized message\<close>

lemma serialize_keys_distinct:
  "distinct (map (fst \<circ> snd) (serialize_entries m cv nested))"
  by (simp add: serialize_entries_def)

definition wire_object :: "msg_fields \<Rightarrow> json \<Rightarrow> json list \<Rightarrow> jobj" where
  "wire_object m cv nested =
     map (\<lambda>(k, v). (k, reparse v)) (assign_all (serialize_entries m cv nested) [])"

lemma map_of_wire_object:
  "map_of (wire_object m cv nested) k =
    (case map_of (map (\<lambda>(c, k, v). (k, (c, v))) (serialize_entries m cv nested)) k of
       Some (c, v) \<Rightarrow> if c then Some (reparse v) else None
     | None \<Rightarrow> None)"
  unfolding wire_object_def map_of_reparse map_of_assign_all [OF serialize_keys_distinct]
  by (simp split: option.split)

lemmas wire_lookup = map_of_wire_object serialize_entries_def

lemma wire_read_string:
  fixes m cv nested
  defines "ob \<equiv> wire_object m cv nested"
  shows "read_string ob ''type'' = Some (mtype m)"
    and "read_string ob ''username'' = Some (username m)"
    and "read_string ob ''protocol_version'' = Some (protocol_version m)"
    and "read_string ob ''message_id'' = Some (message_id m)"
    and "read_string ob ''command_id'' = Some (command_id m)"
    and "read_string ob ''delivery_state'' = Some (delivery_state m)"
    and "read_string ob ''user_code'' = Some (user_code m)"
    and "read_string ob ''target_user_code'' = Some (target_user_code m)"
    and "read_string ob ''room'' = Some (room m)"
    and "read_string ob ''content'' = Some (content m)"
    and "read_string ob ''group_id'' = Some (group_id m)"
    and "read_string ob ''key_package'' = Some (key_package m)"
    and "read_string ob ''proposal_id'' = Some (proposal_id m)"
    and "read_string ob ''action'' = Some (action m)"
    and "read_string ob ''proposal'' = Some (proposal m)"
    and "read_string ob ''commit'' = Some (commit m)"
    and "read_string ob ''welcome'' = Some (mwelcome m)"
    and "read_string ob ''welcome_digest'' = Some (welcome_digest m)"
    and "read_string ob ''attachment_id'' = Some (attachment_id m)"
    and "read_string ob ''upload_id'' = Some (upload_id m)"
    and "read_string ob ''ciphertext'' = Some (ciphertext m)"
    and "read_string ob ''cipher_sha256'' = Some (cipher_sha256 m)"
    and "read_string ob ''expires_at'' = Some (expires_at m)"
    and "read_string ob ''created_at'' = Some (created_at m)"
    and "read_string ob ''before_message_id'' = Some (before_message_id m)"
    and "read_string ob ''search_query'' = Some (search_query m)"
  unfolding ob_def read_string_def wire_lookup by simp_all

lemma wire_read_bool:
  fixes m cv nested
  defines "ob \<equiv> wire_object m cv nested"
  shows "read_bool ob ''is_admin'' = Some (is_admin m)"
    and "read_bool ob ''private'' = Some (is_private m)"
    and "read_bool ob ''has_more'' = Some (has_more m)"
    and "read_bool ob ''recalled'' = Some (recalled m)"
  unfolding ob_def read_bool_def wire_lookup by simp_all

lemma wire_read_int64:
  fixes m cv nested
  defines "ob \<equiv> wire_object m cv nested"
  shows "read_int64 ob ''logical_size'' = Some (logical_size m)"
    and "read_int64 ob ''chunk_size'' = Some (chunk_size m)"
    and "read_int64 ob ''chunk_index'' = Some (chunk_index m)"
  unfolding ob_def read_int64_def wire_lookup by simp_all

text \<open>The nine strings and two flags of a history entry survive; every other member of a nested
  message, its own nested messages included, is read back as empty.\<close>

definition nested_view :: "message \<Rightarrow> message" where
  "nested_view n = (let m = mfields n in
     Message (empty_fields\<lparr>mtype := mtype m, message_id := message_id m,
       delivery_state := delivery_state m, username := username m, user_code := user_code m,
       target_user_code := target_user_code m, room := room m, content := content m,
       created_at := created_at m, is_private := is_private m, recalled := recalled m\<rparr>) [])"

lemma read_nested_wire: "read_nested (JObject (wire_object m cv nested)) = Inr (nested_view (Message m ms))"
  unfolding read_nested_def nested_keys_def nested_view_def
  by (simp add: wire_read_string wire_read_bool bind_r_def require_def)

lemma reparse_serialized: "serialize c m = Inr j \<Longrightarrow>
    \<exists>cv nested. crypto_value c (mfields m) = Inr cv \<and> map_result (serialize c) (messages m) = Inr nested \<and>
      reparse j = JObject (wire_object (mfields m) cv nested)"
  by (cases m) (auto simp: wire_object_def split: sum.splits)

section \<open>Reading a serialized message back\<close>

lemma wire_string_fields:
  "read_string_fields (mtype m) (wire_object m cv nested) =
     Inr (m\<lparr>password := [], limit := 0, has_more := False, recalled := False, is_admin := False,
       is_private := False, epoch := 0, logical_size := 0, chunk_size := 0, chunk_index := 0,
       crypto := [], users := [], rooms := [], user_details := [], room_details := [],
       received_indexes := []\<rparr>)"
  unfolding read_string_fields_def string_keys_def empty_fields_def mk_fields_def
  by (cases m) (simp add: wire_read_string)

text \<open>\<open>limit\<close> is written only when positive.\<close>

definition wire_limit :: "32 word \<Rightarrow> 32 word" where
  "wire_limit l = (if 0 < sint l then l else 0)"

lemma ucast_scast_limit [simp]: "(ucast (scast (l :: 32 word) :: 64 word) :: 32 word) = l"
  by (intro bit_word_eqI) (simp add: bit_simps)

lemma wire_limit_lookup:
  "(case map_of (wire_object m cv nested) ''limit'' of None \<Rightarrow> Some 0
    | Some v \<Rightarrow> if is_number_integer v then Some (get_int32 v) else None) = Some (wire_limit (limit m))"
  unfolding wire_lookup wire_limit_def get_int32_def by simp

lemma wire_epoch_lookup:
  "(case map_of (wire_object m cv nested) ''epoch'' of None \<Rightarrow> Some 0
    | Some v \<Rightarrow> if is_number_unsigned v then Some (get_word64 v) else None) = Some (epoch m)"
  unfolding wire_lookup by simp

lemma wire_scalar_fields:
  "read_scalar_fields (wire_object m cv nested) r =
     Inr (r\<lparr>is_admin := is_admin m, is_private := is_private m, has_more := has_more m,
       recalled := recalled m, limit := wire_limit (limit m), epoch := epoch m,
       logical_size := logical_size m, chunk_size := chunk_size m, chunk_index := chunk_index m\<rparr>)"
  unfolding read_scalar_fields_def wire_limit_lookup wire_epoch_lookup
  by (simp add: wire_read_bool wire_read_int64 bind_r_def require_def)

lemma wire_crypto_lookup:
  "map_of (wire_object m cv nested) ''crypto'' = (if crypto m \<noteq> [] then Some (reparse cv) else None)"
  unfolding wire_lookup by simp

lemma wire_bitmap: "read_bitmap (wire_object m cv nested) = Inr []"
  unfolding read_bitmap_def wire_lookup by simp

lemma read_user_json: "read_user (reparse (user_json u)) = Inr u"
  by (simp add: read_user_def user_json_def member_ok_def)

lemma read_room_json: "read_room (reparse (room_json r)) = Inr r"
  by (cases r) (simp add: read_room_def room_json_def member_ok_def)

lemma map_result_inverse:
  "(\<And>x. f (g x) = Inr x) \<Longrightarrow> map_result f (map g xs) = Inr xs"
  by (induction xs) auto

lemma wire_arrays:
  fixes m cv nested
  defines "ob \<equiv> wire_object m cv nested"
  shows "read_array ob ''received_indexes'' e1 read_index = Inr (received_indexes m)"
    and "read_array ob ''users'' e1 (read_name e2) = Inr (users m)"
    and "read_array ob ''rooms'' e1 (read_name e2) = Inr (rooms m)"
    and "read_array ob ''user_details'' e1 read_user = Inr (user_details m)"
    and "read_array ob ''room_details'' e1 read_room = Inr (room_details m)"
    and "read_array ob ''messages'' e1 read_nested = map_result read_nested (map reparse nested)"
  unfolding ob_def read_array_def wire_lookup
  by (simp_all add: comp_def map_result_inverse read_user_json read_room_json read_name_def read_index_def)

text \<open>What the receiver of a message sees: no password, a positive limit or none, the crypto
  object as the library prints it, the nested messages reduced to history entries.\<close>

definition wire_view :: "string \<Rightarrow> message \<Rightarrow> message" where
  "wire_view crypto_text n =
     Message ((mfields n)\<lparr>password := [], limit := wire_limit (limit (mfields n)), crypto := crypto_text\<rparr>)
       (map nested_view (messages n))"

lemma wire_nested:
  assumes "map_result (serialize c) ms = Inr nested"
  shows "map_result read_nested (map reparse nested) = Inr (map nested_view ms)"
  using assms
proof (induction ms arbitrary: nested)
  case (Cons n ms)
  from Cons.prems obtain j js where n: "serialize c n = Inr j" and js: "map_result (serialize c) ms = Inr js"
      and nested: "nested = j # js"
    by (auto split: sum.splits)
  from reparse_serialized [OF n] obtain cv ns where "reparse j = JObject (wire_object (mfields n) cv ns)" by auto
  then have "read_nested (reparse j) = Inr (nested_view n)"
    using read_nested_wire [of "mfields n" cv ns "messages n"] by simp
  with Cons.IH [OF js] nested show ?case by simp
qed simp

lemma wire_lists:
  assumes "map_result (serialize c) ms = Inr nested"
  shows "read_lists (wire_object m cv nested) r =
    Inr (Message (r\<lparr>received_indexes := received_indexes m, users := users m, rooms := rooms m,
      user_details := user_details m, room_details := room_details m\<rparr>) (map nested_view ms))"
  unfolding read_lists_def wire_bitmap wire_arrays wire_nested [OF assms]
  by (simp add: bind_r_def)

lemma wire_type_lookup: "map_of (wire_object m cv nested) ''type'' = Some (JString (mtype m))"
  unfolding wire_lookup by simp

text \<open>The receiver parses a serialized message: the outcome depends only on the crypto member
  and on the base64 checks.\<close>

lemma parse_object_wire:
  assumes "map_result (serialize c) (messages n) = Inr nested"
  shows "parse_object c (JObject (wire_object (mfields n) cv nested)) =
    bind_r (read_crypto c (wire_object (mfields n) cv nested)) (\<lambda>cr.
      bind_r (check_base64 (mfields n)) (\<lambda>_. Inr (wire_view cr n)))"
proof -
  have "check_base64 (mfields (wire_view cr n)) = check_base64 (mfields n)" for cr
    by (simp add: check_base64_def wire_view_def)
  then show ?thesis
    unfolding parse_object_def
    by (simp add: wire_type_lookup member_ok_def wire_string_fields wire_scalar_fields wire_lists [OF assms]
        bind_r_def wire_view_def split: sum.split)
qed
section \<open>A codec for flat objects\<close>

text \<open>
  A small printer and parser for objects whose members are all strings (each character is
  tagged, each string ends with a dot). It satisfies \<open>codec_ok\<close>; the witnesses use it.
\<close>

fun put_string :: "string \<Rightarrow> string" where
  "put_string [] = ''.''"
| "put_string (x # xs) = CHR ''c'' # x # put_string xs"

fun get_strings :: "string \<Rightarrow> string \<Rightarrow> string list" where
  "get_strings acc (t # r) =
     (if t = CHR ''.'' then acc # get_strings [] r
      else (case r of [] \<Rightarrow> [] | x # r' \<Rightarrow> get_strings (acc @ [x]) r'))"
| "get_strings acc [] = []"

fun pair_up :: "string list \<Rightarrow> jobj" where
  "pair_up (k # v # r) = (k, JString v) # pair_up r"
| "pair_up _ = []"

definition flat_codec :: json_codec where
  "flat_codec = \<lparr>json_parse = (\<lambda>s. Inr (JObject (pair_up (get_strings [] s)))),
     json_dump = (\<lambda>j. case j of
        JObject kvs \<Rightarrow> if list_all (\<lambda>kv. is_string (snd kv)) kvs
                       then Inr (concat (map (\<lambda>(k, v). put_string k @ put_string (get_string v)) kvs))
                       else Inl ''unsupported''
      | _ \<Rightarrow> Inl ''unsupported'')\<rparr>"

lemma get_strings_put: "get_strings acc (put_string s @ r) = (acc @ s) # get_strings [] r"
  by (induction s arbitrary: acc) auto

lemma flat_codec_ok: "codec_ok flat_codec"
proof -
  have "JObject (pair_up (get_strings [] (concat (map (\<lambda>(k, v). put_string k @ put_string (get_string v)) kvs))))
      = reparse (JObject kvs)" if "list_all (\<lambda>kv. is_string (snd kv)) kvs" for kvs
    using that
  proof (induction kvs)
    case (Cons kv kvs)
    then show ?case by (cases kv; cases "snd kv") (auto simp: get_strings_put)
  qed simp
  then show ?thesis
    by (auto simp: codec_ok_def flat_codec_def split: json.splits if_splits)
qed

section \<open>Messages over a frame channel\<close>

text \<open>
  What the message layer relies on in the framing layer, in either overload: a successful send
  appends one frame to the outgoing stream, and a frame at the head of the incoming stream is
  received.
\<close>

locale frame_channel =
  fixes out inp :: "'w \<Rightarrow> string"
    and ok live :: "'api \<Rightarrow> bool"
    and send_frame :: "'api \<Rightarrow> 'w net \<Rightarrow> string \<Rightarrow> bool \<times> 'w net"
    and recv_frame :: "'api \<Rightarrow> 'w net \<Rightarrow> bool \<times> string \<times> 'w net"
  assumes send_frame_complete: "ok a \<Longrightarrow> send_frame a s p = (True, s') \<Longrightarrow>
      valid_payload p \<and> out (world s') = out (world s) @ frame_bytes p"
    and recv_frame_frame: "ok a \<Longrightarrow> live a \<Longrightarrow> valid_payload p \<Longrightarrow> inp (world r) = frame_bytes p @ rest \<Longrightarrow>
      \<exists>r'. recv_frame a r = (True, p, r') \<and> inp (world r') = rest"
begin

lemma receive_delivers:
  assumes "ok a" "live a" "valid_payload p" "inp (world (frames r)) = frame_bytes p @ rest"
  shows "\<exists>r'. inp (world (frames r')) = rest \<and> receive_message_impl (recv_frame a) c r =
    (case parse_payload c p of Inl e \<Rightarrow> (False, empty_message, m_set_error e r') | Inr m \<Rightarrow> (True, m, r'))"
proof -
  from recv_frame_frame [OF assms] obtain fs where
    "recv_frame a (frames r) = (True, p, fs)" "inp (world fs) = rest" by blast
  then show ?thesis
    by (intro exI [of _ "r\<lparr>frames := fs\<rparr>"]) (simp add: receive_message_impl_def split: sum.split)
qed

end

interpretation sock_frames: frame_channel out inp "sock_ok out inp" "sock_live inp" sock_send_frame sock_recv_frame
  for out inp :: "'w \<Rightarrow> string"
  by unfold_locales (fact sock_send_frame_complete, fact sock_recv_frame_frame)

interpretation tls_frames: frame_channel out inp "ssl_ok out inp" "ssl_live inp" ssl_send_frame ssl_recv_frame
  for out inp :: "'w \<Rightarrow> string"
proof unfold_locales
  fix a :: "'w ssl_api" and s p s'
  assume "ssl_ok out inp a" "ssl_send_frame a s p = (True, s')"
  from ssl_send_frame_prefix [OF this]
  show "valid_payload p \<and> out (world s') = out (world s) @ frame_bytes p" by auto
qed (fact ssl_recv_frame_frame)

section \<open>What the checks accept\<close>

lemma base64_loop_padded:
  assumes "i + length cs = n" "2 \<le> n" "n - 2 < i"
  shows "base64_loop n i 1 cs \<longleftrightarrow> cs = [] \<or> cs = ''=''"
proof (cases cs)
  case (Cons c cs')
  with assms have "cs' = []" by (cases cs') auto
  with Cons assms show ?thesis by auto
qed simp

lemma split_body_Cons:
  "(\<exists>body pad. c # cs = body @ pad \<and> list_all A body \<and> P pad) \<longleftrightarrow>
     P (c # cs) \<or> A c \<and> (\<exists>body pad. cs = body @ pad \<and> list_all A body \<and> P pad)"
proof
  assume "P (c # cs) \<or> A c \<and> (\<exists>body pad. cs = body @ pad \<and> list_all A body \<and> P pad)"
  then show "\<exists>body pad. c # cs = body @ pad \<and> list_all A body \<and> P pad"
  proof
    assume "P (c # cs)"
    then show ?thesis by (intro exI [of _ "[]"] exI [of _ "c # cs"]) simp
  next
    assume "A c \<and> (\<exists>body pad. cs = body @ pad \<and> list_all A body \<and> P pad)"
    then obtain body pad where "A c" "cs = body @ pad" "list_all A body" "P pad" by blast
    then show ?thesis by (intro exI [of _ "c # body"] exI [of _ pad]) simp
  qed
next
  assume "\<exists>body pad. c # cs = body @ pad \<and> list_all A body \<and> P pad"
  then obtain body pad where bp: "c # cs = body @ pad" "list_all A body" "P pad" by blast
  then show "P (c # cs) \<or> A c \<and> (\<exists>body pad. cs = body @ pad \<and> list_all A body \<and> P pad)"
    by (cases body) auto
qed

lemma base64_loop_iff:
  assumes "i + length cs = n" "2 \<le> n"
  shows "base64_loop n i 0 cs \<longleftrightarrow>
    (\<exists>body pad. cs = body @ pad \<and> list_all base64_alphabet body \<and> pad \<in> {[], ''='', ''==''})"
  using assms
proof (induction cs arbitrary: i)
  case (Cons c cs)
  have eq: "\<not> base64_alphabet (CHR ''='')" by (simp add: base64_alphabet_def)
  show ?case
  proof (cases "c = CHR ''=''")
    case True
    have "base64_loop n i 0 (c # cs) \<longleftrightarrow> n - 2 \<le> i \<and> (cs = [] \<or> cs = ''='')"
      using True base64_loop_padded [of "i + 1" cs n] Cons.prems by (auto simp: not_less)
    also have "\<dots> \<longleftrightarrow> cs = [] \<or> cs = ''=''" using Cons.prems by auto
    also have "\<dots> \<longleftrightarrow> (\<exists>body pad. c # cs = body @ pad \<and> list_all base64_alphabet body \<and> pad \<in> {[], ''='', ''==''})"
      unfolding split_body_Cons using True eq by simp
    finally show ?thesis .
  next
    case False
    with Cons.IH [of "i + 1"] Cons.prems
    have "base64_loop n i 0 (c # cs) \<longleftrightarrow> base64_alphabet c \<and>
        (\<exists>body pad. cs = body @ pad \<and> list_all base64_alphabet body \<and> pad \<in> {[], ''='', ''==''})" by simp
    also have "\<dots> \<longleftrightarrow> (\<exists>body pad. c # cs = body @ pad \<and> list_all base64_alphabet body \<and> pad \<in> {[], ''='', ''==''})"
      unfolding split_body_Cons [of c] using False by simp
    finally show ?thesis .
  qed
qed simp

text \<open>The bit of a hexadecimal bitmap that stands for chunk \<open>i\<close>.\<close>

definition bitmap_byte :: "string \<Rightarrow> nat \<Rightarrow> int" where
  "bitmap_byte s k = hex_digit (s ! (2 * k)) * 16 + hex_digit (s ! (2 * k + 1))"

definition bitmap_bit :: "string \<Rightarrow> nat \<Rightarrow> bool" where
  "bitmap_bit s i = bit (bitmap_byte s (i div 8)) (i mod 8)"

lemma bitmap_bits_Inr:
  "bitmap_bits bits base bs acc = Inr r \<Longrightarrow> 0 \<le> base \<Longrightarrow>
   r = acc @ map (\<lambda>b. word_of_int (base + int b)) (filter (bit bits) bs) \<and>
   (\<forall>b \<in> set bs. bit bits b \<longrightarrow> base + int b < MaxChunkCount)"
  by (induction bits base bs acc rule: bitmap_bits.induct) (auto split: if_splits)

lemma filter_map_upt_shift:
  "filter P (map ((+) k) [0..<n]) = map ((+) k) (filter (\<lambda>i. P (k + i)) [0..<n])"
  by (simp add: filter_map comp_def)

lemma bitmap_loop_Inr:
  assumes "bitmap_loop (2 * k) rest acc = Inr r" "s = pre @ rest" "length pre = 2 * k"
  shows "r = acc @ map (\<lambda>i. word_of_int (int i)) (filter (bitmap_bit s) [8 * k..<8 * (length s div 2)]) \<and>
    (\<forall>i \<in> set [8 * k..<8 * (length s div 2)]. bitmap_bit s i \<longrightarrow> int i < MaxChunkCount)"
  using assms
proof (induction "length rest" arbitrary: k rest acc pre rule: less_induct)
  case less
  show ?case
  proof (cases "length rest < 2")
    case True
    then have "bitmap_loop (2 * k) rest acc = Inr acc" by (cases rest; cases "tl rest") auto
    moreover from True less.prems have "length s div 2 = k" by simp
    ultimately show ?thesis using less.prems by simp
  next
    case False
    then obtain h l rest' where rest: "rest = h # l # rest'"
      by (metis (no_types) length_Suc_conv less_2_cases_iff list.exhaust list.size(3) One_nat_def)
    let ?byte = "hex_digit h * 16 + hex_digit l"
    from less.prems(1) rest obtain acc' where
      bits: "bitmap_bits ?byte (int (8 * k)) [0..<8] acc = Inr acc'" and
      loop: "bitmap_loop (2 * Suc k) rest' acc' = Inr r"
      by (auto simp: bind_r_def algebra_simps split: if_splits sum.splits)
    from less.prems rest have byte: "bitmap_byte s k = ?byte"
      by (simp add: bitmap_byte_def nth_append)
    have bit: "bitmap_bit s (8 * k + b) = bit ?byte b" if "b < 8" for b
      using that byte by (simp add: bitmap_bit_def)
    have upt: "[8 * k..<8 * (length s div 2)] = map ((+) (8 * k)) [0..<8] @ [8 * Suc k..<8 * (length s div 2)]"
    proof -
      have "8 * Suc k \<le> 8 * (length s div 2)" using less.prems rest by simp
      then have "[8 * k..<8 * (length s div 2)] = [8 * k..<8 * k + 8] @ [8 * Suc k..<8 * (length s div 2)]"
        by (metis add.commute le_add1 mult_Suc_right upt_add_eq_append le_add_diff_inverse)
      also have "[8 * k..<8 * k + 8] = map ((+) (8 * k)) [0..<8]"
        using map_add_upt [of "8 * k" 8] by (simp add: add.commute [of _ "8 * k"])
      finally show ?thesis .
    qed
    have "filter (bitmap_bit s) (map ((+) (8 * k)) [0..<8]) = map ((+) (8 * k)) (filter (bit ?byte) [0..<8])"
      unfolding filter_map_upt_shift using bit by (intro arg_cong [of _ _ "map _"] filter_cong) auto
    moreover have "int (8 * k + b) < MaxChunkCount" if "b < 8" "bitmap_bit s (8 * k + b)" for b
    proof -
      from bitmap_bits_Inr [OF bits of_nat_0_le_iff]
      have "\<forall>b \<in> set [0..<8]. bit ?byte b \<longrightarrow> int (8 * k) + int b < MaxChunkCount" by blast
      with that bit show ?thesis by simp
    qed
    moreover from this have "\<forall>i \<in> set (map ((+) (8 * k)) [0..<8]). bitmap_bit s i \<longrightarrow> int i < MaxChunkCount"
      unfolding set_map set_upt by (metis atLeastLessThan_iff imageE)
    moreover have "r = acc' @ map (\<lambda>i. word_of_int (int i)) (filter (bitmap_bit s) [8 * Suc k..<8 * (length s div 2)]) \<and>
      (\<forall>i \<in> set [8 * Suc k..<8 * (length s div 2)]. bitmap_bit s i \<longrightarrow> int i < MaxChunkCount)"
      using less.hyps [OF _ loop, of "pre @ [h, l]"] less.prems(2,3) rest by simp
    ultimately show ?thesis
      using bitmap_bits_Inr [OF bits] unfolding upt by (simp add: comp_def ball_Un)
  qed
qed

lemma read_bitmap_Inr:
  assumes "map_of object ''received_bitmap'' = Some (JString s)" "read_bitmap object = Inr r"
  shows "r = map (\<lambda>i. word_of_int (int i)) (filter (bitmap_bit s) [0..<8 * (length s div 2)])"
    and "\<forall>i < 8 * (length s div 2). bitmap_bit s i \<longrightarrow> int i < MaxChunkCount"
proof -
  from assms have "bitmap_loop (2 * 0) s [] = Inr r" by (auto simp: read_bitmap_def Let_def split: if_splits)
  from bitmap_loop_Inr [OF this, of s "[]"]
  show "r = map (\<lambda>i. word_of_int (int i)) (filter (bitmap_bit s) [0..<8 * (length s div 2)])"
    and "\<forall>i < 8 * (length s div 2). bitmap_bit s i \<longrightarrow> int i < MaxChunkCount" by auto
qed

section \<open>What the receiver gets\<close>

text \<open>The crypto text a receiver reads back, or the error it stops with.\<close>

definition crypto_text :: "json_codec \<Rightarrow> msg_fields \<Rightarrow> string + string" where
  "crypto_text c m =
    (if crypto m = [] then Inr []
     else bind_r (json_parse c (crypto m)) (\<lambda>cv. case cv of
         JObject _ \<Rightarrow> (case json_dump c (reparse cv) of Inl what \<Rightarrow> Inl (''JSON parse failed: '' @ what) | Inr t \<Rightarrow> Inr t)
       | _ \<Rightarrow> Inl ''crypto is not an object''))"

definition received_view :: "json_codec \<Rightarrow> message \<Rightarrow> string + message" where
  "received_view c n =
     bind_r (crypto_text c (mfields n)) (\<lambda>t. bind_r (check_base64 (mfields n)) (\<lambda>_. Inr (wire_view t n)))"

text \<open>No crypto object, at any depth, contains a floating-point number.\<close>

fun floatless :: "json_codec \<Rightarrow> message \<Rightarrow> bool" where
  "floatless c (Message m ms) \<longleftrightarrow>
     (case crypto_value c m of Inl _ \<Rightarrow> True | Inr cv \<Rightarrow> float_free cv) \<and> list_all (floatless c) ms"

lemma float_free_serialize: "floatless c m \<Longrightarrow> serialize c m = Inr j \<Longrightarrow> float_free j"
proof (induction m arbitrary: j)
  case (Message m ms)
  from Message.prems obtain cv nested where cv: "crypto_value c m = Inr cv"
      and nested: "map_result (serialize c) ms = Inr nested"
      and j: "j = JObject (assign_all (serialize_entries m cv nested) [])" by (auto split: sum.splits)
  have "list_all float_free nested"
    using map_result_Inr [OF nested] Message.IH Message.prems(1)
    by (fastforce simp: list_all_iff list_all2_conv_all_nth in_set_conv_nth)
  with cv Message.prems(1) have "list_all (\<lambda>(c, k, v). c \<longrightarrow> float_free v) (serialize_entries m cv nested)"
    by (simp add: serialize_entries_def user_json_def room_json_def list_all_iff)
  then show ?case unfolding j by (simp add: float_free_assign_all)
qed

lemma read_crypto_wire:
  "crypto_value c m = Inr cv \<Longrightarrow> read_crypto c (wire_object m cv nested) = crypto_text c m"
  by (cases cv) (auto simp: read_crypto_def wire_crypto_lookup crypto_text_def crypto_value_def bind_r_def
      split: if_splits)

lemma parse_dumped:
  assumes "codec_ok c" "floatless c n" "dump_message c n = Inr p"
  shows "parse_payload c p = received_view c n"
proof -
  from assms(3) obtain j where j: "serialize c n = Inr j" and p: "json_dump c j = Inr p"
    by (auto simp: dump_message_def bind_r_def split: sum.splits)
  from codec_okD [OF assms(1) float_free_serialize [OF assms(2) j] p]
  have "parse_payload c p = parse_object c (reparse j)" by (simp add: parse_payload_def)
  moreover from reparse_serialized [OF j] obtain cv nested where "crypto_value c (mfields n) = Inr cv"
      "map_result (serialize c) (messages n) = Inr nested"
      "reparse j = JObject (wire_object (mfields n) cv nested)" by blast
  ultimately show ?thesis by (simp add: parse_object_wire read_crypto_wire received_view_def)
qed

section \<open>Properties\<close>


definition sample_chat :: message where
  "sample_chat = Message (mk_fields ''chat'' ''ann'' [] ''hi'' [] [] ''lobby'' [] ''secret'' [] []) []"

definition mem_mnet :: "string \<Rightarrow> string \<Rightarrow> (string \<times> string) mnet" where
  "mem_mnet o' i = \<lparr>frames = mem_net o' i, m_last_error = []\<rparr>"

lemma ssl_send_message_sent:
  "dump_message c m = Inr p \<Longrightarrow> ssl_send_frame a (frames s) p = (True, fs) \<Longrightarrow>
   ssl_send_message a c s m = Inr (True, s\<lparr>frames := fs\<rparr>)"
  by (simp add: ssl_send_message_def bind_r_def)

lemma sample_chat_dump:
  "dump_message flat_codec sample_chat = Inr (concat (map put_string
     [''content'', ''hi'', ''room'', ''lobby'', ''type'', ''chat'', ''username'', ''ann'']))"
  by (simp add: dump_message_def sample_chat_def crypto_value_def mk_fields_def serialize_entries_def bind_r_def
      flat_codec_def less_char_def)


text \<open>
  The chunk indexes read from a \<open>received_bitmap\<close> are exactly the positions of its set bits, in
  increasing order (least significant bit of each hexadecimal byte first), and each is a valid
  chunk index below the protocol's maximum of 111551.
\<close>

theorem bitmap_indexes:
  assumes "map_of object ''received_bitmap'' = Some (JString s)" and "read_bitmap object = Inr r"
  shows "map unat r = filter (bitmap_bit s) [0..<8 * (length s div 2)] \<and> (\<forall>i \<in> set r. uint i < 111551)"
proof -
  let ?f = "filter (bitmap_bit s) [0..<8 * (length s div 2)]"
  note r = read_bitmap_Inr [OF assms]
  have small: "i < 111551" if "i \<in> set ?f" for i using that r(2) by auto
  have "map unat r = map (\<lambda>i. unat (word_of_nat i :: i64)) ?f" by (simp add: r(1) comp_def)
  also have "\<dots> = ?f" by (rule map_idI) (use small in \<open>force simp: unat_of_nat\<close>)
  finally have eq: "map unat r = ?f" .
  have "uint i < 111551" if "i \<in> set r" for i
  proof -
    from that have "unat i \<in> set (map unat r)" by simp
    with eq small have "unat i < 111551" by metis
    then show ?thesis by (simp add: nat_less_iff flip: nat_uint_eq)
  qed
  with eq show ?thesis by blast
qed

theorem bitmap_indexes_witness:
  "map unat [0, 9 :: i64] = filter (bitmap_bit ''0102'') [0..<8 * (length ''0102'' div 2)]"
proof -
  have "read_bitmap [(''received_bitmap'', JString ''0102'')] = Inr [0, 9]"
    by (simp add: read_bitmap_def hex_digit_def bind_r_def Let_def less_eq_char_def upt_conv_Cons)
  with bitmap_indexes [of "[(''received_bitmap'', JString ''0102'')]" "''0102''" "[0, 9]"] show ?thesis by simp
qed

text \<open>
  \<open>is_base64\<close> accepts exactly the non-empty texts of a length divisible by four that consist of
  letters, digits, plus and slash, followed by at most two equals signs.
\<close>

theorem is_base64_iff:
  "is_base64 v \<longleftrightarrow> v \<noteq> [] \<and> length v mod 4 = 0 \<and>
     (\<exists>body pad. v = body @ pad \<and> list_all base64_alphabet body \<and> (pad = [] \<or> pad = ''='' \<or> pad = ''==''))"
proof (cases "v = [] \<or> length v mod 4 \<noteq> 0")
  case False
  then have "2 \<le> length v" by (cases v; cases "tl v") auto
  with base64_loop_iff [of 0 v "length v"] False show ?thesis by (simp add: is_base64_def)
qed (auto simp: is_base64_def)

end
