(* ===== verification/Auth.thy ===== *)
theory Auth
  imports Message
begin

text \<open>
  The client's start-up options, \<open>client-cpp/src/auth.cpp\<close> and \<open>include/auth.hpp\<close>: \<open>parse_port\<close>,
  \<open>take_value\<close>, \<open>make_guest_code\<close>, \<open>parse_arguments\<close> and \<open>make_login_message\<close>.

  \<open>std::random_device\<close> with its uniform distribution is the parameter \<open>draw\<close>: the index drawn for
  each of the six characters of a guest code. \<open>parse_arguments\<close> returns its result together with
  both output parameters, as far as they were filled in.
\<close>

record ClientOptions =
  server_ip :: string
  server_port :: int
  opt_username :: string
  opt_user_code :: string
  ca_file :: string
  guest_mode :: bool
  host_mode :: bool
  server_exe :: string
  cert_file :: string
  key_file :: string

definition backslash :: string where
  "backslash = [CHR 0x5C]"

definition default_options :: ClientOptions where
  "default_options = \<lparr>server_ip = ''127.0.0.1'', server_port = 8888, opt_username = ''Alice'',
     opt_user_code = ''ALICE001'', ca_file = [], guest_mode = False, host_mode = False,
     server_exe = ''..'' @ backslash @ ''server-go'' @ backslash @ ''chat-server.exe'',
     cert_file = ''..'' @ backslash @ ''certs'' @ backslash @ ''server.crt'',
     key_file = ''..'' @ backslash @ ''certs'' @ backslash @ ''server.key''\<rparr>"

section \<open>parse\_port\<close>

definition is_digit :: "char \<Rightarrow> bool" where
  "is_digit c \<longleftrightarrow> CHR ''0'' \<le> c \<and> c \<le> CHR ''9''"

definition digits_value :: "string \<Rightarrow> int" where
  "digits_value ds = foldl (\<lambda>acc c. acc * 10 + (of_char c - 48)) 0 ds"

text \<open>\<open>std::from_chars\<close> for \<open>int\<close>: an optional minus sign and the longest run of digits; the value
  and the number of characters consumed, or \<open>None\<close> for either error code.\<close>

definition from_chars_int :: "string \<Rightarrow> (int \<times> nat) option" where
  "from_chars_int s =
    (let neg = (s \<noteq> [] \<and> hd s = CHR ''-'');
         ds = takeWhile is_digit (if neg then tl s else s);
         v = (if neg then - digits_value ds else digits_value ds)
     in if ds = [] \<or> v < - (2 ^ 31) \<or> 2 ^ 31 \<le> v then None
        else Some (v, length ds + (if neg then 1 else 0)))"

definition parse_port :: "string \<Rightarrow> int option" where
  "parse_port v =
    (if v = [] then None
     else (case from_chars_int v of None \<Rightarrow> None
           | Some (parsed, ptr) \<Rightarrow> if ptr \<noteq> length v \<or> parsed < 1 \<or> 65535 < parsed then None else Some parsed))"

section \<open>parse\_arguments\<close>

text \<open>\<open>take_value\<close> looks at the arguments after the option; on success it also consumes one.\<close>

definition take_value :: "string list \<Rightarrow> string \<Rightarrow> string + (string \<times> string list)" where
  "take_value rest option =
    (case rest of [] \<Rightarrow> Inl (option @ '' requires a non-empty value.'')
     | v # rest' \<Rightarrow> if v = [] then Inl (option @ '' requires a non-empty value.'') else Inr (v, rest'))"

definition guest_alphabet :: string where
  "guest_alphabet = ''ABCDEFGHJKLMNPQRSTUVWXYZ23456789''"

definition make_guest_code :: "(nat \<Rightarrow> nat) \<Rightarrow> string" where
  "make_guest_code draw = ''GUEST'' @ map (\<lambda>i. guest_alphabet ! draw i) [0..<6]"

definition positional :: "nat \<Rightarrow> string \<Rightarrow> ClientOptions \<Rightarrow> string + ClientOptions" where
  "positional count argument options =
    (if count = 0 then Inr (options\<lparr>server_ip := argument\<rparr>)
     else if count = 1
     then (case parse_port argument of None \<Rightarrow> Inl ''Invalid port.'' | Some p \<Rightarrow> Inr (options\<lparr>server_port := p\<rparr>))
     else if count = 2 then Inr (options\<lparr>opt_username := argument\<rparr>)
     else if count = 3 then Inr (options\<lparr>opt_user_code := argument\<rparr>)
     else Inl ''Too many positional arguments.'')"

lemma take_value_shorter: "take_value rest opt = Inr (v, rest') \<Longrightarrow> length rest' < length rest"
  by (auto simp: take_value_def split: list.splits if_splits)

text \<open>One iteration of the loop: the arguments, the positional count and the options it leaves.
  \<open>Inl (options, error)\<close> is an early \<open>return false\<close>.\<close>

type_synonym parse_failure = "ClientOptions \<times> string"

definition value_option ::
    "string list \<Rightarrow> string \<Rightarrow> nat \<Rightarrow> ClientOptions \<Rightarrow> (string \<Rightarrow> ClientOptions) \<Rightarrow>
     parse_failure + (string list \<times> nat \<times> ClientOptions)" where
  "value_option rest option count options store =
    (case take_value rest option of Inl e \<Rightarrow> Inl (options, e) | Inr (v, rest') \<Rightarrow> Inr (rest', count, store v))"

definition parse_step ::
    "string \<Rightarrow> string list \<Rightarrow> nat \<Rightarrow> ClientOptions \<Rightarrow> parse_failure + (string list \<times> nat \<times> ClientOptions)" where
  "parse_step argument rest count options =
    (if argument = ''--guest'' then Inr (rest, count, options\<lparr>guest_mode := True, opt_user_code := []\<rparr>)
     else if argument = ''--host''
     then Inr (rest, count, options\<lparr>host_mode := True, guest_mode := True, opt_user_code := []\<rparr>)
     else if argument = ''--ca-file''
     then value_option rest ''--ca-file'' count options (\<lambda>v. options\<lparr>ca_file := v\<rparr>)
     else if argument = ''--server-exe''
     then value_option rest ''--server-exe'' count options (\<lambda>v. options\<lparr>server_exe := v\<rparr>)
     else if argument = ''--cert''
     then value_option rest ''--cert'' count options (\<lambda>v. options\<lparr>cert_file := v\<rparr>)
     else if argument = ''--key''
     then value_option rest ''--key'' count options (\<lambda>v. options\<lparr>key_file := v\<rparr>)
     else if argument \<noteq> [] \<and> hd argument = CHR ''-'' then Inl (options, ''Unknown option: '' @ argument)
     else (case positional count argument options of Inl e \<Rightarrow> Inl (options, e)
           | Inr o' \<Rightarrow> Inr (rest, count + 1, o')))"

lemma value_option_Inr:
  "value_option rest k n opt f = Inr (rest', n', opt') \<longleftrightarrow> n' = n \<and> (\<exists>v. opt' = f v \<and> take_value rest k = Inr (v, rest'))"
  by (auto simp: value_option_def split: sum.splits)

lemma parse_step_cases:
  assumes "parse_step a rest n opt = Inr (rest', n', opt')"
  obtains (flag) "rest' = rest" "n' = n" "opt' = opt\<lparr>guest_mode := True, opt_user_code := []\<rparr>"
    | (host) "rest' = rest" "n' = n" "opt' = opt\<lparr>host_mode := True, guest_mode := True, opt_user_code := []\<rparr>"
    | (path) v k where "take_value rest k = Inr (v, rest')" "n' = n"
        "opt' \<in> {opt\<lparr>ca_file := v\<rparr>, opt\<lparr>server_exe := v\<rparr>, opt\<lparr>cert_file := v\<rparr>, opt\<lparr>key_file := v\<rparr>}"
    | (pos) "rest' = rest" "n' = n + 1" "positional n a opt = Inr opt'"
proof -
  let ?r = "Inr (rest', n', opt')"
  from assms consider "Inr (rest, n, opt\<lparr>guest_mode := True, opt_user_code := []\<rparr>) = ?r"
    | "Inr (rest, n, opt\<lparr>host_mode := True, guest_mode := True, opt_user_code := []\<rparr>) = ?r"
    | k where "value_option rest k n opt (\<lambda>v. opt\<lparr>ca_file := v\<rparr>) = ?r"
    | k where "value_option rest k n opt (\<lambda>v. opt\<lparr>server_exe := v\<rparr>) = ?r"
    | k where "value_option rest k n opt (\<lambda>v. opt\<lparr>cert_file := v\<rparr>) = ?r"
    | k where "value_option rest k n opt (\<lambda>v. opt\<lparr>key_file := v\<rparr>) = ?r"
    | o' where "positional n a opt = Inr o'" "Inr (rest, n + 1, o') = ?r"
    unfolding parse_step_def by (simp only: split: if_split_asm sum.split_asm) simp_all
  then show thesis
    by cases (use flag host pos path in \<open>auto simp: value_option_Inr\<close>)
qed

lemma parse_step_shorter: "parse_step a rest n opt = Inr (rest', n', opt') \<Longrightarrow> length rest' < Suc (length rest)"
  by (erule parse_step_cases) (auto dest: take_value_shorter)

function parse_loop :: "string list \<Rightarrow> nat \<Rightarrow> ClientOptions \<Rightarrow> parse_failure + (nat \<times> ClientOptions)" where
  "parse_loop [] count options = Inr (count, options)"
| "parse_loop (argument # rest) count options =
    (case parse_step argument rest count options of
       Inl failure \<Rightarrow> Inl failure
     | Inr (rest', count', options') \<Rightarrow> parse_loop rest' count' options')"
  by pat_completeness auto
termination
  by (relation "measure (\<lambda>(args, count, options). length args)") (auto dest: parse_step_shorter)

text \<open>The checks after the loop, and the whole of \<open>parse_arguments\<close>.\<close>

definition check_mode :: "nat \<Rightarrow> ClientOptions \<Rightarrow> parse_failure + ClientOptions" where
  "check_mode count options =
    (if host_mode options then
       (if count = 0 then Inr (options\<lparr>opt_username := ''Host'', server_port := 8888\<rparr>)
        else if count = 1
        then Inr (options\<lparr>opt_username := server_ip options, server_ip := ''127.0.0.1'', server_port := 8888\<rparr>)
        else Inl (options, ''Host mode accepts only an optional username.''))
     else if guest_mode options then
       (if count \<noteq> 3 then Inl (options, ''Guest mode requires: --guest server-ip port username'') else Inr options)
     else if count < 4 then Inl (options, ''Server mode requires: server-ip port username user-code'')
     else Inr options)"

definition parse_arguments :: "(nat \<Rightarrow> nat) \<Rightarrow> string list \<Rightarrow> bool \<times> ClientOptions \<times> string" where
  "parse_arguments draw args =
    (case parse_loop args 0 default_options of
       Inl (options, error) \<Rightarrow> (False, options, error)
     | Inr (count, options) \<Rightarrow>
         (case check_mode count options of
            Inl (options', error) \<Rightarrow> (False, options', error)
          | Inr options' \<Rightarrow>
              (True, if guest_mode options' \<and> opt_user_code options' = []
                     then options'\<lparr>opt_user_code := make_guest_code draw\<rparr> else options', [])))"

definition make_login_message :: "ClientOptions \<Rightarrow> message" where
  "make_login_message options =
     Message (mk_fields ''login'' (opt_username options) (opt_user_code options) [] [] [] [] [] [] [] []) []"

section \<open>Decimal numbers\<close>

lemma of_digit_char: "d < 10 \<Longrightarrow> (of_char (digit_char d) :: int) = 48 + int d"
proof -
  assume "d < 10"
  then have "(of_char (digit_char d) :: nat) = 48 + d" by (simp add: digit_char_def)
  then show ?thesis by (metis of_nat_of_char of_nat_add of_nat_numeral)
qed

lemma is_digit_digit_char: "d < 10 \<Longrightarrow> is_digit (digit_char d)"
  by (simp add: is_digit_def less_eq_char_def digit_char_def)

lemma digits_value_snoc: "digits_value (ds @ [c]) = digits_value ds * 10 + (of_char c - 48)"
  by (simp add: digits_value_def)

lemma digits_value_nat_to_string: "digits_value (nat_to_string n) = int n"
proof (induction n rule: nat_to_string.induct)
  case (1 n)
  show ?case
  proof (cases "n < 10")
    case True
    then show ?thesis by (simp add: nat_to_string.simps [of n] digits_value_def of_digit_char)
  next
    case False
    have "int (n div 10) * 10 + int (n mod 10) = int n" by presburger
    with 1 [OF False] False show ?thesis
      by (simp add: nat_to_string.simps [of n] digits_value_snoc of_digit_char)
  qed
qed

lemma parse_port_to_string:
  assumes "1 \<le> p" "p \<le> 65535"
  shows "parse_port (to_string p) = Some p"
proof -
  let ?s = "nat_to_string (nat p)"
  have s: "to_string p = ?s" using assms by (simp add: to_string_def)
  have digits: "\<forall>c \<in> set ?s. is_digit c"
  proof
    fix c assume "c \<in> set ?s"
    with nat_to_string_digits [of "nat p"] obtain d where "d < 10" "c = digit_char d" by blast
    then show "is_digit c" by (simp add: is_digit_digit_char)
  qed
  have "hd ?s \<noteq> CHR ''-''" using nat_to_string_no_minus [of "nat p"] by (metis hd_in_set nat_to_string_nonempty(1))
  moreover from digits have "takeWhile is_digit ?s = ?s" by (simp add: takeWhile_eq_all_conv)
  ultimately have "from_chars_int ?s = Some (p, length ?s)"
    using assms by (simp add: from_chars_int_def digits_value_nat_to_string Let_def del: takeWhile_eq_all_conv)
  with assms show ?thesis by (simp add: parse_port_def s)
qed

lemma parse_port_range: "parse_port v = Some p \<Longrightarrow> 1 \<le> p \<and> p \<le> 65535"
  by (auto simp: parse_port_def split: if_splits option.splits)

section \<open>The option loop\<close>

definition loop_inv :: "nat \<Rightarrow> ClientOptions \<Rightarrow> bool" where
  "loop_inv n opt \<longleftrightarrow> 1 \<le> server_port opt \<and> server_port opt \<le> 65535 \<and> (host_mode opt \<longrightarrow> guest_mode opt) \<and>
     (guest_mode opt \<and> n \<le> 3 \<longrightarrow> opt_user_code opt = []) \<and> (n = 0 \<longrightarrow> server_ip opt = ''127.0.0.1'') \<and> n \<le> 4"

lemma loop_inv_start: "loop_inv 0 default_options"
  by (simp add: loop_inv_def default_options_def)

lemma loop_inv_positional:
  "loop_inv n opt \<Longrightarrow> positional n a opt = Inr opt' \<Longrightarrow> loop_inv (n + 1) opt'"
  by (auto simp: loop_inv_def positional_def dest: parse_port_range split: if_splits option.splits)

lemma loop_inv_step:
  assumes "loop_inv n opt" "parse_step a rest n opt = Inr (rest', n', opt')"
  shows "loop_inv n' opt'"
  using assms(2)
proof (cases rule: parse_step_cases)
  case pos
  with assms(1) show ?thesis using loop_inv_positional by simp
qed (use assms(1) in \<open>auto simp: loop_inv_def\<close>)

lemma loop_inv_parse_loop:
  "loop_inv n opt \<Longrightarrow> parse_loop args n opt = Inr (m, opt') \<Longrightarrow> loop_inv m opt'"
  by (induction args n opt rule: parse_loop.induct) (auto split: sum.splits dest: loop_inv_step)

section \<open>Properties\<close>

lemma guest_code_shape:
  assumes "\<And>i. draw i \<le> 31"
  shows "\<exists>code. make_guest_code draw = ''GUEST'' @ code \<and> length code = 6 \<and> set code \<subseteq> set guest_alphabet"
proof -
  have len: "length guest_alphabet = 32" by (simp add: guest_alphabet_def)
  have "guest_alphabet ! draw i \<in> set guest_alphabet" for i
  proof -
    from assms [of i] have "draw i < length guest_alphabet"
      unfolding len by simp
    then show ?thesis by (rule nth_mem)
  qed
  then show ?thesis
    by (intro exI [of _ "map (\<lambda>i. guest_alphabet ! draw i) [0..<6]"]) (auto simp: make_guest_code_def)
qed

definition plain_argument :: "string \<Rightarrow> bool" where
  "plain_argument a \<longleftrightarrow> a = [] \<or> hd a \<noteq> CHR ''-''"

lemma parse_step_plain:
  "plain_argument a \<Longrightarrow> parse_step a rest n opt =
    (case positional n a opt of Inl e \<Rightarrow> Inl (opt, e) | Inr o' \<Rightarrow> Inr (rest, n + 1, o'))"
proof -
  assume plain: "plain_argument a"
  then have "a \<noteq> CHR ''-'' # r" for r by (auto simp: plain_argument_def)
  moreover from plain have "(a \<noteq> [] \<and> hd a = CHR ''-'') = False" by (simp add: plain_argument_def)
  ultimately show ?thesis unfolding parse_step_def by (simp only: if_False)
qed

lemma to_string_plain: "0 \<le> p \<Longrightarrow> plain_argument (to_string p)"
proof -
  assume "0 \<le> p"
  have "hd (nat_to_string (nat p)) \<in> set (nat_to_string (nat p))" by (rule hd_in_set) simp
  with nat_to_string_no_minus [of "nat p"] have "hd (nat_to_string (nat p)) \<noteq> CHR ''-''" by metis
  with \<open>0 \<le> p\<close> show ?thesis by (simp add: plain_argument_def to_string_def)
qed

text \<open>
  C36. Options that \<open>parse_arguments\<close> accepts are usable: the port is a real port, host mode always
  means a guest login to 127.0.0.1:8888, and every guest login carries a freshly drawn code of six
  characters of the guest alphabet after \<open>GUEST\<close>, never the default user's code.
\<close>

theorem parse_arguments_ok:
  assumes "\<forall>i. draw i \<le> 31" and "parse_arguments draw args = (True, opt, e)"
  shows "1 \<le> server_port opt \<and> server_port opt \<le> 65535 \<and> e = [] \<and>
    (host_mode opt \<longrightarrow> guest_mode opt \<and> server_ip opt = ''127.0.0.1'' \<and> server_port opt = 8888) \<and>
    (guest_mode opt \<longrightarrow> (\<exists>code. opt_user_code opt = ''GUEST'' @ code \<and> length code = 6 \<and> set code \<subseteq> set guest_alphabet))"
proof -
  from assms(2) obtain n o1 o2 where loop: "parse_loop args 0 default_options = Inr (n, o1)"
    and mode: "check_mode n o1 = Inr o2" and e: "e = []"
    and opt: "opt = (if guest_mode o2 \<and> opt_user_code o2 = [] then o2\<lparr>opt_user_code := make_guest_code draw\<rparr> else o2)"
    unfolding parse_arguments_def by (simp split: sum.split_asm prod.split_asm)
  have inv: "loop_inv n o1" by (rule loop_inv_parse_loop [OF loop_inv_start loop])
  with mode have "1 \<le> server_port o2 \<and> server_port o2 \<le> 65535 \<and> (guest_mode o2 \<longrightarrow> opt_user_code o2 = []) \<and>
      (host_mode o2 \<longrightarrow> guest_mode o2 \<and> server_ip o2 = ''127.0.0.1'' \<and> server_port o2 = 8888)"
    unfolding check_mode_def loop_inv_def by (auto simp only: split: if_split_asm) auto
  with opt e guest_code_shape [of draw] assms(1) show ?thesis by auto
qed

theorem parse_arguments_ok_witness:
  "opt_user_code (fst (snd (parse_arguments (\<lambda>i. i) [''--host'']))) = ''GUESTABCDEF'' \<and>
   server_port (fst (snd (parse_arguments (\<lambda>i. min i 31) [''--host'']))) \<le> 65535"
proof -
  let ?r = "parse_arguments (\<lambda>i. min i 31) [''--host'']"
  have "fst ?r" by (simp add: parse_arguments_def parse_step_def check_mode_def default_options_def)
  then have "parse_arguments (\<lambda>i. min i 31) [''--host''] = (True, fst (snd ?r), snd (snd ?r))"
    by (cases ?r) simp
  from parse_arguments_ok [OF _ this] have "server_port (fst (snd ?r)) \<le> 65535" by simp
  moreover have "opt_user_code (fst (snd (parse_arguments (\<lambda>i. i) [''--host'']))) = ''GUESTABCDEF''"
    by (simp add: parse_arguments_def parse_step_def check_mode_def default_options_def make_guest_code_def
        guest_alphabet_def upt_conv_Cons)
  ultimately show ?thesis by blast
qed

text \<open>
  The server-mode command line and the login message agree: for an address, a port in range, a
  name and a code that do not look like options, the arguments written out in order are accepted
  and the login message carries exactly that name and code and no password.
\<close>

theorem arguments_to_login:
  assumes "plain_argument ip" and "1 \<le> p" and "p \<le> 65535" and "plain_argument name" and "plain_argument code"
  shows "\<exists>opt. parse_arguments draw [ip, to_string p, name, code] = (True, opt, []) \<and>
     server_ip opt = ip \<and> server_port opt = p \<and>
     make_login_message opt = Message (mk_fields ''login'' name code [] [] [] [] [] [] [] []) []"
proof -
  have "plain_argument (to_string p)" using assms(2) by (simp add: to_string_plain)
  with assms have "parse_loop [ip, to_string p, name, code] 0 default_options =
      Inr (4, default_options\<lparr>server_ip := ip, server_port := p, opt_username := name, opt_user_code := code\<rparr>)"
    by (simp add: parse_step_plain positional_def parse_port_to_string)
  then show ?thesis
    by (simp add: parse_arguments_def check_mode_def make_login_message_def default_options_def)
qed

theorem arguments_to_login_witness:
  "\<exists>opt. parse_arguments (\<lambda>i. 0) [''10.0.0.2'', to_string 8888, ''Bob'', ''BOB01''] = (True, opt, []) \<and>
     server_ip opt = ''10.0.0.2'' \<and> server_port opt = 8888 \<and>
     make_login_message opt = Message (mk_fields ''login'' ''Bob'' ''BOB01'' [] [] [] [] [] [] [] []) []"
  using arguments_to_login [of "''10.0.0.2''" 8888 "''Bob''" "''BOB01''" "\<lambda>i. 0"]
  by (simp add: plain_argument_def)

end
