(* ===== verification/Connection.thy ===== *)
theory Connection
  imports Auth Transition
begin

text \<open>
  The TLS connection of the console client, \<open>client-cpp/src/connection.cpp\<close> and
  \<open>include/connection.hpp\<close>: \<open>resolve_ipv4_endpoint\<close>, \<open>ReconnectBackoff\<close>, \<open>Session\<close> and
  \<open>ConnectionState\<close>.

  The calls into the operating system and OpenSSL are the parameters of \<open>conn_api\<close>. Pointers to
  \<open>Session\<close> objects are natural numbers; \<open>heap\<close> maps each live one to its fields and its
  \<open>shared_ptr\<close> count, and \<open>release\<close> runs the destructor when the count drops to zero.

  \<open>connect_and_login\<close> holds the mutex only in three places, so it is built from blocks
  (\<open>cl_begin\<close>, \<open>open_socket\<close>, \<open>tls_setup\<close>, \<open>tls_handshake\<close>, \<open>login_exchange\<close>, \<open>cl_commit\<close>, \<open>cl_fail\<close>):
  composed, they are the function; taken as the steps of a thread, they interleave with the
  other threads' operations in the step relation \<open>conn_step\<close>.
\<close>

section \<open>ReconnectBackoff\<close>

definition kBackoffDelays :: "nat list" where
  "kBackoffDelays = [1, 2, 4, 8, 16, 30]"

record ReconnectBackoff =
  attempt :: nat

definition next_delay :: "ReconnectBackoff \<Rightarrow> nat \<times> ReconnectBackoff" where
  "next_delay b =
    (let index = (if attempt b < length kBackoffDelays then attempt b else length kBackoffDelays - 1);
         b' = (if attempt b < length kBackoffDelays then b\<lparr>attempt := attempt b + 1\<rparr> else b)
     in (kBackoffDelays ! index, b'))"

definition backoff_reset :: "ReconnectBackoff \<Rightarrow> ReconnectBackoff" where
  "backoff_reset b = b\<lparr>attempt := 0\<rparr>"

section \<open>State\<close>

record Config =
  cfg_server_ip :: string
  cfg_server_port :: int
  cfg_username :: string
  cfg_user_code :: string
  cfg_ca_file :: string
  cfg_tls_server_name :: string

datatype LoginResult = kSuccess | kRetryableFailure | kRejected

text \<open>\<open>None\<close> is \<open>INVALID_SOCKET\<close> or \<open>nullptr\<close>.\<close>

record Session =
  socket_handle :: "nat option"
  ssl_context :: "nat option"
  ssl :: "nat option"

definition new_session :: Session where
  "new_session = \<lparr>socket_handle = None, ssl_context = None, ssl = None\<rparr>"

record 'w conn =
  conf :: Config
  session :: "nat option"
  ready :: bool
  stop_requested :: bool
  last_err :: string
  heap :: "nat \<Rightarrow> (Session \<times> nat) option"
  next_ptr :: nat
  env :: "'w mnet"

record ('w, 'addr) conn_api =
  getaddrinfo :: "'w \<Rightarrow> string \<Rightarrow> string \<Rightarrow> 'addr option \<times> 'w"
  os_socket :: "'w \<Rightarrow> nat option \<times> 'w"
  os_connect :: "'w \<Rightarrow> nat \<Rightarrow> 'addr \<Rightarrow> bool \<times> 'w"
  os_shutdown :: "'w \<Rightarrow> nat option \<Rightarrow> 'w"
  os_closesocket :: "'w \<Rightarrow> nat \<Rightarrow> 'w"
  is_ipv4_text :: "string \<Rightarrow> bool"
  ctx_new :: "'w \<Rightarrow> nat option \<times> 'w"
  ctx_require_tls12 :: "'w \<Rightarrow> nat \<Rightarrow> 'w"
  ctx_verify_peer :: "'w \<Rightarrow> nat \<Rightarrow> 'w"
  ctx_default_paths :: "'w \<Rightarrow> nat \<Rightarrow> bool \<times> 'w"
  ctx_load_ca :: "'w \<Rightarrow> nat \<Rightarrow> string \<Rightarrow> bool \<times> 'w"
  ctx_free :: "'w \<Rightarrow> nat \<Rightarrow> 'w"
  ssl_new :: "'w \<Rightarrow> nat \<Rightarrow> nat option \<times> 'w"
  ssl_set_fd :: "'w \<Rightarrow> nat \<Rightarrow> nat \<Rightarrow> bool \<times> 'w"
  ssl_set_ip :: "'w \<Rightarrow> nat \<Rightarrow> string \<Rightarrow> bool \<times> 'w"
  ssl_set_host :: "'w \<Rightarrow> nat \<Rightarrow> string \<Rightarrow> bool \<times> 'w"
  ssl_set_sni :: "'w \<Rightarrow> nat \<Rightarrow> string \<Rightarrow> 'w"
  ssl_connect :: "'w \<Rightarrow> nat \<Rightarrow> bool \<times> 'w"
  ssl_verify_ok :: "'w \<Rightarrow> nat \<Rightarrow> bool"
  ssl_shutdown :: "'w \<Rightarrow> nat \<Rightarrow> 'w"
  ssl_free :: "'w \<Rightarrow> nat \<Rightarrow> 'w"
  ssl_queue_error :: "'w \<Rightarrow> string option \<times> 'w"
  ssl_io :: "nat \<Rightarrow> 'w ssl_api"

definition the_world :: "'w conn \<Rightarrow> 'w" where
  "the_world s = world (frames (env s))"

definition set_world :: "'w \<Rightarrow> 'w conn \<Rightarrow> 'w conn" where
  "set_world w s = s\<lparr>env := (env s)\<lparr>frames := (frames (env s))\<lparr>world := w\<rparr>\<rparr>\<rparr>"

definition set_last_error :: "string \<Rightarrow> 'w conn \<Rightarrow> 'w conn" where
  "set_last_error e s = s\<lparr>last_err := e\<rparr>"

section \<open>Sessions and shared pointers\<close>

definition close_socket :: "('w, 'a) conn_api \<Rightarrow> nat option \<Rightarrow> 'w \<Rightarrow> 'w" where
  "close_socket api h w = (case h of None \<Rightarrow> w | Some k \<Rightarrow> os_closesocket api (os_shutdown api w (Some k)) k)"

definition session_dtor :: "('w, 'a) conn_api \<Rightarrow> Session \<Rightarrow> 'w \<Rightarrow> 'w" where
  "session_dtor api x w =
    (let w1 = (case ssl x of None \<Rightarrow> w | Some h \<Rightarrow> ssl_free api (ssl_shutdown api w h) h);
         w2 = (case ssl_context x of None \<Rightarrow> w1 | Some c \<Rightarrow> ctx_free api w1 c)
     in close_socket api (socket_handle x) w2)"

definition retain :: "nat \<Rightarrow> 'w conn \<Rightarrow> 'w conn" where
  "retain p s = (case heap s p of None \<Rightarrow> s | Some (x, n) \<Rightarrow> s\<lparr>heap := (heap s)(p \<mapsto> (x, n + 1))\<rparr>)"

definition release :: "('w, 'a) conn_api \<Rightarrow> nat \<Rightarrow> 'w conn \<Rightarrow> 'w conn" where
  "release api p s =
    (case heap s p of None \<Rightarrow> s
     | Some (x, n) \<Rightarrow>
         if n \<le> 1 then set_world (session_dtor api x (the_world s)) (s\<lparr>heap := (heap s)(p := None)\<rparr>)
         else s\<lparr>heap := (heap s)(p \<mapsto> (x, n - 1))\<rparr>)"

definition release_opt :: "('w, 'a) conn_api \<Rightarrow> nat option \<Rightarrow> 'w conn \<Rightarrow> 'w conn" where
  "release_opt api p s = (case p of None \<Rightarrow> s | Some q \<Rightarrow> release api q s)"

definition the_session :: "nat \<Rightarrow> 'w conn \<Rightarrow> Session" where
  "the_session p s = (case heap s p of None \<Rightarrow> new_session | Some (x, _) \<Rightarrow> x)"

text \<open>A write through the candidate pointer.\<close>

definition set_session :: "nat \<Rightarrow> (Session \<Rightarrow> Session) \<Rightarrow> 'w conn \<Rightarrow> 'w conn" where
  "set_session p f s = (case heap s p of None \<Rightarrow> s | Some (x, n) \<Rightarrow> s\<lparr>heap := (heap s)(p \<mapsto> (f x, n))\<rparr>)"

section \<open>Short operations\<close>

definition shutdown_session :: "('w, 'a) conn_api \<Rightarrow> nat \<Rightarrow> 'w conn \<Rightarrow> 'w conn" where
  "shutdown_session api p s = set_world (os_shutdown api (the_world s) (socket_handle (the_session p s))) s"

definition request_disconnect :: "('w, 'a) conn_api \<Rightarrow> 'w conn \<Rightarrow> 'w conn" where
  "request_disconnect api s = (case session s of None \<Rightarrow> s | Some p \<Rightarrow> shutdown_session api p s)"

definition request_stop :: "('w, 'a) conn_api \<Rightarrow> 'w conn \<Rightarrow> 'w conn" where
  "request_stop api s =
    (let s1 = s\<lparr>stop_requested := True\<rparr>
     in case session s1 of None \<Rightarrow> s1 | Some p \<Rightarrow> shutdown_session api p s1)"

definition close_current :: "('w, 'a) conn_api \<Rightarrow> 'w conn \<Rightarrow> 'w conn" where
  "close_current api s =
    (let old_session = session s;
         s1 = s\<lparr>session := None, ready := False\<rparr>
     in case old_session of None \<Rightarrow> s1 | Some p \<Rightarrow> release api p (shutdown_session api p s1))"

definition conn_dtor :: "('w, 'a) conn_api \<Rightarrow> 'w conn \<Rightarrow> 'w conn" where
  "conn_dtor api s = close_current api (request_stop api s)"

definition is_ready :: "'w conn \<Rightarrow> bool" where
  "is_ready s \<longleftrightarrow> ready s \<and> \<not> stop_requested s \<and> session s \<noteq> None"

definition conn_last_error :: "'w conn \<Rightarrow> string" where
  "conn_last_error s = last_err s"

text \<open>\<open>wait_for\<close> returns its predicate's value when the wait ends; \<open>s\<close> is the state at that moment.\<close>

definition wait_before_retry :: "'w conn \<Rightarrow> bool \<Rightarrow> bool \<Rightarrow> bool" where
  "wait_before_retry s running reconnect_enabled \<longleftrightarrow>
     \<not> (stop_requested s \<or> \<not> running \<or> \<not> reconnect_enabled)"

section \<open>The blocks of connect\_and\_login\<close>

text \<open>An error text ends the attempt: \<open>last_error_\<close> is set, the session closed, \<open>false\<close> returned.\<close>

definition openssl_error :: "('w, 'a) conn_api \<Rightarrow> string \<Rightarrow> 'w conn \<Rightarrow> string \<times> 'w conn" where
  "openssl_error api operation s =
    (case ssl_queue_error api (the_world s) of
       (None, w) \<Rightarrow> (operation, set_world w s)
     | (Some buffer, w) \<Rightarrow> (operation @ '': '' @ buffer, set_world w s))"

definition fail_ssl :: "('w, 'a) conn_api \<Rightarrow> string \<Rightarrow> 'w conn \<Rightarrow> (string + 'r) \<times> 'w conn" where
  "fail_ssl api operation s = (case openssl_error api operation s of (e, s1) \<Rightarrow> (Inl e, s1))"

definition resolve_ipv4_endpoint ::
    "('w, 'addr) conn_api \<Rightarrow> string \<Rightarrow> int \<Rightarrow> 'w \<Rightarrow> (string + 'addr) \<times> 'w" where
  "resolve_ipv4_endpoint api host port w =
    (if host = [] \<or> port < 1 \<or> 65535 < port then (Inl ''invalid server endpoint'', w)
     else (case getaddrinfo api w host (to_string port) of
             (None, w1) \<Rightarrow> (Inl ''could not resolve server host'', w1)
           | (Some address, w1) \<Rightarrow> (Inr address, w1)))"

definition set_verify_host :: "('w, 'a) conn_api \<Rightarrow> 'w \<Rightarrow> nat \<Rightarrow> string \<Rightarrow> bool \<times> 'w" where
  "set_verify_host api w h host =
    (if is_ipv4_text api host then ssl_set_ip api w h host else ssl_set_host api w h host)"

text \<open>\<open>make_shared<Session>\<close> and the first critical section; \<open>None\<close> when stop was requested.\<close>

definition cl_begin :: "('w, 'a) conn_api \<Rightarrow> 'w conn \<Rightarrow> nat option \<times> 'w conn" where
  "cl_begin api s =
    (let candidate = next_ptr s;
         s1 = s\<lparr>heap := (heap s)(candidate \<mapsto> (new_session, 1)), next_ptr := candidate + 1\<rparr>
     in if stop_requested s1 then (None, release api candidate s1)
        else let old = session s1;
                 s2 = retain candidate (s1\<lparr>session := Some candidate, ready := False\<rparr>)
             in (Some candidate, release_opt api old s2))"

definition open_socket :: "('w, 'a) conn_api \<Rightarrow> nat \<Rightarrow> 'w conn \<Rightarrow> (string + unit) \<times> 'w conn" where
  "open_socket api p s =
    (case resolve_ipv4_endpoint api (cfg_server_ip (conf s)) (cfg_server_port (conf s)) (the_world s) of
       (Inl e, w) \<Rightarrow> (Inl e, set_world w s)
     | (Inr address, w) \<Rightarrow>
         (case os_socket api w of (h, w1) \<Rightarrow>
            let s1 = set_session p (\<lambda>x. x\<lparr>socket_handle := h\<rparr>) (set_world w1 s)
            in case h of
                 None \<Rightarrow> (Inl ''socket failed'', s1)
               | Some k \<Rightarrow>
                   (case os_connect api w1 k address of (connected, w2) \<Rightarrow>
                      if connected then (Inr (), set_world w2 s1)
                      else (Inl ''TCP connect failed'', set_world w2 s1))))"

definition verify_host_of :: "Config \<Rightarrow> string" where
  "verify_host_of c = (if cfg_tls_server_name c = [] then cfg_server_ip c else cfg_tls_server_name c)"

definition tls_context :: "('w, 'a) conn_api \<Rightarrow> nat \<Rightarrow> 'w conn \<Rightarrow> (string + nat) \<times> 'w conn" where
  "tls_context api p s =
    (case ctx_new api (the_world s) of (ctx, w) \<Rightarrow>
       let s1 = set_session p (\<lambda>x. x\<lparr>ssl_context := ctx\<rparr>) (set_world w s)
       in case ctx of
            None \<Rightarrow> fail_ssl api ''SSL_CTX_new failed'' s1
          | Some k \<Rightarrow>
              let w1 = ctx_verify_peer api (ctx_require_tls12 api w k) k;
                  ca = cfg_ca_file (conf s);
                  (ca_loaded, w2) = (if ca = [] then ctx_default_paths api w1 k else ctx_load_ca api w1 k ca)
              in if \<not> ca_loaded
                 then fail_ssl api (if ca = [] then ''no trusted system CA paths'' else ''failed to load --ca-file'')
                        (set_world w2 s1)
                 else (Inr k, set_world w2 s1))"

definition tls_setup :: "('w, 'a) conn_api \<Rightarrow> nat \<Rightarrow> 'w conn \<Rightarrow> (string + nat) \<times> 'w conn" where
  "tls_setup api p s =
    (case tls_context api p s of
       (Inl e, s1) \<Rightarrow> (Inl e, s1)
     | (Inr ctx, s1) \<Rightarrow>
         let verifyHost = verify_host_of (conf s1)
         in case ssl_new api (the_world s1) ctx of (h, w) \<Rightarrow>
            let s2 = set_session p (\<lambda>x. x\<lparr>ssl := h\<rparr>) (set_world w s1)
            in case (h, socket_handle (the_session p s2)) of
                 (Some k, Some fd) \<Rightarrow>
                   (case ssl_set_fd api w k fd of (fd_ok, w1) \<Rightarrow>
                      if \<not> fd_ok then fail_ssl api ''TLS setup failed'' (set_world w1 s2)
                      else (case set_verify_host api w1 k verifyHost of (host_ok, w2) \<Rightarrow>
                        if \<not> host_ok then fail_ssl api ''TLS setup failed'' (set_world w2 s2)
                        else (Inr k, set_world (if is_ipv4_text api verifyHost then w2
                                                else ssl_set_sni api w2 k verifyHost) s2)))
               | _ \<Rightarrow> fail_ssl api ''TLS setup failed'' s2)"

definition tls_handshake :: "('w, 'a) conn_api \<Rightarrow> nat \<Rightarrow> 'w conn \<Rightarrow> (string + unit) \<times> 'w conn" where
  "tls_handshake api h s =
    (case ssl_connect api (the_world s) h of (connected, w) \<Rightarrow>
       if \<not> connected then fail_ssl api ''SSL_connect failed'' (set_world w s)
       else if \<not> ssl_verify_ok api w h then (Inl ''TLS certificate verification failed'', set_world w s)
       else (Inr (), set_world w s))"

text \<open>The loop over \<open>login_pending\<close> replies.\<close>

partial_function (option) await_login ::
    "'w ssl_api \<Rightarrow> json_codec \<Rightarrow> 'w mnet \<Rightarrow> (bool \<times> message \<times> 'w mnet) option" where
  "await_login io c m =
    (case ssl_receive_message io c m of (ok, response, m1) \<Rightarrow>
       if \<not> ok then Some (False, response, m1)
       else if mtype (mfields response) = ''login_pending'' then await_login io c m1
       else Some (True, response, m1))"

definition login_options :: "Config \<Rightarrow> ClientOptions" where
  "login_options c = default_options\<lparr>server_ip := cfg_server_ip c, server_port := cfg_server_port c,
     opt_username := cfg_username c, opt_user_code := cfg_user_code c, ca_file := cfg_ca_file c\<rparr>"

text \<open>The login exchange on the TLS handle \<open>h\<close>: \<open>Inl\<close> is an exception escaping from
  \<open>serialize(...).dump()\<close>; otherwise an error text or the server's answer.\<close>

definition login_exchange ::
    "('w, 'a) conn_api \<Rightarrow> json_codec \<Rightarrow> nat \<Rightarrow> 'w conn \<Rightarrow> (string + ((string + unit) \<times> message \<times> 'w conn)) option" where
  "login_exchange api c h s =
    (case ssl_send_message (ssl_io api h) c (env s) (make_login_message (login_options (conf s))) of
       Inl what \<Rightarrow> Some (Inl what)
     | Inr (False, m1) \<Rightarrow>
         (case fail_ssl api ''TLS login exchange failed'' (s\<lparr>env := m1\<rparr>) of (r, s1) \<Rightarrow> Some (Inr (r, empty_message, s1)))
     | Inr (True, m1) \<Rightarrow>
         (case await_login (ssl_io api h) c m1 of
            None \<Rightarrow> None
          | Some (False, response, m2) \<Rightarrow>
              (case fail_ssl api ''TLS login exchange failed'' (s\<lparr>env := m2\<rparr>) of (r, s1) \<Rightarrow> Some (Inr (r, response, s1)))
          | Some (True, response, m2) \<Rightarrow> Some (Inr (Inr (), response, s\<lparr>env := m2\<rparr>))))"

text \<open>Every error path: \<open>last_error_ = ...; close_current(); return false\<close>, the local pointer going
  out of scope; and the last critical section.\<close>

definition cl_fail :: "('w, 'a) conn_api \<Rightarrow> nat \<Rightarrow> string \<Rightarrow> 'w conn \<Rightarrow> 'w conn" where
  "cl_fail api p e s = release api p (close_current api (set_last_error e s))"

definition cl_commit :: "('w, 'a) conn_api \<Rightarrow> nat \<Rightarrow> 'w conn \<Rightarrow> bool \<times> 'w conn" where
  "cl_commit api p s =
    (if stop_requested s \<or> session s \<noteq> Some p then (False, release api p (s\<lparr>ready := False\<rparr>))
     else (True, release api p (s\<lparr>ready := True, last_err := []\<rparr>)))"

definition login_refused :: "message \<Rightarrow> string" where
  "login_refused response =
    (if content (mfields response) = [] then ''Login rejected'' else content (mfields response))"

type_synonym 'w login_outcome = "string + (bool \<times> message \<times> LoginResult)"

text \<open>\<open>connect_and_login\<close> from the moment the socket is connected, and the whole function.\<close>

definition after_open ::
    "('w, 'a) conn_api \<Rightarrow> json_codec \<Rightarrow> nat \<Rightarrow> 'w conn \<Rightarrow> ('w login_outcome \<times> 'w conn) option" where
  "after_open api c p s2 =
    (let failed = (\<lambda>p e s m. Some (Inr (False, m, kRetryableFailure), cl_fail api p e s)) in
     case tls_setup api p s2 of
       (Inl e, s3) \<Rightarrow> failed p e s3 empty_message
     | (Inr h, s3) \<Rightarrow>
     (case tls_handshake api h s3 of
       (Inl e, s4) \<Rightarrow> failed p e s4 empty_message
     | (Inr _, s4) \<Rightarrow>
     (case login_exchange api c h s4 of
       None \<Rightarrow> None
     | Some (Inl what) \<Rightarrow> Some (Inl what, release api p s4)
     | Some (Inr (Inl e, response, s5)) \<Rightarrow> failed p e s5 response
     | Some (Inr (Inr _, response, s5)) \<Rightarrow>
         if mtype (mfields response) \<noteq> ''login_ok''
         then Some (Inr (False, response, kRejected), cl_fail api p (login_refused response) s5)
         else (case cl_commit api p s5 of
                 (False, s6) \<Rightarrow> Some (Inr (False, response, kRetryableFailure), s6)
               | (True, s6) \<Rightarrow> Some (Inr (True, response, kSuccess), s6)))))"

definition connect_and_login ::
    "('w, 'a) conn_api \<Rightarrow> json_codec \<Rightarrow> 'w conn \<Rightarrow> ('w login_outcome \<times> 'w conn) option" where
  "connect_and_login api c s =
    (case cl_begin api s of
       (None, s1) \<Rightarrow> Some (Inr (False, empty_message, kRetryableFailure), s1)
     | (Some p, s1) \<Rightarrow>
         (case open_socket api p s1 of
            (Inl e, s2) \<Rightarrow> Some (Inr (False, empty_message, kRetryableFailure), cl_fail api p e s2)
          | (Inr _, s2) \<Rightarrow> after_open api c p s2))"

section \<open>send and receive\<close>

text \<open>\<open>send\<close> runs entirely under the mutex; the pointer it dereferences is \<open>session_->ssl\<close>, and
  \<open>None\<close> stands for dereferencing a null or dangling one.\<close>

definition session_ssl :: "nat option \<Rightarrow> 'w conn \<Rightarrow> nat option" where
  "session_ssl p s = (case p of None \<Rightarrow> None | Some q \<Rightarrow> (case heap s q of None \<Rightarrow> None | Some (x, _) \<Rightarrow> ssl x))"

definition conn_send :: "('w, 'a) conn_api \<Rightarrow> json_codec \<Rightarrow> message \<Rightarrow> 'w conn \<Rightarrow> (string + bool \<times> 'w conn) option" where
  "conn_send api c msg s =
    (if \<not> ready s \<or> stop_requested s \<or> session s = None
     then Some (Inr (False, set_last_error ''connection is not ready'' s))
     else case session_ssl (session s) s of
            None \<Rightarrow> None
          | Some h \<Rightarrow>
              (case ssl_send_message (ssl_io api h) c (env s) msg of
                 Inl what \<Rightarrow> Some (Inl what)
               | Inr (False, m1) \<Rightarrow> Some (Inr (False, set_last_error (m_last_error m1) (s\<lparr>env := m1\<rparr>)))
               | Inr (True, m1) \<Rightarrow> Some (Inr (True, s\<lparr>env := m1\<rparr>))))"

text \<open>\<open>receive\<close> copies the pointer under the mutex (\<open>receive_begin\<close>) and reads without it
  (\<open>receive_end\<close>).\<close>

definition receive_begin :: "'w conn \<Rightarrow> nat option option \<times> 'w conn" where
  "receive_begin s =
    (if \<not> ready s \<or> stop_requested s then (None, s)
     else (Some (session s), case session s of None \<Rightarrow> s | Some p \<Rightarrow> retain p s))"

definition receive_end ::
    "('w, 'a) conn_api \<Rightarrow> json_codec \<Rightarrow> nat option \<Rightarrow> 'w conn \<Rightarrow> (bool \<times> message \<times> 'w conn) option" where
  "receive_end api c sp s =
    (case sp of
       None \<Rightarrow> Some (False, empty_message, set_last_error (m_last_error (env s)) s)
     | Some p \<Rightarrow>
         (case session_ssl (Some p) s of
            None \<Rightarrow> None
          | Some h \<Rightarrow>
              (case ssl_receive_message (ssl_io api h) c (env s) of
                 (True, m, e1) \<Rightarrow> Some (True, m, release api p (s\<lparr>env := e1\<rparr>))
               | (False, m, e1) \<Rightarrow>
                   Some (False, m, release api p (set_last_error (m_last_error e1) (s\<lparr>env := e1\<rparr>))))))"

definition conn_receive ::
    "('w, 'a) conn_api \<Rightarrow> json_codec \<Rightarrow> message \<Rightarrow> 'w conn \<Rightarrow> (bool \<times> message \<times> 'w conn) option" where
  "conn_receive api c msg s =
    (case receive_begin s of
       (None, s1) \<Rightarrow> Some (False, msg, s1)
     | (Some sp, s1) \<Rightarrow>
         (case receive_end api c sp s1 of None \<Rightarrow> None
          | Some (ok, m, s2) \<Rightarrow> Some (ok, if sp = None then msg else m, s2)))"

section \<open>Threads\<close>

text \<open>
  Where a connecting thread is in \<open>connect_and_login\<close>, with its pointer to the candidate (and the
  candidate's TLS handle once it exists), and where a receiving thread is in \<open>receive\<close>.
\<close>

datatype connecting =
    CIdle
  | COpen nat
  | CSetup nat
  | CHandshake nat nat
  | CLogin nat nat
  | CDecide nat message
  | CFail nat string

datatype receiving = RIdle | RHold "nat option"

type_synonym 'w conn_threads = "connecting \<times> receiving \<times> 'w conn"

inductive conn_step :: "('w, 'a) conn_api \<Rightarrow> json_codec \<Rightarrow> 'w conn_threads \<Rightarrow> 'w conn_threads \<Rightarrow> bool"
  for api :: "('w, 'a) conn_api" and c :: json_codec where
  begin_ok: "cl_begin api s = (Some p, s') \<Longrightarrow> conn_step api c (CIdle, r, s) (COpen p, r, s')"
| begin_stopped: "cl_begin api s = (None, s') \<Longrightarrow> conn_step api c (CIdle, r, s) (CIdle, r, s')"
| open_ok: "open_socket api p s = (Inr u, s') \<Longrightarrow> conn_step api c (COpen p, r, s) (CSetup p, r, s')"
| open_fail: "open_socket api p s = (Inl e, s') \<Longrightarrow> conn_step api c (COpen p, r, s) (CFail p e, r, s')"
| setup_ok: "tls_setup api p s = (Inr h, s') \<Longrightarrow> conn_step api c (CSetup p, r, s) (CHandshake p h, r, s')"
| setup_fail: "tls_setup api p s = (Inl e, s') \<Longrightarrow> conn_step api c (CSetup p, r, s) (CFail p e, r, s')"
| handshake_ok: "tls_handshake api h s = (Inr u, s') \<Longrightarrow> conn_step api c (CHandshake p h, r, s) (CLogin p h, r, s')"
| handshake_fail: "tls_handshake api h s = (Inl e, s') \<Longrightarrow> conn_step api c (CHandshake p h, r, s) (CFail p e, r, s')"
| login_throw: "login_exchange api c h s = Some (Inl what) \<Longrightarrow>
    conn_step api c (CLogin p h, r, s) (CIdle, r, release api p s)"
| login_fail: "login_exchange api c h s = Some (Inr (Inl e, m, s')) \<Longrightarrow>
    conn_step api c (CLogin p h, r, s) (CFail p e, r, s')"
| login_answer: "login_exchange api c h s = Some (Inr (Inr u, m, s')) \<Longrightarrow>
    conn_step api c (CLogin p h, r, s) (CDecide p m, r, s')"
| reject: "mtype (mfields m) \<noteq> ''login_ok'' \<Longrightarrow>
    conn_step api c (CDecide p m, r, s) (CFail p (login_refused m), r, s)"
| commit: "mtype (mfields m) = ''login_ok'' \<Longrightarrow> cl_commit api p s = (b, s') \<Longrightarrow>
    conn_step api c (CDecide p m, r, s) (CIdle, r, s')"
| failed: "conn_step api c (CFail p e, r, s) (CIdle, r, cl_fail api p e s)"
| recv_begin: "receive_begin s = (Some sp, s') \<Longrightarrow> conn_step api c (t, RIdle, s) (t, RHold sp, s')"
| recv_end: "receive_end api c sp s = Some (b, m, s') \<Longrightarrow> conn_step api c (t, RHold sp, s) (t, RIdle, s')"
| sent: "conn_send api c m s = Some (Inr (b, s')) \<Longrightarrow> conn_step api c (t, r, s) (t, r, s')"
| disconnect: "conn_step api c (t, r, s) (t, r, request_disconnect api s)"
| stop: "conn_step api c (t, r, s) (t, r, request_stop api s)"
| close: "conn_step api c (t, r, s) (t, r, close_current api s)"

section \<open>What each operation leaves alone\<close>

lemma world_frame [simp]:
  "heap (set_world w s) = heap s" "session (set_world w s) = session s" "ready (set_world w s) = ready s"
  "stop_requested (set_world w s) = stop_requested s" "next_ptr (set_world w s) = next_ptr s"
  "conf (set_world w s) = conf s" "last_err (set_world w s) = last_err s"
  by (simp_all add: set_world_def)

lemma error_frame [simp]:
  "heap (set_last_error e s) = heap s" "session (set_last_error e s) = session s"
  "ready (set_last_error e s) = ready s" "stop_requested (set_last_error e s) = stop_requested s"
  "next_ptr (set_last_error e s) = next_ptr s" "conf (set_last_error e s) = conf s"
  by (simp_all add: set_last_error_def)

text \<open>The shared part of the state that the invariant is about.\<close>

definition same_shared :: "'w conn \<Rightarrow> 'w conn \<Rightarrow> bool" where
  "same_shared s t \<longleftrightarrow> session t = session s \<and> ready t = ready s \<and> stop_requested t = stop_requested s \<and>
     next_ptr t = next_ptr s"

lemma same_shared_refl [simp]: "same_shared s s"
  by (simp add: same_shared_def)

lemma release_shared: "same_shared s (release api p s)"
  by (simp add: same_shared_def release_def split: option.split)

lemma retain_shared: "same_shared s (retain p s)"
  by (simp add: same_shared_def retain_def split: option.split)

lemma shutdown_frame [simp]:
  "heap (shutdown_session api p s) = heap s" "session (shutdown_session api p s) = session s"
  "ready (shutdown_session api p s) = ready s" "stop_requested (shutdown_session api p s) = stop_requested s"
  "next_ptr (shutdown_session api p s) = next_ptr s"
  by (simp_all add: shutdown_session_def)

section \<open>Reference counts\<close>

definition counts :: "'w conn \<Rightarrow> nat \<Rightarrow> nat" where
  "counts s p = (case heap s p of None \<Rightarrow> 0 | Some (x, n) \<Rightarrow> n)"

definition ssl_of :: "'w conn \<Rightarrow> nat \<Rightarrow> nat option" where
  "ssl_of s p = session_ssl (Some p) s"

definition heap_ok :: "'w conn \<Rightarrow> bool" where
  "heap_ok s \<longleftrightarrow> (\<forall>p. heap s p \<noteq> None \<longleftrightarrow> 0 < counts s p)"

lemma heap_okD: "heap_ok s \<Longrightarrow> heap s p = None \<longleftrightarrow> counts s p = 0"
  unfolding heap_ok_def by (metis not_gr0)

lemma counts_cong: "heap t = heap s \<Longrightarrow> counts t = counts s"
  "heap t = heap s \<Longrightarrow> ssl_of t = ssl_of s" "heap t = heap s \<Longrightarrow> heap_ok t = heap_ok s"
  by (simp_all add: counts_def ssl_of_def session_ssl_def heap_ok_def fun_eq_iff)

text \<open>What a block of \<open>connect_and_login\<close> may do to the heap: change the fields of its own candidate.\<close>

definition local_update :: "nat \<Rightarrow> 'w conn \<Rightarrow> 'w conn \<Rightarrow> bool" where
  "local_update p s t \<longleftrightarrow> same_shared s t \<and> counts t = counts s \<and> (\<forall>q. heap t q = None \<longleftrightarrow> heap s q = None) \<and>
     (\<forall>q. q \<noteq> p \<longrightarrow> ssl_of t q = ssl_of s q)"

lemma local_update_refl [simp]: "local_update p s s"
  by (simp add: local_update_def)

lemma local_update_trans: "local_update p s t \<Longrightarrow> local_update p t u \<Longrightarrow> local_update p s u"
  by (simp add: local_update_def same_shared_def)

lemma local_update_heap: "heap t = heap u \<Longrightarrow> same_shared u t \<Longrightarrow> local_update p s t = local_update p s u"
  by (simp add: local_update_def counts_cong [of t u] same_shared_def)

lemma local_update_world [simp]: "local_update p s (set_world w t) = local_update p s t"
  by (rule local_update_heap) (simp_all add: same_shared_def)

lemma local_update_env [simp]: "local_update p s (t\<lparr>env := m\<rparr>) = local_update p s t"
  by (rule local_update_heap) (simp_all add: same_shared_def)

lemma set_session_frame [simp]:
  "same_shared s (set_session p f t) = same_shared s t" "counts (set_session p f t) = counts t"
  "heap (set_session p f t) q = None \<longleftrightarrow> heap t q = None"
  "q \<noteq> p \<Longrightarrow> ssl_of (set_session p f t) q = ssl_of t q" "conf (set_session p f t) = conf t"
  by (auto simp: set_session_def same_shared_def counts_def ssl_of_def session_ssl_def fun_eq_iff
      split: option.split)

lemma local_update_set_session [simp]: "local_update p s (set_session p f t) = local_update p s t"
  by (simp add: local_update_def)

lemma fail_ssl_Inl [simp]: "fail_ssl api e s \<noteq> (Inr r, t)"
  by (simp add: fail_ssl_def split: prod.split)

lemma fail_ssl_local: "fail_ssl api e s = (r, t) \<Longrightarrow> local_update p u t = local_update p u s"
  by (auto simp: fail_ssl_def openssl_error_def split: prod.splits option.splits)

lemma open_socket_local: "open_socket api p s = (r, t) \<Longrightarrow> local_update p s t"
  by (auto simp: open_socket_def Let_def split: prod.splits sum.splits option.splits if_splits)

lemma tls_context_local: "tls_context api p s = (r, t) \<Longrightarrow> local_update p s t"
  by (auto simp: tls_context_def Let_def fail_ssl_local split: prod.splits option.splits if_splits)

lemma tls_setup_local: "tls_setup api p s = (r, t) \<Longrightarrow> local_update p s t"
  by (auto simp: tls_setup_def Let_def fail_ssl_local dest: tls_context_local
      split: prod.splits option.splits if_splits sum.splits)

lemma ssl_of_set_ssl: "heap s p \<noteq> None \<Longrightarrow> ssl_of (set_session p (\<lambda>x. x\<lparr>ssl := h\<rparr>) s) p = h"
  by (auto simp: ssl_of_def session_ssl_def set_session_def)

lemma ssl_of_world [simp]: "ssl_of (set_world w s) = ssl_of s"
  by (rule counts_cong) simp

lemma tls_setup_ssl: 
  assumes "tls_setup api p s = (Inr h, t)" "heap s p \<noteq> None"
  shows "ssl_of t p = Some h"
proof -
  from assms(1) obtain ctx s1 w w' where ctx: "tls_context api p s = (Inr ctx, s1)"
    and t: "t = set_world w (set_session p (\<lambda>x. x\<lparr>ssl := Some h\<rparr>) (set_world w' s1))"
    by (auto simp: tls_setup_def Let_def split: prod.splits option.splits if_splits sum.splits)
  have "heap (set_world w' s1) p \<noteq> None"
    using tls_context_local [OF ctx] assms(2) by (simp add: local_update_def)
  then show ?thesis unfolding t ssl_of_world by (rule ssl_of_set_ssl)
qed

text \<open>The handshake and the login exchange touch the outside world only.\<close>

definition same_heap :: "'w conn \<Rightarrow> 'w conn \<Rightarrow> bool" where
  "same_heap s t \<longleftrightarrow> same_shared s t \<and> heap t = heap s"

lemma fail_ssl_heap: "fail_ssl api e s = (r, t) \<Longrightarrow> same_heap u t = same_heap u s"
  by (auto simp: fail_ssl_def openssl_error_def same_heap_def same_shared_def split: prod.splits option.splits)

lemma tls_handshake_heap: "tls_handshake api h s = (r, t) \<Longrightarrow> same_heap s t"
  by (auto simp: tls_handshake_def fail_ssl_heap split: prod.splits if_splits)
    (simp_all add: same_heap_def same_shared_def)

lemma login_exchange_heap: "login_exchange api c h s = Some (Inr (r, m, t)) \<Longrightarrow> same_heap s t"
  by (auto simp: login_exchange_def fail_ssl_heap split: prod.splits if_splits sum.splits bool.splits option.splits)
    (simp_all add: same_heap_def same_shared_def)

lemma conn_send_heap: "conn_send api c m s = Some (Inr (b, t)) \<Longrightarrow> same_heap s t"
  by (auto simp: conn_send_def same_heap_def same_shared_def
      split: prod.splits if_splits sum.splits bool.splits option.splits)

section \<open>Retaining and releasing\<close>

lemma counts_retain: "heap s p \<noteq> None \<Longrightarrow> counts (retain p s) q = counts s q + of_bool (q = p)"
  by (auto simp: counts_def retain_def)

lemma ssl_of_retain [simp]: "ssl_of (retain p s) = ssl_of s"
  by (auto simp: fun_eq_iff ssl_of_def session_ssl_def retain_def split: option.split)

lemma heap_retain: "heap (retain p s) q = None \<longleftrightarrow> heap s q = None"
  by (auto simp: retain_def split: option.split)

lemma heap_ok_retain: "heap_ok s \<Longrightarrow> heap_ok (retain p s)"
  by (auto simp: heap_ok_def counts_def retain_def split: option.splits if_splits)

lemma counts_release: "heap_ok s \<Longrightarrow> counts (release api p s) q = counts s q - of_bool (q = p)"
  by (auto simp: counts_def release_def split: option.split)

lemma heap_ok_release: "heap_ok s \<Longrightarrow> heap_ok (release api p s)"
  by (auto simp: heap_ok_def counts_def release_def split: option.splits if_splits)

lemma heap_release: "heap s q = None \<Longrightarrow> heap (release api p s) q = None"
  by (auto simp: release_def split: option.split)

lemma ssl_of_release: "0 < counts (release api p s) q \<Longrightarrow> ssl_of (release api p s) q = ssl_of s q"
  by (auto simp: counts_def ssl_of_def session_ssl_def release_def split: option.splits if_splits)

section \<open>The invariant of the threads\<close>

fun candidate_ptr :: "connecting \<Rightarrow> nat option" where
  "candidate_ptr CIdle = None"
| "candidate_ptr (COpen p) = Some p"
| "candidate_ptr (CSetup p) = Some p"
| "candidate_ptr (CHandshake p h) = Some p"
| "candidate_ptr (CLogin p h) = Some p"
| "candidate_ptr (CDecide p m) = Some p"
| "candidate_ptr (CFail p e) = Some p"

text \<open>The candidate of a thread that has passed the TLS setup.\<close>

fun secured_ptr :: "connecting \<Rightarrow> nat option" where
  "secured_ptr (CHandshake p h) = Some p"
| "secured_ptr (CLogin p h) = Some p"
| "secured_ptr (CDecide p m) = Some p"
| "secured_ptr _ = None"

fun held_ptr :: "receiving \<Rightarrow> nat option" where
  "held_ptr RIdle = None"
| "held_ptr (RHold sp) = sp"

text \<open>The number of \<open>shared_ptr\<close>s to a session: the member, the connecting and the receiving thread's.\<close>

definition owners :: "'w conn_threads \<Rightarrow> nat \<Rightarrow> nat" where
  "owners st p = (case st of (t, r, s) \<Rightarrow>
     of_bool (session s = Some p) + of_bool (candidate_ptr t = Some p) + of_bool (held_ptr r = Some p))"

definition counted :: "'w conn_threads \<Rightarrow> bool" where
  "counted st \<longleftrightarrow> (case st of (t, r, s) \<Rightarrow>
     heap_ok s \<and> (\<forall>p. counts s p = owners st p) \<and> (\<forall>p. next_ptr s \<le> p \<longrightarrow> heap s p = None))"

definition separated :: "'w conn_threads \<Rightarrow> bool" where
  "separated st \<longleftrightarrow> (case st of (t, r, s) \<Rightarrow>
     (ready s \<longrightarrow> session s \<noteq> None) \<and> r \<noteq> RHold None \<and>
     (\<forall>p. candidate_ptr t = Some p \<longrightarrow> held_ptr r \<noteq> Some p \<and> \<not> (ready s \<and> session s = Some p)))"

definition secured :: "'w conn_threads \<Rightarrow> bool" where
  "secured st \<longleftrightarrow> (case st of (t, r, s) \<Rightarrow>
     \<forall>p. (ready s \<and> session s = Some p) \<or> secured_ptr t = Some p \<or> held_ptr r = Some p \<longrightarrow> ssl_of s p \<noteq> None)"

definition conn_inv :: "'w conn_threads \<Rightarrow> bool" where
  "conn_inv st \<longleftrightarrow> counted st \<and> separated st \<and> secured st"

lemmas inv_parts = conn_inv_def counted_def separated_def secured_def owners_def

lemma conn_invD:
  assumes "conn_inv (t, r, s)"
  shows "heap_ok s" "counts s p = of_bool (session s = Some p) + of_bool (candidate_ptr t = Some p) + of_bool (held_ptr r = Some p)"
    "next_ptr s \<le> p \<Longrightarrow> heap s p = None" "ready s \<Longrightarrow> session s \<noteq> None" "r \<noteq> RHold None"
    "candidate_ptr t = Some p \<Longrightarrow> held_ptr r \<noteq> Some p"
    "candidate_ptr t = Some p \<Longrightarrow> session s = Some p \<Longrightarrow> \<not> ready s"
    "ready s \<Longrightarrow> session s = Some p \<Longrightarrow> ssl_of s p \<noteq> None" "secured_ptr t = Some p \<Longrightarrow> ssl_of s p \<noteq> None"
    "held_ptr r = Some p \<Longrightarrow> ssl_of s p \<noteq> None"
  using assms by (simp_all add: inv_parts)

lemma conn_invI:
  assumes "heap_ok s"
    and "\<And>p. counts s p = of_bool (session s = Some p) + of_bool (candidate_ptr t = Some p) + of_bool (held_ptr r = Some p)"
    and "\<And>p. next_ptr s \<le> p \<Longrightarrow> heap s p = None" and "ready s \<Longrightarrow> session s \<noteq> None" and "r \<noteq> RHold None"
    and "\<And>p. candidate_ptr t = Some p \<Longrightarrow> held_ptr r \<noteq> Some p \<and> \<not> (ready s \<and> session s = Some p)"
    and "\<And>p. ready s \<Longrightarrow> session s = Some p \<Longrightarrow> ssl_of s p \<noteq> None"
    and "\<And>p. secured_ptr t = Some p \<Longrightarrow> ssl_of s p \<noteq> None"
    and "\<And>p. held_ptr r = Some p \<Longrightarrow> ssl_of s p \<noteq> None"
  shows "conn_inv (t, r, s)"
  unfolding inv_parts prod.case using assms by blast

lemma secured_candidate: "secured_ptr t = Some p \<Longrightarrow> candidate_ptr t = Some p"
  by (cases t) auto

text \<open>A block that only touches its candidate keeps the invariant while the thread moves on.\<close>

lemma inv_local_update:
  assumes inv: "conn_inv (t, r, s)" and upd: "local_update p s s'"
    and t: "candidate_ptr t = Some p" and t': "candidate_ptr t' = Some p"
    and sec: "secured_ptr t' = Some p \<Longrightarrow> ssl_of s' p \<noteq> None"
  shows "conn_inv (t', r, s')"
proof -
  note D = conn_invD [OF inv]
  from upd have eqs: "session s' = session s" "ready s' = ready s" "next_ptr s' = next_ptr s" "counts s' = counts s"
    and none: "\<And>q. heap s' q = None \<longleftrightarrow> heap s q = None" and keep: "\<And>q. q \<noteq> p \<Longrightarrow> ssl_of s' q = ssl_of s q"
    by (auto simp: local_update_def same_shared_def)
  show ?thesis
  proof (rule conn_invI)
    show "heap_ok s'" using D(1) unfolding heap_ok_def eqs none .
    show "ssl_of s' q \<noteq> None" if "secured_ptr t' = Some q" for q
      using that sec secured_candidate [OF that] t' by simp
    show "ssl_of s' q \<noteq> None" if "ready s'" "session s' = Some q" for q
      using D(7,8) [of q] keep [of q] that t by (cases "q = p") (auto simp: eqs)
  qed (use D eqs none keep t t' in auto)
qed

lemma inv_same_heap:
  assumes "conn_inv (t, r, s)" "same_heap s s'"
  shows "conn_inv (t, r, s')"
  using assms by (simp add: inv_parts same_heap_def same_shared_def counts_cong [of s' s])

text \<open>A thread that gives up its candidate.\<close>

lemma inv_release_candidate:
  assumes inv: "conn_inv (t, r, s)" and t: "candidate_ptr t = Some p"
  shows "conn_inv (CIdle, r, release api p s)"
proof -
  note D = conn_invD [OF inv]
  have eqs: "session (release api p s) = session s" "ready (release api p s) = ready s"
    "next_ptr (release api p s) = next_ptr s" using release_shared [of s api p] by (simp_all add: same_shared_def)
  have cnt: "counts (release api p s) q = of_bool (session s = Some q) + of_bool (held_ptr r = Some q)" for q
    using counts_release [OF D(1), of api p q] D(2) [of q] t by auto
  show ?thesis
  proof (rule conn_invI)
    show "ssl_of (release api p s) q \<noteq> None" if "held_ptr r = Some q" for q
      using ssl_of_release [of api p s q] cnt [of q] D(10) that by simp
    show "ssl_of (release api p s) q \<noteq> None"
      if "ready (release api p s)" "session (release api p s) = Some q" for q
      using ssl_of_release [of api p s q] cnt [of q] D(8) that by (simp add: eqs)
    show "heap (release api p s) q = None" if "next_ptr (release api p s) \<le> q" for q
      by (intro heap_release D(3)) (use that in \<open>simp add: eqs\<close>)
  qed (use D eqs cnt heap_ok_release in auto)
qed

lemma inv_receive_begin:
  assumes inv: "conn_inv (t, RIdle, s)" and rb: "receive_begin s = (Some sp, s')"
  shows "conn_inv (t, RHold sp, s')"
proof -
  note D = conn_invD [OF inv]
  from rb D(4) obtain p where p: "ready s" "session s = Some p" "sp = Some p" "s' = retain p s"
    by (auto simp: receive_begin_def split: if_splits option.splits)
  have eqs: "session (retain p s) = session s" "ready (retain p s) = ready s" "next_ptr (retain p s) = next_ptr s"
    using retain_shared [of s p] by (simp_all add: same_shared_def)
  have live: "heap s p \<noteq> None" using D(2) [of p] p heap_okD [OF D(1), of p] by simp
  have cnt: "counts (retain p s) q = counts s q + of_bool (q = p)" for q using counts_retain [OF live] .
  show ?thesis unfolding p
  proof (rule conn_invI)
    show "heap_ok (retain p s)" by (rule heap_ok_retain [OF D(1)])
  qed (use D p eqs cnt in \<open>auto simp: heap_retain\<close>)
qed

lemma receive_end_ptr:
  assumes "receive_end api c (Some p) s = Some (b, m, s')"
  shows "\<exists>u. same_heap s u \<and> s' = release api p u"
proof -
  have "same_heap s (s\<lparr>env := e\<rparr>)" "same_heap s (set_last_error x (s\<lparr>env := e\<rparr>))" for e x
    by (simp_all add: same_heap_def same_shared_def)
  with assms show ?thesis
    by (auto simp: receive_end_def split: option.splits prod.splits bool.splits)
qed

lemma inv_receive_end:
  assumes inv: "conn_inv (t, RHold sp, s)" and re: "receive_end api c sp s = Some (b, m, s')"
  shows "conn_inv (t, RIdle, s')"
proof -
  from conn_invD(5) [OF inv] obtain p where sp: "sp = Some p" by (cases sp) auto
  with receive_end_ptr re obtain u where u: "same_heap s u" and s': "s' = release api p u" by blast
  note D = conn_invD [OF inv_same_heap [OF inv u]]
  have eqs: "session s' = session u" "ready s' = ready u" "next_ptr s' = next_ptr u"
    using release_shared [of u api p] by (simp_all add: same_shared_def s')
  have cnt: "counts s' q = of_bool (session u = Some q) + of_bool (candidate_ptr t = Some q)" for q
    using counts_release [OF D(1), of api p q] D(2) [of q] sp by (auto simp: s')
  have ssl: "counts s' q \<noteq> 0 \<Longrightarrow> ssl_of s' q = ssl_of u q" for q
    using ssl_of_release [of api p u q] by (simp add: s')
  show ?thesis
  proof (rule conn_invI)
    show "heap_ok s'" unfolding s' by (rule heap_ok_release [OF D(1)])
    show "heap s' q = None" if "next_ptr s' \<le> q" for q
      unfolding s' by (intro heap_release D(3)) (use that in \<open>simp add: eqs\<close>)
    show "ssl_of s' q \<noteq> None" if "ready s'" "session s' = Some q" for q
      using ssl [of q] cnt [of q] D(8) that by (simp add: eqs)
    show "ssl_of s' q \<noteq> None" if "secured_ptr t = Some q" for q
      using ssl [of q] cnt [of q] D(9) [OF that] secured_candidate [OF that] by simp
  qed (use D eqs cnt sp in auto)
qed

lemma inv_close_current:
  assumes inv: "conn_inv (t, r, s)"
  shows "conn_inv (t, r, close_current api s)"
proof -
  let ?u = "s\<lparr>session := None, ready := False\<rparr>"
  note D = conn_invD [OF inv]
  show ?thesis
  proof (cases "session s")
    case None
    then have "same_heap s (close_current api s) \<or> ready s" by (auto simp: close_current_def same_heap_def same_shared_def)
    with inv_same_heap [OF inv] D(4) None show ?thesis by blast
  next
    case (Some p)
    let ?v = "shutdown_session api p ?u"
    have cc: "close_current api s = release api p ?v" using Some by (simp add: close_current_def)
    have v: "heap ?v = heap s" "next_ptr ?v = next_ptr s" by simp_all
    have ok: "heap_ok ?v" using D(1) counts_cong(3) [OF v(1)] by simp
    have eqs: "session (release api p ?v) = None" "\<not> ready (release api p ?v)"
      "next_ptr (release api p ?v) = next_ptr s"
      using release_shared [of ?v api p] by (simp_all add: same_shared_def)
    have cnt: "counts (release api p ?v) q = of_bool (candidate_ptr t = Some q) + of_bool (held_ptr r = Some q)" for q
      using counts_release [OF ok, of api p q] D(2) [of q] Some counts_cong(1) [OF v(1)] by auto
    have ssl: "counts (release api p ?v) q \<noteq> 0 \<Longrightarrow> ssl_of (release api p ?v) q = ssl_of s q" for q
      using ssl_of_release [of api p ?v q] counts_cong(2) [OF v(1)] by simp
    show ?thesis unfolding cc
    proof (rule conn_invI)
      show "heap_ok (release api p ?v)" by (rule heap_ok_release [OF ok])
      show "heap (release api p ?v) q = None" if "next_ptr (release api p ?v) \<le> q" for q
        by (intro heap_release) (use that D(3) in \<open>simp add: eqs\<close>)
      show "ssl_of (release api p ?v) q \<noteq> None" if "secured_ptr t = Some q" for q
        using ssl [of q] cnt [of q] D(9) [OF that] secured_candidate [OF that] by simp
      show "ssl_of (release api p ?v) q \<noteq> None" if "held_ptr r = Some q" for q
        using ssl [of q] cnt [of q] D(10) [OF that] that by simp
    qed (use D eqs cnt in auto)
  qed
qed

lemma inv_cl_fail:
  assumes inv: "conn_inv (t, r, s)" and t: "candidate_ptr t = Some p"
  shows "conn_inv (CIdle, r, cl_fail api p e s)"
proof -
  have "same_heap s (set_last_error e s)" by (simp add: same_heap_def same_shared_def)
  from inv_release_candidate [OF inv_close_current [OF inv_same_heap [OF inv this]] t] show ?thesis
    by (simp add: cl_fail_def)
qed

lemma inv_not_ready:
  assumes "conn_inv (t, r, s)"
  shows "conn_inv (t, r, s\<lparr>ready := False\<rparr>)"
  by (rule conn_invI) (use conn_invD [OF assms] in
    \<open>auto simp: heap_ok_def counts_cong [of "s\<lparr>ready := False\<rparr>" s]\<close>)

lemma release_ready: "release api p (s\<lparr>ready := b, last_err := e\<rparr>) = (release api p s)\<lparr>ready := b, last_err := e\<rparr>"
  by (auto simp: release_def set_world_def the_world_def split: option.split)

lemma inv_now_ready:
  assumes "conn_inv (CIdle, r, s)" "session s = Some p" "ssl_of s p \<noteq> None"
  shows "conn_inv (CIdle, r, s\<lparr>ready := True, last_err := e\<rparr>)"
  by (rule conn_invI) (use conn_invD [OF assms(1)] assms(2,3) in
    \<open>auto simp: heap_ok_def counts_cong [of "s\<lparr>ready := True, last_err := e\<rparr>" s]\<close>)

lemma inv_cl_commit:
  assumes inv: "conn_inv (CDecide p m, r, s)" and "cl_commit api p s = (b, s')"
  shows "conn_inv (CIdle, r, s')"
proof (cases "stop_requested s \<or> session s \<noteq> Some p")
  case True
  with assms inv_release_candidate [OF inv_not_ready [OF inv], of p] show ?thesis
    by (auto simp: cl_commit_def)
next
  case False
  let ?v = "release api p s"
  have v: "conn_inv (CIdle, r, ?v)" by (rule inv_release_candidate [OF inv]) simp
  have sv: "session ?v = Some p" using False release_shared [of s api p] by (simp add: same_shared_def)
  with conn_invD(2) [OF v, of p] have "0 < counts ?v p" by simp
  with ssl_of_release [of api p s p] conn_invD(9) [OF inv, of p] have "ssl_of ?v p \<noteq> None" by simp
  with inv_now_ready [OF v sv] False assms(2) show ?thesis by (auto simp: cl_commit_def release_ready)
qed

lemma inv_cl_begin:
  assumes inv: "conn_inv (CIdle, r, s)" and cb: "cl_begin api s = (Some p, s')"
  shows "conn_inv (COpen p, r, s')"
proof -
  note D = conn_invD [OF inv]
  let ?s2 = "s\<lparr>next_ptr := p + 1, session := Some p, ready := False, heap := (heap s)(p \<mapsto> (new_session, 2))\<rparr>"
  from cb have p: "p = next_ptr s" and s': "s' = release_opt api (session s) ?s2"
    by (auto simp: cl_begin_def Let_def retain_def numeral_2_eq_2 split: if_splits)
  have fresh: "heap s p = None" using D(3) p by simp
  then have nop: "session s \<noteq> Some p" "held_ptr r \<noteq> Some p" using heap_okD [OF D(1), of p] D(2) [of p] by auto
  have cnt2: "counts ?s2 q = (if q = p then 2 else counts s q)" for q by (simp add: counts_def)
  have ok2: "heap_ok ?s2" using D(1) by (auto simp: heap_ok_def counts_def)
  have cnt: "counts s' q = 2 * of_bool (q = p) + of_bool (held_ptr r = Some q)" for q
    using counts_release [OF ok2, of api _ q] cnt2 [of q] D(2) [of q] nop
    by (cases "session s") (auto simp: s' release_opt_def)
  have eqs: "session s' = Some p" "\<not> ready s'" "next_ptr s' = p + 1"
    using release_shared [of ?s2 api] by (auto simp: s' release_opt_def same_shared_def split: option.split)
  have ssl: "ssl_of s' q = ssl_of s q" if "held_ptr r = Some q" for q
  proof -
    have "ssl_of s' q = ssl_of ?s2 q"
      using ssl_of_release [of api _ ?s2 q] cnt [of q] that by (auto simp: s' release_opt_def split: option.split)
    also have "\<dots> = ssl_of s q" using that nop by (auto simp: ssl_of_def session_ssl_def)
    finally show ?thesis .
  qed
  show ?thesis
  proof (rule conn_invI)
    show "heap_ok s'" using ok2 heap_ok_release by (auto simp: s' release_opt_def split: option.split)
    show "heap s' q = None" if "next_ptr s' \<le> q" for q
    proof -
      have "heap ?s2 q = None" using D(3) [of q] that p eqs by simp
      from heap_release [OF this, of api] this show ?thesis unfolding s' release_opt_def by (simp split: option.split)
    qed
  qed (use D eqs cnt ssl nop in auto)
qed

lemma inv_cl_begin_stopped:
  assumes inv: "conn_inv (t, r, s)" and cb: "cl_begin api s = (None, s')"
  shows "conn_inv (t, r, s')"
proof -
  note D = conn_invD [OF inv]
  from cb have "s' = release api (next_ptr s) (s\<lparr>heap := (heap s)(next_ptr s \<mapsto> (new_session, 1)), next_ptr := next_ptr s + 1\<rparr>)"
    by (auto simp: cl_begin_def Let_def split: if_splits)
  then have f: "heap s' = heap s" "session s' = session s" "ready s' = ready s" "next_ptr s' = next_ptr s + 1"
    using D(3) [of "next_ptr s"] by (auto simp: release_def fun_eq_iff)
  show ?thesis by (rule conn_invI) (use D f counts_cong [OF f(1)] in auto)
qed

section \<open>The invariant holds in every reachable state\<close>

definition conn_init :: "Config \<Rightarrow> 'w mnet \<Rightarrow> 'w conn" where
  "conn_init config e = \<lparr>conf = config, session = None, ready = False, stop_requested = False, last_err = [],
     heap = (\<lambda>_. None), next_ptr = 0, env = e\<rparr>"

definition conn_start :: "'w conn_threads \<Rightarrow> bool" where
  "conn_start st \<longleftrightarrow> (\<exists>config e. st = (CIdle, RIdle, conn_init config e))"

lemma conn_inv_start: "conn_start st \<Longrightarrow> conn_inv st"
  by (auto simp: conn_start_def conn_init_def inv_parts heap_ok_def counts_def)

lemma inv_stop_disconnect:
  assumes "conn_inv (t, r, s)"
  shows "conn_inv (t, r, request_stop api s)" and "conn_inv (t, r, request_disconnect api s)"
proof -
  have "same_heap (s\<lparr>stop_requested := True\<rparr>) (request_stop api s)" "same_heap s (request_disconnect api s)"
    by (auto simp: request_stop_def request_disconnect_def same_heap_def same_shared_def Let_def split: option.split)
  moreover have "conn_inv (t, r, s\<lparr>stop_requested := True\<rparr>)"
    using assms by (simp add: inv_parts heap_ok_def counts_def ssl_of_def session_ssl_def)
  ultimately show "conn_inv (t, r, request_stop api s)" and "conn_inv (t, r, request_disconnect api s)"
    using inv_same_heap assms by blast+
qed

lemma inv_conn_step: "conn_step api c st st' \<Longrightarrow> conn_inv st \<Longrightarrow> conn_inv st'"
proof (induction rule: conn_step.induct)
  case (setup_ok p s h s' r)
  have "heap s p \<noteq> None"
    using conn_invD(1,2) [OF setup_ok.prems] heap_okD [of s p] by simp
  with tls_setup_ssl [OF setup_ok.hyps] show ?case
    by (intro inv_local_update [OF setup_ok.prems tls_setup_local [OF setup_ok.hyps]]) auto
next
  case (handshake_ok h s u s' p r)
  from inv_same_heap [OF handshake_ok.prems tls_handshake_heap [OF handshake_ok.hyps]]
  show ?case by (simp add: inv_parts)
next
  case (handshake_fail h s e s' p r)
  from inv_same_heap [OF handshake_fail.prems tls_handshake_heap [OF handshake_fail.hyps]]
  show ?case by (simp add: inv_parts)
next
  case (login_fail h s e m s' p r)
  from inv_same_heap [OF login_fail.prems login_exchange_heap [OF login_fail.hyps]]
  show ?case by (simp add: inv_parts)
next
  case (login_answer h s u m s' p r)
  from inv_same_heap [OF login_answer.prems login_exchange_heap [OF login_answer.hyps]]
  show ?case by (simp add: inv_parts)
next
  case (open_ok p s u s' r)
  show ?case by (rule inv_local_update [OF open_ok.prems open_socket_local [OF open_ok.hyps]]) auto
next
  case (open_fail p s e s' r)
  show ?case by (rule inv_local_update [OF open_fail.prems open_socket_local [OF open_fail.hyps]]) auto
next
  case (setup_fail p s e s' r)
  show ?case by (rule inv_local_update [OF setup_fail.prems tls_setup_local [OF setup_fail.hyps]]) auto
next
  case (sent m s b s' t r)
  show ?case by (rule inv_same_heap [OF sent.prems conn_send_heap [OF sent.hyps]])
next
  case (reject m p r s)
  then show ?case by (simp add: inv_parts)
qed (auto intro: inv_cl_begin inv_cl_begin_stopped inv_release_candidate inv_cl_commit inv_cl_fail
    inv_receive_begin inv_receive_end inv_close_current inv_stop_disconnect)

interpretation conn: invariant_system conn_start "conn_step api c" conn_inv
  for api :: "('w, 'a) conn_api" and c
  by unfold_locales (auto intro: conn_inv_start inv_conn_step)

text \<open>A requested stop is never taken back, and while it stands no operation makes the connection ready.\<close>

definition stopped :: "'w conn_threads \<Rightarrow> bool" where
  "stopped st \<longleftrightarrow> stop_requested (snd (snd st))"

lemma stop_requested_release [simp]: "stop_requested (release api p s) = stop_requested s"
  "stop_requested (release_opt api q s) = stop_requested s" "stop_requested (retain p s) = stop_requested s"
  by (simp_all add: release_def retain_def release_opt_def split: option.split)

lemma stopped_step: "conn_step api c st st' \<Longrightarrow> stopped st \<Longrightarrow> stopped st'"
proof (induction rule: conn_step.induct)
  case (recv_end sp s b m s' t)
  then show ?case
  proof (cases sp)
    case (Some p)
    with receive_end_ptr [of api c p s] recv_end show ?thesis by (auto simp: stopped_def same_heap_def same_shared_def)
  qed (auto simp: receive_end_def stopped_def)
qed (auto simp: stopped_def cl_begin_def cl_fail_def close_current_def cl_commit_def receive_begin_def
    request_stop_def request_disconnect_def Let_def same_heap_def same_shared_def local_update_def
    dest!: open_socket_local tls_setup_local tls_handshake_heap login_exchange_heap conn_send_heap
    split: if_splits option.splits)

interpretation conn_stop: stable_system "conn_step api c" stopped
  for api :: "('w, 'a) conn_api" and c
  by unfold_locales (rule stopped_step)

section \<open>The function is a run of its blocks\<close>

lemma steps_trans: "steps st b c \<Longrightarrow> steps st a b \<Longrightarrow> steps st a c"
  by (induction rule: steps.induct) (auto intro: steps_step)

lemma steps_front: "step a b \<Longrightarrow> steps step b c \<Longrightarrow> steps step a c"
  by (rule steps_trans [of step b c a]) (auto intro: steps_step steps_refl)

lemma conn_front:
  "conn_step api c a b \<Longrightarrow> steps (conn_step api c) b d \<Longrightarrow> steps (conn_step api c) a d"
  by (rule steps_front)

lemma fail_steps: "steps (conn_step api c) (CFail p e, r, s) (CIdle, r, cl_fail api p e s)"
  by (rule conn_front [OF conn_step.failed steps_refl])

lemma commit_steps:
  "mtype (mfields m) = ''login_ok'' \<Longrightarrow> cl_commit api p s = (b, s') \<Longrightarrow>
   steps (conn_step api c) (CDecide p m, r, s) (CIdle, r, s')"
  by (rule conn_front [OF conn_step.commit steps_refl])

lemma decide_steps:
  assumes "(if mtype (mfields m) \<noteq> ''login_ok'' then Some (Inr (False, m, kRejected), cl_fail api p (login_refused m) s)
     else (case cl_commit api p s of (False, s6) \<Rightarrow> Some (Inr (False, m, kRetryableFailure), s6)
           | (True, s6) \<Rightarrow> Some (Inr (True, m, kSuccess), s6))) = Some (outcome, s')"
  shows "steps (conn_step api c) (CDecide p m, r, s) (CIdle, r, s')"
proof (cases "mtype (mfields m) = ''login_ok''")
  case True
  with assms obtain b where "cl_commit api p s = (b, s')" by (auto split: prod.split_asm bool.split_asm)
  with commit_steps [OF True] show ?thesis by blast
next
  case False
  with assms have "s' = cl_fail api p (login_refused m) s" by simp
  with conn_front [OF conn_step.reject [OF False] fail_steps] show ?thesis by simp
qed

lemma opened_steps:
  assumes run: "after_open api c p s2 = Some (outcome, s')"
  shows "steps (conn_step api c) (CSetup p, r, s2) (CIdle, r, s')"
proof -
  obtain o1 s3 where o1: "tls_setup api p s2 = (o1, s3)" by fastforce
  show ?thesis
  proof (cases o1)
    case (Inl e)
    with run o1 show ?thesis
      by (auto simp: after_open_def intro!: conn_front [OF conn_step.setup_fail fail_steps])
  next
    case h: (Inr h)
    obtain o2 s4 where o2: "tls_handshake api h s3 = (o2, s4)" by fastforce
    show ?thesis
    proof (rule conn_front [OF conn_step.setup_ok [OF o1 [unfolded h]]], cases o2)
      case (Inl e)
      with run o1 h o2 show "steps (conn_step api c) (CHandshake p h, r, s3) (CIdle, r, s')"
        by (auto simp: after_open_def intro!: conn_front [OF conn_step.handshake_fail fail_steps])
    next
      case u: (Inr u)
      let ?x = "login_exchange api c h s4"
      have login: "steps (conn_step api c) (CLogin p h, r, s4) (CIdle, r, s')"
      proof -
        consider what where "?x = Some (Inl what)" "s' = release api p s4"
          | e m s5 where "?x = Some (Inr (Inl e, m, s5))" "s' = cl_fail api p e s5"
          | m s5 where "?x = Some (Inr (Inr (), m, s5))" "steps (conn_step api c) (CDecide p m, r, s5) (CIdle, r, s')"
          using run o1 h o2 u decide_steps [of _ api p _ outcome s' c r]
          by (auto simp: after_open_def Let_def split: option.split_asm sum.split_asm prod.split_asm)
        then show ?thesis
          by cases (auto intro: conn_front [OF conn_step.login_throw steps_refl]
              conn_front [OF conn_step.login_fail fail_steps] conn_front [OF conn_step.login_answer])
      qed
      show "steps (conn_step api c) (CHandshake p h, r, s3) (CIdle, r, s')"
        by (rule conn_front [OF conn_step.handshake_ok [OF o2 [unfolded u]] login])
    qed
  qed
qed

text \<open>Run without interference, the blocks of \<open>connect_and_login\<close> are steps of the connecting
  thread, so everything shown of the threads holds of the function.\<close>

lemma connect_steps:
  assumes run: "connect_and_login api c s = Some (outcome, s')"
  shows "steps (conn_step api c) (CIdle, r, s) (CIdle, r, s')"
proof -
  obtain b s1 where b: "cl_begin api s = (b, s1)" by fastforce
  show ?thesis
  proof (cases b)
    case None
    with run b show ?thesis
      by (auto simp: connect_and_login_def intro!: conn_front [OF conn_step.begin_stopped steps_refl])
  next
    case (Some p)
    note front = conn_front [OF conn_step.begin_ok [OF b [unfolded Some]]]
    obtain o1 s2 where o1: "open_socket api p s1 = (o1, s2)" by fastforce
    show ?thesis
    proof (rule front, cases o1)
      case (Inl e)
      with run b Some o1 show "steps (conn_step api c) (COpen p, r, s1) (CIdle, r, s')"
        by (auto simp: connect_and_login_def intro!: conn_front [OF conn_step.open_fail fail_steps])
    next
      case (Inr u)
      show "steps (conn_step api c) (COpen p, r, s1) (CIdle, r, s')"
        by (rule conn_front [OF conn_step.open_ok [OF o1 [unfolded Inr]] opened_steps])
          (use run b Some o1 Inr in \<open>simp add: connect_and_login_def\<close>)
    qed
  qed
qed

section \<open>The login loop\<close>

lemma receive_consumes:
  assumes "ssl_ok out inp io" "ssl_receive_message io c m = (True, r, m')"
  shows "length (inp (world (frames m'))) < length (inp (world (frames m)))"
proof -
  from assms(2) obtain p fs where f: "ssl_recv_frame io (frames m) = (True, p, fs)" and m': "frames m' = fs"
    by (auto simp: ssl_receive_message_def receive_message_impl_def split: prod.splits bool.splits sum.splits)
  from ssl_recv_frame_valid [OF assms(1) f] m' show ?thesis by (auto simp: frame_bytes_def)
qed

lemma await_login_returns:
  assumes "ssl_ok out inp io"
  shows "\<exists>r. await_login io c m = Some r"
proof (induction "length (inp (world (frames m)))" arbitrary: m rule: less_induct)
  case less
  obtain ok r m1 where step: "ssl_receive_message io c m = (ok, r, m1)" by (metis prod_cases3)
  show ?case
  proof (cases "ok \<and> mtype (mfields r) = ''login_pending''")
    case True
    with step have "ssl_receive_message io c m = (True, r, m1)" by simp
    from less [OF receive_consumes [OF assms this]] obtain x where "await_login io c m1 = Some x" by blast
    with True step show ?thesis by (subst await_login.simps) (cases x, simp)
  next
    case False
    with step show ?thesis by (subst await_login.simps) auto
  qed
qed

lemma login_exchange_returns:
  assumes "ssl_ok out inp (ssl_io api h)"
  shows "login_exchange api c h s \<noteq> None"
  using await_login_returns [OF assms, of c]
  by (auto simp: login_exchange_def split: sum.split prod.split bool.split option.split) (metis option.distinct(1))

section \<open>What a successful login means\<close>

lemma after_open_success:
  assumes "after_open api c p s2 = Some (Inr (True, m, result), s')"
  obtains h s3 s4 s5 where "tls_setup api p s2 = (Inr h, s3)" "tls_handshake api h s3 = (Inr (), s4)"
    "login_exchange api c h s4 = Some (Inr (Inr (), m, s5))" "mtype (mfields m) = ''login_ok''"
    "cl_commit api p s5 = (True, s')" "result = kSuccess"
  using assms unfolding after_open_def Let_def
  by (auto split: option.split_asm sum.split_asm prod.split_asm if_split_asm bool.split_asm)

lemma commit_ready:
  assumes "cl_commit api p s = (True, s')" "heap_ok s" "1 < counts s p"
  shows "is_ready s' \<and> last_err s' = [] \<and> session s' = Some p \<and> ssl_of s' p = ssl_of s p"
proof -
  from assms(1) have s: "\<not> stop_requested s" "session s = Some p" and s': "s' = (release api p s)\<lparr>ready := True, last_err := []\<rparr>"
    by (auto simp: cl_commit_def release_ready split: if_splits)
  from counts_release [OF assms(2), of api p p] assms(3) have "0 < counts (release api p s) p" by simp
  from ssl_of_release [OF this] release_shared [of s api p] s show ?thesis
    by (auto simp: s' is_ready_def same_shared_def ssl_of_def session_ssl_def)
qed

section \<open>Every attempt ends\<close>

lemma release_fields [simp]:
  "ready (release api p s) = ready s" "ready (release_opt api q s) = ready s" "ready (retain p s) = ready s"
  by (simp_all add: release_def retain_def release_opt_def split: option.split)

lemma not_ready_after_fail [simp]: "\<not> ready (cl_fail api p e s)"
  by (simp add: cl_fail_def close_current_def Let_def split: option.split)

lemma begin_not_ready: "cl_begin api s = (Some p, s') \<Longrightarrow> \<not> ready s'"
  by (auto simp: cl_begin_def Let_def split: if_splits)

lemma commit_not_ready: "cl_commit api p s = (False, s') \<Longrightarrow> \<not> ready s'"
  by (auto simp: cl_commit_def split: if_splits)

lemma after_open_ready:
  assumes run: "after_open api c p s2 = Some (outcome, s')" and nr: "\<not> ready s2" and r: "ready s'"
  shows "\<exists>m. outcome = Inr (True, m, kSuccess)"
proof -
  have throw: "\<not> ready (release api p s4)"
    if "tls_setup api p s2 = (Inr h, s3)" "tls_handshake api h s3 = (Inr u, s4)" for h s3 u s4
    using nr tls_setup_local [OF that(1)] tls_handshake_heap [OF that(2)]
    by (simp add: local_update_def same_heap_def same_shared_def)
  from run r show ?thesis unfolding after_open_def Let_def
    by (auto dest: throw commit_not_ready
        split: option.split_asm sum.split_asm prod.split_asm if_split_asm bool.split_asm)
qed

lemma connect_ready:
  assumes "connect_and_login api c s = Some (outcome, s')" "is_ready s'"
  shows "\<exists>m. outcome = Inr (True, m, kSuccess)"
proof -
  obtain b s1 where b: "cl_begin api s = (b, s1)" by fastforce
  show ?thesis
  proof (cases b)
    case None
    with b have "stop_requested s1" by (auto simp: cl_begin_def Let_def split: if_splits)
    with assms b None show ?thesis by (auto simp: connect_and_login_def is_ready_def)
  next
    case (Some p)
    obtain o1 s2 where o1: "open_socket api p s1 = (o1, s2)" by fastforce
    have "\<not> ready s2" using begin_not_ready b Some open_socket_local [OF o1]
      by (fastforce simp: local_update_def same_shared_def)
    with assms b Some o1 after_open_ready [of api c p s2 outcome s'] show ?thesis
      by (auto simp: connect_and_login_def is_ready_def split: sum.split_asm)
  qed
qed

lemma connect_returns:
  assumes "\<And>h. ssl_ok out inp (ssl_io api h)"
  shows "\<exists>outcome s'. connect_and_login api c s = Some (outcome, s')"
proof -
  have "\<exists>outcome s'. after_open api c p s2 = Some (outcome, s')" for p s2
    by (auto simp: after_open_def Let_def login_exchange_returns [OF assms]
        split: option.split sum.split prod.split bool.split)
  then show ?thesis
    by (auto simp: connect_and_login_def split: option.split sum.split prod.split)
qed

section \<open>Delays\<close>

fun delays :: "nat \<Rightarrow> ReconnectBackoff \<Rightarrow> nat list" where
  "delays 0 b = []"
| "delays (Suc n) b = (case next_delay b of (d, b') \<Rightarrow> d # delays n b')"

lemma next_delay_eq: "attempt b \<le> 6 \<Longrightarrow> next_delay b = (min 30 (2 ^ attempt b), b\<lparr>attempt := min 6 (attempt b + 1)\<rparr>)"
proof -
  assume "attempt b \<le> 6"
  then consider "attempt b = 0" | "attempt b = 1" | "attempt b = 2" | "attempt b = 3" | "attempt b = 4"
    | "attempt b = 5" | "attempt b = 6" by linarith
  then show ?thesis
    by cases (simp_all add: next_delay_def kBackoffDelays_def Let_def)
qed

lemma delays_eq: "attempt b \<le> 6 \<Longrightarrow> delays n b = map (\<lambda>i. min 30 (2 ^ (attempt b + i))) [0..<n]"
proof (induction n arbitrary: b)
  case (Suc n)
  let ?b = "b\<lparr>attempt := min 6 (attempt b + 1)\<rparr>"
  have pow: "min 30 ((2::nat) ^ (min 6 (attempt b + 1) + i)) = min 30 (2 ^ (attempt b + Suc i))" for i
  proof (cases "attempt b = 6")
    case True
    have "(64::nat) \<le> 2 ^ (6 + j)" for j using power_increasing [of 6 "6 + j" "2::nat"] by simp
    from this [of i] this [of "Suc i"] show ?thesis using True by (simp add: min_def)
  next
    case False
    with Suc.prems have "min 6 (attempt b + 1) = attempt b + 1" by simp
    then show ?thesis by (simp only: add_Suc_right add_Suc Suc_eq_plus1 add.assoc add.commute [of 1])
  qed
  have "delays n ?b = map (\<lambda>i. min 30 (2 ^ (attempt b + Suc i))) [0..<n]"
    using Suc.IH [of ?b] pow by simp
  then show ?case
    using next_delay_eq [OF Suc.prems] by (simp add: upt_conv_Cons map_Suc_upt [symmetric] comp_def del: upt_Suc)
qed simp

section \<open>Properties\<close>

text \<open>
  C3. Memory safety of the shared session under concurrency. However the blocks of
  \<open>connect_and_login\<close> interleave with \<open>send\<close>, \<open>receive\<close>, \<open>request_stop\<close>, \<open>request_disconnect\<close> and
  \<open>close_current\<close>, a session is alive exactly while the member or one of the threads points to it
  (nothing is freed early and nothing leaks), and neither \<open>send\<close> nor the reading half of \<open>receive\<close>
  ever dereferences a null or dangling TLS handle.
\<close>

theorem session_memory_safe:
  assumes "reachable conn_start (conn_step api c) (t, r, s)"
  shows "(\<forall>p. heap s p \<noteq> None \<longleftrightarrow> session s = Some p \<or> candidate_ptr t = Some p \<or> held_ptr r = Some p) \<and>
    (\<forall>m. conn_send api c m s \<noteq> None) \<and> (\<forall>sp. r = RHold sp \<longrightarrow> receive_end api c sp s \<noteq> None)"
proof -
  note D = conn_invD [OF conn.reachable_inv [OF assms]]
  have "heap s p \<noteq> None \<longleftrightarrow> session s = Some p \<or> candidate_ptr t = Some p \<or> held_ptr r = Some p" for p
    using heap_okD [OF D(1), of p] D(2) [of p] by auto
  moreover have "conn_send api c m s \<noteq> None" for m
    using D(8) by (auto simp: conn_send_def ssl_of_def split: option.split sum.split prod.split bool.split)
  moreover have "receive_end api c sp s \<noteq> None" if "r = RHold sp" for sp
    using D(5,10) that
    by (auto simp: receive_end_def ssl_of_def split: option.split prod.split bool.split)
  ultimately show ?thesis by blast
qed

text \<open>
  C21. A stop is final. Once \<open>request_stop\<close> has run, whatever the threads still do, the connection is
  never ready again, no new attempt starts, an attempt that is already past the handshake does not
  commit, and \<open>send\<close> refuses every message without touching the wire.
\<close>

theorem stop_is_final:
  assumes "steps (conn_step api c) (t, r, request_stop api s) (t', r', s')"
  shows "\<not> is_ready s' \<and> fst (cl_begin api s') = None \<and> \<not> fst (cl_commit api p s') \<and>
    conn_send api c m s' = Some (Inr (False, s'\<lparr>last_err := ''connection is not ready''\<rparr>))"
proof -
  have "stopped (t, r, request_stop api s)" by (auto simp: stopped_def request_stop_def Let_def split: option.split)
  from conn_stop.steps_stable [OF assms this] have "stop_requested s'" by (simp add: stopped_def)
  then show ?thesis by (simp add: is_ready_def cl_begin_def cl_commit_def conn_send_def set_last_error_def Let_def)
qed

text \<open>
  C5. \<open>connect_and_login\<close> reports success only for an authenticated server that said \<open>login_ok\<close>: the
  TLS handshake of the very session that is now current succeeded with a verified certificate, the
  connection is ready, and the last error is cleared.
\<close>

theorem connect_success:
  assumes "conn_inv (CIdle, r, s)" and "connect_and_login api c s = Some (Inr (True, m, result), s')"
  shows "result = kSuccess \<and> mtype (mfields m) = ''login_ok'' \<and> is_ready s' \<and> last_err s' = [] \<and>
    (\<exists>h w w'. session_ssl (session s') s' = Some h \<and> ssl_connect api w h = (True, w') \<and> ssl_verify_ok api w' h)"
proof -
  from assms(2) obtain p s1 s2 where b: "cl_begin api s = (Some p, s1)" and o: "open_socket api p s1 = (Inr (), s2)"
    and run: "after_open api c p s2 = Some (Inr (True, m, result), s')"
    by (auto simp: connect_and_login_def split: prod.split_asm option.split_asm sum.split_asm)
  from after_open_success [OF run] obtain h s3 s4 s5 where
    su: "tls_setup api p s2 = (Inr h, s3)" and hs: "tls_handshake api h s3 = (Inr (), s4)" and
    login: "login_exchange api c h s4 = Some (Inr (Inr (), m, s5))" and ok: "mtype (mfields m) = ''login_ok''" and
    commit: "cl_commit api p s5 = (True, s')" and res: "result = kSuccess" by blast
  note inv = assms(1) [THEN inv_conn_step [OF conn_step.begin_ok [OF b]], THEN inv_conn_step [OF conn_step.open_ok [OF o]]]
  note inv5 = inv [THEN inv_conn_step [OF conn_step.setup_ok [OF su]],
      THEN inv_conn_step [OF conn_step.handshake_ok [OF hs]], THEN inv_conn_step [OF conn_step.login_answer [OF login]]]
  have "heap s2 p \<noteq> None" using conn_invD(1) [OF inv] conn_invD(2) [OF inv, of p] heap_okD [of s2 p] by simp
  from tls_setup_ssl [OF su this] tls_handshake_heap [OF hs] login_exchange_heap [OF login]
  have ssl5: "ssl_of s5 p = Some h" using counts_cong(2) [of s5 s3] by (simp add: same_heap_def)
  have "session s5 = Some p" using commit by (auto simp: cl_commit_def split: if_splits)
  with conn_invD(1) [OF inv5] conn_invD(2) [OF inv5, of p] have "heap_ok s5" "1 < counts s5 p" by simp_all
  from commit_ready [OF commit this] ssl5 ok res
  have "is_ready s'" "last_err s' = []" "session_ssl (session s') s' = Some h" by (simp_all add: ssl_of_def)
  moreover from hs obtain w where "ssl_connect api (the_world s3) h = (True, w)" "ssl_verify_ok api w h"
    by (auto simp: tls_handshake_def split: prod.split_asm if_split_asm)
  ultimately show ?thesis using ok res by blast
qed


text \<open>
  The reconnect delays double from one second up to a ceiling of thirty: after a reset, the
  delay before attempt \<open>i\<close> (counted from 0) is the smaller of \<open>2 ^ i\<close> and 30 seconds.
\<close>

theorem backoff_delays: "delays n (backoff_reset b) = map (\<lambda>i. min 30 (2 ^ i)) [0..<n]"
  using delays_eq [of "backoff_reset b" n] by (simp add: backoff_reset_def)

section \<open>A machine whose calls all succeed\<close>

definition mem_conn_api :: "(string \<times> string, unit) conn_api" where
  "mem_conn_api = \<lparr>getaddrinfo = (\<lambda>w host port. (Some (), w)), os_socket = (\<lambda>w. (Some 3, w)),
     os_connect = (\<lambda>w k a. (True, w)), os_shutdown = (\<lambda>w k. w), os_closesocket = (\<lambda>w k. w),
     is_ipv4_text = (\<lambda>t. True), ctx_new = (\<lambda>w. (Some 1, w)), ctx_require_tls12 = (\<lambda>w k. w),
     ctx_verify_peer = (\<lambda>w k. w), ctx_default_paths = (\<lambda>w k. (True, w)), ctx_load_ca = (\<lambda>w k f. (True, w)),
     ctx_free = (\<lambda>w k. w), ssl_new = (\<lambda>w k. (Some 2, w)), ssl_set_fd = (\<lambda>w k f. (True, w)),
     ssl_set_ip = (\<lambda>w k h. (True, w)), ssl_set_host = (\<lambda>w k h. (True, w)), ssl_set_sni = (\<lambda>w k h. w),
     ssl_connect = (\<lambda>w k. (True, w)), ssl_verify_ok = (\<lambda>w k. True), ssl_shutdown = (\<lambda>w k. w),
     ssl_free = (\<lambda>w k. w), ssl_queue_error = (\<lambda>w. (None, w)), ssl_io = (\<lambda>k. mem_ssl)\<rparr>"

definition mem_config :: Config where
  "mem_config = \<lparr>cfg_server_ip = ''10.0.0.2'', cfg_server_port = 8888, cfg_username = ''Bob'',
     cfg_user_code = ''BOB01'', cfg_ca_file = [], cfg_tls_server_name = []\<rparr>"

definition mem_conn :: "string \<Rightarrow> (string \<times> string) conn" where
  "mem_conn i = conn_init mem_config (mem_mnet [] i)"

lemma mem_conn_inv: "conn_inv (CIdle, RIdle, mem_conn i)"
  by (rule conn_inv_start) (auto simp: conn_start_def mem_conn_def)

lemma mem_io_ok: "\<forall>h. ssl_ok fst snd (ssl_io mem_conn_api h)"
  by (simp add: mem_conn_api_def)

theorem session_memory_safe_witness:
  "\<exists>s. reachable conn_start (conn_step mem_conn_api flat_codec) (COpen 0, RIdle, s) \<and>
     session s = Some 0 \<and> heap s 0 \<noteq> None \<and> conn_send mem_conn_api flat_codec sample_chat s \<noteq> None"
proof -
  let ?s = "snd (cl_begin mem_conn_api (mem_conn []))"
  have b: "cl_begin mem_conn_api (mem_conn []) = (Some 0, ?s)" and ses: "session ?s = Some 0"
    by (simp_all add: cl_begin_def mem_conn_def conn_init_def Let_def release_opt_def retain_def)
  have r: "reachable conn_start (conn_step mem_conn_api flat_codec) (COpen 0, RIdle, ?s)"
    by (rule reachable_step [where s = "(CIdle, RIdle, mem_conn [])"])
      (auto simp: conn_start_def mem_conn_def intro!: reachable_init conn_step.begin_ok b [unfolded mem_conn_def] exI)
  from session_memory_safe [OF r] ses have "heap ?s 0 \<noteq> None"
    and "conn_send mem_conn_api flat_codec sample_chat ?s \<noteq> None" by blast+
  with r ses show ?thesis by blast
qed

theorem stop_is_final_witness:
  "\<not> is_ready (request_stop mem_conn_api (mem_conn [])) \<and>
   \<not> fst (cl_commit mem_conn_api 0 (request_stop mem_conn_api (mem_conn [])))"
  using stop_is_final [where api = mem_conn_api and c = flat_codec and t = CIdle and r = RIdle and s = "mem_conn []"
      and p = 0 and m = sample_chat, OF steps_refl] by blast


lemmas mem_conn_eval = mem_conn_api_def mem_conn_def conn_init_def mem_config_def mem_mnet_def mem_net_def
  set_session_def set_world_def the_world_def the_session_def resolve_ipv4_endpoint_def set_verify_host_def
  new_session_def Let_def numeral_2_eq_2 fun_eq_iff

definition login_ok_payload :: string where
  "login_ok_payload = put_string ''type'' @ put_string ''login_ok''"

lemma login_ok_parsed:
  "parse_payload flat_codec login_ok_payload = Inr (Message (mk_fields ''login_ok'' [] [] [] [] [] [] [] [] [] []) [])"
proof -
  let ?m = "Message (mk_fields ''login_ok'' [] [] [] [] [] [] [] [] [] []) []"
  have "dump_message flat_codec ?m = Inr login_ok_payload"
    by (simp add: dump_message_def crypto_value_def mk_fields_def serialize_entries_def bind_r_def
        flat_codec_def login_ok_payload_def)
  moreover have "floatless flat_codec ?m" by (simp add: crypto_value_def mk_fields_def)
  moreover have "received_view flat_codec ?m = Inr ?m"
    by (simp add: received_view_def crypto_text_def check_base64_def wire_view_def mk_fields_def bind_r_def wire_limit_def)
  ultimately show ?thesis using parse_dumped [OF flat_codec_ok] by metis
qed

lemma mem_login_exchange:
  assumes "snd (world (frames (env s))) = frame_bytes login_ok_payload" "conf s = mem_config"
  shows "\<exists>s'. login_exchange mem_conn_api flat_codec h s =
     Some (Inr (Inr (), Message (mk_fields ''login_ok'' [] [] [] [] [] [] [] [] [] []) [], s')) \<and> same_heap s s'"
proof -
  let ?l = "make_login_message (login_options (conf s))"
  have dump: "dump_message flat_codec ?l = Inr (concat (map put_string
      [''type'', ''login'', ''user_code'', ''BOB01'', ''username'', ''Bob'']))"
    by (simp add: dump_message_def make_login_message_def login_options_def assms mem_config_def crypto_value_def
        mk_fields_def serialize_entries_def bind_r_def flat_codec_def less_char_def default_options_def)
  let ?p = "concat (map put_string [''type'', ''login'', ''user_code'', ''BOB01'', ''username'', ''Bob''])"
  have "valid_payload ?p" by (simp add: valid_payload_def kMaxMessageSize_def)
  then obtain fs where fs: "ssl_send_frame mem_ssl (frames (env s)) ?p = (True, fs)"
    using ssl_send_frame_live [OF mem_ssl_ok] by blast
  from ssl_send_message_sent [OF dump fs] have send: "ssl_send_message mem_ssl flat_codec (env s) ?l = Inr (True, (env s)\<lparr>frames := fs\<rparr>)" .
  from ssl_send_frame_prefix [OF mem_ssl_ok(1) fs] assms(1)
  have "snd (world (frames ((env s)\<lparr>frames := fs\<rparr>))) = frame_bytes login_ok_payload @ []" by auto
  moreover have "valid_payload login_ok_payload"
    by (simp add: valid_payload_def kMaxMessageSize_def login_ok_payload_def)
  ultimately obtain m' where "ssl_receive_message mem_ssl flat_codec ((env s)\<lparr>frames := fs\<rparr>) =
      (True, Message (mk_fields ''login_ok'' [] [] [] [] [] [] [] [] [] []) [], m')"
    using tls_frames.receive_delivers [OF mem_ssl_ok, of login_ok_payload "(env s)\<lparr>frames := fs\<rparr>" "[]" flat_codec]
    by (auto simp: ssl_receive_message_def login_ok_parsed)
  then have "await_login mem_ssl flat_codec ((env s)\<lparr>frames := fs\<rparr>) =
      Some (True, Message (mk_fields ''login_ok'' [] [] [] [] [] [] [] [] [] []) [], m')"
    by (subst await_login.simps) (simp add: mk_fields_def)
  with send show ?thesis
    by (intro exI [of _ "s\<lparr>env := m'\<rparr>"])
      (simp add: login_exchange_def mem_conn_api_def same_heap_def same_shared_def)
qed

theorem connect_success_witness:
  "\<exists>m s'. connect_and_login mem_conn_api flat_codec (mem_conn (frame_bytes login_ok_payload)) = Some (Inr (True, m, kSuccess), s') \<and>
     mtype (mfields m) = ''login_ok'' \<and> is_ready s'"
proof -
  let ?s = "mem_conn (frame_bytes login_ok_payload)"
  define s4 where "s4 = ?s\<lparr>session := Some 0, next_ptr := 1,
    heap := (\<lambda>_. None)(0 \<mapsto> (\<lparr>socket_handle = Some 3, ssl_context = Some 1, ssl = Some 2\<rparr>, 2))\<rparr>"
  have "snd (world (frames (env s4))) = frame_bytes login_ok_payload" "conf s4 = mem_config"
    by (simp_all add: s4_def mem_conn_def conn_init_def mem_mnet_def mem_net_def)
  from mem_login_exchange [OF this, of 2] obtain s5 where
    login: "login_exchange mem_conn_api flat_codec 2 s4 =
      Some (Inr (Inr (), Message (mk_fields ''login_ok'' [] [] [] [] [] [] [] [] [] []) [], s5))"
    and sh: "same_heap s4 s5" by blast
  define s6 where "s6 = snd (cl_commit mem_conn_api 0 s5)"
  have commit: "cl_commit mem_conn_api 0 s5 = (True, s6)"
    using sh by (simp add: s6_def) (simp add: cl_commit_def same_heap_def same_shared_def s4_def mem_conn_def conn_init_def)
  have "connect_and_login mem_conn_api flat_codec ?s = after_open mem_conn_api flat_codec 0
      (?s\<lparr>session := Some 0, next_ptr := 1,
         heap := (\<lambda>_. None)(0 \<mapsto> (\<lparr>socket_handle = Some 3, ssl_context = None, ssl = None\<rparr>, 2))\<rparr>)"
    by (simp add: connect_and_login_def cl_begin_def release_opt_def retain_def open_socket_def mem_conn_eval)
  moreover have "tls_setup mem_conn_api 0 (?s\<lparr>session := Some 0, next_ptr := 1,
      heap := (\<lambda>_. None)(0 \<mapsto> (\<lparr>socket_handle = Some 3, ssl_context = None, ssl = None\<rparr>, 2))\<rparr>) = (Inr 2, s4)"
    by (simp add: tls_setup_def tls_context_def s4_def mem_conn_eval)
  moreover have "tls_handshake mem_conn_api 2 s4 = (Inr (), s4)"
    by (simp add: tls_handshake_def s4_def mem_conn_eval)
  ultimately have "connect_and_login mem_conn_api flat_codec ?s =
      Some (Inr (True, Message (mk_fields ''login_ok'' [] [] [] [] [] [] [] [] [] []) [], kSuccess),
            s6)"
    using login commit by (simp add: after_open_def) (simp add: mk_fields_def)
  with connect_success [OF mem_conn_inv this] show ?thesis by blast
qed

end
