(* ===== verification/Command.thy ===== *)
theory Command
  imports Prelude
begin

text \<open>
  The console commands, \<open>client-cpp/src/command.cpp\<close>: recognising \<open>/msg\<close>, \<open>/rooms\<close>, \<open>/leave\<close> and
  \<open>/join\<close> and parsing the private-message and join commands. An operation with an output
  parameter returns the pair of its result and that parameter.

  \<open>std::isspace\<close> and \<open>std::isalnum\<close> are those of the C locale the console client runs in. The
  code uses two notions of blank: \<open>isspace\<close> (six characters) to skip, and the four characters
  of \<open>find_first_of\<close> to end a word.
\<close>

record PrivateMessageCommand =
  target_name :: string
  target_code :: string
  pm_content :: string

record RoomCommand =
  room_name :: string

definition no_private_message :: PrivateMessageCommand where
  "no_private_message = \<lparr>target_name = [], target_code = [], pm_content = []\<rparr>"

definition no_room :: RoomCommand where
  "no_room = \<lparr>room_name = []\<rparr>"

definition isspace :: "char \<Rightarrow> bool" where
  "isspace c \<longleftrightarrow> c \<in> {CHR '' '', CHR 0x09, CHR 0x0A, CHR 0x0B, CHR 0x0C, CHR 0x0D}"

definition word_end :: "char \<Rightarrow> bool" where
  "word_end c \<longleftrightarrow> c \<in> {CHR '' '', CHR 0x09, CHR 0x0D, CHR 0x0A}"

definition is_command_prefix :: "string \<Rightarrow> bool" where
  "is_command_prefix input \<longleftrightarrow> 4 \<le> length input \<and> substr input 0 4 = ''/msg''"

definition is_ascii_alphanumeric :: "char \<Rightarrow> bool" where
  "is_ascii_alphanumeric c \<longleftrightarrow>
     (let n = of_char c :: nat in 48 \<le> n \<and> n \<le> 57 \<or> 65 \<le> n \<and> n \<le> 90 \<or> 97 \<le> n \<and> n \<le> 122)"

definition is_valid_code :: "string \<Rightarrow> bool" where
  "is_valid_code code \<longleftrightarrow> (if code = [] then False else list_all is_ascii_alphanumeric code)"

definition kMaxRoomNameLength :: nat where
  "kMaxRoomNameLength = 32"

definition is_valid_room_name :: "string \<Rightarrow> bool" where
  "is_valid_room_name name \<longleftrightarrow>
     (if name = [] \<or> kMaxRoomNameLength < length name then False
      else list_all (\<lambda>c. is_ascii_alphanumeric c \<or> c = CHR ''_'') name)"

function skip_spaces :: "string \<Rightarrow> nat \<Rightarrow> nat" where
  "skip_spaces input position =
     (if position < length input \<and> isspace (input ! position) then skip_spaces input (position + 1)
      else position)"
  by pat_completeness auto
termination
  by (relation "measure (\<lambda>(input, position). length input - position)") auto

declare skip_spaces.simps [simp del]

definition is_private_message_command :: "string \<Rightarrow> bool" where
  "is_private_message_command input \<longleftrightarrow> input = ''/msg'' \<or>
     (is_command_prefix input \<and> 4 < length input \<and> isspace (input ! 4))"

definition parse_private_message :: "string \<Rightarrow> bool \<times> PrivateMessageCommand" where
  "parse_private_message input =
    (let failed = (False, no_private_message) in
     if \<not> is_private_message_command input then failed
     else let target_begin = skip_spaces input 5 in
     if length input \<le> target_begin then failed
     else let target_end = find_index word_end input target_begin;
              target_length = (case target_end of None \<Rightarrow> length input - target_begin | Some e \<Rightarrow> e - target_begin);
              target = substr input target_begin target_length in
     if target = [] then failed
     else (case find_index ((=) (CHR ''#'')) target 0 of
        None \<Rightarrow> failed
      | Some separator \<Rightarrow>
          if separator = 0 \<or> length target \<le> separator + 1 \<or>
             find_index ((=) (CHR ''#'')) target (separator + 1) \<noteq> None then failed
          else let name = substr target 0 separator;
                   code = drop (separator + 1) target in
          if \<not> is_valid_code code then failed
          else (case target_end of
             None \<Rightarrow> failed
           | Some e \<Rightarrow>
               let content_begin = skip_spaces input e in
               if content_begin = length input then failed
               else (True, \<lparr>target_name = name, target_code = code, pm_content = drop content_begin input\<rparr>))))"

definition is_rooms_command :: "string \<Rightarrow> bool" where
  "is_rooms_command input \<longleftrightarrow> input = ''/rooms''"

definition is_leave_command :: "string \<Rightarrow> bool" where
  "is_leave_command input \<longleftrightarrow> input = ''/leave''"

definition is_join_command :: "string \<Rightarrow> bool" where
  "is_join_command input \<longleftrightarrow> input = ''/join'' \<or> (6 < length input \<and> substr input 0 6 = ''/join '')"

definition parse_join_command :: "string \<Rightarrow> bool \<times> RoomCommand" where
  "parse_join_command input =
    (if \<not> is_join_command input then (False, no_room)
     else let room_begin = skip_spaces input 5 in
     if length input \<le> room_begin then (False, no_room)
     else let room_end = find_index word_end input room_begin;
              name = substr input room_begin
                (case room_end of None \<Rightarrow> length input - room_begin | Some e \<Rightarrow> e - room_begin) in
     if room_end \<noteq> None \<or> \<not> is_valid_room_name name then (False, no_room)
     else (True, \<lparr>room_name = name\<rparr>))"

section \<open>Scanning\<close>

lemma skip_spaces_eq: "skip_spaces input pos = pos + length (takeWhile isspace (drop pos input))"
proof (induction input pos rule: skip_spaces.induct)
  case (1 input pos)
  show ?case
  proof (cases "pos < length input \<and> isspace (input ! pos)")
    case True
    then have "drop pos input = input ! pos # drop (pos + 1) input" by (simp add: Cons_nth_drop_Suc)
    with 1 True show ?thesis by (simp add: skip_spaces.simps [of input pos])
  next
    case False
    then have "takeWhile isspace (drop pos input) = []"
      by (cases "drop pos input") (auto simp: nth_via_drop not_less dest: arg_cong [of _ _ length])
    moreover from False have "skip_spaces input pos = pos" by (subst skip_spaces.simps) auto
    ultimately show ?thesis by simp
  qed
qed

lemma drop_skip_spaces: "drop (skip_spaces input pos) input = dropWhile isspace (drop pos input)"
  by (simp add: skip_spaces_eq dropWhile_eq_drop add.commute)

lemma skip_spaces_le: "pos \<le> length input \<Longrightarrow> skip_spaces input pos \<le> length input"
  using length_takeWhile_le [of isspace "drop pos input"] by (simp add: skip_spaces_eq)

lemma word_end_isspace: "word_end c \<Longrightarrow> isspace c"
  by (auto simp: word_end_def isspace_def)

lemma alnum_not_blank: "is_ascii_alphanumeric c \<Longrightarrow> \<not> isspace c" "is_ascii_alphanumeric c \<Longrightarrow> c \<noteq> CHR ''#''"
  by (auto simp: is_ascii_alphanumeric_def isspace_def Let_def)

section \<open>The private-message command\<close>

definition is_target_name :: "string \<Rightarrow> bool" where
  "is_target_name n \<longleftrightarrow> n \<noteq> [] \<and> \<not> isspace (hd n) \<and> list_all (\<lambda>c. \<not> word_end c \<and> c \<noteq> CHR ''#'') n"

definition is_content :: "string \<Rightarrow> bool" where
  "is_content s \<longleftrightarrow> s \<noteq> [] \<and> \<not> isspace (hd s)"

text \<open>The word at a position: its end and its text.\<close>

lemma scan_word:
  assumes "input = pre @ word @ d # rest" "length pre = pos" "\<forall>c \<in> set word. \<not> word_end c" "word_end d"
  shows "find_index word_end input pos = Some (pos + length word)"
    and "substr input pos (length word) = word"
  using find_index_append [of pre pos word word_end d rest] assms by (auto simp: substr_def)

lemma split_target:
  assumes "find_index ((=) (CHR ''#'')) target 0 = Some k" "k \<noteq> 0" "k + 1 < length target"
    "find_index ((=) (CHR ''#'')) target (k + 1) = None"
  shows "target = substr target 0 k @ CHR ''#'' # drop (k + 1) target"
    and "CHR ''#'' \<notin> set (substr target 0 k)" and "substr target 0 k \<noteq> []"
proof -
  from find_index_Some_split [OF assms(1)] obtain xs ys where
    t: "target = xs @ CHR ''#'' # ys" and k: "k = length xs" and nx: "CHR ''#'' \<notin> set xs" by auto
  then have "substr target 0 k = xs" by (simp add: substr_def)
  with t k nx assms(2) show "target = substr target 0 k @ CHR ''#'' # drop (k + 1) target"
    and "CHR ''#'' \<notin> set (substr target 0 k)" and "substr target 0 k \<noteq> []" by auto
qed

lemma join_target:
  assumes "is_target_name n" "is_valid_code code"
  defines "target \<equiv> n @ CHR ''#'' # code"
  shows "find_index ((=) (CHR ''#'')) target 0 = Some (length n)"
    and "find_index ((=) (CHR ''#'')) target (length n + 1) = None"
    and "\<forall>c \<in> set target. \<not> word_end c"
proof -
  from assms have n: "n \<noteq> []" "\<forall>c \<in> set n. \<not> word_end c" "CHR ''#'' \<notin> set n"
    and code: "\<forall>c \<in> set code. is_ascii_alphanumeric c"
    by (auto simp: is_target_name_def is_valid_code_def list_all_iff split: if_splits)
  from code have plain: "\<forall>c \<in> set code. \<not> word_end c \<and> c \<noteq> CHR ''#''"
    using alnum_not_blank word_end_isspace by blast
  from n plain show "find_index ((=) (CHR ''#'')) target 0 = Some (length n)"
    using find_index_append [of "[]" 0 n "(=) (CHR ''#'')" "CHR ''#''" code] by (auto simp: target_def)
  from plain show "find_index ((=) (CHR ''#'')) target (length n + 1) = None"
    using find_index_None [of "n @ ''#''" "length n + 1" "(=) (CHR ''#'')" code] by (auto simp: target_def)
  from n plain show "\<forall>c \<in> set target. \<not> word_end c" by (auto simp: target_def word_end_def)
qed

lemma msg_command_iff: "is_private_message_command input \<and> input \<noteq> ''/msg'' \<longleftrightarrow>
    (\<exists>b rest. input = ''/msg'' @ b # rest \<and> isspace b)"
proof
  assume "is_private_message_command input \<and> input \<noteq> ''/msg''"
  then have "take 4 input = ''/msg''" "4 < length input" "isspace (input ! 4)"
    by (auto simp: is_private_message_command_def is_command_prefix_def substr_def)
  then show "\<exists>b rest. input = ''/msg'' @ b # rest \<and> isspace b"
    by (metis id_take_nth_drop)
qed (auto simp: is_private_message_command_def is_command_prefix_def substr_def)

lemma takeWhile_block: "list_all P w \<Longrightarrow> r = [] \<or> \<not> P (hd r) \<Longrightarrow> takeWhile P (w @ r) = w"
  by (induction w) (cases r; simp)+

lemma dropWhile_block: "list_all P w \<Longrightarrow> r = [] \<or> \<not> P (hd r) \<Longrightarrow> dropWhile P (w @ r) = r"
  by (induction w) (cases r; simp)+

lemma parse_private_message_accepts:
  assumes input: "input = ''/msg'' @ w @ n @ ''#'' @ code @ d # v @ content"
    and w: "w \<noteq> []" "list_all isspace w" and n: "is_target_name n" and code: "is_valid_code code"
    and d: "word_end d" and v: "list_all isspace v" and content: "is_content content"
  shows "parse_private_message input = (True, \<lparr>target_name = n, target_code = code, pm_content = content\<rparr>)"
proof -
  let ?target = "n @ CHR ''#'' # code" and ?b = "4 + length w"
  note t = join_target [OF n code]
  from w obtain b w' where bw: "w = b # w'" by (cases w) auto
  have cmd: "is_private_message_command input" using msg_command_iff [of input] input bw w by auto
  have start: "skip_spaces input 5 = ?b"
    using takeWhile_block [of isspace w' "?target @ d # v @ content"] w n
    by (simp add: skip_spaces_eq input bw is_target_name_def)
  have split: "input = (''/msg'' @ w) @ ?target @ d # (v @ content)" by (simp add: input)
  note word = scan_word [OF split _ t(3) d, of ?b, simplified]
  have "dropWhile isspace (d # v @ content) = content"
    using dropWhile_block [of isspace v content] v content d word_end_isspace by (simp add: is_content_def)
  moreover have "drop (?b + length ?target) input = d # v @ content"
    by (simp add: split drop_append numeral_eq_Suc)
  ultimately have rest: "drop (skip_spaces input (?b + length ?target)) input = content"
    by (simp only: drop_skip_spaces)
  with content have "skip_spaces input (?b + length ?target) \<noteq> length input"
    by (auto simp: is_content_def)
  with cmd start word t(1,2) rest code n show ?thesis
    unfolding parse_private_message_def Let_def
    by (simp add: substr_def is_target_name_def is_valid_code_def input split: if_splits)
qed

lemma parse_private_message_sound:
  assumes "parse_private_message input = (True, cmd)"
  shows "\<exists>w d v. input = ''/msg'' @ w @ target_name cmd @ ''#'' @ target_code cmd @ d # v @ pm_content cmd \<and>
    w \<noteq> [] \<and> list_all isspace w \<and> is_target_name (target_name cmd) \<and> is_valid_code (target_code cmd) \<and>
    word_end d \<and> list_all isspace v \<and> is_content (pm_content cmd)"
proof -
  let ?b = "skip_spaces input 5"
  from assms obtain e k where pm: "is_private_message_command input" and b: "?b < length input"
    and e: "find_index word_end input ?b = Some e"
    and k: "find_index ((=) (CHR ''#'')) (substr input ?b (e - ?b)) 0 = Some k" "k \<noteq> 0"
      "k + 1 < length (substr input ?b (e - ?b))"
      "find_index ((=) (CHR ''#'')) (substr input ?b (e - ?b)) (k + 1) = None"
    and code: "is_valid_code (drop (k + 1) (substr input ?b (e - ?b)))"
    and c: "skip_spaces input e \<noteq> length input"
    and cmd: "cmd = \<lparr>target_name = substr (substr input ?b (e - ?b)) 0 k,
        target_code = drop (k + 1) (substr input ?b (e - ?b)), pm_content = drop (skip_spaces input e) input\<rparr>"
    by (auto simp: parse_private_message_def Let_def split: if_splits option.splits)
  have "input \<noteq> ''/msg''" using b by (auto simp: skip_spaces_eq)
  with pm msg_command_iff obtain s rest where input: "input = ''/msg'' @ s # rest" and s: "isspace s" by blast
  define t where "t = dropWhile isspace rest"
  have dropb: "drop ?b input = t" by (simp add: drop_skip_spaces input t_def)
  with b have t: "t \<noteq> []" by (metis drop_eq_Nil not_le)
  then have hd_t: "\<not> isspace (hd t)" unfolding t_def by (rule hd_dropWhile)
  from find_index_Some_split [OF e] obtain xs d ys where
    tx: "t = xs @ d # ys" and ex: "e = ?b + length xs" and d: "word_end d" and xs: "\<forall>x \<in> set xs. \<not> word_end x"
    by (auto simp: dropb)
  have target: "substr input ?b (e - ?b) = xs" by (simp add: substr_def dropb ex tx)
  note st = split_target [OF k, unfolded target]
  have name: "target_name cmd = substr xs 0 k" and tcode: "target_code cmd = drop (k + 1) xs"
    by (simp_all only: cmd PrivateMessageCommand.select_convs target)
  have de: "drop e input = d # ys" using dropb tx ex by (metis drop_drop add.commute append_eq_conv_conj)
  then have content: "pm_content cmd = dropWhile isspace ys"
    using d word_end_isspace by (simp add: cmd drop_skip_spaces)
  from de have "e \<le> length input" by (metis drop_all le_cases list.distinct(1))
  with c have "pm_content cmd \<noteq> []" using skip_spaces_le [of e input] by (simp add: cmd)
  then have ic: "is_content (pm_content cmd)" using content by (simp add: is_content_def hd_dropWhile)
  have "hd (target_name cmd) = hd t" using st(1,3) name tx by (metis hd_append2 append_is_Nil_conv)
  with st(1,2,3) xs hd_t have "is_target_name (target_name cmd)"
    unfolding is_target_name_def list_all_iff name by (metis (no_types, lifting) UnI1 set_append)
  moreover have "is_valid_code (target_code cmd)" using code target tcode by simp
  moreover have "input = ''/msg'' @ (s # takeWhile isspace rest) @ target_name cmd @ ''#'' @ target_code cmd
      @ d # takeWhile isspace ys @ pm_content cmd"
    using input tx st(1) name tcode content takeWhile_dropWhile_id [of isspace rest]
    unfolding t_def by (metis append.assoc append_Cons append_Nil takeWhile_dropWhile_id)
  ultimately show ?thesis using s d ic
    by (intro exI [of _ "s # takeWhile isspace rest"] exI [of _ d] exI [of _ "takeWhile isspace ys"])
      (auto simp: list_all_iff dest: set_takeWhileD)
qed

section \<open>The join command\<close>

lemma room_char_plain: "is_ascii_alphanumeric c \<or> c = CHR ''_'' \<Longrightarrow> \<not> isspace c"
  by (auto simp: is_ascii_alphanumeric_def isspace_def Let_def)

lemma valid_room_name_plain: "is_valid_room_name n \<Longrightarrow> n \<noteq> [] \<and> (\<forall>c \<in> set n. \<not> isspace c)"
  using room_char_plain by (auto simp: is_valid_room_name_def list_all_iff split: if_splits)

lemma join_command_iff: "is_join_command input \<and> input \<noteq> ''/join'' \<longleftrightarrow> (\<exists>rest. input = ''/join '' @ rest \<and> rest \<noteq> [])"
proof
  assume "is_join_command input \<and> input \<noteq> ''/join''"
  then have "take 6 input = ''/join ''" "6 < length input" by (auto simp: is_join_command_def substr_def)
  then show "\<exists>rest. input = ''/join '' @ rest \<and> rest \<noteq> []"
    by (metis append_take_drop_id drop_eq_Nil not_le)
qed (auto simp: is_join_command_def substr_def)

lemma parse_join_rest:
  assumes "input = ''/join '' @ rest" "rest \<noteq> []"
  shows "parse_join_command input =
    (let name = dropWhile isspace rest in
     if name = [] \<or> \<not> list_all (\<lambda>c. \<not> word_end c) name \<or> \<not> is_valid_room_name name then (False, no_room)
     else (True, \<lparr>room_name = name\<rparr>))"
proof -
  let ?b = "skip_spaces input 5"
  have cmd: "is_join_command input" using join_command_iff [of input] assms by blast
  have "drop 5 input = CHR '' '' # rest" by (simp add: assms)
  then have name: "drop ?b input = dropWhile isspace rest"
    unfolding drop_skip_spaces by (simp add: isspace_def)
  then have emp: "length input \<le> ?b \<longleftrightarrow> dropWhile isspace rest = []" by (metis drop_eq_Nil)
  have ends: "find_index word_end input ?b = None \<longleftrightarrow> list_all (\<lambda>c. \<not> word_end c) (dropWhile isspace rest)"
    by (simp add: find_index_def first_index_None name list_all_iff)
  have whole: "substr input ?b (length input - ?b) = dropWhile isspace rest"
    unfolding substr_def name by (simp flip: name)
  show ?thesis
    unfolding parse_join_command_def Let_def using cmd emp ends whole
    by (cases "find_index word_end input ?b") (auto split: if_splits)
qed

section \<open>Properties\<close>

text \<open>
  C26. \<open>parse_private_message\<close> accepts exactly the lines \<open>/msg\<close>, blanks, a name, a hash sign, an
  alphanumeric code, blanks, and a text that does not start with a blank, and it returns exactly
  that name, code and text.
\<close>

theorem parse_private_message_iff:
  "parse_private_message input = (True, cmd) \<longleftrightarrow>
    (\<exists>w d v. input = ''/msg'' @ w @ target_name cmd @ ''#'' @ target_code cmd @ d # v @ pm_content cmd \<and>
      w \<noteq> [] \<and> list_all isspace w \<and> is_target_name (target_name cmd) \<and> is_valid_code (target_code cmd) \<and>
      word_end d \<and> list_all isspace v \<and> is_content (pm_content cmd))"
  (is "?parse \<longleftrightarrow> ?shape")
proof
  assume ?shape
  then obtain w d v where "input = ''/msg'' @ w @ target_name cmd @ ''#'' @ target_code cmd @ d # v @ pm_content cmd"
    "w \<noteq> []" "list_all isspace w" "is_target_name (target_name cmd)" "is_valid_code (target_code cmd)"
    "word_end d" "list_all isspace v" "is_content (pm_content cmd)" by blast
  from parse_private_message_accepts [OF this] show ?parse by simp
qed (rule parse_private_message_sound)

text \<open>
  \<open>parse_join_command\<close> accepts exactly \<open>/join\<close> followed by a space, further blanks and a room
  name of 1 to 32 letters, digits and underscores, and returns that name; every other line, a
  trailing blank included, is refused with an empty name.
\<close>

theorem parse_join_command_iff:
  "parse_join_command input =
    (if \<exists>w n. input = ''/join '' @ w @ n \<and> list_all isspace w \<and> is_valid_room_name n
     then (True, \<lparr>room_name = dropWhile isspace (drop 6 input)\<rparr>) else (False, no_room))"
proof (cases "\<exists>rest. input = ''/join '' @ rest \<and> rest \<noteq> []")
  case True
  then obtain rest where input: "input = ''/join '' @ rest" "rest \<noteq> []" by blast
  let ?n = "dropWhile isspace rest"
  have valid: "is_valid_room_name ?n \<longleftrightarrow> (\<exists>w n. input = ''/join '' @ w @ n \<and> list_all isspace w \<and> is_valid_room_name n)"
  proof
    assume "is_valid_room_name ?n"
    with input show "\<exists>w n. input = ''/join '' @ w @ n \<and> list_all isspace w \<and> is_valid_room_name n"
      by (intro exI [of _ "takeWhile isspace rest"] exI [of _ ?n]) (auto simp: list_all_iff dest: set_takeWhileD)
  next
    assume "\<exists>w n. input = ''/join '' @ w @ n \<and> list_all isspace w \<and> is_valid_room_name n"
    then obtain w n where wn: "rest = w @ n" "list_all isspace w" "is_valid_room_name n" using input by auto
    with valid_room_name_plain [OF wn(3)] dropWhile_block [of isspace w n] show "is_valid_room_name ?n" by simp
  qed
  have "is_valid_room_name ?n \<Longrightarrow> ?n \<noteq> [] \<and> list_all (\<lambda>c. \<not> word_end c) ?n"
    unfolding list_all_iff using valid_room_name_plain [of ?n] word_end_isspace by blast
  with parse_join_rest [OF input] valid show ?thesis by (auto simp: Let_def input(1))
next
  case False
  have "\<not> (\<exists>w n. input = ''/join '' @ w @ n \<and> list_all isspace w \<and> is_valid_room_name n)"
    using False valid_room_name_plain by auto
  moreover have "parse_join_command input = (False, no_room)"
    using False join_command_iff [of input]
    by (auto simp: parse_join_command_def skip_spaces_eq Let_def)
  ultimately show ?thesis by simp
qed

end
