(* ===== verification/Console_Input.thy ===== *)
theory Console_Input
  imports Auth
begin

text \<open>
  The console client's host process, console mode and line input, \<open>client-cpp/src/main.cpp\<close>:
  \<open>HostServerProcess\<close>, \<open>utf8_from_wide\<close>, \<open>wide_from_utf8\<close>, \<open>ConsoleInputModeGuard\<close>,
  \<open>erase_last_utf16_code_point\<close>, \<open>read_console_line\<close>, \<open>read_redirected_pipe_line\<close> and
  \<open>read_next_input_line\<close>.

  A \<open>std::wstring\<close> is a list of 16-bit words. What Windows answers is the input of the model: the
  conversions \<open>WideCharToMultiByte\<close> and \<open>MultiByteToWideChar\<close> are the parameter \<open>utf_api\<close>, and the
  results of the waits and reads of a loop are a script, one entry per iteration. A loop whose
  script is exhausted is still waiting, which is \<open>None\<close>.
\<close>

type_synonym wchar = "16 word"
type_synonym wstring = "wchar list"

definition wide :: "string \<Rightarrow> wstring" where
  "wide s = map (\<lambda>c. word_of_nat (of_char c)) s"

record utf_api =
  wide_to_utf8 :: "wstring \<Rightarrow> string option"
  utf8_to_wide :: "string \<Rightarrow> wstring option"

section \<open>Conversions\<close>

text \<open>The argument is a C string: it ends at the first NUL.\<close>

definition utf8_from_wide :: "utf_api \<Rightarrow> wstring \<Rightarrow> string" where
  "utf8_from_wide u v = (case wide_to_utf8 u (takeWhile (\<lambda>c. c \<noteq> 0) v) of None \<Rightarrow> [] | Some s \<Rightarrow> s)"

definition wide_from_utf8 :: "utf_api \<Rightarrow> string \<Rightarrow> wstring \<times> bool" where
  "wide_from_utf8 u v =
    (if v = [] then ([], True) else (case utf8_to_wide u v of None \<Rightarrow> ([], False) | Some w \<Rightarrow> (w, True)))"

section \<open>HostServerProcess\<close>

record host_process =
  process_handle :: "nat option"

definition quote :: "wstring \<Rightarrow> wstring" where
  "quote v = wide [CHR 0x22] @ v @ wide [CHR 0x22]"

definition host_command :: "(string \<Rightarrow> wstring) \<Rightarrow> ClientOptions \<Rightarrow> wstring" where
  "host_command to_wide options =
     quote (to_wide (server_exe options)) @ wide '' -cert '' @ quote (to_wide (cert_file options)) @
     wide '' -key '' @ quote (to_wide (key_file options)) @
     wide '' -admin-code '' @ quote (to_wide (opt_user_code options))"

text \<open>\<open>create\<close> is \<open>CreateProcessW\<close>: the handle of the new process, or \<open>None\<close> on failure.\<close>

definition host_start ::
    "(string \<Rightarrow> wstring) \<Rightarrow> (wstring \<Rightarrow> nat option) \<Rightarrow> ClientOptions \<Rightarrow> host_process \<Rightarrow> string + host_process" where
  "host_start to_wide create options h =
    (case create (host_command to_wide options) of
       None \<Rightarrow> Inl ''Failed to start Go server process. Check --server-exe, --cert and --key.''
     | Some p \<Rightarrow> Inr (h\<lparr>process_handle := Some p\<rparr>))"

text \<open>\<open>stop\<close> returns the handles it terminated and closed.\<close>

definition host_stop :: "host_process \<Rightarrow> nat list \<times> host_process" where
  "host_stop h =
    (case process_handle h of None \<Rightarrow> ([], h) | Some p \<Rightarrow> ([p], h\<lparr>process_handle := None\<rparr>))"

section \<open>ConsoleInputModeGuard\<close>

record mode_guard =
  guard_handle :: "nat option"
  original_mode :: u32
  guard_active :: bool

definition new_guard :: mode_guard where
  "new_guard = \<lparr>guard_handle = None, original_mode = 0, guard_active = False\<rparr>"

text \<open>\<open>ENABLE_LINE_INPUT | ENABLE_ECHO_INPUT\<close>. The console's modes are a map from handles; a
  handle without a mode makes \<open>GetConsoleMode\<close> fail, and \<open>settable\<close> says whether
  \<open>SetConsoleMode\<close> succeeds.\<close>

unbundle bit_operations_syntax

definition line_echo_bits :: u32 where
  "line_echo_bits = 2 OR 4"

text \<open>A null or invalid handle is \<open>None\<close>.\<close>

definition is_console_input :: "(nat \<rightharpoonup> u32) \<Rightarrow> nat option \<Rightarrow> bool" where
  "is_console_input modes input_handle = (case input_handle of None \<Rightarrow> False | Some h \<Rightarrow> modes h \<noteq> None)"

definition guard_activate ::
    "(nat \<Rightarrow> bool) \<Rightarrow> nat \<Rightarrow> mode_guard \<Rightarrow> (nat \<rightharpoonup> u32) \<Rightarrow> bool \<times> mode_guard \<times> (nat \<rightharpoonup> u32)" where
  "guard_activate settable h g modes =
    (if guard_active g then (True, g, modes)
     else (case modes h of
             None \<Rightarrow> (False, g, modes)
           | Some mode \<Rightarrow>
               if \<not> settable h then (False, g, modes)
               else (True, \<lparr>guard_handle = Some h, original_mode = mode, guard_active = True\<rparr>,
                     modes(h \<mapsto> mode AND NOT line_echo_bits))))"

definition guard_restore :: "(nat \<Rightarrow> bool) \<Rightarrow> mode_guard \<Rightarrow> (nat \<rightharpoonup> u32) \<Rightarrow> mode_guard \<times> (nat \<rightharpoonup> u32)" where
  "guard_restore settable g modes =
    (if \<not> guard_active g then (g, modes)
     else (g\<lparr>guard_active := False\<rparr>,
           case guard_handle g of None \<Rightarrow> modes
           | Some h \<Rightarrow> if settable h \<and> modes h \<noteq> None then modes(h \<mapsto> original_mode g) else modes))"

section \<open>Console lines\<close>

datatype InputReadResult = kLineReady | kInterrupted | kEndOfInput | kError

definition is_high_surrogate :: "wchar \<Rightarrow> bool" where
  "is_high_surrogate v \<longleftrightarrow> 0xD800 \<le> v \<and> v \<le> 0xDBFF"

definition erase_last_utf16_code_point :: "wstring \<Rightarrow> nat \<times> wstring" where
  "erase_last_utf16_code_point input =
    (if input = [] then (0, [])
     else let popped = butlast input in
          if popped \<noteq> [] \<and> is_high_surrogate (last popped) then (2, butlast popped) else (1, popped))"

record key_event =
  bKeyDown :: bool
  wVirtualKeyCode :: nat
  UnicodeChar :: wchar

datatype input_record = KEY_EVENT key_event | OTHER_EVENT

definition VK_RETURN :: nat where "VK_RETURN = 13"
definition VK_BACK :: nat where "VK_BACK = 8"

text \<open>The line being edited and what was echoed to the console.\<close>

record editor =
  current_input :: wstring
  echoed :: wstring

definition write_console :: "wstring \<Rightarrow> editor \<Rightarrow> editor" where
  "write_console text ed = ed\<lparr>echoed := echoed ed @ text\<rparr>"

definition erase_text :: wstring where
  "erase_text = [8, 32, 8]"

text \<open>One record of a batch: a finished line, or the editor after it. \<open>running\<close> is the flag as the
  loop reads it for this record.\<close>

definition key_step :: "bool \<times> input_record \<Rightarrow> editor \<Rightarrow> wstring option \<times> editor" where
  "key_step entry ed =
    (case entry of (running, record) \<Rightarrow>
      (case record of
         OTHER_EVENT \<Rightarrow> (None, ed)
       | KEY_EVENT key \<Rightarrow>
           if \<not> running \<or> \<not> bKeyDown key then (None, ed)
           else if wVirtualKeyCode key = VK_RETURN
           then (Some (current_input ed), (write_console [13, 10] ed)\<lparr>current_input := []\<rparr>)
           else if wVirtualKeyCode key = VK_BACK
           then (case erase_last_utf16_code_point (current_input ed) of
                   (removed, rest) \<Rightarrow>
                     (None, write_console (concat (replicate removed erase_text)) (ed\<lparr>current_input := rest\<rparr>)))
           else if 32 \<le> UnicodeChar key \<and> UnicodeChar key \<noteq> 0x7F
           then (None, write_console [UnicodeChar key] (ed\<lparr>current_input := current_input ed @ [UnicodeChar key]\<rparr>))
           else (None, ed)))"

text \<open>The \<open>for\<close> loop over the records of one read: it returns from the function at the first
  finished line, and the records behind it are gone.\<close>

fun key_batch :: "(bool \<times> input_record) list \<Rightarrow> editor \<Rightarrow> wstring option \<times> editor" where
  "key_batch [] ed = (None, ed)"
| "key_batch (entry # rest) ed =
    (case key_step entry ed of
       (Some line, ed') \<Rightarrow> (Some line, ed')
     | (None, ed') \<Rightarrow> key_batch rest ed')"

datatype console_event =
    ConStop
  | ConTimeout
  | ConWaitFailed
  | ConReadFailed
  | ConRecords "(bool \<times> input_record) list"

fun read_console_line ::
    "console_event list \<Rightarrow> editor \<Rightarrow> (InputReadResult \<times> wstring \<times> editor \<times> console_event list) option" where
  "read_console_line [] ed = None"
| "read_console_line (ConStop # rest) ed = Some (kInterrupted, [], ed, rest)"
| "read_console_line (ConTimeout # rest) ed = read_console_line rest ed"
| "read_console_line (ConWaitFailed # rest) ed = Some (kError, [], ed, rest)"
| "read_console_line (ConReadFailed # rest) ed = Some (kError, [], ed, rest)"
| "read_console_line (ConRecords records # rest) ed =
    (case key_batch records ed of
       (Some line, ed') \<Rightarrow> Some (kLineReady, line, ed', rest)
     | (None, ed') \<Rightarrow> read_console_line rest ed')"

section \<open>Redirected input\<close>

datatype pipe_event =
    PipeStop
  | PipeTimeout
  | PipeWaitFailed
  | PipeBroken
  | PipeReadFailed
  | PipeData string

definition strip_cr :: "string \<Rightarrow> string" where
  "strip_cr l = (if l \<noteq> [] \<and> last l = CHR 0x0D then butlast l else l)"

definition finish_line :: "utf_api \<Rightarrow> string \<Rightarrow> InputReadResult \<times> wstring" where
  "finish_line u utf8_line =
    (case wide_from_utf8 u utf8_line of (line, valid) \<Rightarrow> (if valid then kLineReady else kError, line))"

text \<open>\<open>PipeStop\<close> at the head of the script is the loop test finding \<open>running\<close> false.\<close>

fun read_redirected_pipe_line ::
    "utf_api \<Rightarrow> pipe_event list \<Rightarrow> string \<Rightarrow> (InputReadResult \<times> wstring \<times> string \<times> pipe_event list) option" where
  "read_redirected_pipe_line u script pending =
    (if script \<noteq> [] \<and> hd script = PipeStop then Some (kInterrupted, [], pending, tl script)
     else (case find_index ((=) (CHR 0x0A)) pending 0 of
        Some newline_position \<Rightarrow>
          (case finish_line u (strip_cr (substr pending 0 newline_position)) of
             (result, line) \<Rightarrow> Some (result, line, drop (newline_position + 1) pending, script))
      | None \<Rightarrow>
          (case script of
             [] \<Rightarrow> None
           | PipeStop # rest \<Rightarrow> Some (kInterrupted, [], pending, rest)
           | PipeTimeout # rest \<Rightarrow> read_redirected_pipe_line u rest pending
           | PipeWaitFailed # rest \<Rightarrow> Some (kError, [], pending, rest)
           | PipeBroken # rest \<Rightarrow> Some (kEndOfInput, [], pending, rest)
           | PipeReadFailed # rest \<Rightarrow> Some (kError, [], pending, rest)
           | PipeData buffer # rest \<Rightarrow>
               if buffer = [] then Some (kEndOfInput, [], pending, rest)
               else read_redirected_pipe_line u rest (pending @ buffer))))"

declare read_redirected_pipe_line.simps [simp del]

section \<open>The next line\<close>

text \<open>The three sources of a line: a console, a pipe, or \<open>std::wcin\<close> (whose lines are given).\<close>

datatype input_source =
    ConsoleSource "console_event list"
  | PipeSource "pipe_event list"
  | StreamSource "wstring list"

record input_state =
  in_source :: input_source
  in_editor :: editor
  redirected_input :: string

definition read_next_input_line ::
    "utf_api \<Rightarrow> input_state \<Rightarrow> (InputReadResult \<times> wstring \<times> input_state) option" where
  "read_next_input_line u s =
    (case in_source s of
       ConsoleSource script \<Rightarrow>
         (case read_console_line script (in_editor s) of None \<Rightarrow> None
          | Some (r, line, ed, rest) \<Rightarrow> Some (r, line, s\<lparr>in_source := ConsoleSource rest, in_editor := ed\<rparr>))
     | PipeSource script \<Rightarrow>
         (case read_redirected_pipe_line u script (redirected_input s) of None \<Rightarrow> None
          | Some (r, line, pending, rest) \<Rightarrow>
              Some (r, line, s\<lparr>in_source := PipeSource rest, redirected_input := pending\<rparr>))
     | StreamSource [] \<Rightarrow> Some (kEndOfInput, [], s)
     | StreamSource (line # rest) \<Rightarrow> Some (kLineReady, line, s\<lparr>in_source := StreamSource rest\<rparr>))"

section \<open>Typed lines\<close>

definition typed_key :: "wchar \<Rightarrow> bool \<times> input_record" where
  "typed_key c = (True, KEY_EVENT \<lparr>bKeyDown = True, wVirtualKeyCode = 0, UnicodeChar = c\<rparr>)"

definition enter_key :: "bool \<times> input_record" where
  "enter_key = (True, KEY_EVENT \<lparr>bKeyDown = True, wVirtualKeyCode = VK_RETURN, UnicodeChar = 13\<rparr>)"

definition printable :: "wchar \<Rightarrow> bool" where
  "printable c \<longleftrightarrow> 32 \<le> c \<and> c \<noteq> 0x7F"

lemma key_batch_typed:
  assumes "list_all printable t"
  shows "key_batch (map typed_key t @ rest) ed =
    key_batch rest (ed\<lparr>current_input := current_input ed @ t, echoed := echoed ed @ t\<rparr>)"
  using assms
proof (induction t arbitrary: ed)
  case (Cons c t)
  then show ?case
    by (simp add: typed_key_def key_step_def VK_RETURN_def VK_BACK_def write_console_def printable_def)
qed simp

section \<open>Erasing a code point\<close>

text \<open>UTF-16: a code point is one unit outside the surrogates or a high and a low surrogate.\<close>

definition is_low_surrogate :: "wchar \<Rightarrow> bool" where
  "is_low_surrogate v \<longleftrightarrow> 0xDC00 \<le> v \<and> v \<le> 0xDFFF"

definition code_point :: "wstring \<Rightarrow> bool" where
  "code_point w \<longleftrightarrow> (\<exists>u. w = [u] \<and> \<not> is_high_surrogate u \<and> \<not> is_low_surrogate u) \<or>
     (\<exists>h l. w = [h, l] \<and> is_high_surrogate h \<and> is_low_surrogate l)"

lemma low_not_high: "is_low_surrogate v \<Longrightarrow> \<not> is_high_surrogate v"
  by (auto simp: is_low_surrogate_def is_high_surrogate_def word_le_nat_alt)

lemma last_code_points:
  assumes "list_all code_point cps" "cps \<noteq> []"
  shows "concat cps \<noteq> [] \<and> \<not> is_high_surrogate (last (concat cps))"
proof -
  from assms obtain ini cp where cps: "cps = ini @ [cp]" by (metis append_butlast_last_id)
  with assms have "code_point cp" by simp
  then have "cp \<noteq> [] \<and> \<not> is_high_surrogate (last cp)" by (auto simp: code_point_def dest: low_not_high)
  with cps show ?thesis by simp
qed

section \<open>Lines from a pipe\<close>

lemma newline_in_append:
  assumes "pending @ data = l @ CHR 0x0A # rest" "find_index ((=) (CHR 0x0A)) pending 0 = None"
  shows "\<exists>l2. l = pending @ l2 \<and> data = l2 @ CHR 0x0A # rest"
proof -
  from assms(2) have "CHR 0x0A \<notin> set pending" by (auto simp: find_index_def first_index_None)
  with append_before_char [OF assms(1)] show ?thesis by blast
qed

lemma newline_found:
  assumes "pending @ data = l @ CHR 0x0A # rest" "CHR 0x0A \<notin> set l" "find_index ((=) (CHR 0x0A)) pending 0 = Some k"
  shows "substr pending 0 k = l \<and> drop (k + 1) pending @ data = rest"
proof -
  from find_index_Some_split [OF assms(3)] obtain xs ys where
    p: "pending = xs @ CHR 0x0A # ys" "k = length xs" "CHR 0x0A \<notin> set xs" by auto
  from assms(1) p(1) have "xs @ CHR 0x0A # (ys @ data) = l @ CHR 0x0A # rest" by simp
  from first_char_unique [OF this p(3) assms(2)] p show ?thesis by (simp add: substr_def)
qed

lemma pipe_line_chunks:
  assumes "pending @ concat chunks = l @ CHR 0x0A # rest" "CHR 0x0A \<notin> set l" "list_all (\<lambda>c. c \<noteq> []) chunks"
  shows "\<exists>k pending'. read_redirected_pipe_line u (map PipeData chunks) pending =
      Some (fst (finish_line u (strip_cr l)), snd (finish_line u (strip_cr l)), pending', map PipeData (drop k chunks)) \<and>
    pending' @ concat (drop k chunks) = rest"
  using assms
proof (induction chunks arbitrary: pending)
  case Nil
  then obtain j where j: "find_index ((=) (CHR 0x0A)) pending 0 = Some j"
    by (cases "find_index ((=) (CHR 0x0A)) pending 0") (auto simp: find_index_def first_index_None)
  from newline_found [OF Nil.prems(1,2) j] j show ?case
    by (intro exI [of _ 0] exI [of _ "drop (j + 1) pending"])
      (simp add: read_redirected_pipe_line.simps split: prod.split)
next
  case (Cons c chunks)
  show ?case
  proof (cases "find_index ((=) (CHR 0x0A)) pending 0")
    case None
    from Cons.IH [of "pending @ c"] Cons.prems obtain k pending' where
      "read_redirected_pipe_line u (map PipeData chunks) (pending @ c) = Some (fst (finish_line u (strip_cr l)),
        snd (finish_line u (strip_cr l)), pending', map PipeData (drop k chunks))"
      "pending' @ concat (drop k chunks) = rest" by auto
    with None Cons.prems(3) show ?thesis
      by (intro exI [of _ "Suc k"] exI [of _ pending']) (simp add: read_redirected_pipe_line.simps [of u "PipeData c # _"])
  next
    case (Some j)
    from newline_found [OF Cons.prems(1,2) Some] Some show ?thesis
      by (intro exI [of _ 0] exI [of _ "drop (j + 1) pending"])
        (simp add: read_redirected_pipe_line.simps split: prod.split)
  qed
qed

section \<open>Properties\<close>


definition ascii_utf :: utf_api where
  "ascii_utf = \<lparr>wide_to_utf8 = (\<lambda>w. Some (map (\<lambda>c. char_of (unat c)) w)), utf8_to_wide = (\<lambda>s. Some (wide s))\<rparr>"


text \<open>
  Backspace erases one whole character: on any well-formed UTF-16 line it removes exactly the
  last code point, both of its units when it is a surrogate pair, and reports how many.
\<close>

theorem erase_last_code_point:
  assumes "list_all code_point cps" and "code_point cp"
  shows "erase_last_utf16_code_point (concat cps @ cp) = (length cp, concat cps)"
proof -
  from assms(2) consider u where "cp = [u]" "\<not> is_high_surrogate u" | h l where "cp = [h, l]" "is_high_surrogate h"
    by (auto simp: code_point_def)
  then show ?thesis
  proof cases
    case (1 u)
    with last_code_points [OF assms(1)] show ?thesis
      by (cases "cps = []") (simp_all add: erase_last_utf16_code_point_def Let_def)
  next
    case (2 h l)
    then show ?thesis by (simp add: erase_last_utf16_code_point_def Let_def butlast_append)
  qed
qed

theorem erase_last_code_point_witness:
  "erase_last_utf16_code_point ([0x41] @ [0xD83D, 0xDE00]) = (2, [0x41])"
  using erase_last_code_point [of "[[0x41]]" "[0xD83D, 0xDE00]"]
  by (simp add: code_point_def is_high_surrogate_def is_low_surrogate_def word_le_nat_alt)

text \<open>
  A line typed at the console is delivered as typed, and whatever stands behind the Enter key in
  the same read of console events (\<open>behind\<close>: type-ahead, further pasted lines) is lost: it reaches
  neither this line nor the next one.
\<close>

theorem typed_line_drops_rest:
  assumes "list_all printable t"
  shows "read_console_line (ConRecords (map typed_key t @ enter_key # behind) # rest) ed =
    Some (kLineReady, current_input ed @ t,
          \<lparr>current_input = [], echoed = echoed ed @ t @ [13, 10]\<rparr>, rest)"
  using key_batch_typed [OF assms, of "enter_key # behind" ed]
  by (simp add: enter_key_def key_step_def write_console_def)

theorem typed_line_drops_rest_witness:
  "read_console_line [ConRecords (map typed_key (wide ''a'') @ enter_key # map typed_key (wide ''b'') @ [enter_key])]
     \<lparr>current_input = [], echoed = []\<rparr> =
   Some (kLineReady, wide ''a'', \<lparr>current_input = [], echoed = wide ''a'' @ [13, 10]\<rparr>, [])"
  using typed_line_drops_rest [of "wide ''a''" "map typed_key (wide ''b'') @ [enter_key]" "[]" "\<lparr>current_input = [], echoed = []\<rparr>"]
  by (simp add: printable_def wide_def word_le_nat_alt)

text \<open>
  The console mode guard gives back what it took: after a successful activation line input and
  echo are off on that handle and nothing else changed, and restoring puts every mode back; a second
  restore does nothing.
\<close>

theorem guard_restores:
  assumes "guard_activate settable h new_guard modes = (True, g, modes')"
  shows "guard_restore settable g modes' = (g\<lparr>guard_active := False\<rparr>, modes) \<and>
    guard_restore settable (g\<lparr>guard_active := False\<rparr>) modes = (g\<lparr>guard_active := False\<rparr>, modes) \<and>
    (\<exists>m. modes h = Some m \<and> modes' = modes(h \<mapsto> m AND NOT (2 OR 4)))"
  using assms
  by (auto simp: guard_activate_def guard_restore_def new_guard_def line_echo_bits_def fun_upd_idem
      split: option.splits if_splits)

theorem guard_restores_witness:
  "\<exists>g. guard_activate (\<lambda>_. True) 7 new_guard [7 \<mapsto> 0x1F7] = (True, g, [7 \<mapsto> 0x1F1]) \<and>
    guard_restore (\<lambda>_. True) g [7 \<mapsto> 0x1F1] = (g\<lparr>guard_active := False\<rparr>, [7 \<mapsto> 0x1F7])"
proof -
  have a: "guard_activate (\<lambda>_. True) 7 new_guard [7 \<mapsto> 0x1F7] =
      (True, \<lparr>guard_handle = Some 7, original_mode = 0x1F7, guard_active = True\<rparr>, [7 \<mapsto> 0x1F1])"
    by (simp add: guard_activate_def new_guard_def line_echo_bits_def)
  with guard_restores [OF a] show ?thesis by blast
qed

end
