(* ===== verification/Console_Client.thy ===== *)
theory Console_Client
  imports Connection Command Console_Input
begin

text \<open>
  The console client proper, \<open>client-cpp/src/main.cpp\<close>: what each typed line does, what each
  incoming message prints, and the two threads (\<open>wmain\<close>'s input loop and \<open>receive_loop\<close>) that share
  a \<open>ConnectionState\<close>, two flags and the table of private peers.

  What is printed is recorded in order, with the stream it goes to. The receiving thread is a step
  relation over its position in \<open>receive_loop\<close>; the input thread's handlers are steps of the same
  relation.
\<close>

section \<open>State\<close>

datatype stream = Cout | Cerr

record 'w client =
  connection :: "'w conn"
  running :: bool
  reconnect_enabled :: bool
  private_peer_names :: "string \<rightharpoonup> string"
  backoff :: ReconnectBackoff
  printed :: "(stream \<times> string) list"

definition newline :: string where "newline = [CHR 0x0A]"

definition print_locked :: "stream \<Rightarrow> string \<Rightarrow> 'w client \<Rightarrow> 'w client" where
  "print_locked st text c = c\<lparr>printed := printed c @ [(st, text)]\<rparr>"

definition format_identity :: "msg_fields \<Rightarrow> string" where
  "format_identity m =
    (if username m = [] then []
     else if user_code m = [] then username m
     else username m @ ''#'' @ user_code m)"

definition normalize_user_code :: "string \<Rightarrow> string" where
  "normalize_user_code code = map lower_ascii code"

section \<open>What a typed line means\<close>

text \<open>The decision \<open>wmain\<close> takes for one input line; performing it is \<open>handle_line\<close>.\<close>

datatype line_action =
    Ignore
  | Help
  | Complain string
  | Send message string
  | SendPrivate string string message string
  | Quit message

definition simple_message :: "string \<Rightarrow> string \<Rightarrow> string \<Rightarrow> message" where
  "simple_message ty text target = Message (mk_fields ty [] [] text [] target [] [] [] [] []) []"

definition admin_action :: "string \<Rightarrow> line_action" where
  "admin_action input =
    (let act = substr input 1 4;
         target = drop 6 input;
         usage = Complain (''Usage: /'' @ act @ '' Name#Code'' @ newline) in
     case find_index ((=) (CHR ''#'')) target 0 of
       None \<Rightarrow> usage
     | Some separator \<Rightarrow>
         if separator = 0 \<or> length target \<le> separator + 1 \<or> find_index word_end target (separator + 1) \<noteq> None
         then usage
         else Send (simple_message ''admin_action'' act (drop (separator + 1) target))
                ''Failed to send administrator command.'')"

definition join_action :: "string \<Rightarrow> line_action" where
  "join_action input =
    (case parse_join_command input of
       (False, _) \<Rightarrow> Complain (''Invalid room name. Use ASCII letters, digits, or underscore; length 1-32.'' @ newline)
     | (True, cmd) \<Rightarrow>
         Send (Message (mk_fields ''room_join'' [] [] (room_name cmd) [] [] (room_name cmd) [] [] [] []) [])
           ''Failed to join room.'')"

definition private_action :: "string \<Rightarrow> line_action" where
  "private_action input =
    (case parse_private_message input of
       (False, _) \<Rightarrow> Complain (''Invalid private message. Use: /msg Name#Code message'' @ newline)
     | (True, cmd) \<Rightarrow>
         SendPrivate (normalize_user_code (target_code cmd)) (target_name cmd @ ''#'' @ target_code cmd)
           (simple_message ''private_chat'' (pm_content cmd) (target_code cmd))
           ''Failed to send private message.'')"

definition line_action_of :: "string \<Rightarrow> line_action" where
  "line_action_of input =
    (if input = [] then Ignore
     else if input = ''/help'' then Help
     else if starts_with ''/kick '' input \<or> starts_with ''/mute '' input then admin_action input
     else if hd input = CHR ''/'' then
       (if input = ''/users'' then Send (simple_message ''users_request'' [] []) ''Failed to request online users.''
        else if input = ''/rooms'' then Send (simple_message ''rooms_request'' [] []) ''Failed to request rooms.''
        else if input = ''/leave'' then Send (simple_message ''room_leave'' [] []) ''Failed to leave room.''
        else if is_join_command input then join_action input
        else if input = ''/quit'' then Quit (simple_message ''quit'' [] [])
        else if is_private_message_command input then private_action input
        else Complain (''Unknown command. Type /help for help.'' @ newline))
     else Send (simple_message ''chat'' input []) ''Failed to send chat message.'')"

definition help_text :: string where
  "help_text = concat (map (\<lambda>l. l @ newline)
     [''Commands:'', ''/help  Show this help'', ''/users Show online users'', ''/rooms Show available rooms'',
      ''/kick Name#Code  Kick a user (administrator)'', ''/mute Name#Code  Toggle mute (administrator)'',
      ''/join room_name  Join or create a room'', ''/leave Return to lobby'',
      ''/msg Name#Code message  Send a private message'', ''/quit  Exit the chat''])"

section \<open>Performing it\<close>

text \<open>A run of a handler: finished with a result, left by an exception, or stopped at a null or
  dangling pointer.\<close>

datatype 'a run = Done 'a | Thrown string | Crash

definition client_send ::
    "('w, 'a) conn_api \<Rightarrow> json_codec \<Rightarrow> message \<Rightarrow> 'w client \<Rightarrow> (bool \<times> 'w client) run" where
  "client_send api codec m c =
    (case conn_send api codec m (connection c) of
       None \<Rightarrow> Crash
     | Some (Inl what) \<Rightarrow> Thrown what
     | Some (Inr (ok, s)) \<Rightarrow> Done (ok, c\<lparr>connection := s\<rparr>))"

definition send_or_report ::
    "('w, 'a) conn_api \<Rightarrow> json_codec \<Rightarrow> message \<Rightarrow> string \<Rightarrow> 'w client \<Rightarrow> (bool \<times> 'w client) run" where
  "send_or_report api codec m error_text c =
    (case client_send api codec m c of
       Done (False, c1) \<Rightarrow>
         (let c2 = print_locked Cerr (error_text @ newline) c1
          in Done (False, c2\<lparr>connection := request_disconnect api (connection c2)\<rparr>))
     | r \<Rightarrow> r)"

definition stop_client :: "('w, 'a) conn_api \<Rightarrow> 'w client \<Rightarrow> 'w client" where
  "stop_client api c =
     c\<lparr>reconnect_enabled := False, running := False, connection := request_stop api (connection c)\<rparr>"

text \<open>The result says whether the input loop goes on.\<close>

definition handle_line ::
    "('w, 'a) conn_api \<Rightarrow> json_codec \<Rightarrow> string \<Rightarrow> 'w client \<Rightarrow> (bool \<times> 'w client) run" where
  "handle_line api codec input c =
    (case line_action_of input of
       Ignore \<Rightarrow> Done (True, c)
     | Help \<Rightarrow> Done (True, print_locked Cout help_text c)
     | Complain text \<Rightarrow> Done (True, print_locked Cerr text c)
     | Send m error_text \<Rightarrow>
         (case send_or_report api codec m error_text c of
            Done (_, c1) \<Rightarrow> Done (True, c1) | Thrown what \<Rightarrow> Thrown what | Crash \<Rightarrow> Crash)
     | SendPrivate code identity m error_text \<Rightarrow>
         (case send_or_report api codec m error_text
                 (c\<lparr>private_peer_names := (private_peer_names c)(code \<mapsto> identity)\<rparr>) of
            Done (_, c1) \<Rightarrow> Done (True, c1) | Thrown what \<Rightarrow> Thrown what | Crash \<Rightarrow> Crash)
     | Quit m \<Rightarrow>
         (case client_send api codec m c of
            Done (ok, c1) \<Rightarrow>
              Done (False, stop_client api
                (if ok then c1 else print_locked Cerr (''Failed to send quit message.'' @ newline) c1))
          | Thrown what \<Rightarrow> Thrown what
          | Crash \<Rightarrow> Crash))"

section \<open>What an incoming message prints\<close>

definition numbered :: "string list \<Rightarrow> string" where
  "numbered xs = concat (map (\<lambda>(i, x). to_string (int i + 1) @ ''. '' @ x @ newline) (enumerate 0 xs))"

definition print_users_response :: "msg_fields \<Rightarrow> string" where
  "print_users_response m = ''Online Users:'' @ newline @ numbered (users m)"

definition print_room_list_response :: "msg_fields \<Rightarrow> string" where
  "print_room_list_response m =
     ''Rooms:'' @ newline @ numbered (if rooms m = [] then users m else rooms m)"

definition print_private :: "string \<Rightarrow> (string \<rightharpoonup> string) \<Rightarrow> msg_fields \<Rightarrow> string" where
  "print_private local_user_code peers m =
    (let sender_code = normalize_user_code (user_code m) in
     if sender_code \<noteq> [] \<and> sender_code = normalize_user_code local_user_code
     then let target = target_user_code m;
              peer = (case peers (normalize_user_code target) of None \<Rightarrow> [] | Some n \<Rightarrow> n);
              peer_identity = (if peer = [] then ''#'' @ target else peer)
          in ''[Private -> '' @ peer_identity @ ''] '' @ content m @ newline
     else let identity = format_identity m;
              peer_identity = (if identity = [] then username m else identity)
          in ''[Private from '' @ peer_identity @ ''] '' @ content m @ newline)"

definition display :: "string \<Rightarrow> (string \<rightharpoonup> string) \<Rightarrow> message \<Rightarrow> stream \<times> string" where
  "display local_user_code peers msg =
    (let m = mfields msg; identity = format_identity m in
     if mtype m = ''chat''
     then (Cout, if identity \<noteq> [] then identity @ '': '' @ content m @ newline else content m @ newline)
     else if mtype m = ''system''
     then (Cout, if identity \<noteq> [] then ''[System] '' @ identity @ '' '' @ content m @ newline
                 else ''[System] '' @ content m @ newline)
     else if mtype m = ''users_response'' then (Cout, print_users_response m)
     else if mtype m = ''room_list_response'' \<or> mtype m = ''rooms_response'' then (Cout, print_room_list_response m)
     else if mtype m = ''private_chat'' then (Cout, print_private local_user_code peers m)
     else if mtype m = ''offline_message''
     then (Cout, ''[Offline private from '' @ (if identity = [] then username m else identity) @ ''] '' @ content m @ newline)
     else if mtype m = ''error'' then (Cerr, ''Server error: '' @ content m @ newline)
     else if mtype m = ''login_error'' then (Cerr, ''Unexpected login_error after login: '' @ content m @ newline)
     else (Cout, ''Received '' @ mtype m @ '': '' @ content m @ newline))"

section \<open>The receiving thread\<close>

text \<open>Where the thread is in \<open>receive_loop\<close>: at the head of the outer loop, after a failed receive, at
  the head of the reconnect loop, waiting, about to connect, or returned.\<close>

datatype receiver = Listening | Lost | Retrying | Waiting nat | Connecting | Finished

type_synonym 'w client_state = "receiver \<times> 'w client"

definition on_rejected :: "('w, 'a) conn_api \<Rightarrow> message \<Rightarrow> 'w client \<Rightarrow> 'w client" where
  "on_rejected api response c = stop_client api
     (print_locked Cerr (''Login rejected after reconnect: '' @ content (mfields response) @ newline) c)"

inductive receiver_step ::
    "('w, 'a) conn_api \<Rightarrow> json_codec \<Rightarrow> string \<Rightarrow> 'w client_state \<Rightarrow> 'w client_state \<Rightarrow> bool"
  for api :: "('w, 'a) conn_api" and codec :: json_codec and local_user_code :: string where
  loop_end: "\<not> running c \<Longrightarrow> receiver_step api codec local_user_code (Listening, c) (Finished, c)"
| message_in: "running c \<Longrightarrow> conn_receive api codec empty_message (connection c) = Some (True, m, s) \<Longrightarrow>
    display local_user_code (private_peer_names c) m = (st, text) \<Longrightarrow>
    receiver_step api codec local_user_code (Listening, c) (Listening, print_locked st text (c\<lparr>connection := s\<rparr>))"
| lost: "running c \<Longrightarrow> conn_receive api codec empty_message (connection c) = Some (False, m, s) \<Longrightarrow>
    receiver_step api codec local_user_code (Listening, c) (Lost, c\<lparr>connection := close_current api s\<rparr>)"
| lost_end: "\<not> running c \<or> \<not> reconnect_enabled c \<Longrightarrow> receiver_step api codec local_user_code (Lost, c) (Finished, c)"
| lost_retry: "running c \<Longrightarrow> reconnect_enabled c \<Longrightarrow> receiver_step api codec local_user_code (Lost, c)
    (Retrying, print_locked Cerr (''Connection to server lost.'' @ newline) c)"
| retry_end: "\<not> running c \<or> \<not> reconnect_enabled c \<Longrightarrow> receiver_step api codec local_user_code (Retrying, c) (Listening, c)"
| retry_wait: "running c \<Longrightarrow> reconnect_enabled c \<Longrightarrow> next_delay (backoff c) = (d, b) \<Longrightarrow>
    receiver_step api codec local_user_code (Retrying, c)
      (Waiting d, (print_locked Cout (''Reconnecting...'' @ newline) c)\<lparr>backoff := b\<rparr>)"
| wait_end: "\<not> wait_before_retry (connection c) (running c) (reconnect_enabled c) \<Longrightarrow>
    receiver_step api codec local_user_code (Waiting d, c) (Finished, c)"
| wait_over: "wait_before_retry (connection c) (running c) (reconnect_enabled c) \<Longrightarrow>
    receiver_step api codec local_user_code (Waiting d, c) (Connecting, c)"
| connected: "connect_and_login api codec (connection c) = Some (Inr (True, m, r), s) \<Longrightarrow>
    receiver_step api codec local_user_code (Connecting, c)
      (Listening, print_locked Cout (''Reconnected and logged in.'' @ newline)
         (c\<lparr>connection := s, backoff := backoff_reset (backoff c)\<rparr>))"
| rejected: "connect_and_login api codec (connection c) = Some (Inr (False, m, kRejected), s) \<Longrightarrow>
    receiver_step api codec local_user_code (Connecting, c) (Finished, on_rejected api m (c\<lparr>connection := s\<rparr>))"
| again: "connect_and_login api codec (connection c) = Some (Inr (False, m, r), s) \<Longrightarrow> r \<noteq> kRejected \<Longrightarrow>
    receiver_step api codec local_user_code (Connecting, c) (Retrying, c\<lparr>connection := s\<rparr>)"

inductive_cases recv_ListeningE: "receiver_step api codec l (Listening, c) st"
inductive_cases recv_LostE: "receiver_step api codec l (Lost, c) st"
inductive_cases recv_RetryingE: "receiver_step api codec l (Retrying, c) st"
inductive_cases recv_WaitingE: "receiver_step api codec l (Waiting d, c) st"
inductive_cases recv_ConnectingE: "receiver_step api codec l (Connecting, c) st"
inductive_cases recv_FinishedE: "receiver_step api codec l (Finished, c) st"

section \<open>The input thread\<close>

text \<open>Before the loop the console is put into event mode; if that fails, the client stops. After it the mode is put back.\<close>

definition msg_not_configured :: string where
  "msg_not_configured = ''Failed to configure console input.'' @ newline"

definition prepare_input ::
    "('w, 'a) conn_api \<Rightarrow> (nat \<Rightarrow> bool) \<Rightarrow> nat option \<Rightarrow> mode_guard \<Rightarrow> (nat \<rightharpoonup> u32) \<Rightarrow> 'w client \<Rightarrow>
     bool \<times> mode_guard \<times> (nat \<rightharpoonup> u32) \<times> 'w client" where
  "prepare_input api settable input_handle g modes c =
    (case (if is_console_input modes input_handle then guard_activate settable (the input_handle) g modes else (True, g, modes)) of
       (True, g1, modes1) \<Rightarrow> (True, g1, modes1, c)
     | (False, g1, modes1) \<Rightarrow> (False, g1, modes1, stop_client api (print_locked Cerr msg_not_configured c)))"

definition leave_input ::
    "('w, 'a) conn_api \<Rightarrow> (nat \<Rightarrow> bool) \<Rightarrow> mode_guard \<Rightarrow> (nat \<rightharpoonup> u32) \<Rightarrow> 'w client \<Rightarrow> mode_guard \<times> (nat \<rightharpoonup> u32) \<times> 'w client" where
  "leave_input api settable g modes c = (case guard_restore settable g modes of (g1, modes1) \<Rightarrow> (g1, modes1, stop_client api c))"

text \<open>One turn of \<open>wmain\<close>'s loop: a line, a read error, the end of the input.\<close>

inductive input_step ::
    "('w, 'a) conn_api \<Rightarrow> json_codec \<Rightarrow> 'w client \<Rightarrow> 'w client \<Rightarrow> bool"
  for api :: "('w, 'a) conn_api" and codec :: json_codec where
  line: "running c \<Longrightarrow> handle_line api codec input c = Done (go_on, c') \<Longrightarrow> input_step api codec c c'"
| input_error: "running c \<Longrightarrow> input_step api codec c
    (stop_client api (print_locked Cerr (''Failed to read input.'' @ newline) c))"
| input_over: "running c \<Longrightarrow> input_step api codec c (stop_client api c)"
| not_ready: "input_step api codec c (stop_client api (print_locked Cerr msg_not_configured c))"
| leave: "input_step api codec c (stop_client api c)"

inductive client_step ::
    "('w, 'a) conn_api \<Rightarrow> json_codec \<Rightarrow> string \<Rightarrow> 'w client_state \<Rightarrow> 'w client_state \<Rightarrow> bool"
  for api :: "('w, 'a) conn_api" and codec :: json_codec and local_user_code :: string where
  receiver: "receiver_step api codec local_user_code st st' \<Longrightarrow> client_step api codec local_user_code st st'"
| input: "input_step api codec c c' \<Longrightarrow> client_step api codec local_user_code (r, c) (r, c')"
| joined: "client_step api codec local_user_code (Finished, c)
    (Finished, c\<lparr>connection := close_current api (connection c)\<rparr>)"

section \<open>Starting up\<close>

text \<open>\<open>wmain\<close> up to the two threads: the options, the host server, the first login. The outcome is an
  exit code with what was printed to \<open>std::cerr\<close>, or the client it goes on with.\<close>

definition client_config :: "ClientOptions \<Rightarrow> Config" where
  "client_config o' = \<lparr>cfg_server_ip = server_ip o', cfg_server_port = server_port o',
     cfg_username = opt_username o', cfg_user_code = opt_user_code o', cfg_ca_file = ca_file o',
     cfg_tls_server_name = []\<rparr>"

definition host_options :: "ClientOptions \<Rightarrow> ClientOptions" where
  "host_options o' = (if host_mode o' \<and> ca_file o' = [] then o'\<lparr>ca_file := cert_file o'\<rparr> else o')"

definition usage :: string where
  "usage = ''Usage: chat-client.exe [server-ip] [port] [username] [user-code] '' @
     ''[--ca-file path]'' @ newline @
     ''       chat-client.exe --guest [server-ip] [port] [username] [--ca-file path]'' @ newline @
     ''       chat-client.exe --host [username] [--server-exe path] [--cert path] [--key path]''"

definition login_banner :: "message \<Rightarrow> string" where
  "login_banner response = ''Logged in as '' @ format_identity (mfields response) @
     (if is_admin (mfields response) then '' (administrator)'' else []) @ newline"

definition first_client :: "'w conn \<Rightarrow> 'w client" where
  "first_client s = \<lparr>connection = s, running = True, reconnect_enabled = True, private_peer_names = Map.empty,
     backoff = \<lparr>attempt = 0\<rparr>, printed = []\<rparr>"

definition start_client ::
    "('w, 'a) conn_api \<Rightarrow> json_codec \<Rightarrow> (nat \<Rightarrow> nat) \<Rightarrow> (string \<Rightarrow> wstring) \<Rightarrow> (wstring \<Rightarrow> nat option) \<Rightarrow>
     int \<Rightarrow> 'w mnet \<Rightarrow> string list \<Rightarrow> ((int \<times> string) + 'w client) run option" where
  "start_client api codec draw to_wide create startup_result e args =
    (case parse_arguments draw args of
       (False, _, argument_error) \<Rightarrow> Some (Done (Inl (1, argument_error @ newline @ usage @ newline)))
     | (True, opts, _) \<Rightarrow>
         (case (if host_mode opts then host_start to_wide create opts \<lparr>process_handle = None\<rparr>
                else Inr \<lparr>process_handle = None\<rparr>) of
            Inl host_error \<Rightarrow> Some (Done (Inl (1, host_error @ newline)))
          | Inr _ \<Rightarrow>
              if startup_result \<noteq> 0
              then Some (Done (Inl (1, ''WSAStartup failed. Error: '' @ to_string startup_result @ newline)))
              else (case connect_and_login api codec (conn_init (client_config (host_options opts)) e) of
                      None \<Rightarrow> None
                    | Some (Inl what, s) \<Rightarrow> Some (Thrown what)
                    | Some (Inr (False, response, result), s) \<Rightarrow>
                        Some (Done (Inl (1,
                          if result = kRejected then ''Login failed: '' @ content (mfields response) @ newline
                          else ''Failed to connect or receive login response: '' @ conn_last_error s @ newline)))
                    | Some (Inr (True, response, result), s) \<Rightarrow>
                        Some (Done (Inr (print_locked Cout help_text (print_locked Cout (login_banner response)
                          (first_client s))))))))"

section \<open>The console mode\<close>

lemma prepare_input_client:
  "prepare_input api settable h g modes c = (ok, g1, modes1, c1) \<Longrightarrow> c1 = c \<or> input_step api codec c c1"
  by (auto simp: prepare_input_def intro: input_step.not_ready split: prod.splits bool.splits)

text \<open>The console is left in the mode it was found in, whether it could be prepared or not.\<close>

lemma console_mode_restored:
  assumes "prepare_input api settable h new_guard modes c = (ok, g1, modes1, c1)"
    and "leave_input api settable g1 modes1 c2 = (g2, modes2, c3)"
  shows "modes2 = modes \<and> \<not> guard_active g2"
  using assms
  by (auto simp: prepare_input_def leave_input_def guard_activate_def guard_restore_def new_guard_def is_console_input_def map_upd_triv
      split: option.splits if_splits prod.splits bool.splits)

section \<open>Only a stop sets the stop flag\<close>

lemma stop_same:
  "stop_requested (close_current api s) = stop_requested s"
  "stop_requested (cl_fail api p e s) = stop_requested s"
  "stop_requested (request_disconnect api s) = stop_requested s"
  "stop_requested (request_stop api s)"
  by (auto simp: close_current_def cl_fail_def request_disconnect_def request_stop_def Let_def split: option.split)

lemma commit_stop: "cl_commit api p s = (b, s') \<Longrightarrow> stop_requested s' = stop_requested s"
  by (auto simp: cl_commit_def split: if_splits)

lemma block_stop:
  "open_socket api p s = (r, t) \<Longrightarrow> stop_requested t = stop_requested s"
  "tls_setup api p s = (r', t) \<Longrightarrow> stop_requested t = stop_requested s"
  "tls_handshake api h s = (r, t) \<Longrightarrow> stop_requested t = stop_requested s"
  "login_exchange api c h s = Some (Inr (r'', m, t)) \<Longrightarrow> stop_requested t = stop_requested s"
  "conn_send api c m s = Some (Inr (b, t)) \<Longrightarrow> stop_requested t = stop_requested s"
  using open_socket_local [of api p s r t] tls_setup_local [of api p s r' t] tls_handshake_heap [of api h s r t]
    login_exchange_heap [of api c h s r'' m t] conn_send_heap [of api c m s b t]
  by (simp_all add: local_update_def same_heap_def same_shared_def)

lemma after_open_stop:
  "after_open api c p s = Some (outcome, s') \<Longrightarrow> stop_requested s' = stop_requested s"
  unfolding after_open_def Let_def
  by (auto simp: stop_same dest!: block_stop commit_stop
      split: option.split_asm sum.split_asm prod.split_asm if_split_asm bool.split_asm)

lemma connect_stop:
  assumes "connect_and_login api c s = Some (outcome, s')"
  shows "stop_requested s' = stop_requested s"
proof -
  have "cl_begin api s = (b, s1) \<Longrightarrow> stop_requested s1 = stop_requested s" for b s1
    by (auto simp: cl_begin_def Let_def split: if_splits)
  with assms show ?thesis unfolding connect_and_login_def
    by (auto simp: stop_same dest!: block_stop after_open_stop split: option.split_asm sum.split_asm prod.split_asm)
qed

lemma receive_ok:
  assumes "conn_inv (t, RIdle, s)" "conn_receive api c m0 s = Some (b, m, s')"
  shows "conn_inv (t, RIdle, s') \<and> stop_requested s' = stop_requested s"
proof (cases "receive_begin s")
  case (Pair sp s1)
  show ?thesis
  proof (cases sp)
    case None
    with Pair assms show ?thesis by (auto simp: conn_receive_def receive_begin_def split: if_splits)
  next
    case (Some q)
    from Pair Some inv_receive_begin [OF assms(1)] have inv: "conn_inv (t, RHold q, s1)" by simp
    from assms(2) Pair Some obtain m' where re: "receive_end api c q s1 = Some (b, m', s')"
      by (auto simp: conn_receive_def split: option.splits)
    from conn_invD(5) [OF inv] obtain p where q: "q = Some p" by (cases q) auto
    with receive_end_ptr re have "stop_requested s' = stop_requested s1" by (fastforce simp: same_heap_def same_shared_def)
    moreover have "stop_requested s1 = stop_requested s"
      using Pair Some by (auto simp: receive_begin_def split: if_splits option.splits)
    ultimately show ?thesis using inv_receive_end [OF inv re] by simp
  qed
qed

section \<open>The invariant of the client\<close>

definition client_ok :: "'w client \<Rightarrow> bool" where
  "client_ok c \<longleftrightarrow> conn_inv (CIdle, RIdle, connection c) \<and> running c = (\<not> stop_requested (connection c)) \<and>
     reconnect_enabled c = running c \<and> attempt (backoff c) \<le> 6"

definition client_inv :: "'w client_state \<Rightarrow> bool" where
  "client_inv st \<longleftrightarrow> client_ok (snd st) \<and> (\<forall>d. fst st = Waiting d \<longrightarrow> 1 \<le> d \<and> d \<le> 30)"

lemma client_ok_print [simp]: "client_ok (print_locked st t c) = client_ok c"
  by (simp add: client_ok_def print_locked_def)

lemma client_ok_peers [simp]: "client_ok (c\<lparr>private_peer_names := p\<rparr>) = client_ok c"
  by (simp add: client_ok_def)

lemma client_ok_connection:
  "client_ok c \<Longrightarrow> conn_inv (CIdle, RIdle, s) \<Longrightarrow> stop_requested s = stop_requested (connection c) \<Longrightarrow>
   client_ok (c\<lparr>connection := s\<rparr>)"
  by (simp add: client_ok_def)

lemma client_ok_stop: "client_ok c \<Longrightarrow> client_ok (stop_client api c)"
  by (simp add: client_ok_def stop_client_def stop_same inv_stop_disconnect)

lemma client_ok_disconnect: "client_ok c \<Longrightarrow> client_ok (c\<lparr>connection := request_disconnect api (connection c)\<rparr>)"
  by (rule client_ok_connection) (simp_all add: stop_same client_ok_def inv_stop_disconnect)

lemma client_ok_close: "client_ok c \<Longrightarrow> client_ok (c\<lparr>connection := close_current api (connection c)\<rparr>)"
  by (rule client_ok_connection) (simp_all add: stop_same client_ok_def inv_close_current)

lemma client_send_ok: "client_ok c \<Longrightarrow> client_send api codec m c = Done (b, c') \<Longrightarrow> client_ok c'"
  by (auto simp: client_send_def client_ok_def block_stop dest: inv_same_heap [OF _ conn_send_heap]
      split: option.splits sum.splits)

lemma send_or_report_ok:
  assumes "client_ok c" "send_or_report api codec m e c = Done (b, c')"
  shows "client_ok c'"
proof -
  from assms(2) obtain ok c1 where sent: "client_send api codec m c = Done (ok, c1)"
    by (auto simp: send_or_report_def split: run.splits)
  with client_send_ok [OF assms(1)] have "client_ok c1" by blast
  with client_ok_disconnect [of "print_locked Cerr (e @ newline) c1" api] assms(2) sent show ?thesis
    by (cases ok) (auto simp: send_or_report_def Let_def)
qed

lemma send_done_ok:
  assumes "client_ok c" "(case send_or_report api codec m e c of
      Done (_, c1) \<Rightarrow> Done (True, c1) | Thrown what \<Rightarrow> Thrown what | Crash \<Rightarrow> Crash) = Done (b, c')"
  shows "client_ok c'"
  using assms send_or_report_ok by (fastforce split: run.splits)

lemma handle_line_ok:
  assumes "client_ok c" "handle_line api codec input c = Done (b, c')"
  shows "client_ok c'"
proof (cases "line_action_of input")
  case (Send m e)
  with assms send_done_ok show ?thesis by (simp add: handle_line_def) blast
next
  case (SendPrivate code identity m e)
  with assms send_done_ok [of "c\<lparr>private_peer_names := (private_peer_names c)(code \<mapsto> identity)\<rparr>" api codec m e b c']
  show ?thesis by (simp add: handle_line_def)
next
  case (Quit m)
  with assms(2) obtain ok c1 where "client_send api codec m c = Done (ok, c1)"
    "c' = stop_client api (if ok then c1 else print_locked Cerr (''Failed to send quit message.'' @ newline) c1)"
    by (auto simp: handle_line_def split: run.splits)
  with client_send_ok [OF assms(1)] show ?thesis by (cases ok) (auto intro!: client_ok_stop)
qed (use assms in \<open>auto simp: handle_line_def\<close>)

lemma input_step_ok: "input_step api codec c c' \<Longrightarrow> client_ok c \<Longrightarrow> client_ok c'"
  by (induction rule: input_step.induct) (auto intro: client_ok_stop handle_line_ok)

lemma connect_ok:
  assumes "client_ok c" "connect_and_login api codec (connection c) = Some (outcome, s)"
  shows "client_ok (c\<lparr>connection := s\<rparr>)"
proof -
  have "conn_inv (CIdle, RIdle, s)"
    using conn.steps_inv [OF connect_steps [OF assms(2)]] assms(1) by (simp add: client_ok_def)
  with client_ok_connection [OF assms(1)] connect_stop [OF assms(2)] show ?thesis by simp
qed

lemma receive_client_ok:
  assumes "client_ok c" "conn_receive api codec m0 (connection c) = Some (b, m, s)"
  shows "client_ok (c\<lparr>connection := s\<rparr>)"
proof -
  from assms(1) have "conn_inv (CIdle, RIdle, connection c)" by (simp add: client_ok_def)
  from receive_ok [OF this assms(2)] client_ok_connection [OF assms(1)] show ?thesis by blast
qed

lemma client_ok_backoff: "client_ok c \<Longrightarrow> attempt b \<le> 6 \<Longrightarrow> client_ok (c\<lparr>backoff := b\<rparr>)"
  by (simp add: client_ok_def)

lemma delay_bounds: "attempt b \<le> 6 \<Longrightarrow> next_delay b = (d, b') \<Longrightarrow> 1 \<le> d \<and> d \<le> 30 \<and> attempt b' \<le> 6"
  using next_delay_eq [of b] by auto

lemma receiver_step_inv: "receiver_step api codec l st st' \<Longrightarrow> client_inv st \<Longrightarrow> client_inv st'"
proof (induction rule: receiver_step.induct)
  case (message_in c m s st tx)
  then have "client_ok (c\<lparr>connection := s\<rparr>)"
    using receive_client_ok by (auto simp: client_inv_def)
  then show ?case by (simp add: client_inv_def)
next
  case (lost c m s)
  then have "client_ok (c\<lparr>connection := s\<rparr>)"
    using receive_client_ok by (auto simp: client_inv_def)
  with client_ok_close [of "c\<lparr>connection := s\<rparr>" api] show ?case by (simp add: client_inv_def)
next
  case (retry_wait c d b)
  then have "attempt (backoff c) \<le> 6" by (simp add: client_inv_def client_ok_def)
  with delay_bounds retry_wait show ?case
    by (auto simp: client_inv_def intro!: client_ok_backoff)
next
  case (connected c m r s)
  then have "client_ok (c\<lparr>connection := s\<rparr>)" using connect_ok by (auto simp: client_inv_def)
  from client_ok_backoff [OF this, of "backoff_reset (backoff c)"] show ?case
    by (simp add: client_inv_def backoff_reset_def)
next
  case (rejected c m s)
  then have "client_ok (c\<lparr>connection := s\<rparr>)" using connect_ok by (auto simp: client_inv_def)
  then show ?case by (simp add: client_inv_def on_rejected_def client_ok_stop)
next
  case (again c m r s)
  then show ?case using connect_ok by (auto simp: client_inv_def)
qed (auto simp: client_inv_def)

lemma client_step_inv: "client_step api codec l st st' \<Longrightarrow> client_inv st \<Longrightarrow> client_inv st'"
proof (induction rule: client_step.induct)
  case (input c c' r)
  then show ?case using input_step_ok by (auto simp: client_inv_def)
next
  case (receiver st st')
  then show ?case by (rule receiver_step_inv)
next
  case (joined c)
  then show ?case by (simp add: client_inv_def client_ok_close)
qed

text \<open>A client starts listening on a connection that has just logged in.\<close>

definition client_start :: "'w client_state \<Rightarrow> bool" where
  "client_start st \<longleftrightarrow> (\<exists>s c. st = (Listening, c) \<and> conn_inv (CIdle, RIdle, s) \<and> is_ready s \<and>
     connection c = s \<and> running c \<and> reconnect_enabled c \<and> attempt (backoff c) = 0)"

lemma client_start_inv: "client_start st \<Longrightarrow> client_inv st"
  by (auto simp: client_start_def client_inv_def client_ok_def is_ready_def)

interpretation client: invariant_system client_start "client_step api codec l" client_inv
  for api :: "('w, 'a) conn_api" and codec l
  by unfold_locales (auto intro: client_start_inv client_step_inv)

section \<open>Properties\<close>

text \<open>The longest run of the receiving thread to its end once the client has been stopped.\<close>

fun steps_left :: "receiver \<Rightarrow> nat" where
  "steps_left Finished = 0"
| "steps_left Listening = 1"
| "steps_left Lost = 1"
| "steps_left (Waiting d) = 1"
| "steps_left Retrying = 2"
| "steps_left Connecting = 3"

lemma stopped_connect:
  "stop_requested s \<Longrightarrow> \<exists>s'. connect_and_login api c s = Some (Inr (False, empty_message, kRetryableFailure), s')"
  by (auto simp: connect_and_login_def cl_begin_def Let_def)

lemma stopped_recv_step:
  assumes inv: "client_inv (r, c)" and stop: "\<not> running c" and step: "receiver_step api codec l (r, c) (r', c')"
  shows "steps_left r' < steps_left r \<and> \<not> running c'"
proof -
  from inv stop have flags: "stop_requested (connection c)" "\<not> reconnect_enabled c"
    by (simp_all add: client_inv_def client_ok_def)
  show ?thesis
  proof (cases r)
    case Connecting
    from stopped_connect [OF flags(1), of api codec] step Connecting stop show ?thesis
      by (auto elim!: recv_ConnectingE)
  qed (use step stop flags in \<open>auto simp: wait_before_retry_def
      elim!: recv_ListeningE recv_LostE recv_RetryingE recv_WaitingE recv_FinishedE\<close>)
qed

lemma stopped_can_step:
  assumes inv: "client_inv (r, c)" and stop: "\<not> running c" and r: "r \<noteq> Finished"
  shows "\<exists>st'. receiver_step api codec l (r, c) st'"
proof -
  from inv stop have flags: "stop_requested (connection c)" "\<not> reconnect_enabled c"
    by (simp_all add: client_inv_def client_ok_def)
  show ?thesis
  proof (cases r)
    case Connecting
    from stopped_connect [OF flags(1), of api codec] obtain s' where
      "connect_and_login api codec (connection c) = Some (Inr (False, empty_message, kRetryableFailure), s')" ..
    from receiver_step.again [OF this] Connecting show ?thesis by blast
  next
    case (Waiting d)
    have "\<not> wait_before_retry (connection c) (running c) (reconnect_enabled c)"
      using stop by (simp add: wait_before_retry_def)
    from receiver_step.wait_end [OF this] Waiting show ?thesis by blast
  qed (use stop r flags in \<open>auto intro: receiver_step.intros\<close>)
qed



text \<open>
  A line that starts with a slash is never broadcast: whatever is typed, a \<open>chat\<close> message goes out
  only for a line without the slash, and then its content is exactly the line; every other line
  sends a request of the command it names, complains, or sends nothing.
\<close>

theorem slash_lines_not_broadcast:
  assumes "line_action_of input = Send m e"
  shows "mtype (mfields m) = (if hd input = CHR ''/'' then
      (if starts_with ''/kick '' input \<or> starts_with ''/mute '' input then ''admin_action''
       else if input = ''/users'' then ''users_request''
       else if input = ''/rooms'' then ''rooms_request''
       else if input = ''/leave'' then ''room_leave'' else ''room_join'')
     else ''chat'') \<and> (hd input \<noteq> CHR ''/'' \<longrightarrow> content (mfields m) = input)"
proof -
  have kick: "starts_with ''/kick '' input \<or> starts_with ''/mute '' input \<Longrightarrow> hd input = CHR ''/''"
    by (auto simp: starts_with_iff)
  have admin: "admin_action input = Send m e \<Longrightarrow> mtype (mfields m) = ''admin_action''"
    unfolding admin_action_def Let_def
    by (simp split: option.split_asm if_split_asm) (auto simp: simple_message_def mk_fields_def)
  have join: "join_action input = Send m e \<Longrightarrow> mtype (mfields m) = ''room_join''"
    unfolding join_action_def
    by (simp split: prod.split_asm bool.split_asm) (auto simp: mk_fields_def)
  have priv: "private_action input \<noteq> Send m e"
    unfolding private_action_def by (simp split: prod.split bool.split)
  have simple: "mtype (mfields (simple_message t x y)) = t" "content (mfields (simple_message t x y)) = x" for t x y
    by (simp_all add: simple_message_def mk_fields_def)
  let ?K = "starts_with ''/kick '' input \<or> starts_with ''/mute '' input"
  show ?thesis
  proof (cases "hd input = CHR ''/''")
    case True
    have eq: "line_action_of input =
      (if input = [] then Ignore else if input = ''/help'' then Help else if ?K then admin_action input
       else if input = ''/users'' then Send (simple_message ''users_request'' [] []) ''Failed to request online users.''
       else if input = ''/rooms'' then Send (simple_message ''rooms_request'' [] []) ''Failed to request rooms.''
       else if input = ''/leave'' then Send (simple_message ''room_leave'' [] []) ''Failed to leave room.''
       else if is_join_command input then join_action input
       else if input = ''/quit'' then Quit (simple_message ''quit'' [] [])
       else if is_private_message_command input then private_action input
       else Complain (''Unknown command. Type /help for help.'' @ newline))"
      unfolding line_action_of_def if_P [OF True] ..
    consider (kick) "?K" | (users) "\<not> ?K" "input = ''/users''" | (rooms) "\<not> ?K" "input = ''/rooms''"
      | (leave) "\<not> ?K" "input = ''/leave''" | (other) "\<not> ?K" "input \<noteq> ''/users''" "input \<noteq> ''/rooms''" "input \<noteq> ''/leave''"
      by argo
    then show ?thesis
    proof cases
      case kick
      then have "input \<noteq> []" "input \<noteq> ''/help''" by (auto simp: starts_with_iff)
      with eq kick assms have "admin_action input = Send m e" by (simp only: if_True if_False)
      from admin [OF this] kick True show ?thesis by (simp only: if_True simp_thms)
    next
      case other
      from assms eq other(1) have "join_action input = Send m e"
        using priv other(2-4) by (simp only: if_False split: if_split_asm) simp_all
      from join [OF this] other True show ?thesis by (simp only: if_True if_False simp_thms)
    qed (use assms eq simple in \<open>auto simp: starts_with_def\<close>)
  next
    case False
    with kick assms simple have "m = simple_message ''chat'' input []"
      unfolding line_action_of_def by (auto simp only: line_action.inject line_action.distinct split: if_split_asm)
    with False kick simple show ?thesis by simp
  qed
qed

lemma msg_line_action:
  assumes "parse_private_message input = (True, cmd)"
  shows "line_action_of input = SendPrivate (normalize_user_code (target_code cmd)) (target_name cmd @ ''#'' @ target_code cmd)
      (simple_message ''private_chat'' (pm_content cmd) (target_code cmd)) ''Failed to send private message.''"
proof -
  have pm: "is_private_message_command input"
    using assms unfolding parse_private_message_def Let_def by (simp split: if_split_asm)
  then have t: "take 4 input = ''/msg''"
    by (auto simp: is_private_message_command_def is_command_prefix_def substr_def)
  then have no: "input \<noteq> []" "input \<noteq> ''/help''" "\<not> (starts_with ''/kick '' input \<or> starts_with ''/mute '' input)"
    "hd input = CHR ''/''" "input \<noteq> ''/users''" "input \<noteq> ''/rooms''" "input \<noteq> ''/leave''"
    "\<not> is_join_command input" "input \<noteq> ''/quit''"
    by (auto simp: starts_with_iff is_join_command_def substr_def dest: arg_cong [of _ _ "take 4"])
      (cases input; simp)+
  have "line_action_of input = private_action input"
    unfolding line_action_of_def by (simp only: no pm if_True if_False refl)
  with assms show ?thesis by (simp add: private_action_def)
qed

lemma client_send_peers: "client_send api codec m c = Done (b, c') \<Longrightarrow> private_peer_names c' = private_peer_names c"
  by (auto simp: client_send_def split: option.splits sum.splits)

lemma send_or_report_peers:
  "send_or_report api codec m e c = Done (b, c') \<Longrightarrow> private_peer_names c' = private_peer_names c"
  by (auto simp: send_or_report_def print_locked_def Let_def dest: client_send_peers split: run.splits bool.splits)
    (metis client_send_peers)+

text \<open>
  A private message typed as \<open>/msg Name#Code text\<close> is shown under that name when the server
  echoes it, whatever letter case the server uses for the codes: the handler remembers the peer
  before it sends, so the echo prints \<open>[Private -> Name#Code] text\<close>.
\<close>

theorem private_echo_named:
  assumes "parse_private_message input = (True, cmd)" and "handle_line api codec input c = Done (b, c')"
    and "mtype (mfields echo) = ''private_chat''"
    and "normalize_user_code (user_code (mfields echo)) = normalize_user_code local_code" and "local_code \<noteq> []"
    and "normalize_user_code (target_user_code (mfields echo)) = normalize_user_code (target_code cmd)"
  shows "display local_code (private_peer_names c') echo =
    (Cout, ''[Private -> '' @ target_name cmd @ ''#'' @ target_code cmd @ ''] '' @ content (mfields echo) @ newline)"
proof -
  let ?id = "target_name cmd @ ''#'' @ target_code cmd"
  from assms(2) obtain b' where "send_or_report api codec (simple_message ''private_chat'' (pm_content cmd) (target_code cmd))
      ''Failed to send private message.''
      (c\<lparr>private_peer_names := (private_peer_names c)(normalize_user_code (target_code cmd) \<mapsto> ?id)\<rparr>) = Done (b', c')"
    by (auto simp: handle_line_def msg_line_action [OF assms(1)] split: run.splits)
  from send_or_report_peers [OF this]
  have peer: "private_peer_names c' (normalize_user_code (target_code cmd)) = Some ?id" by simp
  have "normalize_user_code (user_code (mfields echo)) \<noteq> []"
    using assms(4,5) by (simp add: normalize_user_code_def)
  with assms(4,6) peer have "print_private local_code (private_peer_names c') (mfields echo) =
      ''[Private -> '' @ ?id @ ''] '' @ content (mfields echo) @ newline"
    by (simp add: print_private_def Let_def)
  then show ?thesis unfolding display_def Let_def assms(3) by simp
qed

section \<open>Witnesses\<close>

text \<open>A client on the in-memory machine that has just logged in.\<close>

definition ready_conn :: "string \<Rightarrow> (string \<times> string) conn" where
  "ready_conn i = (mem_conn i)\<lparr>session := Some 0, next_ptr := 1, ready := True,
     heap := (\<lambda>_. None)(0 \<mapsto> (\<lparr>socket_handle = Some 3, ssl_context = Some 1, ssl = Some 2\<rparr>, 1))\<rparr>"

lemma ready_conn_inv: "conn_inv (CIdle, RIdle, ready_conn i)" and ready_conn_ready: "is_ready (ready_conn i)"
  by (auto simp: ready_conn_def mem_conn_def conn_init_def inv_parts heap_ok_def counts_def ssl_of_def
      session_ssl_def is_ready_def)

definition mem_client :: "string \<Rightarrow> (string \<times> string) client" where
  "mem_client i = first_client (ready_conn i)"

lemma mem_client_reachable: "reachable client_start (client_step mem_conn_api flat_codec l) (Listening, mem_client i)"
  by (rule reachable_init)
    (auto simp: client_start_def mem_client_def first_client_def ready_conn_inv ready_conn_ready)



theorem slash_lines_not_broadcast_witness:
  "mtype (mfields (simple_message ''chat'' ''hello'' [])) = ''chat''"
proof -
  have "line_action_of ''hello'' = Send (simple_message ''chat'' ''hello'' []) ''Failed to send chat message.''"
    by (simp add: line_action_of_def starts_with_def)
  from slash_lines_not_broadcast [OF this] show ?thesis by simp
qed

theorem private_echo_named_witness:
  "\<exists>b c'. handle_line mem_conn_api flat_codec ''/msg Bob#B1 hey'' (mem_client []) = Done (b, c') \<and>
     display ''A1'' (private_peer_names c')
       (Message (mk_fields ''private_chat'' ''Ann'' ''a1'' ''hey'' [] ''b1'' [] [] [] [] []) []) =
     (Cout, ''[Private -> Bob#B1] hey'' @ newline)"
proof -
  let ?cmd = "\<lparr>target_name = ''Bob'', target_code = ''B1'', pm_content = ''hey''\<rparr>"
  have parse: "parse_private_message ''/msg Bob#B1 hey'' = (True, ?cmd)"
    using parse_private_message_accepts [of "''/msg Bob#B1 hey''" "'' ''" "''Bob''" "''B1''" "CHR '' ''" "[]" "''hey''"]
    by (simp add: isspace_def is_target_name_def word_end_def is_valid_code_def is_ascii_alphanumeric_def is_content_def Let_def)
  let ?m = "simple_message ''private_chat'' ''hey'' ''B1''"
  let ?p = "concat (map put_string [''content'', ''hey'', ''target_user_code'', ''B1'', ''type'', ''private_chat''])"
  have dump: "dump_message flat_codec ?m = Inr ?p"
    by (simp add: dump_message_def simple_message_def crypto_value_def mk_fields_def serialize_entries_def bind_r_def
        flat_codec_def less_char_def)
  have "valid_payload ?p" by (simp add: valid_payload_def kMaxMessageSize_def)
  then obtain fs where fs: "ssl_send_frame mem_ssl (frames (env (ready_conn []))) ?p = (True, fs)"
    using ssl_send_frame_live [OF mem_ssl_ok] by blast
  from ssl_send_message_sent [OF dump this]
  have "ssl_send_message mem_ssl flat_codec (env (ready_conn [])) ?m = Inr (True, (env (ready_conn []))\<lparr>frames := fs\<rparr>)" .
  then obtain s where "conn_send mem_conn_api flat_codec ?m (ready_conn []) = Some (Inr (True, s))"
    using ready_conn_ready [of "[]"]
    by (auto simp: conn_send_def is_ready_def session_ssl_def ready_conn_def mem_conn_api_def)
  then obtain b c' where line: "handle_line mem_conn_api flat_codec ''/msg Bob#B1 hey'' (mem_client []) = Done (b, c')"
    unfolding handle_line_def msg_line_action [OF parse]
    by (auto simp: send_or_report_def client_send_def mem_client_def first_client_def)
  have norm: "normalize_user_code ''a1'' = normalize_user_code ''A1''" "normalize_user_code ''b1'' = normalize_user_code ''B1''"
    by code_simp+
  have "display ''A1'' (private_peer_names c')
       (Message (mk_fields ''private_chat'' ''Ann'' ''a1'' ''hey'' [] ''b1'' [] [] [] [] []) []) =
     (Cout, ''[Private -> '' @ target_name ?cmd @ ''#'' @ target_code ?cmd @ ''] '' @ ''hey'' @ newline)"
    using private_echo_named [OF parse line, of "Message (mk_fields ''private_chat'' ''Ann'' ''a1'' ''hey'' [] ''b1'' [] [] [] [] []) []" "''A1''"]
    by (simp add: mk_fields_def norm)
  with line show ?thesis by auto
qed

end
