(* ===== verification/Chat_Model.thy ===== *)
theory Chat_Model
  imports Transition "HOL-Library.Finite_Map"
begin

text \<open>
  The list models behind the message, user and room views,
  \<open>client-cpp/gui/src/chat_model.cpp\<close> (\<open>ChatListModel\<close>): at most 1000 rows, each a map from role
  names to values; rows with a message id already present update the existing row. Every change is
  announced to the views by the signals of \<open>QAbstractListModel\<close>, which the operations return beside
  the new model.

  A \<open>QVariant\<close> is invalid, a string, an integer, a truth value or a map.
\<close>

datatype QVariant = Invalid | VStr string | VInt int | VBool bool | VMap "(string \<times> QVariant) list"

type_synonym QVariantMap = "(string, QVariant) fmap"

record ChatListModel =
  roles :: "(int \<times> string) list"
  rows :: "QVariantMap list"

text \<open>The signals, with the rows a view reads when it handles them.\<close>

datatype model_signal =
    RowsRemoved nat nat
  | RowsInserted nat "QVariantMap list"
  | ModelReset "QVariantMap list"
  | DataChanged nat "QVariantMap list"

definition kMaxRowsPerModel :: nat where "kMaxRowsPerModel = 1000"
definition UserRole :: int where "UserRole = 256"
definition DisplayRole :: int where "DisplayRole = 0"

section \<open>Reading\<close>

definition new_model :: "string list \<Rightarrow> ChatListModel" where
  "new_model roleNames = \<lparr>roles = zip (map (\<lambda>i. UserRole + 1 + int i) [0..<length roleNames]) roleNames, rows = []\<rparr>"

definition rowCount :: "bool \<Rightarrow> ChatListModel \<Rightarrow> nat" where
  "rowCount parent_valid m = (if parent_valid then 0 else length (rows m))"

text \<open>\<open>QMap::value\<close>: the invalid value for a missing key.\<close>

definition value_of :: "QVariantMap \<Rightarrow> string \<Rightarrow> QVariant" where
  "value_of row key = (case fmlookup row key of None \<Rightarrow> Invalid | Some v \<Rightarrow> v)"

definition valueAt :: "ChatListModel \<Rightarrow> int \<Rightarrow> string \<Rightarrow> QVariant" where
  "valueAt m row roleName =
    (if row < 0 \<or> int (length (rows m)) \<le> row then Invalid else value_of (rows m ! nat row) roleName)"

definition model_data :: "ChatListModel \<Rightarrow> bool \<Rightarrow> int \<Rightarrow> int \<Rightarrow> QVariant" where
  "model_data m index_valid row role =
    (if \<not> index_valid \<or> row < 0 \<or> int (length (rows m)) \<le> row then Invalid
     else (case map_of (roles m) role of
             None \<Rightarrow> Invalid
           | Some roleName \<Rightarrow> if roleName = [] then Invalid else value_of (rows m ! nat row) roleName))"

definition roleForName :: "ChatListModel \<Rightarrow> string \<Rightarrow> int" where
  "roleForName m name = (case find (\<lambda>(r, n). n = name) (roles m) of Some (r, _) \<Rightarrow> r | None \<Rightarrow> DisplayRole)"

text \<open>The first row with the value, or none (\<open>-1\<close>).\<close>

definition findRow :: "QVariantMap list \<Rightarrow> string \<Rightarrow> QVariant \<Rightarrow> nat option" where
  "findRow rs roleName v = first_index (\<lambda>row. value_of row roleName = v) rs"

section \<open>Changing\<close>

definition updateRow :: "nat \<Rightarrow> QVariantMap \<Rightarrow> QVariantMap list \<Rightarrow> QVariantMap list \<times> model_signal list" where
  "updateRow row values rs =
    (if length rs \<le> row \<or> values = fmempty then (rs, [])
     else let merged = rs ! row ++\<^sub>f values in (rs[row := merged], [DataChanged row [merged]]))"

definition toString :: "QVariant \<Rightarrow> string" where
  "toString v = (case v of Invalid \<Rightarrow> [] | VStr s \<Rightarrow> s | VInt n \<Rightarrow> to_string n
     | VBool b \<Rightarrow> (if b then ''true'' else ''false'') | VMap ms \<Rightarrow> [])"

text \<open>The loop over the incoming rows of a model with message ids: the rows so far, the new rows, the
  index of the new rows by id, and the signals.\<close>

fun dedupe ::
    "QVariantMap list \<Rightarrow> QVariantMap list \<Rightarrow> QVariantMap list \<Rightarrow> (string \<rightharpoonup> nat) \<Rightarrow> model_signal list \<Rightarrow>
     QVariantMap list \<times> QVariantMap list \<times> model_signal list" where
  "dedupe [] rs uniqueIncoming byId sigs = (rs, uniqueIncoming, sigs)"
| "dedupe (row # incoming) rs uniqueIncoming byId sigs =
    (let messageId = toString (value_of row ''messageId'') in
     if messageId = [] then dedupe incoming rs (uniqueIncoming @ [row]) byId sigs
     else (case findRow rs ''messageId'' (VStr messageId) of
        Some existingRow \<Rightarrow>
          (case updateRow existingRow row rs of
             (rs', s) \<Rightarrow> dedupe incoming rs' uniqueIncoming byId (sigs @ s))
      | None \<Rightarrow>
          (case byId messageId of
             Some i \<Rightarrow> dedupe incoming rs (uniqueIncoming[i := uniqueIncoming ! i ++\<^sub>f row]) byId sigs
           | None \<Rightarrow> dedupe incoming rs (uniqueIncoming @ [row]) (byId(messageId \<mapsto> length uniqueIncoming)) sigs)))"

definition mid_last :: "'a list \<Rightarrow> 'a list" where
  "mid_last xs = (if kMaxRowsPerModel < length xs then drop (length xs - kMaxRowsPerModel) xs else xs)"

text \<open>\<open>incoming\<close> behind \<open>rs\<close>, dropping the oldest rows above the limit.\<close>

definition insert_behind :: "QVariantMap list \<Rightarrow> QVariantMap list \<Rightarrow> QVariantMap list \<times> model_signal list" where
  "insert_behind rs incoming0 =
    (let incoming = mid_last incoming0;
         overflow = length rs + length incoming - kMaxRowsPerModel in
     if length rs \<le> overflow \<and> rs \<noteq> [] then (incoming, [ModelReset incoming])
     else let kept = (if 0 < overflow then drop overflow rs else rs);
              removed = (if 0 < overflow then [RowsRemoved 0 (overflow - 1)] else []) in
          (kept @ incoming, removed @ [RowsInserted (length kept) incoming]))"

definition appendRows :: "QVariantMap list \<Rightarrow> ChatListModel \<Rightarrow> ChatListModel \<times> model_signal list" where
  "appendRows new m =
    (if new = [] then (m, [])
     else let (rs, incoming, sigs) =
       (if roleForName m ''messageId'' \<noteq> DisplayRole then dedupe new (rows m) [] Map.empty []
        else (rows m, new, [])) in
     if incoming = [] then (m\<lparr>rows := rs\<rparr>, sigs)
     else (case insert_behind rs incoming of (rs', s) \<Rightarrow> (m\<lparr>rows := rs'\<rparr>, sigs @ s)))"

definition append_row :: "QVariantMap \<Rightarrow> ChatListModel \<Rightarrow> ChatListModel \<times> model_signal list" where
  "append_row row m = appendRows [row] m"

definition prependRows :: "QVariantMap list \<Rightarrow> ChatListModel \<Rightarrow> ChatListModel \<times> model_signal list" where
  "prependRows new m =
    (if new = [] then (m, [])
     else let rs = rows m; incoming = mid_last new;
              overflow = length rs + length incoming - kMaxRowsPerModel in
     if length rs \<le> overflow \<and> rs \<noteq> [] then (m\<lparr>rows := incoming\<rparr>, [ModelReset incoming])
     else let firstRemovedRow = length rs - overflow;
              kept = (if 0 < overflow then take firstRemovedRow rs else rs);
              removed = (if 0 < overflow then [RowsRemoved firstRemovedRow (length rs - 1)] else []) in
          (m\<lparr>rows := incoming @ kept\<rparr>, removed @ [RowsInserted 0 incoming]))"

definition replaceRows :: "QVariantMap list \<Rightarrow> ChatListModel \<Rightarrow> ChatListModel \<times> model_signal list" where
  "replaceRows new m =
    (let replacement = mid_last new in
     if rows m = replacement then (m, []) else (m\<lparr>rows := replacement\<rparr>, [ModelReset replacement]))"

text \<open>\<open>updateRows\<close> merges the maps row by row and announces one range if any value differs.\<close>

definition differs :: "QVariantMap \<Rightarrow> QVariantMap \<Rightarrow> bool" where
  "differs row values \<longleftrightarrow> fBex (fmdom values) (\<lambda>k. value_of row k \<noteq> value_of values k)"

definition updateRows :: "QVariantMap list \<Rightarrow> ChatListModel \<Rightarrow> ChatListModel \<times> model_signal list" where
  "updateRows valuesByRow m =
    (let n = min (length (rows m)) (length valuesByRow) in
     if n = 0 then (m, [])
     else let touched = map (\<lambda>(row, values). row ++\<^sub>f values) (zip (take n (rows m)) (take n valuesByRow));
              changed = list_ex (\<lambda>(row, values). differs row values) (zip (take n (rows m)) (take n valuesByRow)) in
          (m\<lparr>rows := touched @ drop n (rows m)\<rparr>, if changed then [DataChanged 0 touched] else []))"

definition update_row :: "int \<Rightarrow> QVariantMap \<Rightarrow> ChatListModel \<Rightarrow> ChatListModel \<times> model_signal list" where
  "update_row row values m =
    (if row < 0 then (m, []) else (case updateRow (nat row) values (rows m) of (rs, s) \<Rightarrow> (m\<lparr>rows := rs\<rparr>, s)))"

definition remove_at :: "nat \<Rightarrow> 'a list \<Rightarrow> 'a list" where
  "remove_at i xs = take i xs @ drop (Suc i) xs"

definition removeRow :: "int \<Rightarrow> ChatListModel \<Rightarrow> ChatListModel \<times> model_signal list" where
  "removeRow row m =
    (if row < 0 \<or> int (length (rows m)) \<le> row then (m, [])
     else (m\<lparr>rows := remove_at (nat row) (rows m)\<rparr>, [RowsRemoved (nat row) (nat row)]))"

text \<open>From the last row down to the first.\<close>

fun remove_down :: "nat \<Rightarrow> string \<Rightarrow> QVariant \<Rightarrow> ChatListModel \<Rightarrow> ChatListModel \<times> model_signal list" where
  "remove_down 0 roleName v m = (m, [])"
| "remove_down (Suc row) roleName v m =
    (let (m1, s1) = (if value_of (rows m ! row) roleName = v then removeRow (int row) m else (m, []));
         (m2, s2) = remove_down row roleName v m1 in (m2, s1 @ s2))"

definition removeRowsByValue :: "string \<Rightarrow> QVariant \<Rightarrow> ChatListModel \<Rightarrow> ChatListModel \<times> model_signal list" where
  "removeRowsByValue roleName v m = remove_down (length (rows m)) roleName v m"

definition clear_model :: "ChatListModel \<Rightarrow> ChatListModel \<times> model_signal list" where
  "clear_model m = replaceRows [] m"


section \<open>The limit\<close>

lemma mid_last_drop: "mid_last xs = drop (length xs - kMaxRowsPerModel) xs"
  by (simp add: mid_last_def)

lemma mid_last_length: "length (mid_last xs) \<le> kMaxRowsPerModel"
  by (simp add: mid_last_drop)

lemma insert_behind_newest:
  assumes "length rs \<le> kMaxRowsPerModel"
  shows "fst (insert_behind rs new) = drop (length (rs @ new) - kMaxRowsPerModel) (rs @ new)"
proof (cases "length new \<le> kMaxRowsPerModel")
  case True
  then have "mid_last new = new" by (simp add: mid_last_def)
  then show ?thesis using assms True by (auto simp: insert_behind_def Let_def drop_append)
next
  case False
  then have "length (mid_last new) = kMaxRowsPerModel" by (simp add: mid_last_drop)
  then have "fst (insert_behind rs new) = mid_last new" by (simp add: insert_behind_def Let_def)
  moreover have "length (rs @ new) - kMaxRowsPerModel = length rs + (length new - kMaxRowsPerModel)" using False by simp
  ultimately show ?thesis by (simp only: mid_last_drop) simp
qed

lemma updateRow_length: "updateRow i v rs = (rs', sigs) \<Longrightarrow> length rs' = length rs"
  by (auto simp: updateRow_def Let_def split: if_splits)

lemma dedupe_length: "dedupe new rs uniq byId sigs = (rs', inc, sigs') \<Longrightarrow> length rs' = length rs"
proof (induction new arbitrary: rs uniq byId sigs)
  case (Cons row incoming)
  from Cons.prems show ?case
    by (auto simp: Let_def split: if_splits option.splits prod.splits dest!: Cons.IH updateRow_length)
qed simp

lemma appendRows_rows:
  "rows (fst (appendRows new m)) =
    (if new = [] then rows m
     else case (if roleForName m ''messageId'' \<noteq> DisplayRole then dedupe new (rows m) [] Map.empty []
                else (rows m, new, [])) of
       (rs, incoming, _) \<Rightarrow> if incoming = [] then rs else fst (insert_behind rs incoming))"
  by (simp add: appendRows_def Let_def split: prod.splits)

section \<open>Views\<close>

text \<open>What a view shows of the rows, and how it follows the signals.\<close>

definition shown :: "QVariantMap list \<Rightarrow> (string \<Rightarrow> QVariant) list" where
  "shown rs = map value_of rs"

fun apply_signal :: "model_signal \<Rightarrow> (string \<Rightarrow> QVariant) list \<Rightarrow> (string \<Rightarrow> QVariant) list" where
  "apply_signal (RowsRemoved first final) v = take first v @ drop (Suc final) v"
| "apply_signal (RowsInserted first new) v = take first v @ shown new @ drop first v"
| "apply_signal (ModelReset new) v = shown new"
| "apply_signal (DataChanged first new) v = take first v @ shown new @ drop (first + length new) v"

definition replay :: "model_signal list \<Rightarrow> (string \<Rightarrow> QVariant) list \<Rightarrow> (string \<Rightarrow> QVariant) list" where
  "replay sigs v = fold apply_signal sigs v"

lemma replay_simps [simp]: "replay [] v = v" "replay (s # ss) v = replay ss (apply_signal s v)"
  "replay (xs @ ys) v = replay ys (replay xs v)"
  by (simp_all add: replay_def)

lemma shown_simps [simp]: "shown [] = []" "shown (r # rs) = value_of r # shown rs" "shown (xs @ ys) = shown xs @ shown ys"
  "length (shown xs) = length xs" "shown (take n xs) = take n (shown xs)" "shown (drop n xs) = drop n (shown xs)"
  by (simp_all add: shown_def take_map drop_map)

lemma insert_behind_shown:
  "insert_behind rs new = (rs', sigs) \<Longrightarrow> replay sigs (shown rs) = shown rs'"
  by (auto simp: insert_behind_def Let_def Suc_diff_Suc split: if_splits)

lemma updateRow_shown: "updateRow i v rs = (rs', sigs) \<Longrightarrow> replay sigs (shown rs) = shown rs'"
  by (auto simp: updateRow_def Let_def shown_def map_update upd_conv_take_nth_drop take_map drop_map split: if_splits)

lemma dedupe_shown:
  "dedupe new rs uniq byId sigs = (rs', inc, sigs') \<Longrightarrow> replay sigs v = shown rs \<Longrightarrow> replay sigs' v = shown rs'"
proof (induction new arbitrary: rs uniq byId sigs)
  case (Cons row incoming)
  from Cons.prems show ?case
    by (auto simp: Let_def updateRow_shown split: if_splits option.splits prod.splits dest!: Cons.IH)
qed simp

lemma appendRows_shown:
  "appendRows new m = (m', sigs) \<Longrightarrow> replay sigs (shown (rows m)) = shown (rows m')"
  by (auto simp: appendRows_def Let_def split: if_splits prod.splits
      dest!: insert_behind_shown dedupe_shown [where v="shown (rows m)"])

lemma prependRows_shown:
  "prependRows new m = (m', sigs) \<Longrightarrow> replay sigs (shown (rows m)) = shown (rows m')"
  by (auto simp: prependRows_def Let_def split: if_splits)

lemma replaceRows_shown:
  "replaceRows new m = (m', sigs) \<Longrightarrow> replay sigs (shown (rows m)) = shown (rows m')"
  by (auto simp: replaceRows_def Let_def split: if_splits)


lemma update_row_shown:
  "update_row i v m = (m', sigs) \<Longrightarrow> replay sigs (shown (rows m)) = shown (rows m')"
  by (auto simp: update_row_def updateRow_shown split: if_splits prod.splits)

lemma value_of_merge: "value_of (r ++\<^sub>f values) k = (if k |\<in>| fmdom values then value_of values k else value_of r k)"
  by (auto simp: value_of_def split: option.splits)

lemma not_differs: "\<not> differs r values \<Longrightarrow> value_of (r ++\<^sub>f values) = value_of r"
  by (auto simp: differs_def value_of_merge fun_eq_iff)

lemma unchanged_shown:
  "list_all (\<lambda>(row, values). \<not> differs row values) (zip rs vs) \<Longrightarrow> length rs = length vs \<Longrightarrow>
   map value_of (map (\<lambda>(row, values). row ++\<^sub>f values) (zip rs vs)) = map value_of rs"
proof (induction rs arbitrary: vs)
  case (Cons r rs)
  then show ?case by (cases vs) (auto simp: not_differs)
qed simp

lemma updateRows_shown:
  assumes "updateRows vs m = (m', sigs)"
  shows "replay sigs (shown (rows m)) = shown (rows m')"
proof -
  define n where "n = min (length (rows m)) (length vs)"
  let ?z = "zip (take n (rows m)) (take n vs)"
  let ?t = "map (\<lambda>(row, values). row ++\<^sub>f values) ?z"
  have len: "length ?t = n" by (simp add: n_def)
  consider "n = 0" | (changed) "n \<noteq> 0" "list_ex (\<lambda>(row, values). differs row values) ?z"
    | (same) "n \<noteq> 0" "\<not> list_ex (\<lambda>(row, values). differs row values) ?z" by blast
  then show ?thesis
  proof cases
    case 1
    with assms show ?thesis by (auto simp: updateRows_def n_def Let_def split: if_splits)
  next
    case changed
    with assms have "rows m' = ?t @ drop n (rows m)" "sigs = [DataChanged 0 ?t]"
      by (auto simp: updateRows_def n_def [symmetric] Let_def)
    with len show ?thesis by simp
  next
    case same
    with assms have m': "rows m' = ?t @ drop n (rows m)" and "sigs = []"
      by (auto simp: updateRows_def n_def [symmetric] Let_def)
    moreover have "shown ?t = shown (take n (rows m))"
      unfolding shown_def using same(2)
      by (intro unchanged_shown) (auto simp: list_all_iff list_ex_iff n_def)
    then have "shown (rows m') = shown (rows m)" unfolding m' by simp
    ultimately show ?thesis by simp
  qed
qed

lemma removeRow_shown:
  "removeRow i m = (m', sigs) \<Longrightarrow> replay sigs (shown (rows m)) = shown (rows m')"
  by (auto simp: removeRow_def remove_at_def split: if_splits)

lemma remove_down_shown:
  "remove_down n k v m = (m', sigs) \<Longrightarrow> replay sigs (shown (rows m)) = shown (rows m')"
proof (induction n arbitrary: m sigs)
  case (Suc n)
  then show ?case
    by (auto simp: Let_def split: prod.splits if_splits dest!: removeRow_shown)
qed simp

lemma remove_down_length: "length (rows (fst (remove_down n k v m))) \<le> length (rows m)"
proof (induction n arbitrary: m)
  case (Suc n)
  have "length (rows (fst (removeRow i m))) \<le> length (rows m)" for i by (auto simp: removeRow_def remove_at_def)
  then show ?case using Suc by (auto simp: Let_def split: prod.splits) (metis fst_conv le_trans)+
qed simp

section \<open>The operations together\<close>

datatype model_op =
    Append "QVariantMap list" | Prepend "QVariantMap list" | Replace "QVariantMap list"
  | Update int QVariantMap | UpdateAll "QVariantMap list"
  | Remove int | RemoveByValue string QVariant | Clear

fun run_op :: "model_op \<Rightarrow> ChatListModel \<Rightarrow> ChatListModel \<times> model_signal list" where
  "run_op (Append new) m = appendRows new m"
| "run_op (Prepend new) m = prependRows new m"
| "run_op (Replace new) m = replaceRows new m"
| "run_op (Update row values) m = update_row row values m"
| "run_op (UpdateAll values) m = updateRows values m"
| "run_op (Remove row) m = removeRow row m"
| "run_op (RemoveByValue roleName v) m = removeRowsByValue roleName v m"
| "run_op Clear m = clear_model m"

fun run_ops :: "model_op list \<Rightarrow> ChatListModel \<Rightarrow> ChatListModel \<times> model_signal list" where
  "run_ops [] m = (m, [])"
| "run_ops (op # ops) m =
    (case run_op op m of (m1, s1) \<Rightarrow> (case run_ops ops m1 of (m2, s2) \<Rightarrow> (m2, s1 @ s2)))"

lemma run_op_shown: "run_op op m = (m', sigs) \<Longrightarrow> replay sigs (shown (rows m)) = shown (rows m')"
  by (cases op) (auto simp: appendRows_shown prependRows_shown replaceRows_shown update_row_shown updateRows_shown
      removeRow_shown removeRowsByValue_def remove_down_shown clear_model_def)

lemma appendRows_bounded:
  assumes "length (rows m) \<le> kMaxRowsPerModel"
  shows "length (rows (fst (appendRows new m))) \<le> kMaxRowsPerModel"
  unfolding appendRows_rows using assms
  by (auto simp: insert_behind_newest dedupe_length split: prod.splits dest!: dedupe_length)

lemma run_op_bounded:
  assumes "length (rows m) \<le> kMaxRowsPerModel"
  shows "length (rows (fst (run_op op m))) \<le> kMaxRowsPerModel"
proof (cases op)
  case (Prepend new)
  with assms mid_last_length [of new] show ?thesis by (auto simp: prependRows_def Let_def)
next
  case (RemoveByValue k v)
  with assms remove_down_length show ?thesis by (simp add: removeRowsByValue_def) (meson le_trans)
qed (use assms mid_last_length in
  \<open>auto simp: appendRows_bounded replaceRows_def clear_model_def Let_def update_row_def updateRows_def removeRow_def
     remove_at_def split: prod.splits dest: updateRow_length\<close>)

interpretation list_model: invariant_system "\<lambda>m. rows m = []" "\<lambda>m m'. \<exists>op. m' = fst (run_op op m)"
    "\<lambda>m. length (rows m) \<le> kMaxRowsPerModel"
  by unfold_locales (auto simp: run_op_bounded)

lemma run_ops_steps: "steps (\<lambda>m m'. \<exists>op. m' = fst (run_op op m)) m0 m \<Longrightarrow>
  steps (\<lambda>m m'. \<exists>op. m' = fst (run_op op m)) m0 (fst (run_ops ops m))"
proof (induction ops arbitrary: m)
  case (Cons op ops)
  have "steps (\<lambda>m m'. \<exists>op. m' = fst (run_op op m)) m0 (fst (run_op op m))"
    by (rule steps_step [OF Cons.prems]) blast
  from Cons.IH [OF this] show ?case
    by (cases "run_op op m"; cases "run_ops ops (fst (run_op op m))") simp
qed simp

lemma run_ops_shown: "run_ops ops m = (m', sigs) \<Longrightarrow> replay sigs (shown (rows m)) = shown (rows m')"
proof (induction ops arbitrary: m sigs)
  case (Cons op ops)
  then show ?case by (auto split: prod.splits dest!: run_op_shown)
qed simp

section \<open>Message ids\<close>

definition text_id :: "QVariantMap \<Rightarrow> string" where
  "text_id row = toString (value_of row ''messageId'')"

definition string_id :: "QVariantMap \<Rightarrow> string" where
  "string_id row = (case value_of row ''messageId'' of VStr s \<Rightarrow> s | _ \<Rightarrow> [])"

definition unique_ids :: "QVariantMap list \<Rightarrow> bool" where
  "unique_ids rs \<longleftrightarrow> (\<forall>i<length rs. \<forall>j<length rs. string_id (rs ! i) \<noteq> [] \<and> string_id (rs ! i) = string_id (rs ! j) \<longrightarrow> i = j)"

lemma string_id_text: "string_id r \<noteq> [] \<Longrightarrow> text_id r = string_id r"
  by (auto simp: string_id_def text_id_def toString_def split: QVariant.splits)

lemma has_id: "text_id row \<noteq> [] \<Longrightarrow> ''messageId'' |\<in>| fmdom row"
  by (auto simp: text_id_def toString_def value_of_def split: option.splits QVariant.splits intro: fmdomI)

lemma merged_id:
  assumes "text_id row \<noteq> []"
  shows "text_id (r ++\<^sub>f row) = text_id row" "string_id (r ++\<^sub>f row) = string_id row"
  using has_id [OF assms] by (simp_all add: text_id_def string_id_def value_of_merge)

lemma findRow_None: "findRow rs ''messageId'' (VStr s) = None \<Longrightarrow> s \<noteq> [] \<Longrightarrow> i < length rs \<Longrightarrow> string_id (rs ! i) \<noteq> s"
  unfolding findRow_def first_index_None
  by (auto simp: string_id_def set_conv_nth split: QVariant.splits)

lemma findRow_Some:
  "findRow rs ''messageId'' (VStr s) = Some i \<Longrightarrow> i < length rs \<and> string_id (rs ! i) = s"
  unfolding findRow_def first_index_Some by (simp add: string_id_def)

text \<open>The state of the loop over the incoming rows.\<close>

definition dedupe_inv :: "QVariantMap list \<Rightarrow> QVariantMap list \<Rightarrow> (string \<rightharpoonup> nat) \<Rightarrow> bool" where
  "dedupe_inv rs uniq byId \<longleftrightarrow> unique_ids rs \<and>
     (\<forall>x i. byId x = Some i \<longrightarrow> i < length uniq \<and> text_id (uniq ! i) = x) \<and>
     (\<forall>i<length uniq. text_id (uniq ! i) \<noteq> [] \<longrightarrow> byId (text_id (uniq ! i)) = Some i) \<and>
     (\<forall>i<length rs. \<forall>j<length uniq. string_id (rs ! i) \<noteq> [] \<longrightarrow> string_id (rs ! i) \<noteq> string_id (uniq ! j))"

lemma dedupe_inv_unique:
  assumes "dedupe_inv rs uniq byId"
  shows "unique_ids (rs @ uniq)"
proof -
  have uniq: "i = j" if "i < length uniq" "j < length uniq" "string_id (uniq ! i) \<noteq> []"
      "string_id (uniq ! i) = string_id (uniq ! j)" for i j
    using assms that string_id_text [of "uniq ! i"] string_id_text [of "uniq ! j"]
    unfolding dedupe_inv_def by (metis option.inject)
  show ?thesis
    unfolding unique_ids_def
  proof (intro allI impI, elim conjE)
    fix i j
    assume "i < length (rs @ uniq)" "j < length (rs @ uniq)"
      and id: "string_id ((rs @ uniq) ! i) \<noteq> []" "string_id ((rs @ uniq) ! i) = string_id ((rs @ uniq) ! j)"
    then show "i = j"
      using assms uniq [of "i - length rs" "j - length rs"]
      by (auto simp: dedupe_inv_def unique_ids_def nth_append split: if_splits) (metis add_diff_inverse_nat nat_add_left_cancel_less)+
  qed
qed


lemma dedupe_invI:
  assumes "unique_ids rs"
    and "\<And>x i. byId x = Some i \<Longrightarrow> i < length uniq \<and> text_id (uniq ! i) = x"
    and "\<And>i. i < length uniq \<Longrightarrow> text_id (uniq ! i) \<noteq> [] \<Longrightarrow> byId (text_id (uniq ! i)) = Some i"
    and "\<And>i j. i < length rs \<Longrightarrow> j < length uniq \<Longrightarrow> string_id (rs ! i) \<noteq> [] \<Longrightarrow> string_id (rs ! i) \<noteq> string_id (uniq ! j)"
  shows "dedupe_inv rs uniq byId"
  using assms by (simp add: dedupe_inv_def)

lemma dedupe_invD:
  assumes "dedupe_inv rs uniq byId"
  shows "unique_ids rs"
    and "byId x = Some i \<Longrightarrow> i < length uniq \<and> text_id (uniq ! i) = x"
    and "i < length uniq \<Longrightarrow> text_id (uniq ! i) \<noteq> [] \<Longrightarrow> byId (text_id (uniq ! i)) = Some i"
    and "i < length rs \<Longrightarrow> j < length uniq \<Longrightarrow> string_id (rs ! i) \<noteq> [] \<Longrightarrow> string_id (rs ! i) \<noteq> string_id (uniq ! j)"
  using assms by (simp_all add: dedupe_inv_def)

lemma dedupe_inv_plain:
  assumes "dedupe_inv rs uniq byId" "text_id row = []"
  shows "dedupe_inv rs (uniq @ [row]) byId"
proof -
  have "string_id row = []" using assms(2) string_id_text by metis
  then show ?thesis
    using assms unfolding dedupe_inv_def by (auto simp: nth_append less_Suc_eq)
qed

lemma dedupe_inv_new:
  assumes "dedupe_inv rs uniq byId" "text_id row \<noteq> []"
    and "findRow rs ''messageId'' (VStr (text_id row)) = None" "byId (text_id row) = None"
  shows "dedupe_inv rs (uniq @ [row]) (byId(text_id row \<mapsto> length uniq))"
proof -
  have "string_id (rs ! i) \<noteq> string_id row" if "i < length rs" "string_id (rs ! i) \<noteq> []" for i
    using findRow_None [OF assms(3,2) that(1)] that(2) string_id_text [of row] by auto
  note fresh = this
  note inv = dedupe_invD [OF assms(1)]
  show ?thesis
  proof (rule dedupe_invI)
    show "unique_ids rs" by (rule inv(1))
  next
    fix x i
    assume "(byId(text_id row \<mapsto> length uniq)) x = Some i"
    then show "i < length (uniq @ [row]) \<and> text_id ((uniq @ [row]) ! i) = x"
      using inv(2) [of x i] by (cases "x = text_id row") (auto simp: nth_append)
  next
    fix i
    assume "i < length (uniq @ [row])" and ne: "text_id ((uniq @ [row]) ! i) \<noteq> []"
    then consider "i = length uniq" | "i < length uniq" by fastforce
    then show "(byId(text_id row \<mapsto> length uniq)) (text_id ((uniq @ [row]) ! i)) = Some i"
      using inv(3) [of i] ne assms(4) by cases (auto simp: nth_append)
  next
    fix i j
    assume "i < length rs" "j < length (uniq @ [row])" "string_id (rs ! i) \<noteq> []"
    then show "string_id (rs ! i) \<noteq> string_id ((uniq @ [row]) ! j)"
      using inv(4) [of i j] fresh [of i] by (cases "j < length uniq") (auto simp: nth_append)
  qed
qed

lemma dedupe_inv_merge:
  assumes "dedupe_inv rs uniq byId" "text_id row \<noteq> []"
    and "findRow rs ''messageId'' (VStr (text_id row)) = None" "byId (text_id row) = Some i"
  shows "dedupe_inv rs (uniq[i := uniq ! i ++\<^sub>f row]) byId"
proof -
  have "string_id (rs ! k) \<noteq> string_id row" if "k < length rs" "string_id (rs ! k) \<noteq> []" for k
    using findRow_None [OF assms(3,2) that(1)] that(2) string_id_text [of row] by auto
  note fresh = this
  note inv = dedupe_invD [OF assms(1)]
  have i: "text_id (uniq ! i) = text_id row" using inv(2) [OF assms(4)] by blast
  have tid: "text_id (uniq[i := uniq ! i ++\<^sub>f row] ! k) = text_id (uniq ! k)" for k
    using merged_id(1) [OF assms(2), of "uniq ! i"] i
    by (cases "i < length uniq"; cases "k = i") (simp_all add: list_update_beyond)
  show ?thesis
  proof (rule dedupe_invI)
    fix k j
    assume k: "k < length rs" "string_id (rs ! k) \<noteq> []" and j: "j < length (uniq[i := uniq ! i ++\<^sub>f row])"
    show "string_id (rs ! k) \<noteq> string_id (uniq[i := uniq ! i ++\<^sub>f row] ! j)"
    proof (cases "j = i")
      case True
      with j have "string_id (uniq[i := uniq ! i ++\<^sub>f row] ! j) = string_id row"
        using merged_id(2) [OF assms(2), of "uniq ! i"] by simp
      with fresh [OF k] show ?thesis by simp
    next
      case False
      with inv(4) [OF k(1) _ k(2)] j show ?thesis by simp
    qed
  qed (use inv(1-3) tid in auto)
qed

lemma dedupe_inv_update:
  assumes "dedupe_inv rs uniq byId" "text_id row \<noteq> []"
    and "findRow rs ''messageId'' (VStr (text_id row)) = Some i"
  shows "dedupe_inv (rs[i := rs ! i ++\<^sub>f row]) uniq byId"
proof -
  from findRow_Some [OF assms(3)] have i: "i < length rs" "string_id (rs ! i) = text_id row" by auto
  have id: "string_id (rs ! i ++\<^sub>f row) = [] \<or> string_id (rs ! i ++\<^sub>f row) = string_id (rs ! i)"
    using merged_id(2) [OF assms(2)] string_id_text [of row] i(2) by metis
  then have same: "string_id (rs[i := rs ! i ++\<^sub>f row] ! k) = [] \<or> string_id (rs[i := rs ! i ++\<^sub>f row] ! k) = string_id (rs ! k)"
    if "k < length rs" for k using that i(1) by (auto simp: nth_list_update)
  note inv = dedupe_invD [OF assms(1)]
  have "unique_ids (rs[i := rs ! i ++\<^sub>f row])"
    unfolding unique_ids_def length_list_update
  proof (intro allI impI, elim conjE)
    fix k l
    assume "k < length rs" "l < length rs" "string_id (rs[i := rs ! i ++\<^sub>f row] ! k) \<noteq> []"
      "string_id (rs[i := rs ! i ++\<^sub>f row] ! k) = string_id (rs[i := rs ! i ++\<^sub>f row] ! l)"
    with same [of k] same [of l] show "k = l" using inv(1) by (auto simp: unique_ids_def)
  qed
  moreover have "string_id (rs[i := rs ! i ++\<^sub>f row] ! k) \<noteq> string_id (uniq ! j)"
    if "k < length (rs[i := rs ! i ++\<^sub>f row])" "j < length uniq" "string_id (rs[i := rs ! i ++\<^sub>f row] ! k) \<noteq> []" for k j
    using same [of k] inv(4) [of k j] that by auto
  ultimately show ?thesis using inv(2,3) by (intro dedupe_invI) auto
qed

lemma dedupe_unique:
  "dedupe new rs uniq byId sigs = (rs', inc, sigs') \<Longrightarrow> dedupe_inv rs uniq byId \<Longrightarrow> unique_ids (rs' @ inc)"
proof (induction new arbitrary: rs uniq byId sigs)
  case Nil
  then show ?case using dedupe_inv_unique by auto
next
  case (Cons row new)
  show ?case
  proof (cases "text_id row = []")
    case True
    with Cons.prems dedupe_inv_plain show ?thesis by (auto simp: text_id_def intro: Cons.IH)
  next
    case ne: False
    show ?thesis
    proof (cases "findRow rs ''messageId'' (VStr (text_id row))")
      case (Some i)
      have "row \<noteq> fmempty" using has_id [OF ne] by auto
      with Some findRow_Some [OF Some]
      have "updateRow i row rs = (rs[i := rs ! i ++\<^sub>f row], [DataChanged i [rs ! i ++\<^sub>f row]])"
        by (simp add: updateRow_def Let_def)
      with Cons.prems(1) Some ne dedupe_inv_update [OF Cons.prems(2) ne Some] show ?thesis
        by (auto simp: text_id_def intro: Cons.IH)
    next
      case None
      note none = this
      show ?thesis
      proof (cases "byId (text_id row)")
        case None
        with Cons.prems(1) none ne dedupe_inv_new [OF Cons.prems(2) ne none None] show ?thesis
          by (auto simp: text_id_def intro: Cons.IH)
      next
        case (Some i)
        with Cons.prems(1) none ne dedupe_inv_merge [OF Cons.prems(2) ne none Some] show ?thesis
          by (auto simp: text_id_def intro: Cons.IH)
      qed
    qed
  qed
qed

lemma unique_ids_drop: "unique_ids rs \<Longrightarrow> unique_ids (drop n rs)"
  unfolding unique_ids_def by (auto simp: less_diff_conv2) (metis add_left_cancel less_diff_conv add.commute)

section \<open>Properties\<close>

text \<open>
  C11. The views stay in step with the model, and the model stays small: after any sequence of
  operations on a new model there are at most 1000 rows, and a view that only follows the emitted
  signals (rows removed, rows inserted, reset, data changed) shows exactly the model's values.
\<close>

theorem views_in_step:
  "case run_ops ops (new_model names) of
     (m, sigs) \<Rightarrow> length (rows m) \<le> kMaxRowsPerModel \<and> replay sigs [] = shown (rows m)"
proof -
  obtain m sigs where run: "run_ops ops (new_model names) = (m, sigs)" by fastforce
  have "rows (new_model names) = []" by (simp add: new_model_def)
  with run_ops_shown [OF run] have "replay sigs [] = shown (rows m)" by simp
  moreover have "length (rows m) \<le> kMaxRowsPerModel"
    using list_model.steps_inv [OF run_ops_steps [OF steps_refl], of "new_model names" ops] run
    by (simp add: new_model_def)
  ultimately show ?thesis by (simp add: run)
qed

text \<open>
  C29. No message is listed twice: appending rows to a model with message ids keeps the (non-empty)
  message ids of its rows distinct, whatever duplicates the new rows have among themselves or with
  the rows present, and however many rows the limit drops.
\<close>

theorem append_keeps_ids_unique:
  assumes "roleForName m ''messageId'' \<noteq> DisplayRole" and "length (rows m) \<le> kMaxRowsPerModel" and "unique_ids (rows m)"
  shows "unique_ids (rows (fst (appendRows new m)))"
proof (cases "new = []")
  case True
  with assms show ?thesis by (simp add: appendRows_def)
next
  case False
  obtain rs inc sigs where d: "dedupe new (rows m) [] Map.empty [] = (rs, inc, sigs)" by (metis prod_cases3)
  have "dedupe_inv (rows m) [] Map.empty" using assms(3) by (simp add: dedupe_inv_def)
  from dedupe_unique [OF d this] have u: "unique_ids (rs @ inc)" .
  have "length rs \<le> kMaxRowsPerModel" using dedupe_length [OF d] assms(2) by simp
  from insert_behind_newest [OF this, of inc] unique_ids_drop [OF u]
  have "unique_ids (fst (insert_behind rs inc))" by (simp only:)
  with u show ?thesis using assms(1) False by (cases inc) (simp_all add: appendRows_rows d)
qed

theorem append_keeps_ids_witness:
  "unique_ids (rows (fst (appendRows [fmupd ''messageId'' (VStr ''m1'') fmempty, fmupd ''messageId'' (VStr ''m1'') fmempty]
     (new_model [''messageId'', ''content'']))))"
  by (rule append_keeps_ids_unique) (simp_all add: new_model_def roleForName_def unique_ids_def UserRole_def DisplayRole_def)

text \<open>
  A list keeps its newest rows: without message ids, appending leaves exactly the last 1000 of the
  old rows followed by the new ones; a row whose message id is already listed changes that row in
  place, merging the new values into it, and nothing else.
\<close>

theorem append_newest_or_merge:
  assumes "length (rows m) \<le> kMaxRowsPerModel"
  shows "(roleForName m ''messageId'' = DisplayRole \<longrightarrow>
      rows (fst (appendRows new m)) = drop (length (rows m @ new) - kMaxRowsPerModel) (rows m @ new)) \<and>
    (roleForName m ''messageId'' \<noteq> DisplayRole \<and> text_id row \<noteq> [] \<and>
       findRow (rows m) ''messageId'' (VStr (text_id row)) = Some i \<longrightarrow>
      rows (fst (append_row row m)) = (rows m)[i := rows m ! i ++\<^sub>f row])"
proof (intro conjI impI, goal_cases)
  case 1
  with insert_behind_newest [OF assms, of new] assms show ?case by (simp add: appendRows_rows)
next
  case 2
  then have i: "i < length (rows m)" and "row \<noteq> fmempty" using findRow_Some has_id by fastforce+
  with 2 show ?case by (simp add: append_row_def appendRows_rows text_id_def updateRow_def Let_def)
qed

theorem append_newest_witness:
  "rows (fst (appendRows [fmupd ''id'' (VStr ''a'') fmempty] (new_model [''id'']))) = [fmupd ''id'' (VStr ''a'') fmempty]"
  using append_newest_or_merge [of "new_model [''id'']" "[fmupd ''id'' (VStr ''a'') fmempty]"]
  by (simp add: new_model_def roleForName_def kMaxRowsPerModel_def)

end
