(* ===== verification/Ui_Message.thy ===== *)
theory Ui_Message
  imports Chat_Model
begin

text \<open>
  What the worker of the graphical client tells the controller about a received message
  (\<open>gui_connection_worker.hpp\<close>), shared by \<open>Gui_Receive\<close> and \<open>Gui_Controller\<close>.
\<close>

text \<open>The arguments of \<open>messageReceived\<close>.\<close>

record ui_message =
  um_type :: string
  um_message_id :: string
  um_command_id :: string
  um_username :: string
  um_user_code :: string
  um_content :: string
  um_room :: string
  um_target :: string
  um_delivery_state :: string
  um_users :: "string list"
  um_rooms :: "string list"
  um_user_details :: "QVariantMap list"
  um_room_details :: "QVariantMap list"
  um_is_admin :: bool

end
