(* ===== verification/Bridge_Protocol.thy ===== *)
theory Bridge_Protocol
  imports Attachment_Limits Complex_Main
begin

text \<open>
  The checks between the web page and the native client,
  \<open>client-cpp/gui/src/bridge_protocol.cpp\<close>: which commands of the page are accepted, the results and
  errors sent back, and the state that is published without secrets.

  Qt's JSON values are a datatype; a number is a double, finite by construction of \<open>QJsonValue\<close>, and
  is a rational here. An object is the list of its members, \<open>member\<close> its \<open>value\<close>. A \<open>QString\<close> is its UTF-8
  text; \<open>trimmed\<close>, \<open>toLower\<close> and the number of UTF-16 units (\<open>size\<close>) are Qt's, a record of functions.
\<close>

datatype qjson =
    QUndefined | QNull | QBool bool | QDouble rat | QString string | QArray "qjson list"
  | QObject "(string \<times> qjson) list"

type_synonym qobject = "(string \<times> qjson) list"

record qt_text =
  trimmed :: "string \<Rightarrow> string"
  toLower :: "string \<Rightarrow> string"
  utf16_size :: "string \<Rightarrow> nat"

definition member :: "qobject \<Rightarrow> string \<Rightarrow> qjson" where
  "member obj key = (case map_of obj key of None \<Rightarrow> QUndefined | Some v \<Rightarrow> v)"

fun isString :: "qjson \<Rightarrow> bool" where
  "isString (QString s) = True"
| "isString v = False"

fun to_qstring :: "qjson \<Rightarrow> string" where
  "to_qstring (QString s) = s"
| "to_qstring v = []"

fun isBool :: "qjson \<Rightarrow> bool" where
  "isBool (QBool b) = True"
| "isBool v = False"

fun isDouble :: "qjson \<Rightarrow> bool" where
  "isDouble (QDouble d) = True"
| "isDouble v = False"

fun toDouble :: "qjson \<Rightarrow> rat \<Rightarrow> rat" where
  "toDouble (QDouble d) def = d"
| "toDouble v def = def"

text \<open>\<open>toInt\<close> is 0 for a number that is not an integer of 32 bits.\<close>

definition toInt :: "qjson \<Rightarrow> int" where
  "toInt v = (let d = toDouble v 0 in
     if d = of_int \<lfloor>d\<rfloor> \<and> -(2 ^ 31) \<le> \<lfloor>d\<rfloor> \<and> \<lfloor>d\<rfloor> < 2 ^ 31 then \<lfloor>d\<rfloor> else 0)"

fun to_qobject :: "qjson \<Rightarrow> qobject" where
  "to_qobject (QObject ms) = ms"
| "to_qobject v = []"

fun isObject :: "qjson \<Rightarrow> bool" where
  "isObject (QObject ms) = True"
| "isObject v = False"

text \<open>\<open>QJsonObject::insert\<close>: the key's value is replaced or added.\<close>

fun qinsert :: "string \<Rightarrow> qjson \<Rightarrow> qobject \<Rightarrow> qobject" where
  "qinsert k v [] = [(k, v)]"
| "qinsert k v ((k', v') # ms) = (if k = k' then (k, v) # ms else (k', v') # qinsert k v ms)"

section \<open>Field checks\<close>

definition nonEmptyString :: "qt_text \<Rightarrow> qobject \<Rightarrow> string \<Rightarrow> bool" where
  "nonEmptyString q obj key \<longleftrightarrow> isString (member obj key) \<and> trimmed q (to_qstring (member obj key)) \<noteq> []"

definition booleanValue :: "qobject \<Rightarrow> string \<Rightarrow> bool" where
  "booleanValue obj key \<longleftrightarrow> isBool (member obj key)"

definition boundedUtf8String :: "qt_text \<Rightarrow> qobject \<Rightarrow> string \<Rightarrow> nat \<Rightarrow> bool \<Rightarrow> bool" where
  "boundedUtf8String q obj key maxBytes requireNonEmpty =
    (let v = member obj key; s = to_qstring v in
     if \<not> isString v then False
     else if requireNonEmpty \<and> trimmed q s = [] then False
     else length s \<le> maxBytes)"

definition integerValue :: "qobject \<Rightarrow> string \<Rightarrow> bool" where
  "integerValue obj key =
    (let v = member obj key in isDouble v \<and> 1 \<le> toInt v \<and> toInt v \<le> 65535)"

definition frame_time_ok :: "qjson \<Rightarrow> bool" where
  "frame_time_ok sample = (let frameMs = toDouble sample (-1) in isDouble sample \<and> 0 < frameMs \<and> frameMs \<le> 1000)"

definition boundedFrameTimes :: "qobject \<Rightarrow> bool" where
  "boundedFrameTimes payload =
    (case member payload ''frameTimesMs'' of
       QArray values \<Rightarrow> values \<noteq> [] \<and> length values \<le> 8 \<and> list_all frame_time_ok values
     | _ \<Rightarrow> False)"

definition hasRequiredStrings :: "qt_text \<Rightarrow> qobject \<Rightarrow> string list \<Rightarrow> bool" where
  "hasRequiredStrings q payload keys \<longleftrightarrow> list_all (nonEmptyString q payload) keys"

definition hasOpaqueCrypto :: "qobject \<Rightarrow> bool" where
  "hasOpaqueCrypto payload \<longleftrightarrow> isObject (member payload ''crypto'') \<and> to_qobject (member payload ''crypto'') \<noteq> []"

section \<open>Commands\<close>

definition validateRemote :: "qt_text \<Rightarrow> qobject \<Rightarrow> bool" where
  "validateRemote q p =
    (let caFile = member p ''caFile''; tlsServerName = member p ''tlsServerName'' in
     hasRequiredStrings q p [''serverIp'', ''username'', ''userCode''] \<and> integerValue p ''serverPort'' \<and>
     (caFile = QUndefined \<or> isString caFile) \<and>
     (tlsServerName = QUndefined \<or> isString tlsServerName \<and> to_qstring tlsServerName = ''localhost''))"

definition whole :: "rat \<Rightarrow> bool" where
  "whole d \<longleftrightarrow> of_int \<lfloor>d\<rfloor> = d"

definition validateInit :: "qt_text \<Rightarrow> qobject \<Rightarrow> bool" where
  "validateInit q p =
    (let size = member p ''logicalSize''; d = toDouble size 0 in
     hasRequiredStrings q p [''room''] \<and> isDouble size \<and> 0 < d \<and> d \<le> of_int MaxLogicalBytes \<and> whole d)"

definition validateChunk :: "qt_text \<Rightarrow> qobject \<Rightarrow> bool" where
  "validateChunk q p =
    (let index = member p ''chunkIndex''; d = toDouble index 0; hash = to_qstring (member p ''cipherSha256'') in
     hasRequiredStrings q p [''uploadId'', ''ciphertext'', ''cipherSha256''] \<and>
     isDouble index \<and> 0 \<le> d \<and> d < of_int MaxChunkCount \<and> whole d \<and> utf16_size q hash = 64 \<and> hash = toLower q hash)"

definition validateMode :: "qobject \<Rightarrow> bool" where
  "validateMode p = (let mode = to_qstring (member p ''mode'') in
     mode = ''Automatic'' \<or> mode = ''High'' \<or> mode = ''Balanced'' \<or> mode = ''Power Saving'')"

text \<open>The table of \<open>validatePayload\<close>, in the order of its tests.\<close>

definition payload_checks :: "qt_text \<Rightarrow> (string \<times> (qobject \<Rightarrow> bool)) list" where
  "payload_checks q =
    (let req = (\<lambda>keys p. hasRequiredStrings q p keys);
         talk = (\<lambda>key p. hasRequiredStrings q p [key] \<and> (nonEmptyString q p ''content'' \<or> hasOpaqueCrypto p));
         none = (\<lambda>p. p = []) in
     [(''session.connectRemote'', validateRemote q),
      (''session.connectLocalHost'', req [''serverExe'', ''certFile'', ''keyFile'', ''dbFile'', ''username'', ''userCode'']),
      (''session.discoverLanHosts'', none),
      (''session.connectDiscoveredHost'', req [''hostId'', ''username'', ''userCode'']),
      (''session.disconnect'', none), (''directory.refreshUsers'', none), (''directory.refreshRooms'', none),
      (''chat.sendRoom'', talk ''room''), (''chat.sendPrivate'', talk ''targetUserCode''),
      (''mls.keyPackage.fetch'', req [''room'', ''targetUserCode'']),
      (''mls.group.add'', req [''room'', ''groupId'', ''targetUserCode'']),
      (''mls.group.remove'', req [''room'', ''groupId'', ''targetUserCode'']),
      (''attachment.init'', validateInit q), (''attachment.chooseUpload'', req [''room'']),
      (''attachment.chunk'', validateChunk q), (''attachment.resume'', req [''uploadId'']),
      (''attachment.commit'', req [''uploadId'']),
      (''attachment.download'', \<lambda>p. req [''attachmentId''] p \<and> isDouble (member p ''chunkIndex'') \<and>
         0 \<le> toDouble (member p ''chunkIndex'') 0),
      (''history.search'', \<lambda>p. isString (member p ''query'')),
      (''conversation.selectRoom'', req [''room'']), (''conversation.selectDirect'', req [''userCode'']),
      (''conversation.openPrivate'', req [''displayName'', ''userCode'']),
      (''room.create'', \<lambda>p. req [''room''] p \<and> booleanValue p ''isPrivate''),
      (''room.action'', req [''action'', ''room'']), (''admin.action'', req [''action'']),
      (''message.copy'', \<lambda>p. isString (member p ''text'')),
      (''message.removeLocal'', req [''messageId'']), (''message.recall'', req [''messageId'']),
      (''message.retry'', req [''messageId'']),
      (''settings.setPerformanceMode'', validateMode),
      (''settings.setConnectionLogging'', \<lambda>p. booleanValue p ''enabled''),
      (''diagnostics.frontendError'', \<lambda>p. boundedUtf8String q p ''name'' 2048 True \<and> boundedUtf8String q p ''stack'' 2048 False),
      (''performance.reportFrameTimes'', boundedFrameTimes)])"

definition validatePayload :: "qt_text \<Rightarrow> string \<Rightarrow> qobject \<Rightarrow> bool" where
  "validatePayload q type payload =
    (case map_of (payload_checks q) type of None \<Rightarrow> False | Some check \<Rightarrow> check payload)"

definition validateCommand :: "qt_text \<Rightarrow> qobject \<Rightarrow> string + unit" where
  "validateCommand q command =
    (if \<not> nonEmptyString q command ''id'' \<or> \<not> nonEmptyString q command ''type'' \<or>
        \<not> isObject (member command ''payload'')
     then Inl ''invalid_command''
     else if \<not> validatePayload q (to_qstring (member command ''type'')) (to_qobject (member command ''payload''))
     then Inl ''invalid_command'' else Inr ())"

definition makeCommandResult :: "string \<Rightarrow> bool \<Rightarrow> qobject \<Rightarrow> qobject" where
  "makeCommandResult commandId ok error =
    (let result = [(''id'', QString commandId), (''ok'', QBool ok)] in
     if \<not> ok \<and> error \<noteq> [] then qinsert ''error'' (QObject error) result else result)"

definition makeError :: "string \<Rightarrow> string \<Rightarrow> bool \<Rightarrow> string \<Rightarrow> string \<Rightarrow> qobject" where
  "makeError code message retryable source commandId =
    (let error = [(''code'', QString code), (''message'', QString message), (''retryable'', QBool retryable),
                  (''source'', QString source)] in
     if commandId \<noteq> [] then qinsert ''commandId'' (QString commandId) error else error)"

section \<open>Published state\<close>

definition secretKeys :: "string list" where
  "secretKeys = [''password'', ''privateKey'', ''privateKeyFile'', ''keyFile'']"

fun withoutSecrets :: "qjson \<Rightarrow> qjson" where
  "withoutSecrets (QArray items) = QArray (map withoutSecrets items)"
| "withoutSecrets (QObject ms) =
     QObject (map (\<lambda>(k, v). (k, withoutSecrets v)) (filter (\<lambda>m. fst m \<notin> set secretKeys) ms))"
| "withoutSecrets v = v"

definition safeState :: "qobject \<Rightarrow> qobject" where
  "safeState state =
    (let safe = to_qobject (withoutSecrets (QObject state)) in
     if map_of safe ''schemaVersion'' = None then qinsert ''schemaVersion'' (QDouble 1) safe else safe)"

text \<open>\<open>to_json\<close> is \<open>QJsonDocument::toJson(Compact)\<close>.\<close>

definition serializeState :: "(qobject \<Rightarrow> string) \<Rightarrow> qobject \<Rightarrow> string" where
  "serializeState to_json state = to_json (safeState state)"


section \<open>Secrets\<close>

text \<open>A path into a value: member names and array positions.\<close>

datatype place = Key string | Index nat

fun follow :: "qjson \<Rightarrow> place list \<Rightarrow> qjson" where
  "follow v [] = v"
| "follow (QObject ms) (Key k # p) = follow (member ms k) p"
| "follow (QArray vs) (Index i # p) = (if i < length vs then follow (vs ! i) p else QUndefined)"
| "follow v (_ # p) = QUndefined"

fun secret_place :: "place \<Rightarrow> bool" where
  "secret_place (Key k) \<longleftrightarrow> k \<in> set secretKeys"
| "secret_place (Index i) \<longleftrightarrow> False"

lemma follow_undefined [simp]: "follow QUndefined p = QUndefined"
  by (cases p) simp_all

lemma member_filtered:
  "member (map (\<lambda>(k, v). (k, g v)) (filter (\<lambda>m. fst m \<notin> S) ms)) k =
    (if k \<in> S then QUndefined else case map_of ms k of None \<Rightarrow> QUndefined | Some v \<Rightarrow> g v)"
  by (induction ms) (auto simp: member_def)

lemma member_withoutSecrets:
  "member (to_qobject (withoutSecrets (QObject ms))) k =
    (if k \<in> set secretKeys then QUndefined else withoutSecrets (member ms k))"
  by (simp add: member_filtered member_def [of ms] split: option.split)

lemma follow_withoutSecrets:
  "follow (withoutSecrets v) p = (if list_ex secret_place p then QUndefined else withoutSecrets (follow v p))"
proof (induction v p rule: follow.induct)
  case (2 ms k p)
  then show ?case using member_withoutSecrets [of ms k] by auto
qed auto

lemma member_qinsert: "member (qinsert k v ms) k' = (if k' = k then v else member ms k')"
  by (induction ms) (auto simp: member_def)

section \<open>Properties\<close>

text \<open>
  C14. The published state carries no secret, and nothing else is withheld: at every path the page can
  follow into it there is nothing if a member of the path is named password, privateKey,
  privateKeyFile or keyFile, at any depth, and otherwise the (equally cleaned) value of the state;
  only a missing schema version is added.
\<close>

theorem published_state_has_no_secrets:
  "follow (QObject (safeState state)) (Key k # p) =
    (if list_ex secret_place (Key k # p) then QUndefined
     else if k = ''schemaVersion'' \<and> map_of (to_qobject (withoutSecrets (QObject state))) k = None then follow (QDouble 1) p
     else withoutSecrets (follow (QObject state) (Key k # p)))"
proof -
  let ?safe = "to_qobject (withoutSecrets (QObject state))"
  have nosecret: "''schemaVersion'' \<notin> set secretKeys" by (simp add: secretKeys_def)
  have base: "follow (QObject ?safe) (Key k # p) =
      (if list_ex secret_place (Key k # p) then QUndefined else withoutSecrets (follow (QObject state) (Key k # p)))"
    using follow_withoutSecrets [of "QObject state" "Key k # p"] by simp
  have leaf: "list_ex secret_place p \<Longrightarrow> follow (QDouble 1) p = QUndefined" by (cases p) auto
  show ?thesis
  proof (cases "map_of ?safe ''schemaVersion'' = None \<and> k = ''schemaVersion''")
    case True
    then show ?thesis using nosecret leaf by (simp add: safeState_def member_qinsert)
  next
    case False
    then have "member (safeState state) k = member ?safe k" by (auto simp: safeState_def member_qinsert Let_def)
    then have "follow (QObject (safeState state)) (Key k # p) = follow (QObject ?safe) (Key k # p)" by simp
    with base False show ?thesis by auto
  qed
qed

lemma whole_int: "whole d \<Longrightarrow> d = of_int \<lfloor>d\<rfloor>"
  unfolding whole_def by (rule sym)

lemma isDouble_cases: "isDouble v \<Longrightarrow> v = QDouble (toDouble v x)"
  by (cases v) simp_all

lemma validateChunk_index:
  assumes "validateChunk q p"
  shows "\<exists>n. member p ''chunkIndex'' = QDouble (of_int n) \<and> 0 \<le> n \<and> n < MaxChunkCount"
proof -
  let ?d = "toDouble (member p ''chunkIndex'') 0"
  from assms have d: "isDouble (member p ''chunkIndex'')" "0 \<le> ?d" "?d < of_int MaxChunkCount" "whole ?d"
    by (simp_all add: validateChunk_def Let_def)
  then have "member p ''chunkIndex'' = QDouble (of_int \<lfloor>?d\<rfloor>)" "0 \<le> \<lfloor>?d\<rfloor>" "\<lfloor>?d\<rfloor> < MaxChunkCount"
    using isDouble_cases [OF d(1), of 0] whole_int [OF d(4)] by (simp_all add: floor_less_iff)
  then show ?thesis by blast
qed

lemma validateInit_size:
  assumes "validateInit q p"
  shows "\<exists>n. member p ''logicalSize'' = QDouble (of_int n) \<and> 0 < n \<and> n \<le> MaxLogicalBytes"
proof -
  let ?d = "toDouble (member p ''logicalSize'') 0"
  from assms have d: "isDouble (member p ''logicalSize'')" "0 < ?d" "?d \<le> of_int MaxLogicalBytes" "whole ?d"
    by (simp_all add: validateInit_def Let_def)
  have eq: "?d = of_int \<lfloor>?d\<rfloor>" by (rule whole_int [OF d(4)])
  have "member p ''logicalSize'' = QDouble (of_int \<lfloor>?d\<rfloor>)"
    using isDouble_cases [OF d(1), of 0] eq by simp
  moreover have "0 < \<lfloor>?d\<rfloor>" using d(2) eq by (metis of_int_0_less_iff)
  moreover have "\<lfloor>?d\<rfloor> \<le> MaxLogicalBytes" using d(3) eq by (metis of_int_le_iff)
  ultimately show ?thesis by blast
qed

lemma validateRemote_port:
  assumes "validateRemote q p"
  shows "\<exists>n. member p ''serverPort'' = QDouble (of_int n) \<and> 1 \<le> n \<and> n \<le> 65535"
proof -
  let ?v = "member p ''serverPort''"
  from assms have v: "isDouble ?v" "1 \<le> toInt ?v" "toInt ?v \<le> 65535"
    by (simp_all add: validateRemote_def integerValue_def Let_def)
  from v(2) have "toDouble ?v 0 = of_int (toInt ?v)" by (auto simp: toInt_def Let_def split: if_splits)
  with v isDouble_cases [OF v(1), of 0] show ?thesis by metis
qed

lemma payload_checked:
  "validatePayload q t p \<Longrightarrow> t \<in> set (map fst (payload_checks q))"
  by (auto simp: validatePayload_def split: option.splits dest!: map_of_SomeD intro: rev_image_eqI)

lemma payload_numbers:
  "validatePayload q ''attachment.chunk'' p = validateChunk q p"
  "validatePayload q ''attachment.init'' p = validateInit q p"
  "validatePayload q ''session.connectRemote'' p = validateRemote q p"
  by (simp_all add: validatePayload_def payload_checks_def Let_def)


definition plain_text :: qt_text where
  "plain_text = \<lparr>trimmed = (\<lambda>s. s), toLower = map lower_ascii, utf16_size = length\<rparr>"

definition sample_init :: qobject where
  "sample_init = [(''id'', QString ''c1''), (''type'', QString ''attachment.init''),
     (''payload'', QObject [(''room'', QString ''lobby''), (''logicalSize'', QDouble 5)])]"


end
