(* ===== verification/Ui_Texts.thy ===== *)
theory Ui_Texts
  imports Prelude
begin

text \<open>
  The Chinese texts the graphical client shows, as UTF-8 bytes (\<open>gui_chat_controller.cpp\<close>,
  \<open>gui_connection_worker.cpp\<close> and \<open>chat_bridge.cpp\<close> under \<open>client-cpp/gui/src\<close>).
\<close>

definition utf8 :: "nat list \<Rightarrow> string" where
  "utf8 bytes = map char_of bytes"

definition txt_not_connected :: string where
  "txt_not_connected = utf8 [0xE6, 0x9C, 0xAA, 0xE8, 0xBF, 0x9E, 0xE6, 0x8E, 0xA5]"

definition txt_connecting :: string where
  "txt_connecting = utf8 [0xE6, 0xAD, 0xA3, 0xE5, 0x9C, 0xA8, 0xE8, 0xBF, 0x9E, 0xE6, 0x8E, 0xA5, 0x2E, 0x2E, 0x2E]"

definition txt_starting_server :: string where
  "txt_starting_server = utf8 [0xE6, 0xAD, 0xA3, 0xE5, 0x9C, 0xA8, 0xE5, 0x90, 0xAF, 0xE5, 0x8A, 0xA8, 0xE6, 0x9C, 0xAC, 0xE5, 0x9C, 0xB0,
     0x20, 0x53, 0x65, 0x72, 0x76, 0x65, 0x72, 0x2E, 0x2E, 0x2E]"

definition txt_reconnected :: string where
  "txt_reconnected = utf8 [0xE5, 0xB7, 0xB2, 0xE9, 0x87, 0x8D, 0xE6, 0x96, 0xB0, 0xE8, 0xBF, 0x9E, 0xE6, 0x8E, 0xA5]"

definition txt_connected_admin :: string where
  "txt_connected_admin = utf8 [0xE5, 0xB7, 0xB2, 0xE8, 0xBF, 0x9E, 0xE6, 0x8E, 0xA5, 0xEF, 0xBC, 0x88, 0xE7, 0xAE, 0xA1, 0xE7, 0x90, 0x86,
     0xE5, 0x91, 0x98, 0xEF, 0xBC, 0x89]"

definition txt_connected_plain :: string where
  "txt_connected_plain = utf8 [0xE5, 0xB7, 0xB2, 0xE8, 0xBF, 0x9E, 0xE6, 0x8E, 0xA5]"

definition txt_connect_failed :: string where
  "txt_connect_failed = utf8 [0xE8, 0xBF, 0x9E, 0xE6, 0x8E, 0xA5, 0xE5, 0xA4, 0xB1, 0xE8, 0xB4, 0xA5, 0xEF, 0xBC, 0x9A]"

definition txt_lost :: string where
  "txt_lost = utf8 [0xE8, 0xBF, 0x9E, 0xE6, 0x8E, 0xA5, 0xE4, 0xB8, 0xAD, 0xE6, 0x96, 0xAD, 0xEF, 0xBC, 0x8C, 0xE6, 0xAD, 0xA3,
     0xE5, 0x9C, 0xA8, 0xE9, 0x87, 0x8D, 0xE6, 0x96, 0xB0, 0xE8, 0xBF, 0x9E, 0xE6, 0x8E, 0xA5]"

definition txt_lost_because :: string where
  "txt_lost_because = utf8 [0xE8, 0xBF, 0x9E, 0xE6, 0x8E, 0xA5, 0xE4, 0xB8, 0xAD, 0xE6, 0x96, 0xAD, 0xEF, 0xBC, 0x8C, 0xE6, 0xAD, 0xA3,
     0xE5, 0x9C, 0xA8, 0xE9, 0x87, 0x8D, 0xE6, 0x96, 0xB0, 0xE8, 0xBF, 0x9E, 0xE6, 0x8E, 0xA5, 0xEF, 0xBC, 0x9A]"

definition txt_attempt_pre :: string where
  "txt_attempt_pre = utf8 [0xE6, 0xAD, 0xA3, 0xE5, 0x9C, 0xA8, 0xE9, 0x87, 0x8D, 0xE6, 0x96, 0xB0, 0xE8, 0xBF, 0x9E, 0xE6, 0x8E, 0xA5,
     0xEF, 0xBC, 0x88, 0xE7, 0xAC, 0xAC, 0x20]"

definition txt_attempt_post :: string where
  "txt_attempt_post = utf8 [0x20, 0xE6, 0xAC, 0xA1, 0xEF, 0xBC, 0x89]"

definition txt_retry_failed :: string where
  "txt_retry_failed = utf8 [0xE9, 0x87, 0x8D, 0xE6, 0x96, 0xB0, 0xE8, 0xBF, 0x9E, 0xE6, 0x8E, 0xA5, 0xE5, 0xA4, 0xB1, 0xE8, 0xB4, 0xA5,
     0xEF, 0xBC, 0x8C, 0xE7, 0xAD, 0x89, 0xE5, 0xBE, 0x85, 0xE4, 0xB8, 0x8B, 0xE4, 0xB8, 0x80, 0xE6, 0xAC, 0xA1,
     0xE9, 0x87, 0x8D, 0xE8, 0xAF, 0x95, 0xEF, 0xBC, 0x9A]"

definition txt_approved :: string where
  "txt_approved = utf8 [0xE5, 0xB7, 0xB2, 0xE6, 0x89, 0xB9, 0xE5, 0x87, 0x86, 0xE6, 0x88, 0x90, 0xE5, 0x91, 0x98, 0xE8, 0xBF, 0x9E,
     0xE6, 0x8E, 0xA5, 0xEF, 0xBC, 0x8C, 0xE6, 0x88, 0x90, 0xE5, 0x91, 0x98, 0xE6, 0xAD, 0xA3, 0xE5, 0x9C, 0xA8,
     0xE5, 0x8A, 0xA0, 0xE5, 0x85, 0xA5, 0xE8, 0x81, 0x8A, 0xE5, 0xA4, 0xA9, 0xE5, 0xAE, 0xA4, 0xE3, 0x80, 0x82]"

definition txt_denied :: string where
  "txt_denied = utf8 [0xE5, 0xB7, 0xB2, 0xE6, 0x8B, 0x92, 0xE7, 0xBB, 0x9D, 0xE6, 0x88, 0x90, 0xE5, 0x91, 0x98, 0xE8, 0xBF, 0x9E,
     0xE6, 0x8E, 0xA5, 0xE8, 0xAF, 0xB7, 0xE6, 0xB1, 0x82, 0xE3, 0x80, 0x82]"

definition txt_unknown_user :: string where
  "txt_unknown_user = utf8 [0xE6, 0x9C, 0xAA, 0xE7, 0x9F, 0xA5, 0xE7, 0x94, 0xA8, 0xE6, 0x88, 0xB7]"

definition txt_declined :: string where
  "txt_declined = utf8 [0xE6, 0x88, 0xBF, 0xE4, 0xB8, 0xBB, 0xE6, 0x8B, 0x92, 0xE7, 0xBB, 0x9D, 0xE4, 0xBA, 0x86, 0xE6, 0xAD, 0xA4,
     0xE6, 0xAC, 0xA1, 0xE8, 0xBF, 0x9E, 0xE6, 0x8E, 0xA5, 0xE8, 0xAF, 0xB7, 0xE6, 0xB1, 0x82, 0xE3, 0x80, 0x82]"

definition txt_approval_timeout :: string where
  "txt_approval_timeout = utf8 [0xE7, 0xAD, 0x89, 0xE5, 0xBE, 0x85, 0xE6, 0x88, 0xBF, 0xE4, 0xB8, 0xBB, 0xE7, 0xA1, 0xAE, 0xE8, 0xAE, 0xA4,
     0xE8, 0xBF, 0x9E, 0xE6, 0x8E, 0xA5, 0xE8, 0xB6, 0x85, 0xE6, 0x97, 0xB6, 0xEF, 0xBC, 0x8C, 0xE8, 0xAF, 0xB7,
     0xE7, 0xA8, 0x8D, 0xE5, 0x90, 0x8E, 0xE9, 0x87, 0x8D, 0xE8, 0xAF, 0x95, 0xE3, 0x80, 0x82]"

definition txt_login_refused :: string where
  "txt_login_refused = utf8 [0xE7, 0x99, 0xBB, 0xE5, 0xBD, 0x95, 0xE8, 0xA2, 0xAB, 0xE6, 0x8B, 0x92, 0xE7, 0xBB, 0x9D, 0xEF, 0xBC, 0x9A]"

definition txt_no_server_file :: string where
  "txt_no_server_file = utf8 [0xE6, 0x9C, 0xAC, 0xE5, 0x9C, 0xB0, 0x20, 0x47, 0x6F, 0x20, 0x53, 0x65, 0x72, 0x76, 0x65, 0x72, 0x20, 0xE6,
     0x96, 0x87, 0xE4, 0xBB, 0xB6, 0xE4, 0xB8, 0x8D, 0xE5, 0xAD, 0x98, 0xE5, 0x9C, 0xA8, 0xEF, 0xBC, 0x8C, 0xE8,
     0xAF, 0xB7, 0xE6, 0xA3, 0x80, 0xE6, 0x9F, 0xA5, 0x20, 0x48, 0x6F, 0x73, 0x74, 0x20, 0xE8, 0xB7, 0xAF, 0xE5,
     0xBE, 0x84]"

definition txt_cannot_start :: string where
  "txt_cannot_start = utf8 [0xE6, 0x97, 0xA0, 0xE6, 0xB3, 0x95, 0xE5, 0x90, 0xAF, 0xE5, 0x8A, 0xA8, 0xE6, 0x9C, 0xAC, 0xE5, 0x9C, 0xB0,
     0x20, 0x47, 0x6F, 0x20, 0x53, 0x65, 0x72, 0x76, 0x65, 0x72, 0xEF, 0xBC, 0x9A]"

definition txt_server_exited :: string where
  "txt_server_exited = utf8 [0xE6, 0x9C, 0xAC, 0xE5, 0x9C, 0xB0, 0x20, 0x47, 0x6F, 0x20, 0x53, 0x65, 0x72, 0x76, 0x65, 0x72, 0x20, 0xE5,
     0x90, 0xAF, 0xE5, 0x8A, 0xA8, 0xE5, 0x90, 0x8E, 0xE9, 0x80, 0x80, 0xE5, 0x87, 0xBA]"

definition txt_colon :: string where
  "txt_colon = utf8 [0xEF, 0xBC, 0x9A]"

definition txt_no_certificate :: string where
  "txt_no_certificate = utf8 [0xE6, 0x9C, 0xAC, 0xE5, 0x9C, 0xB0, 0x20, 0x47, 0x6F, 0x20, 0x53, 0x65, 0x72, 0x76, 0x65, 0x72, 0x20, 0xE6,
     0x9C, 0xAA, 0xE7, 0x94, 0x9F, 0xE6, 0x88, 0x90, 0x20, 0x54, 0x4C, 0x53, 0x20, 0xE8, 0xAF, 0x81, 0xE4, 0xB9,
     0xA6, 0xEF, 0xBC, 0x8C, 0xE8, 0xAF, 0xB7, 0xE6, 0xA3, 0x80, 0xE6, 0x9F, 0xA5, 0x20, 0x48, 0x6F, 0x73, 0x74,
     0x20, 0xE8, 0xB7, 0xAF, 0xE5, 0xBE, 0x84, 0xE5, 0x92, 0x8C, 0xE7, 0x9B, 0xAE, 0xE5, 0xBD, 0x95, 0xE5, 0x86,
     0x99, 0xE5, 0x85, 0xA5, 0xE6, 0x9D, 0x83, 0xE9, 0x99, 0x90, 0xE3, 0x80, 0x82]"

definition txt_too_large :: string where
  "txt_too_large = utf8 [0xE6, 0x96, 0x87, 0xE4, 0xBB, 0xB6, 0xE8, 0xB6, 0x85, 0xE8, 0xBF, 0x87, 0x20, 0x35, 0x20, 0x47, 0x69, 0x42,
     0x20, 0xE4, 0xB8, 0x8A, 0xE9, 0x99, 0x90]"

definition txt_no_members :: string where
  "txt_no_members = utf8 [0xE6, 0xB2, 0xA1, 0xE6, 0x9C, 0x89, 0xE5, 0x8F, 0xAF, 0xE7, 0x94, 0xA8, 0xE7, 0x9A, 0x84, 0xE5, 0x9C, 0xA8,
     0xE7, 0xBA, 0xBF, 0xE6, 0x88, 0x90, 0xE5, 0x91, 0x98, 0xE6, 0x9D, 0xA5, 0xE5, 0xBB, 0xBA, 0xE7, 0xAB, 0x8B,
     0xE7, 0xAB, 0xAF, 0xE5, 0x88, 0xB0, 0xE7, 0xAB, 0xAF, 0xE5, 0x8A, 0xA0, 0xE5, 0xAF, 0x86, 0xE7, 0xBE, 0xA4,
     0xE7, 0xBB, 0x84]"

definition txt_bad_command :: string where
  "txt_bad_command = utf8 [0xE5, 0x91, 0xBD, 0xE4, 0xBB, 0xA4, 0xE6, 0xA0, 0xBC, 0xE5, 0xBC, 0x8F, 0xE6, 0x97, 0xA0, 0xE6, 0x95, 0x88]"

definition txt_no_performance :: string where
  "txt_no_performance = utf8 [0xE6, 0x80, 0xA7, 0xE8, 0x83, 0xBD, 0xE8, 0xAE, 0xBE, 0xE7, 0xBD, 0xAE, 0xE5, 0xBD, 0x93, 0xE5, 0x89, 0x8D,
     0xE4, 0xB8, 0x8D, 0xE5, 0x8F, 0xAF, 0xE7, 0x94, 0xA8]"

definition txt_no_local_host :: string where
  "txt_no_local_host = utf8 [0xE6, 0xAD, 0xA4, 0xE5, 0xAE, 0x89, 0xE8, 0xA3, 0x85, 0xE5, 0x8C, 0x85, 0xE4, 0xB8, 0x8D, 0xE5, 0x8C, 0x85, 0xE5, 0x90,
     0xAB, 0xE6, 0x9C, 0xAC, 0xE5, 0x9C, 0xB0, 0xE6, 0x9C, 0x8D, 0xE5, 0x8A, 0xA1, 0xE7, 0xAB, 0xAF, 0xEF, 0xBC, 0x9B, 0xE8,
     0xAF, 0xB7, 0xE4, 0xBD, 0xBF, 0xE7, 0x94, 0xA8, 0xE4, 0xB8, 0xBB, 0xE6, 0x9C, 0xBA, 0xE7, 0xAB, 0xAF, 0xE5, 0x88, 0x9B,
     0xE5, 0xBB, 0xBA, 0xE8, 0x81, 0x8A, 0xE5, 0xA4, 0xA9, 0xE5, 0xAE, 0xA4, 0xEF, 0xBC, 0x8C, 0xE6, 0x88, 0x96, 0xE9, 0x80,
     0x89, 0xE6, 0x8B, 0xA9, 0xE5, 0x8A, 0xA0, 0xE5, 0x85, 0xA5, 0xE5, 0xB1, 0x80, 0xE5, 0x9F, 0x9F, 0xE7, 0xBD, 0x91, 0xE8,
     0x81, 0x8A, 0xE5, 0xA4, 0xA9, 0xE5, 0xAE, 0xA4, 0xE3, 0x80, 0x82]"

end
