(* ===== verification/Gui_Controller.thy ===== *)
theory Gui_Controller
  imports Ui_Message Bridge_Protocol Ui_Texts
begin

text \<open>
  The controller of the graphical client, \<open>client-cpp/gui/src/gui_chat_controller.cpp\<close>: it keeps the
  list models the page shows, one message model per open conversation (at most eight, the least
  recently used one is deleted), and translates between the page and the connection worker. Calls of
  the worker are queued invocations (\<open>calls\<close>), the signals for the bridge are \<open>emitted\<close>.

  Conversation models are heap objects: \<open>heap\<close> maps the addresses that are alive to the models, and
  \<open>messageModel\<close> is the raw pointer to the shown one. A \<open>QHash\<close> is an association list; its order is one
  of those the hash may have. The model signals (see \<open>Chat_Model\<close>) are not recorded again here.

  \<open>ctl_env\<close> holds what comes from Qt: text functions, case folding, the clock, and the file checks.
\<close>

section \<open>State\<close>

record ctl_env =
  qt :: qt_text
  foldCase :: "string \<Rightarrow> string"
  clock :: string
  local_time :: "string \<Rightarrow> string option"
  file_exists :: "string \<Rightarrow> bool"
  absolute_path :: "string \<Rightarrow> string"
  parse_json :: "string \<Rightarrow> qjson option"

datatype worker_call =
    ConnectToServer string int string string string string
  | ConnectToLocalHost string string string string string string
  | DisconnectFromServer
  | ScheduleReconnect
  | SendChatToRoom string string string
  | SendPrivate string string string
  | JoinRoom string
  | CreateRoom string bool
  | SendRoomAction string string string
  | RequestUsers
  | RequestRooms
  | RequestHistory string string bool string int string
  | SendAdminAction string string string string
  | SendAttachmentInit string int string
  | StartAttachmentUpload string string "string list" string
  | SendAttachmentChunk string int string string string
  | ResumeAttachment string string
  | SendAttachmentCommit string string
  | StartAttachmentDownload string string string
  | FetchMlsKeyPackage string string string
  | AddMlsMember string string string string
  | RemoveMlsMember string string string string
  | InspectMlsGroup string string
  | ProtectMls string string string
  | UnprotectMls string string string

datatype ctl_signal =
    ConnectedChanged | ReconnectingChanged | AdminChanged | LocalIdentityChanged | OnlineMemberCountChanged
  | StatusTextChanged | ActiveMessageModelChanged | ActiveRoomCanManageChanged | SavedConnectionChanged
  | PendingApprovalsChanged | ConnectionFailedSig string | ConnectionLostSig string
  | RecallSucceeded string | RecallFailed string string

record controller =
  heap :: "nat \<rightharpoonup> ChatListModel"
  next_address :: nat
  roomModel :: ChatListModel
  directMessageModel :: ChatListModel
  memberModel :: ChatListModel
  messageModel :: nat
  conversationModels :: "(string \<times> nat) list"
  accessOrder :: "(string \<times> nat) list"
  accessSequence :: nat
  roomMemberCounts :: "(string \<times> int) list"
  activeConversationKey :: string
  pendingApprovals :: "QVariantMap list"
  activeRoomCanManage :: bool
  refreshTimer :: bool
  connected :: bool
  reconnecting :: bool
  admin :: bool
  localUserName :: string
  statusText :: string
  localUserCode :: string
  joinedRoom :: string
  bundledCaFile :: string
  onlineMemberCount :: nat
  localMessageCounter :: int
  historyLoading :: bool
  historySearchQuery :: string
  pendingAttachmentMetadata :: "(string \<times> QVariant) list"
  settings :: "(string \<times> QVariant) list"
  clipboard :: string
  calls :: "worker_call list"
  emitted :: "ctl_signal list"

definition kMessageRoles :: "string list" where
  "kMessageRoles = [''messageId'', ''displayName'', ''userCode'', ''time'', ''content'', ''selfMessage'', ''systemMessage'',
     ''deliveryState'', ''attachment'']"

definition kMaxCachedConversationModels :: nat where "kMaxCachedConversationModels = 8"

definition emit_sig :: "ctl_signal \<Rightarrow> controller \<Rightarrow> controller" where
  "emit_sig s c = c\<lparr>emitted := emitted c @ [s]\<rparr>"

definition invoke :: "worker_call \<Rightarrow> controller \<Rightarrow> controller" where
  "invoke w c = c\<lparr>calls := calls c @ [w]\<rparr>"

text \<open>\<open>QHash\<close>: a value is found by its key, inserted in place or added, and removed.\<close>

definition hash_put :: "'k \<Rightarrow> 'v \<Rightarrow> ('k \<times> 'v) list \<Rightarrow> ('k \<times> 'v) list" where
  "hash_put k v kvs = (if map_of kvs k = None then kvs @ [(k, v)] else map (\<lambda>(k', v'). if k' = k then (k, v) else (k', v')) kvs)"

definition hash_remove :: "'k \<Rightarrow> ('k \<times> 'v) list \<Rightarrow> ('k \<times> 'v) list" where
  "hash_remove k kvs = filter (\<lambda>kv. fst kv \<noteq> k) kvs"

definition hash_value :: "('k \<times> 'v) list \<Rightarrow> 'k \<Rightarrow> 'v \<Rightarrow> 'v" where
  "hash_value kvs k dflt = (case map_of kvs k of None \<Rightarrow> dflt | Some v \<Rightarrow> v)"

definition same_text :: "ctl_env \<Rightarrow> string \<Rightarrow> string \<Rightarrow> bool" where
  "same_text e a b \<longleftrightarrow> foldCase e a = foldCase e b"

definition new_controller :: controller where
  "new_controller =
    \<lparr>heap = [0 \<mapsto> new_model kMessageRoles], next_address = 1,
     roomModel = new_model [''roomName'', ''memberCount'', ''unreadCount'', ''ownerCode'', ''private'', ''canManage''],
     directMessageModel = new_model [''displayName'', ''userCode'', ''unreadCount''],
     memberModel = new_model [''displayName'', ''userCode'', ''online'', ''admin''],
     messageModel = 0, conversationModels = [(''room:lobby'', 0)], accessOrder = [(''room:lobby'', 1)], accessSequence = 1,
     roomMemberCounts = [], activeConversationKey = ''room:lobby'', pendingApprovals = [], activeRoomCanManage = False,
     refreshTimer = False, connected = False, reconnecting = False, admin = False, localUserName = ''Alice'',
     statusText = txt_not_connected, localUserCode = ''A001'', joinedRoom = ''lobby'', bundledCaFile = [],
     onlineMemberCount = 0, localMessageCounter = 0, historyLoading = False, historySearchQuery = [],
     pendingAttachmentMetadata = [], settings = [], clipboard = [], calls = [], emitted = []\<rparr>"

section \<open>Conversation models\<close>

definition with_model :: "nat \<Rightarrow> (ChatListModel \<Rightarrow> ChatListModel) \<Rightarrow> controller \<Rightarrow> controller" where
  "with_model p f c = (case heap c p of None \<Rightarrow> c | Some m \<Rightarrow> c\<lparr>heap := (heap c)(p \<mapsto> f m)\<rparr>)"

definition each_model :: "(ChatListModel \<Rightarrow> ChatListModel) \<Rightarrow> controller \<Rightarrow> controller" where
  "each_model f c = fold (\<lambda>(k, p). with_model p f) (conversationModels c) c"

text \<open>The search of \<open>trimConversationModelCache\<close> for the least recently used key.\<close>

fun least_recent :: "string \<Rightarrow> string \<Rightarrow> (string \<times> nat) list \<Rightarrow> (string \<times> nat) list \<Rightarrow> string \<times> nat \<Rightarrow> string \<times> nat" where
  "least_recent active_key protected orders [] best = best"
| "least_recent active_key protected orders ((k, p) # ms) best =
    (if k = active_key \<or> k = protected then least_recent active_key protected orders ms best
     else let order = hash_value orders k 0 in
          least_recent active_key protected orders ms (if order < snd best then (k, order) else best))"

definition delete_model :: "string \<Rightarrow> controller \<Rightarrow> controller" where
  "delete_model k c =
     c\<lparr>heap := (case map_of (conversationModels c) k of None \<Rightarrow> heap c | Some p \<Rightarrow> (heap c)(p := None)),
       conversationModels := hash_remove k (conversationModels c), accessOrder := hash_remove k (accessOrder c)\<rparr>"

definition lru_key :: "string \<Rightarrow> controller \<Rightarrow> string" where
  "lru_key protectedKey c =
     fst (least_recent (activeConversationKey c) protectedKey (accessOrder c) (conversationModels c) ([], 2 ^ 64 - 1))"

lemma least_recent_in: "fst (least_recent a p os ms best) \<in> insert (fst best) (fst ` set ms)"
proof (induction ms arbitrary: best)
  case (Cons kp ms)
  obtain k q where kp: "kp = (k, q)" by fastforce
  show ?case
    using Cons.IH [of best] Cons.IH [of "(k, hash_value os k 0)"] by (simp add: kp Let_def) blast
qed simp

lemma delete_model_shorter:
  assumes "lru_key key c \<noteq> []"
  shows "length (conversationModels (delete_model (lru_key key c) c)) < length (conversationModels c)"
proof -
  have "lru_key key c \<in> fst ` set (conversationModels c)"
    using assms least_recent_in [of "activeConversationKey c" key "accessOrder c" "conversationModels c" "([], 2 ^ 64 - 1)"]
    by (auto simp: lru_key_def)
  then show ?thesis
    unfolding delete_model_def hash_remove_def by (auto intro!: length_filter_less)
qed

function trimConversationModelCache :: "string \<Rightarrow> controller \<Rightarrow> controller" where
  "trimConversationModelCache protectedKey c =
    (if kMaxCachedConversationModels < length (conversationModels c) then
       (if lru_key protectedKey c = [] then c
        else trimConversationModelCache protectedKey (delete_model (lru_key protectedKey c) c))
     else c)"
  by pat_completeness auto
termination
  by (relation "measure (\<lambda>(key, c). length (conversationModels c))") (auto simp: delete_model_shorter)

declare trimConversationModelCache.simps [simp del]

definition touch :: "string \<Rightarrow> controller \<Rightarrow> controller" where
  "touch key c =
    (let n = (accessSequence c + 1) mod 2 ^ 64 in c\<lparr>accessSequence := n, accessOrder := hash_put key n (accessOrder c)\<rparr>)"

definition ensureConversationModel :: "string \<Rightarrow> controller \<Rightarrow> nat \<times> controller" where
  "ensureConversationModel key c =
    (case map_of (conversationModels c) key of
       Some p \<Rightarrow> (p, touch key c)
     | None \<Rightarrow>
         let p = next_address c;
             c1 = c\<lparr>heap := (heap c)(p \<mapsto> new_model kMessageRoles), next_address := p + 1,
                   conversationModels := conversationModels c @ [(key, p)]\<rparr> in
         (p, trimConversationModelCache key (touch key c1)))"

definition append_to :: "nat \<Rightarrow> (string \<times> QVariant) list \<Rightarrow> controller \<Rightarrow> controller" where
  "append_to p row c = with_model p (\<lambda>m. fst (append_row (fmap_of_list row) m)) c"

text \<open>In every conversation, the row with this message id gets the values.\<close>

definition update_message :: "string \<Rightarrow> (string \<times> QVariant) list \<Rightarrow> ChatListModel \<Rightarrow> ChatListModel" where
  "update_message messageId vals m =
    (case findRow (rows m) ''messageId'' (VStr messageId) of
       None \<Rightarrow> m | Some row \<Rightarrow> fst (update_row (int row) (fmap_of_list vals) m))"

definition set_value :: "int \<Rightarrow> string \<Rightarrow> QVariant \<Rightarrow> ChatListModel \<Rightarrow> ChatListModel" where
  "set_value row role v m = fst (update_row row (fmap_of_list [(role, v)]) m)"

definition find_row :: "ChatListModel \<Rightarrow> string \<Rightarrow> QVariant \<Rightarrow> int" where
  "find_row m role v = (case findRow (rows m) role v of None \<Rightarrow> -1 | Some i \<Rightarrow> int i)"

text \<open>\<open>QVariant::toBool\<close> and \<open>toInt\<close>; the rows hold integers and truth values under these roles.\<close>

fun variant_bool :: "QVariant \<Rightarrow> bool" where
  "variant_bool (VBool b) = b"
| "variant_bool (VInt n) = (n \<noteq> 0)"
| "variant_bool v = False"

fun variant_int :: "QVariant \<Rightarrow> int" where
  "variant_int (VInt n) = n"
| "variant_int (VBool b) = (if b then 1 else 0)"
| "variant_int v = 0"

section \<open>Connecting and settings\<close>

definition setStatus :: "string \<Rightarrow> controller \<Rightarrow> controller" where
  "setStatus status c = (if statusText c = status then c else emit_sig StatusTextChanged (c\<lparr>statusText := status\<rparr>))"

definition message_row ::
    "string \<Rightarrow> string \<Rightarrow> string \<Rightarrow> string \<Rightarrow> string \<Rightarrow> bool \<Rightarrow> bool \<Rightarrow> string \<Rightarrow> (string \<times> QVariant) list" where
  "message_row messageId displayName userCode time content selfMessage systemMessage deliveryState =
    [(''messageId'', VStr messageId), (''displayName'', VStr displayName), (''userCode'', VStr userCode), (''time'', VStr time),
     (''content'', VStr content), (''selfMessage'', VBool selfMessage), (''systemMessage'', VBool systemMessage),
     (''deliveryState'', VStr deliveryState)]"

definition appendSystemMessageToModel :: "ctl_env \<Rightarrow> nat \<Rightarrow> string \<Rightarrow> controller \<Rightarrow> controller" where
  "appendSystemMessageToModel e p content c = append_to p (message_row [] [] [] (clock e) content False True []) c"

definition appendSystemMessage :: "ctl_env \<Rightarrow> string \<Rightarrow> controller \<Rightarrow> controller" where
  "appendSystemMessage e content c = appendSystemMessageToModel e (messageModel c) content c"

definition saveConnectionPreferences ::
    "ctl_env \<Rightarrow> string \<Rightarrow> int \<Rightarrow> string \<Rightarrow> string \<Rightarrow> string \<Rightarrow> controller \<Rightarrow> controller" where
  "saveConnectionPreferences e serverIp serverPort username userCode caFile c =
    (let tr = trimmed (qt e);
         s1 = hash_put ''userCode'' (VStr (tr userCode)) (hash_put ''username'' (VStr (tr username))
                (hash_put ''serverPort'' (VInt serverPort) (hash_put ''serverIp'' (VStr (tr serverIp)) (settings c))));
         s2 = (if tr caFile = [] then hash_remove ''caFile'' s1
               else if file_exists e caFile then hash_put ''caFile'' (VStr (absolute_path e caFile)) s1 else s1) in
     emit_sig SavedConnectionChanged (c\<lparr>settings := s2\<rparr>))"

definition saved_text :: "ctl_env \<Rightarrow> string \<Rightarrow> string \<Rightarrow> controller \<Rightarrow> string" where
  "saved_text e key dflt c = trimmed (qt e) (toString (hash_value (settings c) key (VStr dflt)))"

definition savedServerIp :: "ctl_env \<Rightarrow> controller \<Rightarrow> string" where
  "savedServerIp e c = (let v = saved_text e ''serverIp'' ''127.0.0.1'' c in if v = [] then ''127.0.0.1'' else v)"

definition savedServerPort :: "controller \<Rightarrow> int" where
  "savedServerPort c = (let v = variant_int (hash_value (settings c) ''serverPort'' (VInt 8888)) in
     if 1 \<le> v \<and> v \<le> 65535 then v else 8888)"

definition savedUsername :: "ctl_env \<Rightarrow> controller \<Rightarrow> string" where
  "savedUsername e c = saved_text e ''username'' [] c"

definition savedUserCode :: "ctl_env \<Rightarrow> controller \<Rightarrow> string" where
  "savedUserCode e c = saved_text e ''userCode'' [] c"

definition savedCaFile :: "ctl_env \<Rightarrow> controller \<Rightarrow> string" where
  "savedCaFile e c =
    (let savedPath = saved_text e ''caFile'' [] c in
     if savedPath \<noteq> [] \<and> file_exists e savedPath then absolute_path e savedPath
     else if bundledCaFile c \<noteq> [] \<and> file_exists e (bundledCaFile c) then absolute_path e (bundledCaFile c)
     else [])"

definition setBundledCaFile :: "ctl_env \<Rightarrow> string \<Rightarrow> controller \<Rightarrow> controller" where
  "setBundledCaFile e path c = emit_sig SavedConnectionChanged (c\<lparr>bundledCaFile := absolute_path e path\<rparr>)"

definition set_identity :: "string \<Rightarrow> string \<Rightarrow> controller \<Rightarrow> controller" where
  "set_identity username userCode c =
    (let changed = (localUserName c \<noteq> username \<or> localUserCode c \<noteq> userCode);
         c1 = c\<lparr>localUserName := username, localUserCode := userCode\<rparr> in
     if changed then emit_sig LocalIdentityChanged c1 else c1)"

definition connectToServerWithTlsName ::
    "ctl_env \<Rightarrow> string \<Rightarrow> int \<Rightarrow> string \<Rightarrow> string \<Rightarrow> string \<Rightarrow> string \<Rightarrow> controller \<Rightarrow> controller" where
  "connectToServerWithTlsName e serverIp serverPort username userCode caFile tlsServerName c =
     invoke (ConnectToServer serverIp serverPort username userCode caFile tlsServerName)
       (setStatus txt_connecting (set_identity username userCode
         (saveConnectionPreferences e serverIp serverPort username userCode caFile c)))"

definition ctl_connectToServer :: "ctl_env \<Rightarrow> string \<Rightarrow> int \<Rightarrow> string \<Rightarrow> string \<Rightarrow> string \<Rightarrow> controller \<Rightarrow> controller" where
  "ctl_connectToServer e serverIp serverPort username userCode caFile c =
     connectToServerWithTlsName e serverIp serverPort username userCode caFile [] c"

definition ctl_connectToLocalHost ::
    "ctl_env \<Rightarrow> string \<Rightarrow> string \<Rightarrow> string \<Rightarrow> string \<Rightarrow> string \<Rightarrow> string \<Rightarrow> controller \<Rightarrow> controller" where
  "ctl_connectToLocalHost e serverExe certFile keyFile dbFile username userCode c =
     invoke (ConnectToLocalHost serverExe certFile keyFile dbFile username userCode)
       (setStatus txt_starting_server (set_identity username userCode
         (saveConnectionPreferences e ''127.0.0.1'' 8888 username userCode certFile c)))"

definition ctl_disconnectFromServer :: "controller \<Rightarrow> controller" where
  "ctl_disconnectFromServer c =
    (let c1 = invoke DisconnectFromServer (c\<lparr>refreshTimer := False\<rparr>);
         c2 = (if connected c1 then emit_sig ConnectedChanged (c1\<lparr>connected := False\<rparr>) else c1) in
     setStatus txt_not_connected c2)"

section \<open>Sending\<close>

text \<open>The new message id is a random UUID, the argument \<open>uuid\<close>.\<close>

definition sendRoomMessage :: "ctl_env \<Rightarrow> string \<Rightarrow> string \<Rightarrow> string \<Rightarrow> controller \<Rightarrow> controller" where
  "sendRoomMessage e uuid content room c =
    (let trimmedContent = trimmed (qt e) content;
         normalizedRoom = (if trimmed (qt e) room = [] then ''lobby'' else trimmed (qt e) room) in
     if trimmedContent = [] then c
     else (case ensureConversationModel (''room:'' @ normalizedRoom) c of (p, c1) \<Rightarrow>
       invoke (SendChatToRoom trimmedContent normalizedRoom uuid)
         (append_to p (message_row uuid (localUserName c) (localUserCode c) (clock e) trimmedContent True False ''queued'') c1)))"

definition sendPrivateMessage :: "ctl_env \<Rightarrow> string \<Rightarrow> string \<Rightarrow> string \<Rightarrow> controller \<Rightarrow> controller" where
  "sendPrivateMessage e uuid content targetUserCode c =
    (let trimmedContent = trimmed (qt e) content; normalizedTarget = trimmed (qt e) targetUserCode in
     if trimmedContent = [] \<or> normalizedTarget = [] then c
     else (case ensureConversationModel (''dm:'' @ normalizedTarget) c of (p, c1) \<Rightarrow>
       invoke (SendPrivate trimmedContent normalizedTarget uuid)
         (append_to p (message_row uuid (localUserName c) (localUserCode c) (clock e) trimmedContent True False ''queued'') c1)))"

definition refresh_tick :: "controller \<Rightarrow> controller" where
  "refresh_tick c = (if connected c then invoke RequestRooms (invoke RequestUsers c) else c)"

definition requestActiveHistory :: "string \<Rightarrow> string \<Rightarrow> controller \<Rightarrow> controller" where
  "requestActiveHistory beforeMessageId searchQuery c =
    (if \<not> connected c \<or> historyLoading c then c
     else let isPrivate = starts_with ''dm:'' (activeConversationKey c);
              room = (if isPrivate then [] else drop 5 (activeConversationKey c));
              peer = (if isPrivate then drop 3 (activeConversationKey c) else []) in
          invoke (RequestHistory room peer isPrivate beforeMessageId 50 searchQuery) (c\<lparr>historyLoading := True\<rparr>))"

definition searchActiveHistory :: "ctl_env \<Rightarrow> string \<Rightarrow> controller \<Rightarrow> controller" where
  "searchActiveHistory e query c =
    (let c1 = c\<lparr>historySearchQuery := trimmed (qt e) query\<rparr> in
     if \<not> historyLoading c1 then requestActiveHistory [] (historySearchQuery c1) c1 else c1)"

definition ctl_createRoom :: "ctl_env \<Rightarrow> string \<Rightarrow> bool \<Rightarrow> controller \<Rightarrow> controller" where
  "ctl_createRoom e room isPrivate c =
    (if trimmed (qt e) room = [] then c else invoke (CreateRoom (trimmed (qt e) room) isPrivate) c)"

definition set_can_manage :: "bool \<Rightarrow> controller \<Rightarrow> controller" where
  "set_can_manage b c =
    (if activeRoomCanManage c \<noteq> b then emit_sig ActiveRoomCanManageChanged (c\<lparr>activeRoomCanManage := b\<rparr>) else c)"

definition selectRoom :: "ctl_env \<Rightarrow> string \<Rightarrow> controller \<Rightarrow> controller" where
  "selectRoom e room c =
    (let key = ''room:'' @ room in
     case ensureConversationModel key (c\<lparr>historySearchQuery := []\<rparr>) of (p, c0) \<Rightarrow>
     let c1 = c0\<lparr>messageModel := p, activeConversationKey := key\<rparr>;
         row = find_row (roomModel c1) ''roomName'' (VStr room);
         canManage = (0 \<le> row \<and> variant_bool (valueAt (roomModel c1) row ''canManage''));
         c2 = (if 0 \<le> row then c1\<lparr>roomModel := set_value row ''unreadCount'' (VInt 0) (roomModel c1)\<rparr> else c1);
         c3 = emit_sig ActiveMessageModelChanged (set_can_manage canManage c2);
         c4 = (if connected c3 then
                 requestActiveHistory [] []
                   (if \<not> same_text e (joinedRoom c3) room then (invoke (JoinRoom room) c3)\<lparr>joinedRoom := room\<rparr> else c3)
               else c3) in
     if reconnecting c4 then emit_sig ReconnectingChanged (c4\<lparr>reconnecting := False\<rparr>) else c4)"

text \<open>The row of the direct messages whose user code equals \<open>code\<close> up to case.\<close>

definition direct_row :: "ctl_env \<Rightarrow> string \<Rightarrow> controller \<Rightarrow> nat option" where
  "direct_row e code c =
     first_index (\<lambda>row. same_text e (toString (value_of row ''userCode'')) code) (rows (directMessageModel c))"

definition selectDirectMessage :: "ctl_env \<Rightarrow> string \<Rightarrow> controller \<Rightarrow> controller" where
  "selectDirectMessage e userCode c =
    (let key = ''dm:'' @ userCode in
     case ensureConversationModel key (c\<lparr>historySearchQuery := []\<rparr>) of (p, c0) \<Rightarrow>
     let c1 = c0\<lparr>messageModel := p, activeConversationKey := key\<rparr>;
         c2 = (case direct_row e userCode c1 of
                 None \<Rightarrow> c1
               | Some row \<Rightarrow> c1\<lparr>directMessageModel := set_value (int row) ''unreadCount'' (VInt 0) (directMessageModel c1)\<rparr>);
         c3 = emit_sig ActiveMessageModelChanged c2 in
     if connected c3 then requestActiveHistory [] [] c3 else c3)"

definition openPrivateChat :: "ctl_env \<Rightarrow> string \<Rightarrow> string \<Rightarrow> controller \<Rightarrow> controller" where
  "openPrivateChat e displayName userCode c =
    (if trimmed (qt e) userCode = [] \<or> same_text e userCode (localUserCode c) then c
     else let c1 = (if direct_row e userCode c = None
                    then c\<lparr>directMessageModel := fst (append_row (fmap_of_list
                           [(''displayName'', VStr displayName), (''userCode'', VStr userCode), (''unreadCount'', VInt 0)])
                           (directMessageModel c))\<rparr>
                    else c) in
          selectDirectMessage e userCode c1)"

definition copyText :: "string \<Rightarrow> controller \<Rightarrow> controller" where
  "copyText s c = c\<lparr>clipboard := s\<rparr>"

definition removeLocalMessage :: "string \<Rightarrow> controller \<Rightarrow> controller" where
  "removeLocalMessage messageId c =
    (if messageId = [] then c else each_model (\<lambda>m. fst (removeRowsByValue ''messageId'' (VStr messageId) m)) c)"

definition canRecallMessage :: "ctl_env \<Rightarrow> string \<Rightarrow> controller \<Rightarrow> bool" where
  "canRecallMessage e messageId c =
    (if messageId = [] then False
     else if admin c then True
     else list_ex (\<lambda>(k, p). case heap c p of None \<Rightarrow> False
         | Some m \<Rightarrow> let row = find_row m ''messageId'' (VStr messageId) in
             0 \<le> row \<and> same_text e (toString (valueAt m row ''userCode'')) (localUserCode c))
       (conversationModels c))"

definition recallMessage :: "ctl_env \<Rightarrow> string \<Rightarrow> string \<Rightarrow> controller \<Rightarrow> bool \<times> controller" where
  "recallMessage e messageId commandId c =
    (if \<not> canRecallMessage e messageId c then (False, c)
     else (True, invoke (SendAdminAction ''recall'' [] messageId commandId) c))"

text \<open>The first conversation with an own failed message of this id.\<close>

definition retryable :: "string \<Rightarrow> controller \<Rightarrow> string \<times> nat \<Rightarrow> bool" where
  "retryable messageId c kp =
    (case heap c (snd kp) of None \<Rightarrow> False
     | Some m \<Rightarrow> let row = find_row m ''messageId'' (VStr messageId) in
         0 \<le> row \<and> variant_bool (valueAt m row ''selfMessage'') \<and> toString (valueAt m row ''deliveryState'') = ''failed'')"

definition retryMessage :: "string \<Rightarrow> controller \<Rightarrow> bool \<times> controller" where
  "retryMessage messageId c =
    (if messageId = [] then (False, c)
     else (case find (retryable messageId c) (conversationModels c) of
        None \<Rightarrow> (False, c)
      | Some (key, p) \<Rightarrow>
          (case heap c p of None \<Rightarrow> (False, c)
           | Some m \<Rightarrow>
             let content = toString (valueAt m (find_row m ''messageId'' (VStr messageId)) ''content'');
                 c1 = with_model p (update_message messageId [(''deliveryState'', VStr ''queued'')]) c in
             (True, if starts_with ''dm:'' key then invoke (SendPrivate content (drop 3 key) messageId) c1
                    else invoke (SendChatToRoom content (drop 5 key) messageId) c1))))"

section \<open>Signals of the worker\<close>

definition message_delivery_failed :: "string \<Rightarrow> controller \<Rightarrow> controller" where
  "message_delivery_failed messageId c = each_model (update_message messageId [(''deliveryState'', VStr ''failed'')]) c"

definition resetSessionData :: "controller \<Rightarrow> controller" where
  "resetSessionData c =
    (let c1 = each_model (\<lambda>m. fst (clear_model m))
           (c\<lparr>roomModel := fst (replaceRows [fmap_of_list [(''roomName'', VStr ''lobby''), (''memberCount'', VInt 0),
                 (''unreadCount'', VInt 0)]] (roomModel c)),
             directMessageModel := fst (replaceRows [] (directMessageModel c)),
             memberModel := fst (replaceRows [] (memberModel c))\<rparr>);
         c2 = c1\<lparr>activeConversationKey := ''room:lobby'', joinedRoom := ''lobby''\<rparr> in
     case ensureConversationModel (activeConversationKey c2) c2 of (p, c3) \<Rightarrow>
     emit_sig ActiveMessageModelChanged (emit_sig OnlineMemberCountChanged
       (c3\<lparr>messageModel := p, historyLoading := False, historySearchQuery := [], onlineMemberCount := 0\<rparr>)))"

definition set_admin :: "bool \<Rightarrow> controller \<Rightarrow> controller" where
  "set_admin b c = (if admin c \<noteq> b then emit_sig AdminChanged (c\<lparr>admin := b\<rparr>) else c)"

definition handleConnected :: "bool \<Rightarrow> controller \<Rightarrow> controller" where
  "handleConnected isAdmin c =
    (let recovered = reconnecting c;
         c1 = (if \<not> recovered then resetSessionData c else c);
         c2 = (if reconnecting c1 then emit_sig ReconnectingChanged (c1\<lparr>reconnecting := False\<rparr>) else c1);
         c3 = emit_sig ConnectedChanged (set_admin isAdmin (c2\<lparr>connected := True\<rparr>));
         c4 = setStatus (if recovered then txt_reconnected else if isAdmin then txt_connected_admin else txt_connected_plain)
                (c3\<lparr>refreshTimer := True\<rparr>) in
     requestActiveHistory [] [] (invoke RequestUsers (invoke RequestRooms c4)))"

definition handleConnectionFailed :: "ctl_env \<Rightarrow> string \<Rightarrow> controller \<Rightarrow> controller" where
  "handleConnectionFailed e reason c =
    (let c1 = c\<lparr>refreshTimer := False, connected := False\<rparr>;
         c2 = emit_sig ConnectedChanged (if admin c1 then emit_sig AdminChanged (c1\<lparr>admin := False\<rparr>) else c1);
         c3 = setStatus (txt_connect_failed @ reason) c2 in
     emit_sig (ConnectionFailedSig reason) (appendSystemMessage e (statusText c3) c3))"

definition handleConnectionLost :: "string \<Rightarrow> controller \<Rightarrow> controller" where
  "handleConnectionLost reason c =
    (let c1 = emit_sig ConnectedChanged (c\<lparr>refreshTimer := False, connected := False\<rparr>);
         c2 = (if \<not> reconnecting c1 then emit_sig ReconnectingChanged (c1\<lparr>reconnecting := True\<rparr>) else c1);
         c3 = setStatus (if reason = [] then txt_lost else txt_lost_because @ reason) c2 in
     emit_sig (ConnectionLostSig reason) (invoke ScheduleReconnect c3))"

definition attempt_text :: "int \<Rightarrow> string" where
  "attempt_text n = txt_attempt_pre @ to_string n @ txt_attempt_post"

definition handleReconnectScheduled :: "int \<Rightarrow> int \<Rightarrow> controller \<Rightarrow> controller" where
  "handleReconnectScheduled attempt delayMs c = setStatus (attempt_text attempt) c"

definition handleReconnectAttempt :: "int \<Rightarrow> controller \<Rightarrow> controller" where
  "handleReconnectAttempt attempt c = setStatus (attempt_text attempt) c"

definition handleReconnectFailed :: "string \<Rightarrow> controller \<Rightarrow> controller" where
  "handleReconnectFailed reason c = setStatus (txt_retry_failed @ reason) c"

definition history_row :: "ctl_env \<Rightarrow> string \<Rightarrow> QVariantMap \<Rightarrow> QVariantMap" where
  "history_row e localCode detail =
    (let userCode = toString (value_of detail ''userCode'');
         time = (case local_time e (toString (value_of detail ''createdAt'')) of Some t \<Rightarrow> t | None \<Rightarrow> clock e) in
     fmap_of_list [(''messageId'', VStr (toString (value_of detail ''messageId''))),
       (''displayName'', value_of detail ''displayName''), (''userCode'', VStr userCode), (''time'', VStr time),
       (''content'', value_of detail ''content''), (''selfMessage'', VBool (same_text e userCode localCode)),
       (''systemMessage'', VBool False),
       (''deliveryState'', case fmlookup detail ''deliveryState'' of Some v \<Rightarrow> v | None \<Rightarrow> VStr ''sent'')])"

definition handleHistory ::
    "ctl_env \<Rightarrow> string \<Rightarrow> string \<Rightarrow> bool \<Rightarrow> QVariantMap list \<Rightarrow> string \<Rightarrow> controller \<Rightarrow> controller" where
  "handleHistory e room targetUserCode isPrivate msgs searchQuery c =
    (let c1 = c\<lparr>historyLoading := False\<rparr>;
         expectedKey = (if isPrivate then ''dm:'' @ targetUserCode else ''room:'' @ room) in
     if \<not> same_text e expectedKey (activeConversationKey c1) then c1
     else if searchQuery \<noteq> historySearchQuery c1 then requestActiveHistory [] (historySearchQuery c1) c1
     else with_model (messageModel c1) (\<lambda>m.
       let new = map (history_row e (localUserCode c1)) (filter (\<lambda>d. let i = toString (value_of d ''messageId'') in
                   i \<noteq> [] \<and> findRow (rows m) ''messageId'' (VStr i) = None) msgs) in
       if new \<noteq> [] then fst (prependRows new m) else m) c1)"

definition on_delivery_receipt :: "ui_message \<Rightarrow> controller \<Rightarrow> controller" where
  "on_delivery_receipt u c =
    (let state = (if um_delivery_state u = [] then um_content u else um_delivery_state u) in
     if um_message_id u = [] \<or> (state \<noteq> ''sent'' \<and> state \<noteq> ''delivered'') then c
     else each_model (update_message (um_message_id u) [(''deliveryState'', VStr state)]) c)"

definition request_id :: "QVariantMap \<Rightarrow> string" where
  "request_id r = toString (value_of r ''id'')"

fun replace_first :: "('a \<Rightarrow> bool) \<Rightarrow> 'a \<Rightarrow> 'a list \<Rightarrow> 'a list option" where
  "replace_first P x [] = None"
| "replace_first P x (y # ys) = (if P y then Some (x # ys) else map_option ((#) y) (replace_first P x ys))"

definition on_approval_request :: "ui_message \<Rightarrow> controller \<Rightarrow> controller" where
  "on_approval_request u c =
    (if um_message_id u = [] \<or> um_username u = [] \<or> um_user_code u = [] then c
     else let request = fmap_of_list [(''id'', VStr (um_message_id u)), (''displayName'', VStr (um_username u)),
                (''userCode'', VStr (um_user_code u)), (''requestedAt'', VStr (um_content u))];
              pending = (case replace_first (\<lambda>r. request_id r = um_message_id u) request (pendingApprovals c) of
                           Some rs \<Rightarrow> rs | None \<Rightarrow> pendingApprovals c @ [request]) in
          emit_sig PendingApprovalsChanged (c\<lparr>pendingApprovals := pending\<rparr>))"

definition on_approval_result :: "ctl_env \<Rightarrow> ui_message \<Rightarrow> controller \<Rightarrow> controller" where
  "on_approval_result e u c =
    (let kept = filter (\<lambda>r. request_id r \<noteq> um_message_id u) (pendingApprovals c);
         c1 = c\<lparr>pendingApprovals := kept\<rparr>;
         c2 = (if kept \<noteq> pendingApprovals c then emit_sig PendingApprovalsChanged c1 else c1) in
     if um_content u = ''approved'' then appendSystemMessage e txt_approved c2
     else if um_content u = ''denied'' then appendSystemMessage e txt_denied c2 else c2)"

text \<open>\<open>QString::indexOf\<close>, and the parts of \<open>name#code@room\<close>.\<close>

definition indexOf :: "char \<Rightarrow> string \<Rightarrow> int \<Rightarrow> int" where
  "indexOf ch s from = (case find_index (\<lambda>x. x = ch) s (nat from) of None \<Rightarrow> -1 | Some i \<Rightarrow> int i)"

definition identity_parts :: "string \<Rightarrow> string \<times> string \<times> string" where
  "identity_parts identity =
    (let hash = indexOf (CHR ''#'') identity 0;
         roomSeparator = indexOf (CHR ''@'') identity (hash + 1);
         name = (if 0 < hash then take (nat hash) identity else identity);
         code = (if 0 < hash then
                   (if hash < roomSeparator then take (nat (roomSeparator - hash - 1)) (drop (nat (hash + 1)) identity)
                    else drop (nat (hash + 1)) identity)
                 else []);
         userRoom = (if hash < roomSeparator then drop (nat (roomSeparator + 1)) identity else ''lobby'') in
     (name, code, userRoom))"

definition users_of :: "ui_message \<Rightarrow> (string \<times> string \<times> string \<times> bool) list" where
  "users_of u =
    (if um_user_details u \<noteq> []
     then map (\<lambda>d. (toString (value_of d ''displayName''), toString (value_of d ''userCode''),
            toString (case fmlookup d ''room'' of Some v \<Rightarrow> v | None \<Rightarrow> VStr ''lobby''), variant_bool (value_of d ''admin'')))
            (um_user_details u)
     else map (\<lambda>identity. case identity_parts identity of (n, code, r) \<Rightarrow> (n, code, r, False)) (um_users u))"

definition count_member :: "string \<Rightarrow> (string \<times> int) list \<Rightarrow> (string \<times> int) list" where
  "count_member r counts = hash_put r (hash_value counts r 0 + 1) counts"

definition on_users_response :: "ctl_env \<Rightarrow> ui_message \<Rightarrow> controller \<Rightarrow> controller" where
  "on_users_response e u c =
    (let lower = toLower (qt e);
         unreadByUser = fold (\<lambda>row. hash_put (lower (toString (value_of row ''userCode''))) (variant_int (value_of row ''unreadCount'')))
           (rows (directMessageModel c)) [];
         us = users_of u;
         counts = fold (\<lambda>(n, code, r, a). count_member r) us [];
         memberRows = map (\<lambda>(n, code, r, a). fmap_of_list
           [(''displayName'', VStr n), (''userCode'', VStr code), (''online'', VBool True), (''admin'', VBool a)]) us;
         directRows = map (\<lambda>(n, code, r, a). fmap_of_list
             [(''displayName'', VStr n), (''userCode'', VStr code), (''unreadCount'', VInt (hash_value unreadByUser (lower code) 0))])
           (filter (\<lambda>(n, code, r, a). localUserCode c \<noteq> [] \<and> \<not> same_text e code (localUserCode c)) us);
         c1 = c\<lparr>roomMemberCounts := counts, memberModel := fst (replaceRows memberRows (memberModel c)),
               directMessageModel := fst (replaceRows directRows (directMessageModel c))\<rparr>;
         updates = map (\<lambda>row. fmap_of_list
           [(''memberCount'', VInt (hash_value counts (toString (value_of row ''roomName'')) 0))]) (rows (roomModel c1));
         c2 = c1\<lparr>roomModel := fst (updateRows updates (roomModel c1))\<rparr> in
     if onlineMemberCount c2 \<noteq> length (rows (memberModel c2))
     then emit_sig OnlineMemberCountChanged (c2\<lparr>onlineMemberCount := length (rows (memberModel c2))\<rparr>) else c2)"

definition rooms_of :: "ui_message \<Rightarrow> bool \<Rightarrow> (string \<times> string \<times> bool \<times> bool) list" where
  "rooms_of u isAdmin =
    (if um_room_details u \<noteq> []
     then map (\<lambda>d. (toString (value_of d ''roomName''), toString (value_of d ''ownerCode''),
            variant_bool (value_of d ''private''), variant_bool (value_of d ''canManage''))) (um_room_details u)
     else map (\<lambda>r. (r, [], False, isAdmin)) (um_rooms u))"

definition on_rooms_response :: "ui_message \<Rightarrow> controller \<Rightarrow> controller" where
  "on_rooms_response u c =
    (let unreadByRoom = fold (\<lambda>row. hash_put (toString (value_of row ''roomName'')) (variant_int (value_of row ''unreadCount'')))
           (rows (roomModel c)) [];
         roomRows = map (\<lambda>(n, owner, priv, manage). fmap_of_list
           [(''roomName'', VStr n), (''memberCount'', VInt (hash_value (roomMemberCounts c) n 0)),
            (''unreadCount'', VInt (hash_value unreadByRoom n 0)), (''ownerCode'', VStr owner), (''private'', VBool priv),
            (''canManage'', VBool manage)]) (rooms_of u (admin c));
         c1 = c\<lparr>roomModel := fst (replaceRows roomRows (roomModel c))\<rparr>;
         activeRoom = (if starts_with ''room:'' (activeConversationKey c1) then drop 5 (activeConversationKey c1) else []);
         activeRow = find_row (roomModel c1) ''roomName'' (VStr activeRoom);
         canManage = (0 \<le> activeRow \<and> variant_bool (valueAt (roomModel c1) activeRow ''canManage'')) in
     set_can_manage canManage c1)"

definition incrementUnreadForConversation :: "ctl_env \<Rightarrow> string \<Rightarrow> string \<Rightarrow> string \<Rightarrow> controller \<Rightarrow> controller" where
  "incrementUnreadForConversation e key username userCode c =
    (if starts_with ''room:'' key then
       let row = find_row (roomModel c) ''roomName'' (VStr (drop 5 key)) in
       if 0 \<le> row then
         c\<lparr>roomModel := set_value row ''unreadCount'' (VInt (variant_int (valueAt (roomModel c) row ''unreadCount'') + 1)) (roomModel c)\<rparr>
       else c
     else (case direct_row e (drop 3 key) c of
       None \<Rightarrow> c\<lparr>directMessageModel := fst (append_row (fmap_of_list
                 [(''displayName'', VStr username), (''userCode'', VStr userCode), (''unreadCount'', VInt 1)]) (directMessageModel c))\<rparr>
     | Some row \<Rightarrow>
         c\<lparr>directMessageModel := set_value (int row) ''unreadCount''
             (VInt (variant_int (valueAt (directMessageModel c) (int row) ''unreadCount'') + 1)) (directMessageModel c)\<rparr>))"

definition is_self :: "ctl_env \<Rightarrow> string \<Rightarrow> controller \<Rightarrow> bool" where
  "is_self e userCode c \<longleftrightarrow> localUserCode c \<noteq> [] \<and> same_text e userCode (localUserCode c)"

definition conversation_key :: "ctl_env \<Rightarrow> ui_message \<Rightarrow> controller \<Rightarrow> string" where
  "conversation_key e u c =
    (if um_type u \<in> {''private_message'', ''private_chat'', ''offline_message''}
     then ''dm:'' @ (if is_self e (um_user_code u) c then um_target u else um_user_code u)
     else ''room:'' @ (if um_room u = [] then ''lobby'' else um_room u))"

definition effective_username :: "ctl_env \<Rightarrow> ui_message \<Rightarrow> controller \<Rightarrow> string" where
  "effective_username e u c =
    (if trimmed (qt e) (um_username u) = []
     then (if is_self e (um_user_code u) c then localUserName c
           else if trimmed (qt e) (um_user_code u) = [] then txt_unknown_user else um_user_code u)
     else um_username u)"

definition on_chat :: "ctl_env \<Rightarrow> ui_message \<Rightarrow> controller \<Rightarrow> controller" where
  "on_chat e u c0 =
    (let key = conversation_key e u c0;
         self = is_self e (um_user_code u) c0;
         c = (if um_message_id u = [] then c0\<lparr>localMessageCounter := localMessageCounter c0 + 1\<rparr> else c0);
         messageId = (if um_message_id u = [] then ''local-'' @ to_string (localMessageCounter c) else um_message_id u);
         row = message_row messageId (effective_username e u c0) (um_user_code u) (clock e) (um_content u) self False
                 (if um_delivery_state u = [] then ''sent'' else um_delivery_state u);
         full_row = (case map_of (pendingAttachmentMetadata c) messageId of None \<Rightarrow> row | Some a \<Rightarrow> row @ [(''attachment'', a)]);
         c1 = c\<lparr>pendingAttachmentMetadata := hash_remove messageId (pendingAttachmentMetadata c)\<rparr> in
     case ensureConversationModel key c1 of (p, c2) \<Rightarrow>
     let c3 = append_to p full_row c2 in
     if \<not> self \<and> key \<noteq> activeConversationKey c3
     then incrementUnreadForConversation e key (um_username u) (um_user_code u) c3 else c3)"

definition on_recalled :: "ui_message \<Rightarrow> controller \<Rightarrow> controller" where
  "on_recalled u c =
    (if um_message_id u \<noteq> []
     then emit_sig (RecallSucceeded (um_command_id u))
            (each_model (\<lambda>m. fst (removeRowsByValue ''messageId'' (VStr (um_message_id u)) m)) c)
     else c)"

definition on_room_system :: "ctl_env \<Rightarrow> ui_message \<Rightarrow> controller \<Rightarrow> controller" where
  "on_room_system e u c =
    (case ensureConversationModel (''room:'' @ um_room u) c of (p, c1) \<Rightarrow> appendSystemMessageToModel e p (um_content u) c1)"

definition on_error :: "ui_message \<Rightarrow> controller \<Rightarrow> controller" where
  "on_error u c =
    (let associated = (um_message_id u \<noteq> [] \<and> list_ex (\<lambda>(k, p). case heap c p of None \<Rightarrow> False
           | Some m \<Rightarrow> findRow (rows m) ''messageId'' (VStr (um_message_id u)) \<noteq> None) (conversationModels c));
         c1 = (if um_message_id u \<noteq> [] then each_model (update_message (um_message_id u) [(''deliveryState'', VStr ''failed'')]) c else c);
         c2 = (if um_command_id u \<noteq> [] then emit_sig (RecallFailed (um_command_id u) (um_content u)) c1 else c1) in
     if \<not> associated \<and> um_command_id u = [] then setStatus (um_content u) c2 else c2)"

definition handleMessage :: "ctl_env \<Rightarrow> ui_message \<Rightarrow> controller \<Rightarrow> controller" where
  "handleMessage e u c =
    (let t = um_type u in
     if t = ''delivery_receipt'' then on_delivery_receipt u c
     else if t = ''login_ok'' then set_admin (um_is_admin u) c
     else if t = ''connection_approval_request'' then on_approval_request u c
     else if t = ''connection_approval_result'' then on_approval_result e u c
     else if t = ''users_response'' then on_users_response e u c
     else if t = ''rooms_response'' then on_rooms_response u c
     else if t \<in> {''chat'', ''private_message'', ''private_chat'', ''offline_message''} then on_chat e u c
     else if t = ''message_recalled'' then on_recalled u c
     else if t = ''system'' \<and> um_room u \<noteq> [] then on_room_system e u c
     else if t = ''error'' then on_error u c
     else if t = ''system'' then appendSystemMessage e (um_content u) c
     else c)"

text \<open>\<open>toVariant\<close> of a metadata number, as far as it is an integer.\<close>

fun number_variant :: "qjson \<Rightarrow> QVariant" where
  "number_variant (QDouble d) = VInt \<lfloor>d\<rfloor>"
| "number_variant (QString s) = VStr s"
| "number_variant (qjson.QBool b) = VBool b"
| "number_variant v = Invalid"

definition handleAttachmentEvent :: "ctl_env \<Rightarrow> string \<Rightarrow> string \<Rightarrow> string \<Rightarrow> string \<Rightarrow> controller \<Rightarrow> controller" where
  "handleAttachmentEvent e type attachmentId commandId content c =
    (if type \<noteq> ''manifest'' \<or> attachmentId = [] \<or> commandId = [] then c
     else (case parse_json e content of
        Some (QObject metadata) \<Rightarrow>
          let attachment = VMap [(''attachmentId'', VStr attachmentId), (''fileName'', VStr (to_qstring (member metadata ''fileName''))),
                 (''logicalSize'', number_variant (member metadata ''logicalSize'')), (''status'', VStr ''available''),
                 (''totalChunks'', number_variant (member metadata ''totalChunks''))] in
          (case find (\<lambda>(k, p). case heap c p of None \<Rightarrow> False
                 | Some m \<Rightarrow> findRow (rows m) ''messageId'' (VStr commandId) \<noteq> None) (conversationModels c) of
             Some (k, p) \<Rightarrow> with_model p (update_message commandId [(''attachment'', attachment)]) c
           | None \<Rightarrow> c\<lparr>pendingAttachmentMetadata := hash_put commandId attachment (pendingAttachmentMetadata c)\<rparr>)
      | _ \<Rightarrow> c))"

section \<open>Attachments and MLS\<close>

text \<open>The file dialogs return a path, empty when cancelled (\<open>path\<close>).\<close>

definition upload_targets :: "ctl_env \<Rightarrow> controller \<Rightarrow> string list" where
  "upload_targets e c =
     filter (\<lambda>code. code \<noteq> [] \<and> \<not> same_text e code (localUserCode c))
       (map (\<lambda>row. toString (value_of row ''userCode'')) (filter (\<lambda>row. variant_bool (value_of row ''online'')) (rows (memberModel c))))"

definition chooseAndUploadAttachment :: "ctl_env \<Rightarrow> string \<Rightarrow> string \<Rightarrow> string \<Rightarrow> controller \<Rightarrow> controller" where
  "chooseAndUploadAttachment e path room commandId c =
    (if path = [] then c else invoke (StartAttachmentUpload room path (upload_targets e c) commandId) c)"

definition ctl_sendAttachmentDownload :: "string \<Rightarrow> string \<Rightarrow> int \<Rightarrow> string \<Rightarrow> controller \<Rightarrow> controller" where
  "ctl_sendAttachmentDownload path attachmentId chunkIndex commandId c =
    (if path = [] then c else invoke (StartAttachmentDownload attachmentId path commandId) c)"

text \<open>The remaining slots only forward to the worker.\<close>

definition ctl_requestUsers :: "controller \<Rightarrow> controller" where
  "ctl_requestUsers c = invoke RequestUsers c"

definition ctl_requestRooms :: "controller \<Rightarrow> controller" where
  "ctl_requestRooms c = invoke RequestRooms c"

definition ctl_sendRoomAction :: "string \<Rightarrow> string \<Rightarrow> string \<Rightarrow> controller \<Rightarrow> controller" where
  "ctl_sendRoomAction action room targetUserCode c = invoke (SendRoomAction action room targetUserCode) c"

definition ctl_sendAdminAction :: "string \<Rightarrow> string \<Rightarrow> string \<Rightarrow> controller \<Rightarrow> controller" where
  "ctl_sendAdminAction action targetUserCode messageId c = invoke (SendAdminAction action targetUserCode messageId []) c"

definition ctl_sendAttachmentInit :: "string \<Rightarrow> int \<Rightarrow> string \<Rightarrow> controller \<Rightarrow> controller" where
  "ctl_sendAttachmentInit room logicalSize commandId c = invoke (SendAttachmentInit room logicalSize commandId) c"

definition ctl_startAttachmentUpload :: "string \<Rightarrow> string \<Rightarrow> string list \<Rightarrow> string \<Rightarrow> controller \<Rightarrow> controller" where
  "ctl_startAttachmentUpload room filePath targetUsers commandId c =
     invoke (StartAttachmentUpload room filePath targetUsers commandId) c"

definition ctl_sendAttachmentChunk :: "string \<Rightarrow> int \<Rightarrow> string \<Rightarrow> string \<Rightarrow> string \<Rightarrow> controller \<Rightarrow> controller" where
  "ctl_sendAttachmentChunk uploadId chunkIndex ciphertext cipherSha256 commandId c =
     invoke (SendAttachmentChunk uploadId chunkIndex ciphertext cipherSha256 commandId) c"

definition ctl_resumeAttachment :: "string \<Rightarrow> string \<Rightarrow> controller \<Rightarrow> controller" where
  "ctl_resumeAttachment uploadId commandId c = invoke (ResumeAttachment uploadId commandId) c"

definition ctl_sendAttachmentCommit :: "string \<Rightarrow> string \<Rightarrow> controller \<Rightarrow> controller" where
  "ctl_sendAttachmentCommit uploadId commandId c = invoke (SendAttachmentCommit uploadId commandId) c"

definition ctl_startAttachmentDownload :: "string \<Rightarrow> string \<Rightarrow> string \<Rightarrow> controller \<Rightarrow> controller" where
  "ctl_startAttachmentDownload attachmentId outputPath commandId c =
     invoke (StartAttachmentDownload attachmentId outputPath commandId) c"

definition ctl_fetchMlsKeyPackage :: "string \<Rightarrow> string \<Rightarrow> string \<Rightarrow> controller \<Rightarrow> controller" where
  "ctl_fetchMlsKeyPackage room targetUserCode commandId c = invoke (FetchMlsKeyPackage room targetUserCode commandId) c"

definition ctl_addMlsMember :: "string \<Rightarrow> string \<Rightarrow> string \<Rightarrow> string \<Rightarrow> controller \<Rightarrow> controller" where
  "ctl_addMlsMember room groupId targetUserCode commandId c = invoke (AddMlsMember room groupId targetUserCode commandId) c"

definition ctl_removeMlsMember :: "string \<Rightarrow> string \<Rightarrow> string \<Rightarrow> string \<Rightarrow> controller \<Rightarrow> controller" where
  "ctl_removeMlsMember room groupId targetUserCode commandId c =
     invoke (RemoveMlsMember room groupId targetUserCode commandId) c"

definition ctl_inspectMlsGroup :: "string \<Rightarrow> string \<Rightarrow> controller \<Rightarrow> controller" where
  "ctl_inspectMlsGroup groupId commandId c = invoke (InspectMlsGroup groupId commandId) c"

definition ctl_protectMls :: "string \<Rightarrow> string \<Rightarrow> string \<Rightarrow> controller \<Rightarrow> controller" where
  "ctl_protectMls groupId plaintext commandId c = invoke (ProtectMls groupId plaintext commandId) c"

definition ctl_unprotectMls :: "string \<Rightarrow> string \<Rightarrow> string \<Rightarrow> controller \<Rightarrow> controller" where
  "ctl_unprotectMls groupId ciphertext commandId c = invoke (UnprotectMls groupId ciphertext commandId) c"

end
