(* ===== verification/Gui_Invariant.thy ===== *)
theory Gui_Invariant
  imports Gui_Controller
begin

text \<open>
  Memory safety of the controller's conversation models: every operation keeps the shown model alive
  and the cache within its limit. The theory follows the operations of \<open>Gui_Controller\<close>.
\<close>

section \<open>The invariant\<close>

definition small :: "ChatListModel \<Rightarrow> bool" where
  "small m \<longleftrightarrow> length (rows m) \<le> kMaxRowsPerModel"

definition models_ok :: "controller \<Rightarrow> bool" where
  "models_ok c \<longleftrightarrow>
     distinct (map fst (conversationModels c)) \<and> distinct (map snd (conversationModels c)) \<and>
     [] \<notin> fst ` set (conversationModels c) \<and>
     dom (heap c) = snd ` set (conversationModels c) \<and> (\<forall>p \<in> dom (heap c). p < next_address c) \<and>
     (\<forall>m \<in> ran (heap c). small m)"

text \<open>After at most \<open>n\<close> accesses of models, as long as the 64-bit access counter has not wrapped.\<close>

definition cache_ok :: "nat \<Rightarrow> controller \<Rightarrow> bool" where
  "cache_ok n c \<longleftrightarrow> (n < 2 ^ 64 - 1 \<longrightarrow>
     accessSequence c \<le> n \<and> (\<forall>o' \<in> snd ` set (accessOrder c). o' \<le> n) \<and>
     length (conversationModels c) \<le> kMaxCachedConversationModels)"

definition shows_active :: "controller \<Rightarrow> bool" where
  "shows_active c \<longleftrightarrow> map_of (conversationModels c) (activeConversationKey c) = Some (messageModel c)"

definition ctl_inv :: "nat \<Rightarrow> controller \<Rightarrow> bool" where
  "ctl_inv n c \<longleftrightarrow> models_ok c \<and> cache_ok n c \<and> shows_active c \<and>
     small (roomModel c) \<and> small (directMessageModel c) \<and> small (memberModel c)"

named_theorems ctl_frame

lemma frame_emit [ctl_frame, simp]: "ctl_inv n (emit_sig s c) = ctl_inv n c"
  by (simp add: ctl_inv_def models_ok_def cache_ok_def shows_active_def emit_sig_def)

lemma frame_invoke [ctl_frame, simp]: "ctl_inv n (invoke w c) = ctl_inv n c"
  by (simp add: ctl_inv_def models_ok_def cache_ok_def shows_active_def invoke_def)

lemma frame_fields [ctl_frame, simp]:
  "ctl_inv n (c\<lparr>historySearchQuery := q\<rparr>) = ctl_inv n c" "ctl_inv n (c\<lparr>historyLoading := b\<rparr>) = ctl_inv n c"
  "ctl_inv n (c\<lparr>joinedRoom := r\<rparr>) = ctl_inv n c" "ctl_inv n (c\<lparr>reconnecting := b\<rparr>) = ctl_inv n c"
  "ctl_inv n (c\<lparr>connected := b\<rparr>) = ctl_inv n c" "ctl_inv n (c\<lparr>refreshTimer := b\<rparr>) = ctl_inv n c"
  "ctl_inv n (c\<lparr>admin := b\<rparr>) = ctl_inv n c" "ctl_inv n (c\<lparr>activeRoomCanManage := b\<rparr>) = ctl_inv n c"
  "ctl_inv n (c\<lparr>statusText := t\<rparr>) = ctl_inv n c" "ctl_inv n (c\<lparr>settings := s\<rparr>) = ctl_inv n c"
  "ctl_inv n (c\<lparr>bundledCaFile := t\<rparr>) = ctl_inv n c" "ctl_inv n (c\<lparr>clipboard := t\<rparr>) = ctl_inv n c"
  "ctl_inv n (c\<lparr>localUserName := nm, localUserCode := t\<rparr>) = ctl_inv n c" "ctl_inv n (c\<lparr>onlineMemberCount := k\<rparr>) = ctl_inv n c"
  "ctl_inv n (c\<lparr>pendingApprovals := a\<rparr>) = ctl_inv n c" "ctl_inv n (c\<lparr>localMessageCounter := i\<rparr>) = ctl_inv n c"
  "ctl_inv n (c\<lparr>pendingAttachmentMetadata := pm\<rparr>) = ctl_inv n c"
  "ctl_inv n (c\<lparr>roomMemberCounts := rc\<rparr>) = ctl_inv n c"
  by (simp_all add: ctl_inv_def models_ok_def cache_ok_def shows_active_def)

lemma frame_lists:
  "ctl_inv n c \<Longrightarrow> small m \<Longrightarrow> ctl_inv n (c\<lparr>roomModel := m\<rparr>)"
  "ctl_inv n c \<Longrightarrow> small m \<Longrightarrow> ctl_inv n (c\<lparr>directMessageModel := m\<rparr>)"
  "ctl_inv n c \<Longrightarrow> small m \<Longrightarrow> ctl_inv n (c\<lparr>memberModel := m\<rparr>)"
  by (simp_all add: ctl_inv_def models_ok_def cache_ok_def shows_active_def)

lemma inv_small: "ctl_inv n c \<Longrightarrow> small (roomModel c)" "ctl_inv n c \<Longrightarrow> small (directMessageModel c)" "ctl_inv n c \<Longrightarrow> small (memberModel c)"
  by (simp_all add: ctl_inv_def)

section \<open>List operations keep models small\<close>

lemma small_ops [simp]:
  "small m \<Longrightarrow> small (fst (appendRows new m))" "small m \<Longrightarrow> small (fst (append_row r m))"
  "small m \<Longrightarrow> small (fst (prependRows new m))" "small m \<Longrightarrow> small (fst (replaceRows new m))"
  "small m \<Longrightarrow> small (fst (update_row i vals m))" "small m \<Longrightarrow> small (fst (updateRows new m))"
  "small m \<Longrightarrow> small (fst (removeRowsByValue k v m))" "small m \<Longrightarrow> small (fst (clear_model m))"
  using run_op_bounded [of m "Append new"] run_op_bounded [of m "Append [r]"] run_op_bounded [of m "Prepend new"]
    run_op_bounded [of m "Replace new"] run_op_bounded [of m "Update i vals"] run_op_bounded [of m "UpdateAll new"]
    run_op_bounded [of m "RemoveByValue k v"] run_op_bounded [of m Clear]
  by (simp_all add: small_def append_row_def)

lemma small_update_message [simp]: "small m \<Longrightarrow> small (update_message i vals m)"
  by (simp add: update_message_def split: option.splits)

lemma small_set_value [simp]: "small m \<Longrightarrow> small (set_value i k v m)"
  by (simp add: set_value_def)

lemma small_new_model [simp]: "small (new_model names)"
  by (simp add: small_def new_model_def)

section \<open>Conversation models\<close>

lemma with_model_inv:
  assumes "ctl_inv n c" and "\<And>m. small m \<Longrightarrow> small (f m)"
  shows "ctl_inv n (with_model p f c)"
proof (cases "heap c p")
  case None
  with assms show ?thesis by (simp add: with_model_def)
next
  case (Some m)
  then have "p \<in> dom (heap c)" "m \<in> ran (heap c)" by (auto simp: ran_def)
  moreover have "ran ((heap c)(p \<mapsto> f m)) \<subseteq> insert (f m) (ran (heap c))" by (auto simp: ran_def split: if_splits)
  ultimately show ?thesis
    using assms Some unfolding ctl_inv_def models_ok_def cache_ok_def shows_active_def with_model_def
    by (simp add: insert_absorb) blast
qed

lemma with_model_same [simp]:
  "conversationModels (with_model p f c) = conversationModels c" "messageModel (with_model p f c) = messageModel c"
  "activeConversationKey (with_model p f c) = activeConversationKey c" "statusText (with_model p f c) = statusText c"
  "historyLoading (with_model p f c) = historyLoading c" "calls (with_model p f c) = calls c"
  "roomModel (with_model p f c) = roomModel c" "directMessageModel (with_model p f c) = directMessageModel c"
  "connected (with_model p f c) = connected c" "reconnecting (with_model p f c) = reconnecting c"
  by (simp_all add: with_model_def split: option.splits)

lemma each_model_inv:
  assumes "ctl_inv n c" and "\<And>m. small m \<Longrightarrow> small (f m)"
  shows "ctl_inv n (each_model f c)"
proof -
  have "ctl_inv n d \<Longrightarrow> ctl_inv n (fold (\<lambda>(k, p). with_model p f) ms d)" for ms d
    by (induction ms arbitrary: d) (auto intro: with_model_inv assms(2))
  with assms(1) show ?thesis by (simp add: each_model_def)
qed

lemma fold_models_heap: "\<exists>h. fold (\<lambda>(k, p). with_model p f) ms d = d\<lparr>heap := h\<rparr>"
proof (induction ms arbitrary: d)
  case Nil
  show ?case by (rule exI [of _ "heap d"]) simp
next
  case (Cons kp ms)
  have "\<exists>h. with_model p f d = d\<lparr>heap := h\<rparr>" for p
    by (cases "heap d p") (auto simp: with_model_def intro: exI [of _ "heap d"])
  then obtain h where "with_model (snd kp) f d = d\<lparr>heap := h\<rparr>" by blast
  moreover from Cons [of "d\<lparr>heap := h\<rparr>"] obtain h' where
    "fold (\<lambda>(k, p). with_model p f) ms (d\<lparr>heap := h\<rparr>) = d\<lparr>heap := h'\<rparr>" by auto
  ultimately show ?case by (cases kp) auto
qed

lemma each_model_heap: "\<exists>h. each_model f c = c\<lparr>heap := h\<rparr>"
  unfolding each_model_def by (rule fold_models_heap)

lemma each_model_same [simp]:
  "conversationModels (each_model f c) = conversationModels c" "messageModel (each_model f c) = messageModel c"
  "activeConversationKey (each_model f c) = activeConversationKey c" "statusText (each_model f c) = statusText c"
  "historyLoading (each_model f c) = historyLoading c" "calls (each_model f c) = calls c"
  "connected (each_model f c) = connected c" "reconnecting (each_model f c) = reconnecting c"
proof -
  obtain h where h: "each_model f c = c\<lparr>heap := h\<rparr>" using each_model_heap by blast
  show "conversationModels (each_model f c) = conversationModels c" "messageModel (each_model f c) = messageModel c"
    "activeConversationKey (each_model f c) = activeConversationKey c" "statusText (each_model f c) = statusText c"
    "historyLoading (each_model f c) = historyLoading c" "calls (each_model f c) = calls c"
    "connected (each_model f c) = connected c" "reconnecting (each_model f c) = reconnecting c"
    unfolding h by simp_all
qed

section \<open>The least recently used model\<close>

text \<open>The models that may be deleted: neither shown nor just requested.\<close>

definition evictable :: "string \<Rightarrow> string \<Rightarrow> (string \<times> nat) list \<Rightarrow> string set" where
  "evictable active_key protected ms = fst ` set ms - {active_key, protected}"

lemma least_recent_best:
  "least_recent a p os ms best = r \<Longrightarrow>
   (r = best \<or> fst r \<in> evictable a p ms \<and> snd r = hash_value os (fst r) 0 \<and> snd r < snd best) \<and>
   snd r \<le> snd best \<and> (\<forall>k \<in> evictable a p ms. snd r \<le> hash_value os k 0)"
proof (induction ms arbitrary: best)
  case Nil
  then show ?case by (auto simp: evictable_def)
next
  case (Cons kq ms)
  obtain k q where kq: "kq = (k, q)" by fastforce
  show ?case
  proof (cases "k = a \<or> k = p")
    case True
    with Cons.prems Cons.IH [of best] show ?thesis by (auto simp: kq evictable_def)
  next
    case False
    let ?o = "hash_value os k 0"
    have ev: "evictable a p (kq # ms) = insert k (evictable a p ms)" using False by (auto simp: kq evictable_def)
    show ?thesis
    proof (cases "?o < snd best")
      case True
      with Cons.prems False have "least_recent a p os ms (k, ?o) = r" by (simp add: kq)
      from Cons.IH [OF this] True show ?thesis unfolding ev by auto
    next
      case not_less: False
      with Cons.prems False have "least_recent a p os ms best = r" by (simp add: kq)
      from Cons.IH [OF this] not_less show ?thesis unfolding ev by auto
    qed
  qed
qed

lemma hash_value_bound: "(\<forall>x \<in> snd ` set os. x \<le> n) \<Longrightarrow> hash_value os k 0 \<le> (n::nat)"
  by (auto simp: hash_value_def split: option.splits dest!: map_of_SomeD)

lemma lru_key_evictable:
  assumes "evictable (activeConversationKey c) key (conversationModels c) \<noteq> {}"
    and "\<forall>x \<in> snd ` set (accessOrder c). x \<le> n" and "n < 2 ^ 64 - 1"
  shows "lru_key key c \<in> evictable (activeConversationKey c) key (conversationModels c)"
    and "\<forall>k \<in> evictable (activeConversationKey c) key (conversationModels c).
           hash_value (accessOrder c) (lru_key key c) 0 \<le> hash_value (accessOrder c) k 0"
proof -
  let ?E = "evictable (activeConversationKey c) key (conversationModels c)"
  define r where "r = least_recent (activeConversationKey c) key (accessOrder c) (conversationModels c) ([], 2 ^ 64 - 1)"
  from assms(1) obtain k where k: "k \<in> ?E" by blast
  have "hash_value (accessOrder c) k 0 < 2 ^ 64 - 1" using hash_value_bound [OF assms(2), of k] assms(3) by linarith
  moreover from least_recent_best [OF r_def [symmetric]] k have
    r: "r = ([], 2 ^ 64 - 1) \<or> fst r \<in> ?E \<and> snd r = hash_value (accessOrder c) (fst r) 0"
    "\<forall>k \<in> ?E. snd r \<le> hash_value (accessOrder c) k 0" by auto
  ultimately have "fst r \<in> ?E \<and> snd r = hash_value (accessOrder c) (fst r) 0" using k by fastforce
  with r(2) show "lru_key key c \<in> ?E" "\<forall>k \<in> ?E. hash_value (accessOrder c) (lru_key key c) 0 \<le> hash_value (accessOrder c) k 0"
    by (simp_all only: lru_key_def r_def [symmetric])
qed


section \<open>Creating and deleting\<close>

lemma hash_remove_map: "map_of (hash_remove k kvs) x = (if x = k then None else map_of kvs x)"
  by (induction kvs) (auto simp: hash_remove_def)

lemma delete_model_ok:
  assumes "models_ok c"
  shows "models_ok (delete_model k c)"
proof (cases "map_of (conversationModels c) k")
  case None
  then have "hash_remove k (conversationModels c) = conversationModels c"
    by (auto simp: hash_remove_def map_of_eq_None_iff intro!: filter_True)
  with None assms show ?thesis by (simp add: delete_model_def models_ok_def)
next
  case (Some p)
  let ?ms = "conversationModels c"
  from assms have d: "distinct (map fst ?ms)" "distinct (map snd ?ms)" and dom: "dom (heap c) = snd ` set ?ms"
    and lt: "\<forall>p \<in> dom (heap c). p < next_address c" and sm: "\<forall>m \<in> ran (heap c). small m" and ne: "[] \<notin> fst ` set ?ms"
    by (simp_all add: models_ok_def)
  have in_ms: "(k, p) \<in> set ?ms" using Some by (rule map_of_SomeD)
  have other: "q \<noteq> p" if "(k', q) \<in> set ?ms" "k' \<noteq> k" for k' q
  proof
    assume "q = p"
    moreover have "inj_on snd (set ?ms)" using d(2) by (simp add: distinct_map)
    ultimately have "(k', q) = (k, p)" using inj_onD [of snd "set ?ms" "(k', q)" "(k, p)"] that(1) in_ms by simp
    with that(2) show False by simp
  qed
  have same: "q = p" if "(k, q) \<in> set ?ms" for q
    using that Some d(1) by simp
  have "snd ` set (hash_remove k ?ms) = snd ` set ?ms - {p}"
  proof (rule set_eqI)
    fix q
    show "q \<in> snd ` set (hash_remove k ?ms) \<longleftrightarrow> q \<in> snd ` set ?ms - {p}"
    proof
      assume "q \<in> snd ` set (hash_remove k ?ms)"
      then obtain k' where "(k', q) \<in> set ?ms" "k' \<noteq> k" by (auto simp: hash_remove_def)
      with other show "q \<in> snd ` set ?ms - {p}" by force
    next
      assume "q \<in> snd ` set ?ms - {p}"
      then obtain k' where k': "(k', q) \<in> set ?ms" "q \<noteq> p" by auto
      with same have "k' \<noteq> k" by auto
      with k' show "q \<in> snd ` set (hash_remove k ?ms)" by (force simp: hash_remove_def)
    qed
  qed
  moreover have "dom ((heap c)(p := None)) = dom (heap c) - {p}" by auto
  moreover have "\<forall>m \<in> ran ((heap c)(p := None)). small m" using sm by (auto simp: ran_def)
  moreover have "distinct (map fst (hash_remove k ?ms))" "distinct (map snd (hash_remove k ?ms))"
    using d by (simp_all add: hash_remove_def distinct_map_filter)
  moreover have "[] \<notin> fst ` set (hash_remove k ?ms)" using ne by (auto simp: hash_remove_def)
  moreover have "\<forall>q \<in> dom (heap c) - {p}. q < next_address c" using lt by blast
  ultimately show ?thesis using Some unfolding models_ok_def delete_model_def by (simp only: dom) simp
qed

text \<open>What deleting models keeps: everything but the models of keys that are neither shown nor requested.\<close>

definition trimmed_from :: "string \<Rightarrow> controller \<Rightarrow> controller \<Rightarrow> bool" where
  "trimmed_from key c d \<longleftrightarrow>
     (\<exists>h ms os. d = c\<lparr>heap := h, conversationModels := ms, accessOrder := os\<rparr> \<and>
        map_of ms (activeConversationKey c) = map_of (conversationModels c) (activeConversationKey c) \<and>
        map_of ms key = map_of (conversationModels c) key \<and> set os \<subseteq> set (accessOrder c))"

lemma trimmed_from_refl: "trimmed_from key c c"
  unfolding trimmed_from_def
  by (rule exI [of _ "heap c"], rule exI [of _ "conversationModels c"], rule exI [of _ "accessOrder c"]) simp

lemma trimmed_from_trans: "trimmed_from key c d \<Longrightarrow> trimmed_from key d e \<Longrightarrow> trimmed_from key c e"
  unfolding trimmed_from_def by force

lemma delete_model_trims:
  assumes "k \<in> evictable (activeConversationKey c) key ms"
  shows "trimmed_from key c (delete_model k c)"
proof -
  have "map_of (hash_remove k (conversationModels c)) (activeConversationKey c) = map_of (conversationModels c) (activeConversationKey c)"
    "map_of (hash_remove k (conversationModels c)) key = map_of (conversationModels c) key"
    "set (hash_remove k (accessOrder c)) \<subseteq> set (accessOrder c)"
    using assms by (auto simp: hash_remove_map evictable_def, auto simp: hash_remove_def)
  then show ?thesis
    unfolding trimmed_from_def delete_model_def by blast
qed

lemma evictable_exists:
  assumes "distinct (map fst ms)" "2 < length ms"
  shows "evictable a p ms \<noteq> {}"
proof
  assume "evictable a p ms = {}"
  then have "fst ` set ms \<subseteq> {a, p}" by (auto simp: evictable_def)
  then have "card (fst ` set ms) \<le> card {a, p}" by (intro card_mono) auto
  also have "\<dots> \<le> 2" by (simp add: card_insert_if)
  finally show False using assms distinct_card [OF assms(1)] by simp
qed

lemma trim_keeps:
  assumes "models_ok c"
  shows "models_ok (trimConversationModelCache key c) \<and> trimmed_from key c (trimConversationModelCache key c) \<and>
    (n < 2 ^ 64 - 1 \<and> (\<forall>x \<in> snd ` set (accessOrder c). x \<le> n) \<longrightarrow>
       length (conversationModels (trimConversationModelCache key c)) \<le> kMaxCachedConversationModels)"
  using assms
proof (induction key c rule: trimConversationModelCache.induct)
  case (1 key c)
  let ?k = "lru_key key c" and ?d = "delete_model (lru_key key c) c"
  show ?case
  proof (cases "kMaxCachedConversationModels < length (conversationModels c)")
    case small_cache: False
    then show ?thesis using 1(2) by (subst (1 2 3) trimConversationModelCache.simps) (simp add: trimmed_from_refl)
  next
    case big: True
    have ev: "evictable (activeConversationKey c) key (conversationModels c) \<noteq> {}"
      using evictable_exists 1(2) big by (auto simp: models_ok_def kMaxCachedConversationModels_def)
    show ?thesis
    proof (cases "?k = []")
      case True
      then have "\<not> (n < 2 ^ 64 - 1 \<and> (\<forall>x \<in> snd ` set (accessOrder c). x \<le> n))"
        using lru_key_evictable(1) [OF ev, of n] 1(2) by (auto simp: models_ok_def evictable_def)
      with True big 1(2) show ?thesis
        by (subst (1 2 3) trimConversationModelCache.simps) (simp add: trimmed_from_refl)
    next
      case False
      have "fst (least_recent (activeConversationKey c) key (accessOrder c) (conversationModels c) ([], 2 ^ 64 - 1)) \<noteq> []"
        using False by (simp only: lru_key_def not_False_eq_True)
      with least_recent_best [of "activeConversationKey c" key "accessOrder c" "conversationModels c" "([], 2 ^ 64 - 1)", OF refl]
      have k: "?k \<in> evictable (activeConversationKey c) key (conversationModels c)"
        unfolding lru_key_def by (metis fst_conv)
      have sub: "snd ` set (accessOrder ?d) \<subseteq> snd ` set (accessOrder c)" by (auto simp: delete_model_def hash_remove_def)
      note IH = 1(1) [OF big False delete_model_ok [OF 1(2)]]
      have "trimConversationModelCache key c = trimConversationModelCache key ?d"
        using big False by (subst trimConversationModelCache.simps) simp
      moreover have "trimmed_from key c e" if "trimmed_from key ?d e" for e
        using trimmed_from_trans [OF _ that] delete_model_trims [OF k] by simp
      moreover have "\<forall>x \<in> snd ` set (accessOrder ?d). x \<le> n" if "\<forall>x \<in> snd ` set (accessOrder c). x \<le> n"
        using that sub by blast
      ultimately show ?thesis using IH by auto
    qed
  qed
qed

lemma hash_put_snd: "snd ` set (hash_put k v kvs) \<subseteq> insert v (snd ` set kvs)"
  by (auto simp: hash_put_def split: if_splits)

lemma touch_cache:
  assumes "\<forall>x \<in> snd ` set (accessOrder c). x \<le> n" "accessSequence c \<le> n" "n + 1 < 2 ^ 64 - 1"
  shows "\<forall>x \<in> snd ` set (accessOrder (touch key c)). x \<le> n + 1" "accessSequence (touch key c) \<le> n + 1"
  using assms hash_put_snd [of key "accessSequence c + 1" "accessOrder c"] by (force simp: touch_def Let_def)+

lemma touch_frame: "\<exists>os q. touch key c = c\<lparr>accessSequence := q, accessOrder := os\<rparr>"
  unfolding touch_def Let_def by blast

definition with_new_model :: "string \<Rightarrow> controller \<Rightarrow> controller" where
  "with_new_model key c = c\<lparr>heap := (heap c)(next_address c \<mapsto> new_model kMessageRoles), next_address := next_address c + 1,
     conversationModels := conversationModels c @ [(key, next_address c)]\<rparr>"

lemma new_model_ok:
  assumes "models_ok c" "map_of (conversationModels c) key = None" "key \<noteq> []"
  shows "models_ok (with_new_model key c)"
proof -
  have "ran ((heap c)(next_address c \<mapsto> new_model kMessageRoles)) \<subseteq> insert (new_model kMessageRoles) (ran (heap c))"
    by (auto simp: ran_def split: if_splits)
  moreover from assms(2) have "key \<notin> fst ` set (conversationModels c)" by (simp add: map_of_eq_None_iff)
  moreover have "next_address c \<notin> snd ` set (conversationModels c)" using assms(1) by (auto simp: models_ok_def)
  ultimately show ?thesis
    using assms(1,3) unfolding models_ok_def with_new_model_def by (simp add: insert_commute) (auto simp: less_Suc_eq)
qed

lemma touch_models [simp]: "models_ok (touch key c) = models_ok c"
  by (simp add: models_ok_def touch_def Let_def)

text \<open>
  \<open>ensureConversationModel\<close> changes nothing but the models, leaves the requested key with the returned
  model and the shown key with its own.
\<close>

definition ensured :: "string \<Rightarrow> controller \<Rightarrow> nat \<Rightarrow> controller \<Rightarrow> bool" where
  "ensured key c p d \<longleftrightarrow>
     (\<exists>h n ms os q. d = c\<lparr>heap := h, next_address := n, conversationModels := ms, accessOrder := os, accessSequence := q\<rparr> \<and>
        map_of ms key = Some p \<and> (activeConversationKey c \<noteq> key \<longrightarrow>
          map_of ms (activeConversationKey c) = map_of (conversationModels c) (activeConversationKey c)) \<and>
        (\<forall>r. map_of (conversationModels c) key = Some r \<longrightarrow> r = p))"

lemma ensure_existing:
  assumes "map_of (conversationModels c) key = Some p"
  shows "ensured key c p (touch key c)"
proof -
  obtain os q where t: "touch key c = c\<lparr>accessSequence := q, accessOrder := os\<rparr>" using touch_frame by blast
  show ?thesis
    unfolding ensured_def t
    by (rule exI [of _ "heap c"], rule exI [of _ "next_address c"], rule exI [of _ "conversationModels c"],
        rule exI [of _ os], rule exI [of _ q]) (simp add: assms)
qed

lemma ensure_fresh:
  assumes "map_of (conversationModels c) key = None" and tr: "trimmed_from key (touch key (with_new_model key c)) d"
  shows "ensured key c (next_address c) d"
proof -
  define e where "e = touch key (with_new_model key c)"
  from tr obtain h ms os where
    d: "d = e\<lparr>heap := h, conversationModels := ms, accessOrder := os\<rparr>"
      "map_of ms (activeConversationKey e) = map_of (conversationModels e) (activeConversationKey e)"
      "map_of ms key = map_of (conversationModels e) key"
    unfolding trimmed_from_def e_def by blast
  have e_map: "map_of (conversationModels e) key = Some (next_address c)"
    "k \<noteq> key \<Longrightarrow> map_of (conversationModels e) k = map_of (conversationModels c) k" for k
    using assms(1) by (auto simp: e_def touch_def Let_def with_new_model_def map_add_def split: option.splits)
  have act: "activeConversationKey e = activeConversationKey c" by (simp add: e_def touch_def Let_def with_new_model_def)
  have d_eq: "d = c\<lparr>heap := h, next_address := next_address c + 1, conversationModels := ms, accessOrder := os,
    accessSequence := (accessSequence c + 1) mod 2 ^ 64\<rparr>"
    unfolding d(1) by (simp add: e_def touch_def Let_def with_new_model_def)
  show ?thesis
    unfolding ensured_def
    by (rule exI, rule exI, rule exI, rule exI, rule exI, intro conjI, rule d_eq) (use d(2,3) e_map act assms(1) in simp_all)
qed

lemma ensure_ok:
  assumes "models_ok c" "cache_ok n c" "key \<noteq> []" and step: "ensureConversationModel key c = (p, d)"
  shows "models_ok d \<and> cache_ok (Suc n) d \<and> ensured key c p d"
proof (cases "map_of (conversationModels c) key")
  case (Some q)
  with step have pd: "q = p" "d = touch key c" by (simp_all add: ensureConversationModel_def)
  have "length (conversationModels d) = length (conversationModels c)" by (simp add: pd touch_def Let_def)
  then have "cache_ok (n + 1) d" using assms(2) touch_cache [of c n key] by (simp add: cache_ok_def pd)
  with Some assms(1) show ?thesis by (simp add: pd ensure_existing)
next
  case None
  define e where "e = touch key (with_new_model key c)"
  from step None have p: "p = next_address c" and d: "d = trimConversationModelCache key e"
    by (auto simp: ensureConversationModel_def Let_def e_def with_new_model_def)
  have e_ok: "models_ok e" using new_model_ok [OF assms(1) None assms(3)] by (simp add: e_def)
  have e_cache: "(\<forall>x \<in> snd ` set (accessOrder e). x \<le> n + 1) \<and> accessSequence e \<le> n + 1" if "n + 1 < 2 ^ 64 - 1"
  proof -
    have "\<forall>x \<in> snd ` set (accessOrder (with_new_model key c)). x \<le> n" "accessSequence (with_new_model key c) \<le> n"
      using assms(2) that by (simp_all add: cache_ok_def with_new_model_def)
    from touch_cache [OF this that] show ?thesis unfolding e_def by blast
  qed
  have d_ok: "models_ok d" and tr: "trimmed_from key e d" and
    len: "n + 1 < 2 ^ 64 - 1 \<and> (\<forall>x \<in> snd ` set (accessOrder e). x \<le> n + 1) \<longrightarrow>
      length (conversationModels d) \<le> kMaxCachedConversationModels"
    using trim_keeps [OF e_ok, of key "n + 1"] unfolding d by blast+
  from tr have "set (accessOrder d) \<subseteq> set (accessOrder e)" "accessSequence d = accessSequence e"
    by (auto simp: trimmed_from_def)
  then have "\<forall>x \<in> snd ` set (accessOrder d). x \<le> n + 1" "accessSequence d \<le> n + 1" if "n + 1 < 2 ^ 64 - 1"
    using e_cache [OF that] by auto
  with len e_cache have "cache_ok (n + 1) d" unfolding cache_ok_def by simp
  with d_ok tr None show ?thesis unfolding p e_def by (simp add: ensure_fresh)
qed

section \<open>Every operation\<close>

lemma cache_mono: "cache_ok n c \<Longrightarrow> n \<le> n' \<Longrightarrow> cache_ok n' c"
  by (auto simp: cache_ok_def)

lemma inv_mono: "ctl_inv n c \<Longrightarrow> ctl_inv (Suc n) c"
  using cache_mono [of n c "Suc n"] by (simp add: ctl_inv_def)

lemma ensure_inv:
  assumes "ctl_inv n c" "key \<noteq> []" "ensureConversationModel key c = (p, d)"
  shows "ctl_inv (Suc n) d"
proof -
  from assms have "models_ok d" "cache_ok (Suc n) d" and e: "ensured key c p d"
    using ensure_ok [of c n key p d] by (auto simp: ctl_inv_def)
  moreover from e assms(1) have "shows_active d"
    by (cases "activeConversationKey c = key") (auto simp: ensured_def shows_active_def ctl_inv_def)
  ultimately show ?thesis using assms(1) e by (auto simp: ctl_inv_def ensured_def)
qed

lemma ensure_select_inv:
  assumes "models_ok c" "cache_ok n c" "small (roomModel c)" "small (directMessageModel c)" "small (memberModel c)" "key \<noteq> []"
    "ensureConversationModel key c = (p, d)"
  shows "ctl_inv (Suc n) (d\<lparr>messageModel := p, activeConversationKey := key\<rparr>)"
proof -
  from assms have "models_ok d" "cache_ok (Suc n) d" and e: "ensured key c p d"
    using ensure_ok [of c n key p d] by auto
  moreover have "map_of (conversationModels d) key = Some p" "roomModel d = roomModel c" "directMessageModel d = directMessageModel c"
    "memberModel d = memberModel c" using e by (auto simp: ensured_def)
  ultimately show ?thesis
    using assms by (simp add: ctl_inv_def models_ok_def cache_ok_def shows_active_def)
qed

lemma append_to_inv [intro]: "ctl_inv n c \<Longrightarrow> ctl_inv n (append_to p row c)"
  unfolding append_to_def by (rule with_model_inv) simp_all

lemma system_message_inv [intro]: "ctl_inv n c \<Longrightarrow> ctl_inv n (appendSystemMessage e t c)"
  "ctl_inv n c \<Longrightarrow> ctl_inv n (appendSystemMessageToModel e p t c)"
  by (auto simp: appendSystemMessage_def appendSystemMessageToModel_def)

lemma plain_ops [simp]:
  "ctl_inv n (setStatus s c) = ctl_inv n c" "ctl_inv n (set_identity nm cd c) = ctl_inv n c"
  "ctl_inv n (set_can_manage b c) = ctl_inv n c" "ctl_inv n (set_admin b c) = ctl_inv n c"
  "ctl_inv n (requestActiveHistory i q c) = ctl_inv n c" "ctl_inv n (searchActiveHistory e t c) = ctl_inv n c"
  "ctl_inv n (refresh_tick c) = ctl_inv n c" "ctl_inv n (ctl_disconnectFromServer c) = ctl_inv n c"
  "ctl_inv n (saveConnectionPreferences e ip port nm cd ca c) = ctl_inv n c"
  "ctl_inv n (copyText s c) = ctl_inv n c" "ctl_inv n (ctl_createRoom e t b c) = ctl_inv n c"
  "ctl_inv n (setBundledCaFile e t c) = ctl_inv n c"
  by (simp_all add: setStatus_def set_identity_def set_can_manage_def set_admin_def requestActiveHistory_def searchActiveHistory_def
      refresh_tick_def ctl_disconnectFromServer_def saveConnectionPreferences_def copyText_def ctl_createRoom_def setBundledCaFile_def
      Let_def)

lemma frame_both [simp]: "ctl_inv n (c\<lparr>refreshTimer := b, connected := b'\<rparr>) = ctl_inv n c"
  by (simp add: ctl_inv_def models_ok_def cache_ok_def shows_active_def)

lemma update_all_inv [intro]:
  "ctl_inv n c \<Longrightarrow> ctl_inv n (each_model (update_message i vals) c)"
  "ctl_inv n c \<Longrightarrow> ctl_inv n (with_model p (update_message i vals) c)"
  "ctl_inv n c \<Longrightarrow> ctl_inv n (each_model (\<lambda>m. fst (removeRowsByValue k v m)) c)"
  "ctl_inv n c \<Longrightarrow> ctl_inv n (each_model (\<lambda>m. fst (clear_model m)) c)"
  by (auto intro: each_model_inv with_model_inv)

lemma send_inv:
  "ctl_inv n c \<Longrightarrow> ctl_inv (Suc n) (sendRoomMessage e uuid t r c)"
  "ctl_inv n c \<Longrightarrow> ctl_inv (Suc n) (sendPrivateMessage e uuid t r c)"
  by (auto simp: sendRoomMessage_def sendPrivateMessage_def Let_def intro: inv_mono ensure_inv split: prod.splits)

lemma select_parts:
  assumes "ctl_inv n c"
  shows "models_ok (c\<lparr>historySearchQuery := q\<rparr>)" "cache_ok n (c\<lparr>historySearchQuery := q\<rparr>)"
    "small (roomModel c)" "small (directMessageModel c)" "small (memberModel c)"
  using assms by (simp_all add: ctl_inv_def models_ok_def cache_ok_def)

lemma select_room_inv:
  assumes "ctl_inv n c"
  shows "ctl_inv (Suc n) (selectRoom e r c)"
proof -
  define key where "key = ''room:'' @ r"
  obtain p d where d: "ensureConversationModel key (c\<lparr>historySearchQuery := []\<rparr>) = (p, d)" by fastforce
  have base: "ctl_inv (Suc n) (d\<lparr>messageModel := p, activeConversationKey := key\<rparr>)"
    using select_parts [OF assms] by (intro ensure_select_inv [OF _ _ _ _ _ _ d]) (simp_all add: key_def)
  have "ctl_inv (Suc n) (d\<lparr>messageModel := p, activeConversationKey := key, roomModel := set_value i k v (roomModel d)\<rparr>)" for i k v
    using frame_lists(1) [OF base, of "set_value i k v (roomModel d)"] inv_small(1) [OF base] by simp
  with base show ?thesis
    unfolding selectRoom_def Let_def key_def [symmetric] d prod.case by (simp split: option.splits)
qed

lemma select_direct_inv:
  assumes "ctl_inv n c"
  shows "ctl_inv (Suc n) (selectDirectMessage e r c)"
proof -
  define key where "key = ''dm:'' @ r"
  obtain p d where d: "ensureConversationModel key (c\<lparr>historySearchQuery := []\<rparr>) = (p, d)" by fastforce
  have base: "ctl_inv (Suc n) (d\<lparr>messageModel := p, activeConversationKey := key\<rparr>)"
    using select_parts [OF assms] by (intro ensure_select_inv [OF _ _ _ _ _ _ d]) (simp_all add: key_def)
  have "ctl_inv (Suc n) (d\<lparr>messageModel := p, activeConversationKey := key, directMessageModel := set_value i k v (directMessageModel d)\<rparr>)" for i k v
    using frame_lists(2) [OF base, of "set_value i k v (directMessageModel d)"] inv_small(2) [OF base] by simp
  with base show ?thesis
    unfolding selectDirectMessage_def Let_def key_def [symmetric] d prod.case by (simp split: option.splits)
qed

lemma open_private_inv: "ctl_inv n c \<Longrightarrow> ctl_inv (Suc n) (openPrivateChat e nm cd c)"
  by (auto simp: openPrivateChat_def Let_def intro!: select_direct_inv frame_lists(2) small_ops intro: inv_mono inv_small(2))

lemma reset_inv:
  assumes "ctl_inv n c"
  shows "ctl_inv (Suc n) (resetSessionData c)"
proof -
  define c1 where "c1 = each_model (\<lambda>m. fst (clear_model m))
           (c\<lparr>roomModel := fst (replaceRows [fmap_of_list [(''roomName'', VStr ''lobby''), (''memberCount'', VInt 0),
                 (''unreadCount'', VInt 0)]] (roomModel c)),
             directMessageModel := fst (replaceRows [] (directMessageModel c)),
             memberModel := fst (replaceRows [] (memberModel c))\<rparr>)"
  have "ctl_inv n c1"
    unfolding c1_def using inv_small [OF assms] assms by (intro update_all_inv frame_lists) simp_all
  then have ok: "models_ok (c1\<lparr>activeConversationKey := k, joinedRoom := r\<rparr>)"
    "cache_ok n (c1\<lparr>activeConversationKey := k, joinedRoom := r\<rparr>)" "small (roomModel c1)" "small (directMessageModel c1)"
    "small (memberModel c1)" for k r
    by (simp_all add: ctl_inv_def models_ok_def cache_ok_def)
  obtain p d where d: "ensureConversationModel ''room:lobby'' (c1\<lparr>activeConversationKey := ''room:lobby'', joinedRoom := ''lobby''\<rparr>) = (p, d)"
    by fastforce
  have "activeConversationKey d = ''room:lobby''"
    using ensure_ok [OF ok(1,2) _ d] by (auto simp: ensured_def)
  moreover have "ctl_inv (Suc n) (d\<lparr>messageModel := p, activeConversationKey := ''room:lobby''\<rparr>)"
    using ok by (intro ensure_select_inv [OF _ _ _ _ _ _ d]) simp_all
  ultimately have "ctl_inv (Suc n) (d\<lparr>messageModel := p, historyLoading := False, historySearchQuery := [], onlineMemberCount := 0\<rparr>)"
    by (simp add: ctl_inv_def models_ok_def cache_ok_def shows_active_def)
  then show ?thesis unfolding resetSessionData_def Let_def c1_def [symmetric] by (simp add: d)
qed

lemma connected_inv: "ctl_inv n c \<Longrightarrow> ctl_inv (Suc n) (handleConnected b c)"
  using inv_mono [of n c] reset_inv [of n c] by (simp add: handleConnected_def Let_def)

lemma worker_signal_inv [intro]:
  "ctl_inv n c \<Longrightarrow> ctl_inv n (handleConnectionFailed e t c)" "ctl_inv n c \<Longrightarrow> ctl_inv n (handleConnectionLost t c)"
  "ctl_inv n c \<Longrightarrow> ctl_inv n (handleReconnectScheduled i j c)" "ctl_inv n c \<Longrightarrow> ctl_inv n (handleReconnectAttempt i c)"
  "ctl_inv n c \<Longrightarrow> ctl_inv n (handleReconnectFailed t c)" "ctl_inv n c \<Longrightarrow> ctl_inv n (message_delivery_failed t c)"
  "ctl_inv n c \<Longrightarrow> ctl_inv n (removeLocalMessage t c)" "ctl_inv n c \<Longrightarrow> ctl_inv n (snd (recallMessage e t u c))"
  by (auto simp: handleConnectionFailed_def handleConnectionLost_def handleReconnectScheduled_def handleReconnectAttempt_def
      handleReconnectFailed_def message_delivery_failed_def removeLocalMessage_def recallMessage_def Let_def)

lemma retry_inv [intro]: "ctl_inv n c \<Longrightarrow> ctl_inv n (snd (retryMessage t c))"
  by (auto simp: retryMessage_def Let_def split: option.splits)

lemma history_inv [intro]: "ctl_inv n c \<Longrightarrow> ctl_inv n (handleHistory e r t b ms q c)"
  by (auto simp: handleHistory_def Let_def intro!: with_model_inv)

lemma users_inv: "ctl_inv n c \<Longrightarrow> ctl_inv n (on_users_response e u c)"
proof -
  assume c: "ctl_inv n c"
  have "ctl_inv n (c\<lparr>roomMemberCounts := rc, memberModel := fst (replaceRows ms (memberModel c)),
      directMessageModel := fst (replaceRows ds (directMessageModel c)), roomModel := fst (updateRows us (roomModel c))\<rparr>)" for rc ms ds us
    using inv_small [OF c] c by (intro frame_lists) simp_all
  then show ?thesis by (simp add: on_users_response_def Let_def)
qed

lemma rooms_inv: "ctl_inv n c \<Longrightarrow> ctl_inv n (on_rooms_response u c)"
  unfolding on_rooms_response_def Let_def by (simp add: frame_lists(1) inv_small(1))

lemma unread_inv: "ctl_inv n c \<Longrightarrow> ctl_inv n (incrementUnreadForConversation e k nm cd c)"
  by (auto simp: incrementUnreadForConversation_def Let_def split: option.splits
      intro!: frame_lists(1) frame_lists(2) small_ops small_set_value intro: inv_small)

lemma chat_inv:
  assumes "ctl_inv n c"
  shows "ctl_inv (Suc n) (on_chat e u c)"
proof -
  define key where "key = conversation_key e u c"
  have key: "key \<noteq> []" by (simp add: key_def conversation_key_def)
  define c1 where "c1 = (if um_message_id u = [] then c\<lparr>localMessageCounter := localMessageCounter c + 1\<rparr> else c)"
  define i where "i = (if um_message_id u = [] then ''local-'' @ to_string (localMessageCounter c1) else um_message_id u)"
  have "ctl_inv n (c1\<lparr>pendingAttachmentMetadata := hash_remove i (pendingAttachmentMetadata c1)\<rparr>)"
    using assms by (simp add: c1_def)
  moreover obtain p d where pd: "ensureConversationModel key
      (c1\<lparr>pendingAttachmentMetadata := hash_remove i (pendingAttachmentMetadata c1)\<rparr>) = (p, d)" by fastforce
  ultimately have "ctl_inv (Suc n) (append_to p row d)" for row
    by (intro append_to_inv ensure_inv [OF _ key pd])
  then show ?thesis
    unfolding on_chat_def Let_def key_def [symmetric] c1_def [symmetric] i_def [symmetric] pd prod.case by (simp add: unread_inv)
qed

lemma room_system_inv: "ctl_inv n c \<Longrightarrow> ctl_inv (Suc n) (on_room_system e u c)"
  by (auto simp: on_room_system_def intro: ensure_inv split: prod.splits)

lemma other_messages_inv [intro]:
  "ctl_inv n c \<Longrightarrow> ctl_inv n (on_delivery_receipt u c)" "ctl_inv n c \<Longrightarrow> ctl_inv n (on_approval_request u c)"
  "ctl_inv n c \<Longrightarrow> ctl_inv n (on_approval_result e u c)" "ctl_inv n c \<Longrightarrow> ctl_inv n (on_recalled u c)"
  "ctl_inv n c \<Longrightarrow> ctl_inv n (on_error u c)"
  by (auto simp: on_delivery_receipt_def on_approval_request_def on_approval_result_def on_recalled_def on_error_def Let_def
      split: option.splits)

lemma message_inv: "ctl_inv n c \<Longrightarrow> ctl_inv (Suc n) (handleMessage e u c)"
  using inv_mono [of n c] users_inv [of "Suc n" c e u] rooms_inv [of "Suc n" c u] chat_inv [of n c e u] room_system_inv [of n c e u]
    other_messages_inv [of "Suc n" c]
  unfolding handleMessage_def Let_def by (simp add: system_message_inv)

lemma attachment_event_inv: "ctl_inv n c \<Longrightarrow> ctl_inv n (handleAttachmentEvent e t a i s c)"
  unfolding handleAttachmentEvent_def Let_def by (auto split: option.splits qjson.splits)

section \<open>Runs\<close>

text \<open>Everything that can happen to the controller: calls of the page, the timer, and signals of the worker.\<close>

datatype ctl_event =
    ConnectEvent string int string string string string
  | LocalHostEvent string string string string string string
  | DisconnectEvent
  | BundledCaEvent string
  | RoomMessageEvent string string string
  | PrivateMessageEvent string string string
  | TickEvent
  | HistoryRequestEvent string string
  | SearchEvent string
  | CreateRoomEvent string bool
  | SelectRoomEvent string
  | SelectDirectEvent string
  | OpenPrivateEvent string string
  | CopyEvent string
  | RemoveLocalEvent string
  | RecallEvent string string
  | RetryEvent string
  | UploadEvent string string string
  | DownloadEvent string string int string
  | ForwardEvent worker_call
  | ConnectedEvent bool
  | FailedEvent string
  | LostEvent string
  | ReconnectScheduledEvent int int
  | ReconnectAttemptEvent int
  | ReconnectFailedEvent string
  | DeliveryFailedEvent string
  | HistoryEvent string string bool "QVariantMap list" string
  | MessageEvent ui_message
  | AttachmentEvent string string string string

fun run_event :: "ctl_env \<Rightarrow> ctl_event \<Rightarrow> controller \<Rightarrow> controller" where
  "run_event e (ConnectEvent ip port nm cd ca tls) c = connectToServerWithTlsName e ip port nm cd ca tls c"
| "run_event e (LocalHostEvent exe cert key db nm cd) c = ctl_connectToLocalHost e exe cert key db nm cd c"
| "run_event e DisconnectEvent c = ctl_disconnectFromServer c"
| "run_event e (BundledCaEvent p) c = setBundledCaFile e p c"
| "run_event e (RoomMessageEvent uuid s r) c = sendRoomMessage e uuid s r c"
| "run_event e (PrivateMessageEvent uuid s t) c = sendPrivateMessage e uuid s t c"
| "run_event e TickEvent c = refresh_tick c"
| "run_event e (HistoryRequestEvent i q) c = requestActiveHistory i q c"
| "run_event e (SearchEvent q) c = searchActiveHistory e q c"
| "run_event e (CreateRoomEvent r b) c = ctl_createRoom e r b c"
| "run_event e (SelectRoomEvent r) c = selectRoom e r c"
| "run_event e (SelectDirectEvent t) c = selectDirectMessage e t c"
| "run_event e (OpenPrivateEvent nm t) c = openPrivateChat e nm t c"
| "run_event e (CopyEvent s) c = copyText s c"
| "run_event e (RemoveLocalEvent i) c = removeLocalMessage i c"
| "run_event e (RecallEvent i k) c = snd (recallMessage e i k c)"
| "run_event e (RetryEvent i) c = snd (retryMessage i c)"
| "run_event e (UploadEvent path r k) c = chooseAndUploadAttachment e path r k c"
| "run_event e (DownloadEvent path a i k) c = ctl_sendAttachmentDownload path a i k c"
| "run_event e (ForwardEvent w) c = invoke w c"
| "run_event e (ConnectedEvent b) c = handleConnected b c"
| "run_event e (FailedEvent t) c = handleConnectionFailed e t c"
| "run_event e (LostEvent t) c = handleConnectionLost t c"
| "run_event e (ReconnectScheduledEvent i d) c = handleReconnectScheduled i d c"
| "run_event e (ReconnectAttemptEvent i) c = handleReconnectAttempt i c"
| "run_event e (ReconnectFailedEvent t) c = handleReconnectFailed t c"
| "run_event e (DeliveryFailedEvent i) c = message_delivery_failed i c"
| "run_event e (HistoryEvent r t b ms q) c = handleHistory e r t b ms q c"
| "run_event e (MessageEvent u) c = handleMessage e u c"
| "run_event e (AttachmentEvent t a k s) c = handleAttachmentEvent e t a k s c"

lemma run_event_inv: "ctl_inv n c \<Longrightarrow> ctl_inv (Suc n) (run_event e ev c)"
  using inv_mono [of n c]
  by (cases ev)
    (auto simp: connectToServerWithTlsName_def ctl_connectToLocalHost_def chooseAndUploadAttachment_def ctl_sendAttachmentDownload_def
      intro: send_inv select_room_inv select_direct_inv open_private_inv connected_inv message_inv attachment_event_inv)

lemma new_controller_inv: "ctl_inv (Suc 0) new_controller"
  by (simp add: ctl_inv_def models_ok_def cache_ok_def shows_active_def new_controller_def kMaxCachedConversationModels_def)

interpretation ctl: invariant_system "\<lambda>s. s = (1, new_controller)" "\<lambda>(n, c) (m, d). m = Suc n \<and> (\<exists>e ev. d = run_event e ev c)"
    "\<lambda>(n, c). ctl_inv n c"
  by unfold_locales (auto simp: new_controller_inv run_event_inv)

text \<open>A run: the events, each with the environment in which it happens (the clock moves on).\<close>

definition run_events :: "(ctl_env \<times> ctl_event) list \<Rightarrow> controller \<Rightarrow> controller" where
  "run_events evs c = fold (\<lambda>(e, ev). run_event e ev) evs c"

lemma run_events_reachable:
  "reachable (\<lambda>s. s = (1, new_controller)) (\<lambda>(n, c) (m, d). m = Suc n \<and> (\<exists>e ev. d = run_event e ev c))
     (Suc (length evs), run_events evs new_controller)"
proof (induction evs rule: rev_induct)
  case Nil
  show ?case by (rule reachable_init) (simp add: run_events_def)
next
  case (snoc x evs)
  obtain e ev where x: "x = (e, ev)" by fastforce
  show ?case by (rule reachable_step [OF snoc.IH]) (auto simp: x run_events_def)
qed

section \<open>Properties\<close>

definition sample_env :: ctl_env where
  "sample_env = \<lparr>qt = plain_text, foldCase = id, clock = ''10:00'', local_time = Map.empty, file_exists = (\<lambda>_. False),
     absolute_path = id, parse_json = Map.empty\<rparr>"

text \<open>
  C9. No dangling model: whatever the page, the refresh timer and the worker do, in any order, the
  message model the page shows is alive and is the one cached under the active conversation; exactly the
  cached models are alive; and neither a conversation nor one of the room, contact and member lists
  ever has more than 1000 rows.
\<close>

theorem shown_model_alive:
  "let c = run_events evs new_controller in
     heap c (messageModel c) \<noteq> None \<and> map_of (conversationModels c) (activeConversationKey c) = Some (messageModel c) \<and>
     dom (heap c) = snd ` set (conversationModels c) \<and> distinct (map fst (conversationModels c)) \<and>
     (\<lambda>m. length (rows m)) ` (ran (heap c) \<union> {roomModel c, directMessageModel c, memberModel c}) \<subseteq> {.. kMaxRowsPerModel}"
proof -
  define c where "c = run_events evs new_controller"
  have inv: "ctl_inv (Suc (length evs)) c"
    using ctl.reachable_inv [OF run_events_reachable [of evs]] by (simp add: c_def)
  then have "map_of (conversationModels c) (activeConversationKey c) = Some (messageModel c)"
    by (simp add: ctl_inv_def shows_active_def)
  moreover from this have "messageModel c \<in> snd ` set (conversationModels c)" by (force dest: map_of_SomeD)
  ultimately show ?thesis
    using inv unfolding ctl_inv_def models_ok_def small_def c_def [symmetric] Let_def by auto
qed

text \<open>
  C32. The cache of conversation models stays within its limit of eight, however many rooms and contacts are
  opened and write, until the 64-bit access counter has counted \<open>2 ^ 64 - 2\<close> events.
\<close>

theorem cache_within_limit:
  assumes "length evs < 2 ^ 64 - 2"
  shows "length (conversationModels (run_events evs new_controller)) \<le> kMaxCachedConversationModels"
proof -
  have "Suc (length evs) < 2 ^ 64 - 1" using assms by simp
  then show ?thesis
    using ctl.reachable_inv [OF run_events_reachable [of evs]] by (simp add: ctl_inv_def cache_ok_def)
qed

theorem cache_within_limit_witness:
  "length (conversationModels (run_events (replicate 12 (sample_env, SelectRoomEvent ''a'')) new_controller)) \<le> kMaxCachedConversationModels"
  by (rule cache_within_limit) simp

text \<open>
  The least recently used conversation goes first: when the cache is over its limit and the access
  counter has not wrapped, the key chosen is cached, is neither the shown nor the requested one, and no
  other such key was used longer ago.
\<close>

theorem evicts_least_recently_used:
  assumes "models_ok c" and "kMaxCachedConversationModels < length (conversationModels c)"
    and "\<forall>x \<in> snd ` set (accessOrder c). x \<le> n" and "n < 2 ^ 64 - 1"
  shows "let k = lru_key key c; E = fst ` set (conversationModels c) - {activeConversationKey c, key} in
    k \<in> E \<and> (\<forall>k' \<in> E. hash_value (accessOrder c) k 0 \<le> hash_value (accessOrder c) k' 0)"
proof -
  have "distinct (map fst (conversationModels c))" "2 < length (conversationModels c)"
    using assms(1,2) by (simp_all add: models_ok_def kMaxCachedConversationModels_def)
  from lru_key_evictable [OF evictable_exists [OF this] assms(3,4), of key]
  show ?thesis by (simp only: Let_def evictable_def)
qed

text \<open>Nine conversations; the second one was used least recently.\<close>

definition nine_models :: controller where
  "nine_models = new_controller\<lparr>
     heap := Map.empty(0 \<mapsto> new_model [], 1 \<mapsto> new_model [], 2 \<mapsto> new_model [], 3 \<mapsto> new_model [], 4 \<mapsto> new_model [],
       5 \<mapsto> new_model [], 6 \<mapsto> new_model [], 7 \<mapsto> new_model [], 8 \<mapsto> new_model []),
     next_address := 9,
     conversationModels := [(''room:lobby'', 0), (''a'', 1), (''b'', 2), (''c'', 3), (''d'', 4), (''e'', 5), (''f'', 6), (''g'', 7), (''h'', 8)],
     accessOrder := [(''room:lobby'', 1), (''a'', 3), (''b'', 2), (''c'', 4), (''d'', 5), (''e'', 6), (''f'', 7), (''g'', 8), (''h'', 9)],
     accessSequence := 9\<rparr>"

theorem evicts_least_recently_used_witness:
  "lru_key ''h'' nine_models = ''b'' \<and> lru_key ''h'' nine_models \<noteq> activeConversationKey nine_models"
proof
  show "lru_key ''h'' nine_models = ''b''" by (simp add: lru_key_def nine_models_def hash_value_def new_controller_def)
  have "models_ok nine_models"
    unfolding models_ok_def nine_models_def by (auto simp: ran_def small_new_model)
  then show "lru_key ''h'' nine_models \<noteq> activeConversationKey nine_models"
    using evicts_least_recently_used [of nine_models 9 "''h''"]
    by (simp add: nine_models_def kMaxCachedConversationModels_def Let_def)
qed

end
