(* ===== verification/Gui_Behaviour.thy ===== *)
theory Gui_Behaviour
  imports Gui_Invariant
begin

text \<open>
  What the controller of \<open>Gui_Controller\<close> does for its users: the echo of a sent message, retries, recovery
  of a lost connection and loading of the history, the last two with their failures.
\<close>

section \<open>Own messages\<close>

lemma own_row_id: "text_id (fmap_of_list (message_row i n cd t s a b d)) = i"
  by (simp add: text_id_def message_row_def value_of_def fmap_of_list.rep_eq toString_def)

lemma message_roles: "roleForName (new_model kMessageRoles) ''messageId'' \<noteq> DisplayRole"
  by (simp add: new_model_def kMessageRoles_def roleForName_def UserRole_def DisplayRole_def)

lemma append_single:
  assumes "roleForName m ''messageId'' \<noteq> DisplayRole" "length (rows m) \<le> kMaxRowsPerModel" "text_id row \<noteq> []"
  shows "findRow (rows m) ''messageId'' (VStr (text_id row)) = Some i \<Longrightarrow>
      rows (fst (append_row row m)) = (rows m)[i := rows m ! i ++\<^sub>f row]"
    and "findRow (rows m) ''messageId'' (VStr (text_id row)) = None \<Longrightarrow>
      rows (fst (append_row row m)) = drop (Suc (length (rows m)) - kMaxRowsPerModel) (rows m @ [row])"
proof -
  assume i: "findRow (rows m) ''messageId'' (VStr (text_id row)) = Some i"
  have "i < length (rows m)" and "row \<noteq> fmempty" using findRow_Some [OF i] has_id [OF assms(3)] by fastforce+
  with i assms show "rows (fst (append_row row m)) = (rows m)[i := rows m ! i ++\<^sub>f row]"
    by (simp add: append_row_def appendRows_rows text_id_def updateRow_def Let_def)
next
  assume "findRow (rows m) ''messageId'' (VStr (text_id row)) = None"
  with insert_behind_newest [OF assms(2), of "[row]"] assms(1,3)
  show "rows (fst (append_row row m)) = drop (Suc (length (rows m)) - kMaxRowsPerModel) (rows m @ [row])"
    by (simp add: append_row_def appendRows_rows text_id_def Let_def)
qed

text \<open>A message sent and its echo: what two appends with the same new id leave.\<close>

lemma append_twice:
  assumes "roleForName m ''messageId'' \<noteq> DisplayRole" "length (rows m) \<le> kMaxRowsPerModel"
    and "text_id r1 \<noteq> []" "text_id r2 = text_id r1" "value_of r1 ''messageId'' = VStr (text_id r1)"
    and "findRow (rows m) ''messageId'' (VStr (text_id r1)) = None"
  shows "rows (fst (append_row r2 (fst (append_row r1 m)))) =
    drop (Suc (length (rows m)) - kMaxRowsPerModel) (rows m @ [r1 ++\<^sub>f r2])"
proof -
  let ?k = "Suc (length (rows m)) - kMaxRowsPerModel" and ?m = "fst (append_row r1 m)"
  have k: "?k \<le> length (rows m)" by (simp add: kMaxRowsPerModel_def)
  have r: "rows ?m = drop ?k (rows m) @ [r1]" using append_single(2) [OF assms(1-3,6)] k by simp
  have roles: "roleForName ?m = roleForName m"
    by (auto simp: append_row_def appendRows_def roleForName_def Let_def split: prod.splits)
  have "\<forall>x \<in> set (drop ?k (rows m)). value_of x ''messageId'' \<noteq> VStr (text_id r1)"
    using assms(6) set_drop_subset [of ?k "rows m"] by (auto simp: findRow_def first_index_None)
  then have "findRow (rows ?m) ''messageId'' (VStr (text_id r2)) = Some (length (drop ?k (rows m)))"
    unfolding r findRow_def assms(4) by (rule first_index_append_Some) (rule assms(5))
  moreover have "length (rows ?m) \<le> kMaxRowsPerModel" using assms(2) k by (simp add: r)
  ultimately have merged: "rows (fst (append_row r2 ?m)) = (rows ?m)[length (drop ?k (rows m)) := rows ?m ! length (drop ?k (rows m)) ++\<^sub>f r2]"
    using assms(1,3,4) roles by (intro append_single(1)) simp_all
  have "(xs @ [r1])[length xs := (xs @ [r1]) ! length xs ++\<^sub>f r2] = xs @ [r1 ++\<^sub>f r2]" for xs by simp
  then show ?thesis unfolding merged unfolding r using k by (simp del: length_drop)
qed

lemma ensure_cached: "map_of (conversationModels c) key = Some p \<Longrightarrow> ensureConversationModel key c = (p, touch key c)"
  by (simp add: ensureConversationModel_def)

lemma touch_same [simp]: "heap (touch key c) = heap c" "conversationModels (touch key c) = conversationModels c"
  by (simp_all add: touch_def Let_def)

lemma unread_heap [simp]: "heap (incrementUnreadForConversation e k n cd c) = heap c"
  by (simp add: incrementUnreadForConversation_def Let_def split: option.split)

lemma chat_heap:
  assumes "um_type u = ''chat''" "um_message_id u \<noteq> []" "um_room u \<noteq> []"
    and "map_of (conversationModels c) (''room:'' @ um_room u) = Some p" "heap c p = Some m"
  shows "\<exists>row. heap (handleMessage e u c) p = Some (fst (append_row row m)) \<and> text_id row = um_message_id u \<and>
    value_of row ''messageId'' = VStr (um_message_id u) \<and>
    value_of row ''deliveryState'' = VStr (if um_delivery_state u = [] then ''sent'' else um_delivery_state u) \<and>
    value_of row ''content'' = VStr (um_content u)"
proof -
  define key where "key = ''room:'' @ um_room u"
  have key: "conversation_key e u c = key" using assms(1,3) by (simp add: conversation_key_def key_def)
  define base where "base = message_row (um_message_id u) (effective_username e u c) (um_user_code u) (clock e) (um_content u)
     (is_self e (um_user_code u) c) False (if um_delivery_state u = [] then ''sent'' else um_delivery_state u)"
  define row where "row = (case map_of (pendingAttachmentMetadata c) (um_message_id u) of None \<Rightarrow> base | Some a \<Rightarrow> base @ [(''attachment'', a)])"
  let ?c = "c\<lparr>pendingAttachmentMetadata := hash_remove (um_message_id u) (pendingAttachmentMetadata c)\<rparr>"
  have "ensureConversationModel key ?c = (p, touch key ?c)" using assms(4) by (intro ensure_cached) (simp add: key_def)
  then have "heap (on_chat e u c) = (heap c)(p \<mapsto> fst (append_row (fmap_of_list row) m))"
    using assms(2,5) unfolding on_chat_def Let_def key base_def row_def by (simp add: append_to_def with_model_def)
  moreover have "handleMessage e u c = on_chat e u c" using assms(1) by (simp add: handleMessage_def)
  moreover have "text_id (fmap_of_list row) = um_message_id u" "value_of (fmap_of_list row) ''messageId'' = VStr (um_message_id u)"
    "value_of (fmap_of_list row) ''deliveryState'' = VStr (if um_delivery_state u = [] then ''sent'' else um_delivery_state u)"
    "value_of (fmap_of_list row) ''content'' = VStr (um_content u)"
    by (auto simp: row_def base_def text_id_def message_row_def value_of_def fmap_of_list.rep_eq toString_def split: option.splits)
  ultimately show ?thesis by auto
qed

text \<open>A message sent to a cached room is listed there as queued and handed to the worker.\<close>

lemma room_message_queued:
  assumes "trimmed (qt e) s = s" "s \<noteq> []" "trimmed (qt e) r = r" "r \<noteq> []"
    and "map_of (conversationModels c) (''room:'' @ r) = Some p" "heap c p = Some m"
  shows "\<exists>own. text_id own = uuid \<and> value_of own ''messageId'' = VStr uuid \<and> value_of own ''content'' = VStr s \<and>
    heap (sendRoomMessage e uuid s r c) = (heap c)(p \<mapsto> fst (append_row own m)) \<and>
    conversationModels (sendRoomMessage e uuid s r c) = conversationModels c \<and>
    messageModel (sendRoomMessage e uuid s r c) = messageModel c \<and>
    calls (sendRoomMessage e uuid s r c) = calls c @ [SendChatToRoom s r uuid]"
proof -
  define own where "own = fmap_of_list (message_row uuid (localUserName c) (localUserCode c) (clock e) s True False ''queued'')"
  have "sendRoomMessage e uuid s r c = invoke (SendChatToRoom s r uuid) (append_to p
      (message_row uuid (localUserName c) (localUserCode c) (clock e) s True False ''queued'') (touch (''room:'' @ r) c))"
    using assms(1-4) ensure_cached [OF assms(5)] by (simp add: sendRoomMessage_def)
  moreover have "value_of own ''messageId'' = VStr uuid" "value_of own ''content'' = VStr s"
    by (simp_all add: own_def message_row_def value_of_def fmap_of_list.rep_eq)
  ultimately show ?thesis
    using assms(6) by (intro exI [of _ own]) (simp add: own_def own_row_id invoke_def append_to_def with_model_def touch_def Let_def)
qed


definition echo_message :: ui_message where
  "echo_message = \<lparr>um_type = ''chat'', um_message_id = ''u1'', um_command_id = [], um_username = ''Alice'', um_user_code = ''A001'',
     um_content = ''hi'', um_room = ''lobby'', um_target = [], um_delivery_state = [], um_users = [], um_rooms = [],
     um_user_details = [], um_room_details = [], um_is_admin = False\<rparr>"


section \<open>Retrying\<close>

lemma find_row_ge: "0 \<le> find_row m k v \<longleftrightarrow> (\<exists>i. findRow (rows m) k v = Some i \<and> find_row m k v = int i)"
  by (auto simp: find_row_def split: option.splits)

text \<open>
  Only an own failed message is sent again: a retry succeeds exactly when some conversation lists an own
  message of this id that failed; it then queues this row and hands its text, under its old id, to the worker
  for the room or the contact of that conversation. A refused retry changes nothing.
\<close>

theorem retry_resends_failed_message:
  "case retryMessage i c of (ok, d) \<Rightarrow>
     ok = (i \<noteq> [] \<and> list_ex (retryable i c) (conversationModels c)) \<and>
     (if ok then \<exists>key p m row. (key, p) \<in> set (conversationModels c) \<and> heap c p = Some m \<and>
          findRow (rows m) ''messageId'' (VStr i) = Some row \<and> toString (value_of (rows m ! row) ''deliveryState'') = ''failed'' \<and>
          (let content = toString (value_of (rows m ! row) ''content'') in
           d = invoke (if starts_with ''dm:'' key then SendPrivate content (drop 3 key) i else SendChatToRoom content (drop 5 key) i)
             (with_model p (update_message i [(''deliveryState'', VStr ''queued'')]) c))
      else d = c)"
proof (cases "i = []")
  case True
  then show ?thesis by (simp add: retryMessage_def)
next
  case False
  show ?thesis
  proof (cases "find (retryable i c) (conversationModels c)")
    case None
    then have "\<not> list_ex (retryable i c) (conversationModels c)" by (auto simp: find_None_iff list_ex_iff)
    with False None show ?thesis by (simp add: retryMessage_def)
  next
    case (Some kp)
    obtain key p where kp: "kp = (key, p)" by fastforce
    from Some have in_models: "(key, p) \<in> set (conversationModels c)" and ok: "retryable i c (key, p)"
      by (auto simp: kp find_Some_iff)
    then have "list_ex (retryable i c) (conversationModels c)" by (auto simp: list_ex_iff)
    moreover from ok obtain m row where m: "heap c p = Some m" and row: "findRow (rows m) ''messageId'' (VStr i) = Some row"
      "find_row m ''messageId'' (VStr i) = int row" "toString (valueAt m (int row) ''deliveryState'') = ''failed''"
      by (auto simp: retryable_def Let_def find_row_ge split: option.splits)
    have "row < length (rows m)" using findRow_Some [OF row(1)] by simp
    then have "valueAt m (int row) k = value_of (rows m ! row) k" for k by (simp add: valueAt_def)
    ultimately show ?thesis
      using False Some m row in_models unfolding retryMessage_def kp Let_def by auto
  qed
qed

section \<open>Recovery\<close>

lemma setStatus_same [simp]:
  "heap (setStatus s c) = heap c" "conversationModels (setStatus s c) = conversationModels c"
  "activeConversationKey (setStatus s c) = activeConversationKey c" "messageModel (setStatus s c) = messageModel c"
  "calls (setStatus s c) = calls c" "historyLoading (setStatus s c) = historyLoading c" "connected (setStatus s c) = connected c"
  "reconnecting (setStatus s c) = reconnecting c" "roomModel (setStatus s c) = roomModel c"
  by (simp_all add: setStatus_def emit_sig_def)

lemma emit_same [simp]:
  "heap (emit_sig s c) = heap c" "conversationModels (emit_sig s c) = conversationModels c"
  "activeConversationKey (emit_sig s c) = activeConversationKey c" "messageModel (emit_sig s c) = messageModel c"
  "calls (emit_sig s c) = calls c" "historyLoading (emit_sig s c) = historyLoading c" "connected (emit_sig s c) = connected c"
  "reconnecting (emit_sig s c) = reconnecting c" "roomModel (emit_sig s c) = roomModel c"
  by (simp_all add: emit_sig_def)

lemma set_admin_same [simp]:
  "heap (set_admin b c) = heap c" "conversationModels (set_admin b c) = conversationModels c"
  "activeConversationKey (set_admin b c) = activeConversationKey c" "messageModel (set_admin b c) = messageModel c"
  "calls (set_admin b c) = calls c" "historyLoading (set_admin b c) = historyLoading c" "connected (set_admin b c) = connected c"
  "reconnecting (set_admin b c) = reconnecting c" "roomModel (set_admin b c) = roomModel c"
  by (simp_all add: set_admin_def)

lemma invoke_same [simp]:
  "heap (invoke w c) = heap c" "conversationModels (invoke w c) = conversationModels c"
  "activeConversationKey (invoke w c) = activeConversationKey c" "messageModel (invoke w c) = messageModel c"
  "calls (invoke w c) = calls c @ [w]" "historyLoading (invoke w c) = historyLoading c" "connected (invoke w c) = connected c"
  "reconnecting (invoke w c) = reconnecting c" "roomModel (invoke w c) = roomModel c"
  by (simp_all add: invoke_def)

lemma request_same [simp]:
  "heap (requestActiveHistory i q c) = heap c" "conversationModels (requestActiveHistory i q c) = conversationModels c"
  "activeConversationKey (requestActiveHistory i q c) = activeConversationKey c"
  "messageModel (requestActiveHistory i q c) = messageModel c" "connected (requestActiveHistory i q c) = connected c"
  "reconnecting (requestActiveHistory i q c) = reconnecting c" "roomModel (requestActiveHistory i q c) = roomModel c"
  by (simp_all add: requestActiveHistory_def Let_def)

text \<open>
  A recovered connection keeps the conversations: when the connection is lost and comes back, the models,
  their rows, the shown conversation and the room list are as before; the refreshing requests are sent.
\<close>

theorem recovery_keeps_conversations:
  "let d = handleConnected b (handleConnectionLost reason c) in
     heap d = heap c \<and> conversationModels d = conversationModels c \<and> activeConversationKey d = activeConversationKey c \<and>
     messageModel d = messageModel c \<and> roomModel d = roomModel c \<and> connected d \<and> \<not> reconnecting d \<and>
     (\<exists>hist. calls d = calls c @ [ScheduleReconnect, RequestRooms, RequestUsers] @ hist)"
proof -
  define d0 where "d0 = handleConnectionLost reason c"
  have d0: "heap d0 = heap c" "conversationModels d0 = conversationModels c" "activeConversationKey d0 = activeConversationKey c"
    "messageModel d0 = messageModel c" "roomModel d0 = roomModel c" "reconnecting d0" "calls d0 = calls c @ [ScheduleReconnect]"
    by (simp_all add: d0_def handleConnectionLost_def Let_def)
  define hist where "hist x = (if \<not> connected x \<or> historyLoading x then [] else
      let isPrivate = starts_with ''dm:'' (activeConversationKey x) in
      [RequestHistory (if isPrivate then [] else drop 5 (activeConversationKey x))
         (if isPrivate then drop 3 (activeConversationKey x) else []) isPrivate [] 50 []])" for x :: controller
  have "calls (requestActiveHistory [] [] x) = calls x @ hist x" for x
    by (simp add: requestActiveHistory_def Let_def hist_def)
  with d0 show ?thesis
    unfolding d0_def [symmetric] handleConnected_def Let_def by simp
qed



lemma each_model_apply:
  assumes "distinct (map snd ms)" "snd ` set ms \<subseteq> dom (heap d)"
  shows "heap (fold (\<lambda>(k, p). with_model p f) ms d) q = (if q \<in> snd ` set ms then map_option f (heap d q) else heap d q)"
  using assms
proof (induction ms arbitrary: d)
  case (Cons kp ms)
  obtain k p where kp: "kp = (k, p)" by fastforce
  from Cons.prems obtain m where m: "heap d p = Some m" by (auto simp: kp)
  then have w: "heap (with_model p f d) = (heap d)(p \<mapsto> f m)" by (simp add: with_model_def)
  have "snd ` set ms \<subseteq> dom (heap (with_model p f d))" using Cons.prems(2) by (auto simp: w kp)
  from Cons.IH [OF _ this] Cons.prems(1) m show ?case by (auto simp: kp w)
qed simp

lemma each_model_at:
  assumes "models_ok c"
  shows "heap (each_model f c) q = map_option f (heap c q)"
proof -
  have dom: "dom (heap c) = snd ` set (conversationModels c)" using assms by (simp add: models_ok_def)
  show ?thesis
    using assms each_model_apply [of "conversationModels c" c f q] domIff [of q "heap c"]
    unfolding models_ok_def each_model_def dom by (cases "q \<in> dom (heap c)") simp_all
qed

lemma each_model_ran: "models_ok c \<Longrightarrow> ran (heap (each_model f c)) = f ` ran (heap c)"
  by (auto simp: each_model_at ran_def image_iff)

lemma trim_ran: "ran (heap (trimConversationModelCache key c)) \<subseteq> ran (heap c)"
proof (induction key c rule: trimConversationModelCache.induct)
  case (1 key c)
  have "ran (heap (delete_model (lru_key key c) c)) \<subseteq> ran (heap c)"
    by (auto simp: delete_model_def ran_def split: option.splits if_splits)
  with 1 show ?case by (subst trimConversationModelCache.simps) auto
qed

lemma ensure_ran: "ensureConversationModel key c = (p, d) \<Longrightarrow> ran (heap d) \<subseteq> insert (new_model kMessageRoles) (ran (heap c))"
  using trim_ran by (fastforce simp: ensureConversationModel_def Let_def ran_def split: option.splits if_splits)

lemma reset_empties:
  assumes "models_ok c"
  shows "rows ` ran (heap (resetSessionData c)) \<subseteq> {[]}"
proof -
  define c0 where "c0 = c\<lparr>roomModel := fst (replaceRows [fmap_of_list [(''roomName'', VStr ''lobby''), (''memberCount'', VInt 0),
                 (''unreadCount'', VInt 0)]] (roomModel c)),
             directMessageModel := fst (replaceRows [] (directMessageModel c)),
             memberModel := fst (replaceRows [] (memberModel c))\<rparr>"
  define c1 where "c1 = each_model (\<lambda>m. fst (clear_model m)) c0"
  have "models_ok c0" using assms by (simp add: models_ok_def c0_def)
  then have "ran (heap c1) = (\<lambda>m. fst (clear_model m)) ` ran (heap c0)" unfolding c1_def by (rule each_model_ran)
  then have c1: "rows ` ran (heap c1) \<subseteq> {[]}" by (auto simp: clear_model_def replaceRows_def mid_last_def Let_def split: if_splits)
  obtain p d where d: "ensureConversationModel ''room:lobby'' (c1\<lparr>activeConversationKey := ''room:lobby'', joinedRoom := ''lobby''\<rparr>) = (p, d)"
    by fastforce
  have "rows ` insert (new_model kMessageRoles) (ran (heap c1)) \<subseteq> {[]}" using c1 by (simp add: new_model_def)
  with image_mono [OF ensure_ran [OF d], of rows] have "rows ` ran (heap d) \<subseteq> {[]}" by simp blast
  then show ?thesis unfolding resetSessionData_def Let_def c0_def [symmetric] c1_def [symmetric] by (simp add: d)
qed

text \<open>
  C30. Selecting a room while reconnecting costs the conversations: it ends the reconnecting state, so the
  recovered connection is taken for a new session and every conversation is emptied.
\<close>

theorem selecting_room_loses_conversations:
  assumes "ctl_inv n c" "reconnecting c"
  shows "\<not> reconnecting (selectRoom e r c) \<and> rows ` ran (heap (handleConnected b (selectRoom e r c))) \<subseteq> {[]}"
proof -
  have not_rec: "\<not> reconnecting (selectRoom e r c)"
    by (auto simp: selectRoom_def Let_def split: prod.splits)
  have "models_ok (selectRoom e r c)" using select_room_inv [OF assms(1)] by (simp add: ctl_inv_def)
  from reset_empties [OF this] not_rec show ?thesis by (simp add: handleConnected_def Let_def)
qed

theorem selecting_room_loses_conversations_witness:
  "rows ` ran (heap (handleConnected False (selectRoom sample_env ''games'' (handleConnectionLost ''reset'' new_controller)))) \<subseteq> {[]}"
proof -
  have "ctl_inv 1 (handleConnectionLost ''reset'' new_controller)" using worker_signal_inv(2) [OF new_controller_inv] by simp
  moreover have "reconnecting (handleConnectionLost ''reset'' new_controller)" by (simp add: handleConnectionLost_def Let_def)
  ultimately show ?thesis using selecting_room_loses_conversations by blast
qed

end
