(* ===== verification/Transfer_State.thy ===== *)
theory Transfer_State
  imports Transition Attachment_Limits
begin

text \<open>
  The bookkeeping of one attachment upload,
  \<open>client-cpp/gui/src/attachments/attachment_transfer_state.cpp\<close>: a state machine driven by the
  server's answers and the worker's retries.

  Sizes and indexes are \<open>std::int64_t\<close> values computed with as integers; \<open>sizes_fit\<close> states when the
  one sum the code forms stays inside 64 bits; the protocol's limit of five gigabytes is far below.
\<close>

datatype Status = Idle | Initializing | Uploading | Resuming | Completed | Cancelled | Failed

record transfer =
  status :: Status
  logicalSize :: int
  chunkSize :: int
  attachmentId :: string
  uploadId :: string
  expiresAt :: string
  received :: "int set"
  failedAttempts :: "int \<Rightarrow> nat"
  pendingChunkCommands :: "string \<rightharpoonup> int"

definition MaxChunkRetries :: nat where "MaxChunkRetries = 3"

definition new_transfer :: transfer where
  "new_transfer = \<lparr>status = Idle, logicalSize = 0, chunkSize = 0, attachmentId = [], uploadId = [], expiresAt = [],
     received = {}, failedAttempts = (\<lambda>_. 0), pendingChunkCommands = Map.empty\<rparr>"

definition chunkCount :: "transfer \<Rightarrow> int" where
  "chunkCount t = (if 0 < chunkSize t then cdiv (logicalSize t + chunkSize t - 1) (chunkSize t) else 0)"

definition validIndex :: "transfer \<Rightarrow> int \<Rightarrow> bool" where
  "validIndex t i \<longleftrightarrow> 0 \<le> i \<and> i < chunkCount t"

definition missingIndexes :: "transfer \<Rightarrow> int list" where
  "missingIndexes t = filter (\<lambda>i. i \<notin> received t) (map int [0..<nat (chunkCount t)])"

definition receivedCount :: "transfer \<Rightarrow> int" where
  "receivedCount t = int (card (received t))"

section \<open>Operations\<close>

definition begin_transfer :: "int \<Rightarrow> int \<Rightarrow> transfer \<Rightarrow> bool \<times> transfer" where
  "begin_transfer logical_size chunk_size t =
    (if logical_size \<le> 0 \<or> chunk_size \<le> 0 \<or> status t \<noteq> Idle then (False, t)
     else (True, t\<lparr>logicalSize := logical_size, chunkSize := chunk_size, attachmentId := [], uploadId := [],
             expiresAt := [], received := {}, failedAttempts := (\<lambda>_. 0), pendingChunkCommands := Map.empty,
             status := Initializing\<rparr>))"

definition acceptInit :: "string \<Rightarrow> string \<Rightarrow> int \<Rightarrow> string \<Rightarrow> transfer \<Rightarrow> bool \<times> transfer" where
  "acceptInit attachment_id upload_id chunk_size expires_at t =
    (if status t \<noteq> Initializing \<or> attachment_id = [] \<or> upload_id = [] \<or> expires_at = [] \<or> chunk_size \<noteq> chunkSize t
     then (False, t)
     else (True, t\<lparr>attachmentId := attachment_id, uploadId := upload_id, expiresAt := expires_at, status := Uploading\<rparr>))"

definition acceptResume :: "int list \<Rightarrow> transfer \<Rightarrow> bool \<times> transfer" where
  "acceptResume indexes t =
    (if status t \<noteq> Uploading \<and> status t \<noteq> Resuming then (False, t)
     else if \<not> list_all (validIndex t) indexes then (False, t)
     else let t1 = t\<lparr>received := set indexes, failedAttempts := (\<lambda>_. 0), pendingChunkCommands := Map.empty\<rparr>
          in (True, t1\<lparr>status := if receivedCount t1 = chunkCount t1 then Completed else Uploading\<rparr>))"

definition acceptChunkAck :: "int \<Rightarrow> transfer \<Rightarrow> bool \<times> transfer" where
  "acceptChunkAck i t =
    (if status t \<noteq> Uploading \<or> \<not> validIndex t i then (False, t)
     else let t1 = t\<lparr>received := insert i (received t), failedAttempts := (failedAttempts t)(i := 0)\<rparr>
          in (True, if receivedCount t1 = chunkCount t1 then t1\<lparr>status := Completed\<rparr> else t1))"

definition registerChunkCommand :: "string \<Rightarrow> int \<Rightarrow> transfer \<Rightarrow> bool \<times> transfer" where
  "registerChunkCommand command i t =
    (if status t \<noteq> Uploading \<or> command = [] \<or> \<not> validIndex t i \<or> i \<in> received t then (False, t)
     else if pendingChunkCommands t command \<noteq> None then (False, t)
     else (True, t\<lparr>pendingChunkCommands := (pendingChunkCommands t)(command \<mapsto> i)\<rparr>))"

definition acceptCommandAck :: "string \<Rightarrow> int \<Rightarrow> transfer \<Rightarrow> bool \<times> transfer" where
  "acceptCommandAck command i t =
    (if pendingChunkCommands t command \<noteq> Some i then (False, t)
     else acceptChunkAck i (t\<lparr>pendingChunkCommands := (pendingChunkCommands t)(command := None)\<rparr>))"

definition recordChunkFailure :: "int \<Rightarrow> transfer \<Rightarrow> bool \<times> transfer" where
  "recordChunkFailure i t =
    (if status t \<noteq> Uploading \<or> \<not> validIndex t i \<or> i \<in> received t then (False, t)
     else let attempts = failedAttempts t i + 1;
              t1 = t\<lparr>failedAttempts := (failedAttempts t)(i := attempts)\<rparr>
          in (attempts \<le> MaxChunkRetries, if MaxChunkRetries < attempts then t1\<lparr>status := Failed\<rparr> else t1))"

definition cancel_transfer :: "transfer \<Rightarrow> transfer" where
  "cancel_transfer t =
    (if status t = Initializing \<or> status t = Uploading \<or> status t = Resuming then t\<lparr>status := Cancelled\<rparr> else t)"

definition fail_transfer :: "transfer \<Rightarrow> transfer" where
  "fail_transfer t = (if status t \<noteq> Completed \<and> status t \<noteq> Cancelled then t\<lparr>status := Failed\<rparr> else t)"

inductive transfer_step :: "transfer \<Rightarrow> transfer \<Rightarrow> bool" where
  "transfer_step t (snd (begin_transfer l c t))"
| "transfer_step t (snd (acceptInit a u c e t))"
| "transfer_step t (snd (acceptResume is t))"
| "transfer_step t (snd (acceptChunkAck i t))"
| "transfer_step t (snd (registerChunkCommand k i t))"
| "transfer_step t (snd (acceptCommandAck k i t))"
| "transfer_step t (snd (recordChunkFailure i t))"
| "transfer_step t (cancel_transfer t)"
| "transfer_step t (fail_transfer t)"

section \<open>Counting chunks\<close>

definition sizes_fit :: "int \<Rightarrow> int \<Rightarrow> bool" where
  "sizes_fit l c \<longleftrightarrow> 0 < l \<and> 0 < c \<and> int64_range (l + c - 1)"

lemma chunkCount_pos: "0 < logicalSize t \<Longrightarrow> 0 < chunkSize t \<Longrightarrow> 1 \<le> chunkCount t"
  by (simp add: chunkCount_def pos_imp_zdiv_pos_iff Suc_le_eq) (simp add: int_one_le_iff_zero_less pos_imp_zdiv_pos_iff)

lemma valid_indexes: "{i. validIndex t i} = set (map int [0..<nat (chunkCount t)])"
  by (auto simp: validIndex_def image_iff intro!: bexI [of _ "nat _"])

lemma finite_valid [simp]: "finite {i. validIndex t i}"
  unfolding valid_indexes by simp

lemma card_valid: "0 \<le> chunkCount t \<Longrightarrow> int (card {i. validIndex t i}) = chunkCount t"
  unfolding valid_indexes set_map by (simp add: card_image)

lemma all_received_iff:
  assumes "received t \<subseteq> {i. validIndex t i}" "0 \<le> chunkCount t"
  shows "receivedCount t = chunkCount t \<longleftrightarrow> received t = {i. validIndex t i}"
  unfolding receivedCount_def using card_valid [OF assms(2)] card_subset_eq [OF finite_valid assms(1)] by auto

lemma missing_Nil_iff: "missingIndexes t = [] \<longleftrightarrow> {i. validIndex t i} \<subseteq> received t"
  unfolding valid_indexes by (auto simp: missingIndexes_def filter_empty_conv)

section \<open>The invariant\<close>

definition transfer_inv :: "transfer \<Rightarrow> bool" where
  "transfer_inv t \<longleftrightarrow>
     status t \<noteq> Resuming \<and>
     (status t \<in> {Initializing, Uploading, Completed, Cancelled} \<longrightarrow> 0 < logicalSize t \<and> 0 < chunkSize t) \<and>
     (status t \<in> {Idle, Initializing} \<longrightarrow> received t = {}) \<and>
     received t \<subseteq> {i. validIndex t i} \<and>
     (status t \<in> {Idle, Initializing, Uploading} \<longrightarrow> (\<forall>i. failedAttempts t i \<le> MaxChunkRetries)) \<and>
     (status t = Uploading \<longrightarrow> received t \<noteq> {i. validIndex t i}) \<and>
     (status t = Completed \<longrightarrow> received t = {i. validIndex t i}) \<and>
     (status t \<in> {Uploading, Completed} \<longrightarrow> attachmentId t \<noteq> [] \<and> uploadId t \<noteq> [])"

lemma validIndex_cong: "logicalSize t' = logicalSize t \<Longrightarrow> chunkSize t' = chunkSize t \<Longrightarrow> validIndex t' = validIndex t"
  "logicalSize t' = logicalSize t \<Longrightarrow> chunkSize t' = chunkSize t \<Longrightarrow> chunkCount t' = chunkCount t"
  by (simp_all add: validIndex_def chunkCount_def fun_eq_iff)

lemma valid_update [simp]:
  "validIndex (t\<lparr>status := s\<rparr>) = validIndex t" "validIndex (t\<lparr>received := r\<rparr>) = validIndex t"
  "validIndex (t\<lparr>failedAttempts := f\<rparr>) = validIndex t" "validIndex (t\<lparr>pendingChunkCommands := p\<rparr>) = validIndex t"
  "validIndex (t\<lparr>attachmentId := a\<rparr>) = validIndex t" "validIndex (t\<lparr>uploadId := u\<rparr>) = validIndex t"
  "validIndex (t\<lparr>expiresAt := e\<rparr>) = validIndex t"
  "chunkCount (t\<lparr>status := s\<rparr>) = chunkCount t" "chunkCount (t\<lparr>received := r\<rparr>) = chunkCount t"
  "chunkCount (t\<lparr>failedAttempts := f\<rparr>) = chunkCount t" "chunkCount (t\<lparr>pendingChunkCommands := p\<rparr>) = chunkCount t"
  by (rule validIndex_cong; simp)+

lemma inv_begin: "transfer_inv t \<Longrightarrow> transfer_inv (snd (begin_transfer l c t))"
  by (simp add: transfer_inv_def begin_transfer_def)

lemma inv_init:
  assumes inv: "transfer_inv t"
  shows "transfer_inv (snd (acceptInit a u c e t))"
proof (cases "status t = Initializing \<and> a \<noteq> [] \<and> u \<noteq> [] \<and> e \<noteq> [] \<and> c = chunkSize t")
  case False
  then have "acceptInit a u c e t = (False, t)" unfolding acceptInit_def by auto
  with inv show ?thesis by simp
next
  case True
  with inv have "0 < logicalSize t" "0 < chunkSize t" by (simp_all add: transfer_inv_def)
  then have "validIndex t 0" using chunkCount_pos [of t] by (simp add: validIndex_def)
  then have "{i. validIndex t i} \<noteq> {}" by blast
  with True inv show ?thesis by (auto simp: transfer_inv_def acceptInit_def)
qed

lemma uploading_chunks: "transfer_inv t \<Longrightarrow> status t = Uploading \<Longrightarrow> 0 \<le> chunkCount t"
  using chunkCount_pos [of t] by (simp add: transfer_inv_def)

lemma inv_resume:
  assumes inv: "transfer_inv t"
  shows "transfer_inv (snd (acceptResume is t))"
proof (cases "status t = Uploading \<and> list_all (validIndex t) is")
  case False
  with inv have "acceptResume is t = (False, t)" by (auto simp: acceptResume_def transfer_inv_def)
  with inv show ?thesis by simp
next
  case True
  let ?t1 = "t\<lparr>received := set is, failedAttempts := (\<lambda>_. 0), pendingChunkCommands := Map.empty\<rparr>"
  have sub: "received ?t1 \<subseteq> {i. validIndex ?t1 i}" using True by (auto simp: list_all_iff)
  have "0 \<le> chunkCount ?t1" using uploading_chunks [OF inv] True by simp
  from all_received_iff [OF sub this] True inv sub show ?thesis
    by (auto simp: acceptResume_def transfer_inv_def Let_def)
qed

lemma inv_ack:
  assumes inv: "transfer_inv t"
  shows "transfer_inv (snd (acceptChunkAck i t))"
proof (cases "status t = Uploading \<and> validIndex t i")
  case False
  with inv show ?thesis by (auto simp: acceptChunkAck_def)
next
  case True
  let ?t1 = "t\<lparr>received := insert i (received t), failedAttempts := (failedAttempts t)(i := 0)\<rparr>"
  have sub: "received ?t1 \<subseteq> {i. validIndex ?t1 i}" using True inv by (auto simp: transfer_inv_def)
  have "0 \<le> chunkCount ?t1" using uploading_chunks [OF inv] True by simp
  from all_received_iff [OF sub this] True inv sub show ?thesis
    by (auto simp: acceptChunkAck_def transfer_inv_def Let_def)
qed

lemma inv_pending [simp]: "transfer_inv (t\<lparr>pendingChunkCommands := p\<rparr>) = transfer_inv t"
  by (simp add: transfer_inv_def)

lemma inv_register: "transfer_inv t \<Longrightarrow> transfer_inv (snd (registerChunkCommand k i t))"
  by (simp add: registerChunkCommand_def)

lemma inv_command_ack: "transfer_inv t \<Longrightarrow> transfer_inv (snd (acceptCommandAck k i t))"
  by (simp add: acceptCommandAck_def inv_ack)

lemma inv_failure: "transfer_inv t \<Longrightarrow> transfer_inv (snd (recordChunkFailure i t))"
  by (auto simp: recordChunkFailure_def transfer_inv_def Let_def not_less)

lemma inv_cancel: "transfer_inv t \<Longrightarrow> transfer_inv (cancel_transfer t)"
  by (auto simp: cancel_transfer_def transfer_inv_def)

lemma inv_fail: "transfer_inv t \<Longrightarrow> transfer_inv (fail_transfer t)"
  by (simp add: fail_transfer_def transfer_inv_def)

interpretation upload: invariant_system "\<lambda>t. t = new_transfer" transfer_step transfer_inv
proof unfold_locales
  show "transfer_inv s" if "s = new_transfer" for s
    using that by (simp add: transfer_inv_def new_transfer_def)
  show "transfer_inv t" if "transfer_inv s" "transfer_step s t" for s t
    using that(2,1) by (cases rule: transfer_step.cases)
      (simp_all add: inv_begin inv_init inv_resume inv_ack inv_register inv_command_ack inv_failure inv_cancel inv_fail)
qed

definition finished :: "transfer \<Rightarrow> bool" where
  "finished t \<longleftrightarrow> status t \<in> {Completed, Cancelled, Failed}"

lemma finished_step:
  assumes "transfer_step t t'" "finished t"
  shows "status t' = status t"
  using assms
  by (cases rule: transfer_step.cases)
    (auto simp: finished_def begin_transfer_def acceptInit_def acceptResume_def acceptChunkAck_def
      registerChunkCommand_def acceptCommandAck_def recordChunkFailure_def cancel_transfer_def fail_transfer_def)

interpretation upload_end: stable_system transfer_step "\<lambda>t. finished t \<and> status t = s" for s
  using finished_step by unfold_locales (auto simp: finished_def)

section \<open>Finishing an upload\<close>

definition ack_all :: "int list \<Rightarrow> transfer \<Rightarrow> transfer" where
  "ack_all is t = fold (\<lambda>i t. snd (acceptChunkAck i t)) is t"

lemma ack_all_completed: "status t = Completed \<Longrightarrow> ack_all is t = t"
  by (induction "is") (auto simp: ack_all_def acceptChunkAck_def)

lemma set_missing: "set (missingIndexes t) = {i. validIndex t i} - received t"
  unfolding valid_indexes by (auto simp: missingIndexes_def)

lemma ack_all_completes:
  assumes "transfer_inv t" "status t = Uploading" "set (missingIndexes t) \<subseteq> set is" "list_all (validIndex t) is"
  shows "status (ack_all is t) = Completed"
  using assms
proof (induction "is" arbitrary: t)
  case Nil
  then have "received t = {i. validIndex t i}" by (auto simp: set_missing transfer_inv_def)
  with Nil.prems show ?case by (simp add: transfer_inv_def)
next
  case (Cons i "is")
  let ?t = "snd (acceptChunkAck i t)"
  have inv: "transfer_inv ?t" by (rule inv_ack [OF Cons.prems(1)])
  have t: "status ?t = Completed \<or> status ?t = Uploading" "validIndex ?t = validIndex t"
    "received ?t = insert i (received t)"
    using Cons.prems(2,4) by (auto simp: acceptChunkAck_def Let_def)
  show ?case
  proof (cases "status ?t = Completed")
    case True
    with ack_all_completed show ?thesis by (simp add: ack_all_def)
  next
    case False
    with t(1) have up: "status ?t = Uploading" by blast
    moreover have "set (missingIndexes ?t) \<subseteq> set is" using Cons.prems(3) by (auto simp: set_missing t)
    ultimately have "status (ack_all is ?t) = Completed" using Cons.IH [OF inv] Cons.prems(4) t(2) by simp
    then show ?thesis by (simp add: ack_all_def)
  qed
qed

lemma failures:
  assumes "status t = Uploading" "validIndex t i" "i \<notin> received t" "failedAttempts t i = 0"
  shows "n \<le> 3 \<Longrightarrow> ((\<lambda>t. snd (recordChunkFailure i t)) ^^ n) t = t\<lparr>failedAttempts := (failedAttempts t)(i := n)\<rparr>"
proof (induction n)
  case 0
  from assms(4) have "(failedAttempts t)(i := 0) = failedAttempts t" by (simp add: fun_eq_iff)
  then show ?case by simp
next
  case (Suc n)
  let ?u = "t\<lparr>failedAttempts := (failedAttempts t)(i := n)\<rparr>"
  have step: "snd (recordChunkFailure i ?u) = t\<lparr>failedAttempts := (failedAttempts t)(i := Suc n)\<rparr>"
    using assms Suc.prems by (simp add: recordChunkFailure_def MaxChunkRetries_def Let_def fun_upd_def cong: if_cong)
  have ih: "((\<lambda>t. snd (recordChunkFailure i t)) ^^ n) t = ?u" by (rule Suc.IH [OF Suc_leD [OF Suc.prems]])
  show ?case by (simp only: funpow.simps comp_apply ih step)
qed

section \<open>Properties\<close>

text \<open>
  C8. An upload is reported complete exactly when nothing is missing: in every state the operations
  can reach, \<open>Completed\<close> means \<open>missingIndexes\<close> is empty and \<open>Uploading\<close> means it is not, every
  recorded chunk index is in range, and the state \<open>Resuming\<close> never occurs.
\<close>

theorem upload_complete_iff_nothing_missing:
  assumes "reachable (\<lambda>t. t = new_transfer) transfer_step t"
  shows "(status t = Completed \<longrightarrow> missingIndexes t = []) \<and> (status t = Uploading \<longrightarrow> missingIndexes t \<noteq> []) \<and>
    received t \<subseteq> {0..<chunkCount t} \<and> status t \<noteq> Resuming"
proof -
  have inv: "transfer_inv t" by (rule upload.reachable_inv [OF assms])
  then have sub: "received t \<subseteq> {i. validIndex t i}" by (simp add: transfer_inv_def)
  then have "received t \<subseteq> {0..<chunkCount t}" by (auto simp: validIndex_def)
  with inv sub show ?thesis by (auto simp: missing_Nil_iff transfer_inv_def)
qed

text \<open>
  \<open>Completed\<close>, \<open>Cancelled\<close> and \<open>Failed\<close> are final: no later answer, acknowledgement, failure or
  cancellation changes the status.
\<close>

theorem finished_upload_is_final:
  assumes "finished t" and "steps transfer_step t t'"
  shows "status t' = status t"
  using upload_end.steps_stable [OF assms(2)] assms(1) by blast

text \<open>
  Acknowledging every missing chunk, in any order and with repetitions, completes the upload.
\<close>

theorem acks_complete_upload:
  assumes "reachable (\<lambda>t. t = new_transfer) transfer_step t" and "status t = Uploading"
    and "set (missingIndexes t) \<subseteq> set is" and "list_all (validIndex t) is"
  shows "status (ack_all is t) = Completed"
  by (rule ack_all_completes [OF upload.reachable_inv [OF assms(1)] assms(2-4)])

text \<open>
  A chunk is retried at most three times: while it stays unreceived, its first three failures
  keep the upload running and the fourth one ends it as \<open>Failed\<close>.
\<close>

theorem chunk_retry_limit:
  assumes "status t = Uploading" and "validIndex t i" and "i \<notin> received t" and "failedAttempts t i = 0"
  shows "(n \<le> 3 \<longrightarrow> status (((\<lambda>t. snd (recordChunkFailure i t)) ^^ n) t) = Uploading) \<and>
    status (((\<lambda>t. snd (recordChunkFailure i t)) ^^ 4) t) = Failed"
proof -
  have "((\<lambda>t. snd (recordChunkFailure i t)) ^^ 4) t = snd (recordChunkFailure i (((\<lambda>t. snd (recordChunkFailure i t)) ^^ 3) t))"
    by (simp add: numeral_eq_Suc)
  also have "status \<dots> = Failed"
    using assms by (simp add: failures [OF assms, of 3]) (simp add: recordChunkFailure_def MaxChunkRetries_def Let_def)
  finally show ?thesis using failures [OF assms, of n] assms(1) by auto
qed

text \<open>
  Within the protocol's limits the chunk arithmetic is exact: an attachment of 1 to
  \<open>MaxLogicalBytes\<close> bytes in the standard chunk size never overflows a 64-bit integer, has at most
  \<open>MaxChunkCount\<close> chunks, and the chunks cover it with less than one chunk to spare.
\<close>

theorem chunk_count_within_limits:
  assumes "0 < l" and "l \<le> MaxLogicalBytes" and "t = snd (begin_transfer l PlaintextChunkBytes new_transfer)"
  shows "sizes_fit l PlaintextChunkBytes \<and> 1 \<le> chunkCount t \<and> chunkCount t \<le> MaxChunkCount \<and>
    l \<le> chunkCount t * PlaintextChunkBytes \<and> chunkCount t * PlaintextChunkBytes < l + PlaintextChunkBytes"
proof -
  let ?c = PlaintextChunkBytes and ?q = "(l + PlaintextChunkBytes - 1) div PlaintextChunkBytes"
  have c: "?c = 48128" "0 < ?c" by (simp_all add: PlaintextChunkBytes_def)
  have t: "chunkCount t = ?q"
    using assms c by (simp add: begin_transfer_def new_transfer_def chunkCount_def)
  have "?q \<le> (MaxLogicalBytes + ?c - 1) div ?c" using assms(2) c by (intro zdiv_mono1) simp_all
  also have "\<dots> = MaxChunkCount" by (simp add: MaxLogicalBytes_def PlaintextChunkBytes_def)
  finally have "?q \<le> MaxChunkCount" .
  moreover have "?q * ?c + (l + ?c - 1) mod ?c = l + ?c - 1" by (rule div_mult_mod_eq)
  moreover have "0 \<le> (l + ?c - 1) mod ?c" "(l + ?c - 1) mod ?c < ?c" using c by simp_all
  moreover have "1 \<le> ?q"
    using assms(1) c pos_imp_zdiv_pos_iff [of ?c "l + ?c - 1"] by simp
  moreover have "sizes_fit l ?c"
    using assms(1,2) c by (simp add: sizes_fit_def int64_range_def MaxLogicalBytes_def)
  ultimately show ?thesis unfolding t by linarith
qed

definition sample_upload :: transfer where
  "sample_upload = snd (acceptInit ''a'' ''u'' 4 ''never'' (snd (begin_transfer 10 4 new_transfer)))"

lemma sample_upload_reachable: "reachable (\<lambda>t. t = new_transfer) transfer_step sample_upload"
proof -
  have "reachable (\<lambda>t. t = new_transfer) transfer_step (snd (begin_transfer 10 4 new_transfer))"
    by (rule reachable_step [where s = new_transfer]) (rule reachable_init, simp, rule transfer_step.intros(1))
  then show ?thesis unfolding sample_upload_def
    by (rule reachable_step) (rule transfer_step.intros(2))
qed

lemma sample_upload_fields:
  "status sample_upload = Uploading" "missingIndexes sample_upload = [0, 1, 2]" "chunkCount sample_upload = 3"
  "received sample_upload = {}" "failedAttempts sample_upload i = 0"
  by (simp_all add: sample_upload_def acceptInit_def begin_transfer_def new_transfer_def missingIndexes_def
      chunkCount_def upt_conv_Cons)

theorem upload_complete_witness: "missingIndexes sample_upload \<noteq> []"
  using upload_complete_iff_nothing_missing [OF sample_upload_reachable] sample_upload_fields(1) by blast

theorem finished_upload_witness:
  "status (snd (acceptChunkAck 0 (cancel_transfer sample_upload))) = Cancelled"
proof -
  have c: "status (cancel_transfer sample_upload) = Cancelled"
    by (simp add: cancel_transfer_def sample_upload_fields)
  then have "finished (cancel_transfer sample_upload)" by (simp add: finished_def)
  moreover have "steps transfer_step (cancel_transfer sample_upload) (snd (acceptChunkAck 0 (cancel_transfer sample_upload)))"
    by (intro steps_step [OF steps_refl] transfer_step.intros)
  ultimately show ?thesis using finished_upload_is_final c by metis
qed

theorem acks_complete_witness: "status (ack_all [2, 0, 0, 1] sample_upload) = Completed"
  by (rule acks_complete_upload [OF sample_upload_reachable])
    (simp_all add: sample_upload_fields validIndex_def)

theorem chunk_retry_witness:
  "status (((\<lambda>t. snd (recordChunkFailure 1 t)) ^^ 4) sample_upload) = Failed"
  using chunk_retry_limit [of sample_upload 1 0] by (simp add: sample_upload_fields validIndex_def)

theorem chunk_count_witness:
  "chunkCount (snd (begin_transfer 5368709120 PlaintextChunkBytes new_transfer)) \<le> MaxChunkCount"
  using chunk_count_within_limits [of 5368709120 "snd (begin_transfer 5368709120 PlaintextChunkBytes new_transfer)"]
  by (simp add: MaxLogicalBytes_def)

end
