(* ===== verification/Attachment_Crypto.thy ===== *)
theory Attachment_Crypto
  imports Prelude Attachment_Limits
begin

text \<open>
  Encryption of attachment chunks, \<open>client-cpp/gui/src/attachments/attachment_crypto.cpp\<close>,
  \<open>transfer_client.cpp\<close> and \<open>attachment_mls_group_id.cpp\<close>: the authenticated context of a chunk, its
  nonce, sealing and opening, and cutting a file into sealed chunks.

  OpenSSL's digest and AES-256-GCM and Qt's SHA-256 are the parameters of \<open>evp_api\<close>: \<open>None\<close> is a
  failing call. \<open>evp_ok\<close> states what the code relies on. Keys, byte arrays and Qt strings are carried
  as byte strings; sizes and indexes are \<open>std::int64_t\<close> values computed with as integers.
\<close>

record ChunkContext =
  ctx_attachment_id :: string
  ctx_room :: string
  ctx_group_id :: string
  ctx_logical_size :: int
  ctx_chunk_size :: int
  ctx_chunk_index :: int

record evp_api =
  evp_sha256 :: "string \<Rightarrow> string option"
  gcm_seal :: "string \<Rightarrow> string \<Rightarrow> string \<Rightarrow> string \<Rightarrow> (string \<times> string) option"
  gcm_open :: "string \<Rightarrow> string \<Rightarrow> string \<Rightarrow> string \<Rightarrow> string \<Rightarrow> string option"
  rand_bytes :: "nat \<Rightarrow> string option"
  qt_sha256_hex :: "string \<Rightarrow> string"

definition KeySize :: nat where "KeySize = 32"
definition NonceSize :: nat where "NonceSize = 12"
definition TagSize :: nat where "TagSize = 16"

definition nl :: string where "nl = [CHR 0x0A]"

definition generate_key :: "evp_api \<Rightarrow> string option" where
  "generate_key api = rand_bytes api KeySize"

definition aad_for :: "ChunkContext \<Rightarrow> string" where
  "aad_for c = ''lan-chat/attachment-aead/v1'' @ nl @ ''attachment_id='' @ ctx_attachment_id c @
     nl @ ''room='' @ ctx_room c @ nl @ ''group_id='' @ ctx_group_id c @
     nl @ ''logical_size='' @ to_string (ctx_logical_size c) @
     nl @ ''chunk_size='' @ to_string (ctx_chunk_size c) @
     nl @ ''chunk_index='' @ to_string (ctx_chunk_index c) @ nl"

definition valid_context :: "ChunkContext \<Rightarrow> bool" where
  "valid_context c \<longleftrightarrow> ctx_attachment_id c \<noteq> [] \<and> ctx_room c \<noteq> [] \<and>
     0 < ctx_logical_size c \<and> 0 < ctx_chunk_size c \<and> 0 \<le> ctx_chunk_index c"

text \<open>A failing digest leaves the zero-initialised nonce.\<close>

definition derive_nonce :: "evp_api \<Rightarrow> ChunkContext \<Rightarrow> string" where
  "derive_nonce api c =
    (case evp_sha256 api (''lan-chat/attachment-nonce/v1'' @ nl @ aad_for c) of
       None \<Rightarrow> replicate NonceSize (CHR 0x00)
     | Some hash \<Rightarrow> take NonceSize hash)"

definition encrypt :: "evp_api \<Rightarrow> string \<Rightarrow> ChunkContext \<Rightarrow> string \<Rightarrow> string option" where
  "encrypt api key c plaintext =
    (if \<not> valid_context c \<or> 2147483647 < length plaintext then None
     else (case gcm_seal api key (derive_nonce api c) (aad_for c) plaintext of
             None \<Rightarrow> None
           | Some (body, tag) \<Rightarrow> Some (body @ tag)))"

definition decrypt :: "evp_api \<Rightarrow> string \<Rightarrow> ChunkContext \<Rightarrow> string \<Rightarrow> string option" where
  "decrypt api key c ciphertext =
    (if \<not> valid_context c \<or> length ciphertext < TagSize \<or> 2147483647 < length ciphertext - TagSize then None
     else let body_size = length ciphertext - TagSize
          in gcm_open api key (derive_nonce api c) (aad_for c) (take body_size ciphertext) (drop body_size ciphertext))"

definition evp_ok :: "evp_api \<Rightarrow> bool" where
  "evp_ok api \<longleftrightarrow> (\<forall>k n a p c t. gcm_seal api k n a p = Some (c, t) \<longrightarrow>
     length c = length p \<and> length t = 16 \<and> gcm_open api k n a c t = Some p)"

definition evp_live :: "evp_api \<Rightarrow> bool" where
  "evp_live api \<longleftrightarrow> (\<forall>k n a p. gcm_seal api k n a p \<noteq> None)"

text \<open>\<open>trimmed\<close> is \<open>QString::trimmed\<close>.\<close>

definition attachment_mls_group_id :: "evp_api \<Rightarrow> (string \<Rightarrow> string) \<Rightarrow> string \<Rightarrow> string \<Rightarrow> string" where
  "attachment_mls_group_id api trimmed room command_id =
     ''lan-chat-attachment/'' @ qt_sha256_hex api (trimmed room @ [CHR 0x00] @ trimmed command_id)"

section \<open>Cutting a file into chunks\<close>

record TransferChunk =
  tc_index :: int
  tc_ciphertext :: string
  tc_cipher_sha256 :: string

text \<open>A \<open>QIODevice\<close> over a file: a read returns the next bytes, fewer only at the end.\<close>

record device =
  dev_usable :: bool
  dev_rest :: string

definition dev_read :: "int \<Rightarrow> device \<Rightarrow> string \<times> device" where
  "dev_read n d = (take (nat n) (dev_rest d), d\<lparr>dev_rest := drop (nat n) (dev_rest d)\<rparr>)"

definition ChunkSize :: int where
  "ChunkSize = PlaintextChunkBytes"

definition sealed_chunk :: "evp_api \<Rightarrow> int \<Rightarrow> string \<Rightarrow> TransferChunk" where
  "sealed_chunk api index ciphertext =
     \<lparr>tc_index = index, tc_ciphertext = ciphertext, tc_cipher_sha256 = qt_sha256_hex api ciphertext\<rparr>"

definition empty_chunk :: TransferChunk where
  "empty_chunk = \<lparr>tc_index = 0, tc_ciphertext = [], tc_cipher_sha256 = []\<rparr>"

definition encrypt_next_chunk ::
    "evp_api \<Rightarrow> string \<Rightarrow> ChunkContext \<Rightarrow> device \<Rightarrow> (string + (TransferChunk \<times> bool)) \<times> device" where
  "encrypt_next_chunk api key c input =
    (if \<not> dev_usable input \<or> ctx_logical_size c \<le> 0 \<or> ctx_chunk_size c \<le> 0 \<or> ctx_chunk_index c < 0
     then (Inl ''invalid attachment transfer context'', input)
     else let remaining = ctx_logical_size c - ctx_chunk_index c * ctx_chunk_size c in
     if remaining \<le> 0 then (Inr (empty_chunk, True), input)
     else let readSize = min (ctx_chunk_size c) remaining;
              (bytes, input') = dev_read readSize input in
     if int (length bytes) \<noteq> readSize then (Inl ''attachment file ended before logical size'', input')
     else (case encrypt api key c bytes of
             None \<Rightarrow> (Inl ''attachment encryption failed'', input')
           | Some ciphertext \<Rightarrow>
               (Inr (sealed_chunk api (ctx_chunk_index c) ciphertext,
                     cdiv (ctx_logical_size c + ctx_chunk_size c - 1) (ctx_chunk_size c) \<le> ctx_chunk_index c + 1),
                input')))"

text \<open>\<open>stream_encrypt\<close> with its sink as a function on the sink's state.\<close>

function stream_loop ::
    "evp_api \<Rightarrow> string \<Rightarrow> (TransferChunk \<Rightarrow> 's \<Rightarrow> bool \<times> 's) \<Rightarrow> ChunkContext \<Rightarrow> int \<Rightarrow> int \<Rightarrow> device \<Rightarrow> 's \<Rightarrow>
     (string + unit) \<times> 's" where
  "stream_loop api key sink c index remaining input s =
    (if remaining \<le> 0 then (Inr (), s)
     else let requested = min remaining ChunkSize;
              (bytes, input') = dev_read requested input in
     if int (length bytes) \<noteq> requested then (Inl ''input ended before logical size'', s)
     else (case encrypt api key (c\<lparr>ctx_chunk_index := index\<rparr>) bytes of
             None \<Rightarrow> (Inl ''attachment encryption failed'', s)
           | Some encrypted \<Rightarrow>
               (case sink (sealed_chunk api index encrypted) s of
                  (accepted, s') \<Rightarrow>
                    if \<not> accepted then (Inl ''chunk sink rejected transfer'', s')
                    else stream_loop api key sink c (index + 1) (remaining - requested) input' s')))"
  by pat_completeness auto
termination
  by (relation "measure (\<lambda>(api, key, sink, c, index, remaining, input, s). nat remaining)")
    (auto simp: ChunkSize_def PlaintextChunkBytes_def)

declare stream_loop.simps [simp del]

definition stream_encrypt ::
    "evp_api \<Rightarrow> string \<Rightarrow> (TransferChunk \<Rightarrow> 's \<Rightarrow> bool \<times> 's) \<Rightarrow> ChunkContext \<Rightarrow> device \<Rightarrow> 's \<Rightarrow> (string + unit) \<times> 's" where
  "stream_encrypt api key sink c input s =
    (if \<not> dev_usable input \<or> ctx_logical_size c < 0 then (Inl ''invalid transfer input'', s)
     else let c1 = (if ctx_chunk_size c = 0 then c\<lparr>ctx_chunk_size := ChunkSize\<rparr> else c) in
     if ctx_chunk_size c1 \<noteq> ChunkSize then (Inl ''unsupported chunk size'', s)
     else stream_loop api key sink c1 0 (ctx_logical_size c1) input s)"

definition stream_encrypt_file ::
    "evp_api \<Rightarrow> (string \<rightharpoonup> string) \<Rightarrow> string \<Rightarrow> string \<Rightarrow> (TransferChunk \<Rightarrow> 's \<Rightarrow> bool \<times> 's) \<Rightarrow> ChunkContext \<Rightarrow> 's \<Rightarrow>
     (string + unit) \<times> 's" where
  "stream_encrypt_file api files path key sink c s =
    (case files path of None \<Rightarrow> (Inl ''unable to open attachment file'', s)
     | Some data \<Rightarrow> stream_encrypt api key sink c \<lparr>dev_usable = True, dev_rest = data\<rparr> s)"

section \<open>Sealing and opening\<close>

text \<open>What the transfer relies on in the cipher: opening undoes sealing, and sealing adds the tag.\<close>

locale chunk_cipher =
  fixes ok :: "'api \<Rightarrow> bool"
    and enc :: "'api \<Rightarrow> string \<Rightarrow> ChunkContext \<Rightarrow> string \<Rightarrow> string option"
    and dec :: "'api \<Rightarrow> string \<Rightarrow> ChunkContext \<Rightarrow> string \<Rightarrow> string option"
  assumes dec_enc: "ok a \<Longrightarrow> enc a k c p = Some x \<Longrightarrow> dec a k c x = Some p"
    and enc_length: "ok a \<Longrightarrow> enc a k c p = Some x \<Longrightarrow> length x = length p + 16"
begin

lemma enc_nonempty: "ok a \<Longrightarrow> enc a k c p = Some x \<Longrightarrow> x \<noteq> []"
  using enc_length by fastforce

lemma enc_inject: "ok a \<Longrightarrow> enc a k c p = Some x \<Longrightarrow> enc a k c p' = Some x \<Longrightarrow> p = p'"
  using dec_enc by (metis option.inject)

end

lemma encrypt_parts:
  assumes "evp_ok api" "encrypt api k c p = Some x"
  shows "\<exists>body tag. x = body @ tag \<and> length body = length p \<and> length tag = 16 \<and> valid_context c \<and>
    length p \<le> 2147483647 \<and> gcm_open api k (derive_nonce api c) (aad_for c) body tag = Some p"
  using assms by (fastforce simp: encrypt_def evp_ok_def split: if_splits option.splits)

interpretation aes_gcm: chunk_cipher evp_ok encrypt decrypt
proof unfold_locales
  fix api k c p x
  assume a: "evp_ok api" "encrypt api k c p = Some x"
  from encrypt_parts [OF a] show "decrypt api k c x = Some p"
    by (auto simp: decrypt_def TagSize_def Let_def)
  from encrypt_parts [OF a] show "length x = length p + 16" by auto
qed

section \<open>The authenticated context\<close>

definition unlines :: "string list \<Rightarrow> string" where
  "unlines ls = concat (map (\<lambda>l. l @ nl) ls)"

lemma unlines_inject:
  assumes "unlines xs = unlines ys" "\<forall>l \<in> set xs \<union> set ys. CHR 0x0A \<notin> set l"
  shows "xs = ys"
  using assms
proof (induction xs arbitrary: ys)
  case Nil
  then show ?case by (cases ys) (auto simp: unlines_def nl_def)
next
  case (Cons x xs)
  then obtain y ys' where ys: "ys = y # ys'" by (cases ys) (auto simp: unlines_def nl_def)
  from Cons.prems(1) ys have "x @ CHR 0x0A # unlines xs = y @ CHR 0x0A # unlines ys'"
    by (simp add: unlines_def nl_def)
  from first_char_unique [OF this] Cons.prems(2) ys have "x = y" "unlines xs = unlines ys'" by auto
  with Cons.IH [of ys'] Cons.prems(2) ys show ?case by simp
qed

definition aad_lines :: "ChunkContext \<Rightarrow> string list" where
  "aad_lines c = [''lan-chat/attachment-aead/v1'', ''attachment_id='' @ ctx_attachment_id c, ''room='' @ ctx_room c,
     ''group_id='' @ ctx_group_id c, ''logical_size='' @ to_string (ctx_logical_size c),
     ''chunk_size='' @ to_string (ctx_chunk_size c), ''chunk_index='' @ to_string (ctx_chunk_index c)]"

lemma aad_for_lines: "aad_for c = unlines (aad_lines c)"
  by (simp add: aad_for_def unlines_def aad_lines_def)

definition single_line :: "ChunkContext \<Rightarrow> bool" where
  "single_line c \<longleftrightarrow> CHR 0x0A \<notin> set (ctx_attachment_id c) \<and> CHR 0x0A \<notin> set (ctx_room c) \<and> CHR 0x0A \<notin> set (ctx_group_id c)"

lemma aad_lines_plain: "single_line c \<Longrightarrow> l \<in> set (aad_lines c) \<Longrightarrow> CHR 0x0A \<notin> set l"
  using to_string_no_newline by (auto simp: aad_lines_def single_line_def)

lemma aad_lines_inject: "aad_lines c = aad_lines d \<Longrightarrow> c = d"
  by (cases c; cases d) (simp add: aad_lines_def)

section \<open>The pieces of a file\<close>

function pieces :: "string \<Rightarrow> string list" where
  "pieces d = (if d = [] then [] else take (nat ChunkSize) d # pieces (drop (nat ChunkSize) d))"
  by pat_completeness auto
termination
  by (relation "measure length") (auto simp: ChunkSize_def PlaintextChunkBytes_def)

declare pieces.simps [simp del]

lemma concat_pieces: "concat (pieces d) = d"
proof (induction d rule: pieces.induct)
  case (1 d)
  show ?case
  proof (cases "d = []")
    case True
    then show ?thesis by (simp add: pieces.simps)
  next
    case False
    with 1 show ?thesis by (subst pieces.simps) simp
  qed
qed

definition collect_sink :: "TransferChunk \<Rightarrow> TransferChunk list \<Rightarrow> bool \<times> TransferChunk list" where
  "collect_sink ch acc = (True, acc @ [ch])"

text \<open>The chunk at position \<open>index\<close> is the sealed piece \<open>p\<close>.\<close>

definition seals :: "evp_api \<Rightarrow> string \<Rightarrow> ChunkContext \<Rightarrow> nat \<times> string \<Rightarrow> TransferChunk \<Rightarrow> bool" where
  "seals api key c ip ch \<longleftrightarrow> (case ip of (i, p) \<Rightarrow>
     \<exists>x. encrypt api key (c\<lparr>ctx_chunk_index := int i\<rparr>) p = Some x \<and> ch = sealed_chunk api (int i) x)"

lemma ChunkSize_pos [simp]: "0 < ChunkSize" "nat ChunkSize \<noteq> 0"
  by (simp_all add: ChunkSize_def PlaintextChunkBytes_def)

lemma stream_collect_step:
  fixes n :: nat
  assumes "n \<noteq> 0"
  defines "k \<equiv> min n (nat ChunkSize)"
  shows "stream_loop api key collect_sink c (int i) (int n) d acc =
    (if length (take k (dev_rest d)) \<noteq> k then (Inl ''input ended before logical size'', acc)
     else (case encrypt api key (c\<lparr>ctx_chunk_index := int i\<rparr>) (take k (dev_rest d)) of
             None \<Rightarrow> (Inl ''attachment encryption failed'', acc)
           | Some x \<Rightarrow> stream_loop api key collect_sink c (int (Suc i)) (int (n - k))
               (d\<lparr>dev_rest := drop k (dev_rest d)\<rparr>) (acc @ [sealed_chunk api (int i) x])))"
proof -
  have k: "min (int n) ChunkSize = int k" by (simp add: k_def ChunkSize_def PlaintextChunkBytes_def)
  have rest: "int n - int k = int (n - k)" "int i + 1 = int (Suc i)" by (simp_all add: k_def)
  have pos: "\<not> int n \<le> 0" using assms(1) by simp
  show ?thesis
    by (subst stream_loop.simps)
      (simp only: pos if_False Let_def k dev_read_def prod.case nat_int rest collect_sink_def of_nat_eq_iff not_True_eq_False)
qed

lemma stream_collects:
  assumes "stream_loop api key collect_sink c (int i) (int n) d acc = (Inr (), out)"
  shows "\<exists>chs. out = acc @ chs \<and> n \<le> length (dev_rest d) \<and>
    list_all2 (seals api key c) (enumerate i (pieces (take n (dev_rest d)))) chs"
  using assms
proof (induction n arbitrary: i d acc rule: less_induct)
  case (less n)
  show ?case
  proof (cases "n = 0")
    case True
    with less.prems show ?thesis by (simp add: stream_loop.simps pieces.simps)
  next
    case False
    let ?k = "min n (nat ChunkSize)"
    let ?p = "take ?k (dev_rest d)" and ?d = "d\<lparr>dev_rest := drop ?k (dev_rest d)\<rparr>"
    note step = stream_collect_step [OF False, of api key c i d acc]
    from less.prems step have len: "length ?p = ?k" by (auto split: if_splits)
    with less.prems step obtain x where x: "encrypt api key (c\<lparr>ctx_chunk_index := int i\<rparr>) ?p = Some x"
      and loop: "stream_loop api key collect_sink c (int (Suc i)) (int (n - ?k)) ?d
          (acc @ [sealed_chunk api (int i) x]) = (Inr (), out)"
      by (cases "encrypt api key (c\<lparr>ctx_chunk_index := int i\<rparr>) ?p") simp_all
    have "n - ?k < n" using False by simp
    from less.IH [OF this loop] obtain chs where out: "out = acc @ sealed_chunk api (int i) x # chs"
      and more: "n - ?k \<le> length (dev_rest d) - ?k"
      and chs: "list_all2 (seals api key c) (enumerate (Suc i) (pieces (take (n - ?k) (drop ?k (dev_rest d))))) chs"
      by auto
    from len have "?k \<le> length (dev_rest d)" by simp
    with more have n: "n \<le> length (dev_rest d)" by linarith
    with False have ne: "take n (dev_rest d) \<noteq> []" by auto
    have "take (nat ChunkSize) (take n (dev_rest d)) = ?p" by (simp add: min.commute)
    moreover have "drop (nat ChunkSize) (take n (dev_rest d)) = take (n - ?k) (drop ?k (dev_rest d))"
      by (cases "n \<le> nat ChunkSize") (simp_all add: drop_take)
    ultimately have "pieces (take n (dev_rest d)) = ?p # pieces (take (n - ?k) (drop ?k (dev_rest d)))"
      using ne by (simp add: pieces.simps [of "take n (dev_rest d)"])
    with chs x have "list_all2 (seals api key c) (enumerate i (pieces (take n (dev_rest d)))) (sealed_chunk api (int i) x # chs)"
      by (auto simp: seals_def)
    with out n show ?thesis by blast
  qed
qed

lemma encrypt_live:
  assumes "evp_live api" "valid_context c" "length p \<le> 2147483647"
  shows "\<exists>x. encrypt api key c p = Some x"
proof -
  from assms(1) obtain body tag where "gcm_seal api key (derive_nonce api c) (aad_for c) p = Some (body, tag)"
    unfolding evp_live_def by (metis not_None_eq surj_pair)
  with assms(2,3) show ?thesis by (simp add: encrypt_def)
qed

lemma stream_succeeds:
  assumes "evp_live api" "valid_context (c\<lparr>ctx_chunk_index := 0\<rparr>)" "n \<le> length (dev_rest d)"
  shows "\<exists>out. stream_loop api key collect_sink c (int i) (int n) d acc = (Inr (), out)"
  using assms(3)
proof (induction n arbitrary: i d acc rule: less_induct)
  case (less n)
  show ?case
  proof (cases "n = 0")
    case True
    then show ?thesis by (simp add: stream_loop.simps)
  next
    case False
    let ?k = "min n (nat ChunkSize)"
    have "valid_context (c\<lparr>ctx_chunk_index := int i\<rparr>)" using assms(2) by (simp add: valid_context_def)
    moreover have "length (take ?k (dev_rest d)) \<le> 2147483647"
      by (simp add: ChunkSize_def PlaintextChunkBytes_def min_def)
    ultimately obtain x where x: "encrypt api key (c\<lparr>ctx_chunk_index := int i\<rparr>) (take ?k (dev_rest d)) = Some x"
      using encrypt_live [OF assms(1)] by blast
    let ?d = "d\<lparr>dev_rest := drop ?k (dev_rest d)\<rparr>"
    have len: "length (take ?k (dev_rest d)) = ?k" using less.prems by simp
    have "n - ?k < n" using False by simp
    moreover have "n - ?k \<le> length (dev_rest ?d)" using less.prems by simp
    ultimately obtain out where "stream_loop api key collect_sink c (int (Suc i)) (int (n - ?k)) ?d
        (acc @ [sealed_chunk api (int i) x]) = (Inr (), out)" using less.IH by blast
    then show ?thesis
      unfolding stream_collect_step [OF False, of api key c i d acc] x using len by (simp only: simp_thms if_False option.case) blast
  qed
qed

section \<open>Properties\<close>


definition toy_evp :: evp_api where
  "toy_evp = \<lparr>evp_sha256 = (\<lambda>s. Some (replicate 32 (CHR ''h''))),
     gcm_seal = (\<lambda>k n a p. Some (rev p, replicate 16 (CHR ''t''))),
     gcm_open = (\<lambda>k n a c t. Some (rev c)), rand_bytes = (\<lambda>n. Some (replicate n (CHR ''r''))),
     qt_sha256_hex = (\<lambda>s. replicate 64 (CHR ''a''))\<rparr>"

lemma toy_evp_ok: "evp_ok toy_evp" "evp_live toy_evp"
  by (simp_all add: evp_ok_def evp_live_def toy_evp_def)

definition sample_context :: ChunkContext where
  "sample_context = \<lparr>ctx_attachment_id = ''att'', ctx_room = ''lobby'', ctx_group_id = ''g'', ctx_logical_size = 5,
     ctx_chunk_size = ChunkSize, ctx_chunk_index = 0\<rparr>"


text \<open>
  C34. Two chunks never share their authenticated context: for identifiers without line breaks, the
  associated data (and with it the input of the nonce derivation) determines attachment, room,
  group, sizes and index.
\<close>

theorem aad_determines_context:
  assumes "single_line c" and "single_line d" and "aad_for c = aad_for d"
  shows "c = d"
proof -
  have "aad_lines c = aad_lines d"
    by (rule unlines_inject) (use assms aad_lines_plain in \<open>auto simp: aad_for_lines\<close>)
  then show ?thesis by (rule aad_lines_inject)
qed

theorem aad_determines_context_witness:
  "aad_for (sample_context\<lparr>ctx_chunk_index := 1\<rparr>) \<noteq> aad_for sample_context"
  using aad_determines_context [of "sample_context\<lparr>ctx_chunk_index := 1\<rparr>" sample_context]
  by (auto simp: sample_context_def single_line_def)

text \<open>
  Without that restriction it does not: \<open>valid_context\<close> accepts identifiers with line breaks, and
  two valid contexts of different attachments and rooms then have the same associated data.
\<close>

theorem aad_collision:
  "\<exists>c d. valid_context c \<and> valid_context d \<and> ctx_attachment_id c \<noteq> ctx_attachment_id d \<and>
     ctx_room c \<noteq> ctx_room d \<and> aad_for c = aad_for d"
proof -
  let ?c = "\<lparr>ctx_attachment_id = ''a'' @ nl @ ''room=b'', ctx_room = ''c'', ctx_group_id = [], ctx_logical_size = 1,
     ctx_chunk_size = 1, ctx_chunk_index = 0\<rparr>"
  let ?d = "\<lparr>ctx_attachment_id = ''a'', ctx_room = ''b'' @ nl @ ''room=c'', ctx_group_id = [], ctx_logical_size = 1,
     ctx_chunk_size = 1, ctx_chunk_index = 0\<rparr>"
  have "valid_context ?c \<and> valid_context ?d \<and> ctx_attachment_id ?c \<noteq> ctx_attachment_id ?d \<and>
     ctx_room ?c \<noteq> ctx_room ?d \<and> aad_for ?c = aad_for ?d"
    by (simp add: valid_context_def aad_for_def nl_def)
  then show ?thesis by blast
qed

end
