(* ===== verification/Download.thy ===== *)
theory Download
  imports Attachment_Crypto
begin

text \<open>
  Reassembling a downloaded attachment,
  \<open>client-cpp/gui/src/attachments/attachment_download_assembler.cpp\<close>: chunks are verified, decrypted
  and written to a part file, which replaces the output file after the last one.

  The file system is a map from paths to contents, threaded through the operations; \<open>faults\<close> says
  which calls of \<open>QFile\<close> fail. A removal or a rename that fails changes nothing.
\<close>

type_synonym files = "string \<rightharpoonup> string"

record faults =
  can_create :: "string \<Rightarrow> bool"
  can_resize :: "string \<Rightarrow> bool"
  can_write :: "string \<Rightarrow> bool"
  can_remove :: "string \<Rightarrow> bool"
  can_rename :: "string \<Rightarrow> bool"

record assembler =
  outputPath :: string
  partPath :: string
  akey :: string
  acontext :: ChunkContext
  nextIndex :: int
  complete :: bool

definition new_assembler :: assembler where
  "new_assembler = \<lparr>outputPath = [], partPath = [], akey = [],
     acontext = \<lparr>ctx_attachment_id = [], ctx_room = [], ctx_group_id = [], ctx_logical_size = 0,
       ctx_chunk_size = 0, ctx_chunk_index = 0\<rparr>, nextIndex = 0, complete = False\<rparr>"

definition partPathFor :: "string \<Rightarrow> string" where
  "partPathFor path = path @ ''.lanchat-part''"

definition file_remove :: "faults \<Rightarrow> string \<Rightarrow> files \<Rightarrow> bool \<times> files" where
  "file_remove f path fs = (if can_remove f path \<and> fs path \<noteq> None then (True, fs(path := None)) else (False, fs))"

text \<open>\<open>QFile::rename\<close> fails when the new name exists.\<close>

definition file_rename :: "faults \<Rightarrow> string \<Rightarrow> string \<Rightarrow> files \<Rightarrow> bool \<times> files" where
  "file_rename f old new fs =
    (case fs old of
       Some data \<Rightarrow> if can_rename f old \<and> fs new = None then (True, fs(old := None, new \<mapsto> data)) else (False, fs)
     | None \<Rightarrow> (False, fs))"

text \<open>Writing at an offset: the bytes replace what stands there; a gap is filled with zeros.\<close>

definition write_at :: "nat \<Rightarrow> string \<Rightarrow> string \<Rightarrow> string" where
  "write_at off bytes data =
     take off data @ replicate (off - length data) (CHR 0x00) @ bytes @ drop (off + length bytes) data"

section \<open>Operations\<close>

definition discardPart :: "faults \<Rightarrow> assembler \<times> files \<Rightarrow> assembler \<times> files" where
  "discardPart f st = (case st of (a, fs) \<Rightarrow>
     if partPath a = [] then (a, fs) else (a\<lparr>partPath := []\<rparr>, snd (file_remove f (partPath a) fs)))"

definition fail_download :: "faults \<Rightarrow> string \<Rightarrow> assembler \<times> files \<Rightarrow> (string + unit) \<times> assembler \<times> files" where
  "fail_download f reason st = (Inl reason, discardPart f st)"

definition begin_download ::
    "faults \<Rightarrow> string \<Rightarrow> string \<Rightarrow> ChunkContext \<Rightarrow> assembler \<times> files \<Rightarrow> (string + unit) \<times> assembler \<times> files" where
  "begin_download f path key c st =
    (case discardPart f st of (a0, fs) \<Rightarrow>
      let a = a0\<lparr>complete := False\<rparr> in
      if path = [] \<or> ctx_logical_size c \<le> 0 \<or> ctx_chunk_size c \<le> 0 \<or> ctx_chunk_index c \<noteq> 0 \<or>
         ctx_attachment_id c = [] \<or> ctx_room c = []
      then (Inl ''invalid attachment download context'', a, fs)
      else let part = partPathFor path;
               fs1 = (if can_create f part then fs(part \<mapsto> []) else fs) in
      if \<not> can_create f part \<or> \<not> can_resize f part
      then (Inl ''unable to create attachment output file'', a, snd (file_remove f part fs1))
      else (Inr (), a\<lparr>outputPath := path, partPath := part, akey := key, acontext := c, nextIndex := 0\<rparr>,
            fs1(part \<mapsto> replicate (nat (ctx_logical_size c)) (CHR 0x00))))"

definition finalize :: "faults \<Rightarrow> assembler \<times> files \<Rightarrow> (string + unit) \<times> assembler \<times> files" where
  "finalize f st = (case st of (a, fs) \<Rightarrow>
     let (removed, fs1) = (if fs (outputPath a) \<noteq> None then file_remove f (outputPath a) fs else (True, fs)) in
     if \<not> removed then fail_download f ''unable to replace existing attachment output file'' (a, fs1)
     else (case file_rename f (partPath a) (outputPath a) fs1 of
             (False, fs2) \<Rightarrow> fail_download f ''unable to move attachment into place'' (a, fs2)
           | (True, fs2) \<Rightarrow> (Inr (), a\<lparr>partPath := [], complete := True\<rparr>, fs2)))"

definition chunk_count :: "ChunkContext \<Rightarrow> int" where
  "chunk_count c = cdiv (ctx_logical_size c + ctx_chunk_size c - 1) (ctx_chunk_size c)"

definition acceptChunk ::
    "evp_api \<Rightarrow> faults \<Rightarrow> int \<Rightarrow> string \<Rightarrow> string \<Rightarrow> bool \<Rightarrow> assembler \<times> files \<Rightarrow> (string + unit) \<times> assembler \<times> files" where
  "acceptChunk api f index ciphertext cipherSha256 is_last st = (case st of (a, fs) \<Rightarrow>
    if partPath a = [] then (Inl ''unexpected attachment download chunk'', a, fs)
    else if index \<noteq> nextIndex a \<or> ciphertext = [] \<or> length cipherSha256 \<noteq> 64
    then fail_download f ''unexpected attachment download chunk'' (a, fs)
    else if qt_sha256_hex api ciphertext \<noteq> map lower_ascii cipherSha256
    then fail_download f ''attachment ciphertext hash mismatch'' (a, fs)
    else let c = acontext a;
             chunkCount = chunk_count c;
             remaining = ctx_logical_size c - index * ctx_chunk_size c;
             expectedPlaintext = min (ctx_chunk_size c) remaining in
    if index < 0 \<or> chunkCount \<le> index \<or> expectedPlaintext \<le> 0 \<or>
       int (length ciphertext) \<noteq> expectedPlaintext + int TagSize
    then fail_download f ''invalid attachment download chunk size'' (a, fs)
    else (case decrypt api (akey a) (c\<lparr>ctx_chunk_index := index\<rparr>) ciphertext of
       None \<Rightarrow> fail_download f ''attachment decryption failed'' (a, fs)
     | Some plaintext \<Rightarrow>
         if int (length plaintext) \<noteq> expectedPlaintext then fail_download f ''attachment decryption failed'' (a, fs)
         else if \<not> can_write f (partPath a) then fail_download f ''unable to write attachment output file'' (a, fs)
         else let data = (case fs (partPath a) of None \<Rightarrow> [] | Some d \<Rightarrow> d);
                  fs1 = fs(partPath a \<mapsto> write_at (nat (index * ctx_chunk_size c)) plaintext data);
                  expectedLast = (index + 1 = chunkCount) in
         if is_last \<noteq> expectedLast then fail_download f ''attachment last-chunk marker mismatch'' (a, fs1)
         else let a1 = a\<lparr>nextIndex := nextIndex a + 1\<rparr> in
         if expectedLast then finalize f (a1, fs1) else (Inr (), a1, fs1)))"

definition cancel_download :: "faults \<Rightarrow> assembler \<times> files \<Rightarrow> assembler \<times> files" where
  "cancel_download f st = discardPart f st"

text \<open>Moving from another assembler: this one's part is discarded, the other keeps no part. The
  strings of the other's context are moved from, so their values are unspecified; here they keep
  the old ones, and nothing reads them before the next \<open>begin\<close>.\<close>

definition move_assign :: "faults \<Rightarrow> assembler \<Rightarrow> assembler \<times> files \<Rightarrow> (assembler \<times> assembler) \<times> files" where
  "move_assign f other st =
    (case discardPart f st of (a, fs) \<Rightarrow> ((other, other\<lparr>outputPath := [], partPath := []\<rparr>), fs))"

text \<open>A whole download: the chunks in order, the last one marked.\<close>

fun accept_all ::
    "evp_api \<Rightarrow> faults \<Rightarrow> TransferChunk list \<Rightarrow> assembler \<times> files \<Rightarrow> (string + unit) \<times> assembler \<times> files" where
  "accept_all api f [] st = (Inr (), st)"
| "accept_all api f (ch # chs) st =
    (case acceptChunk api f (tc_index ch) (tc_ciphertext ch) (tc_cipher_sha256 ch) (chs = []) st of
       (Inl e, st') \<Rightarrow> (Inl e, st')
     | (Inr _, st') \<Rightarrow> accept_all api f chs st')"

section \<open>The part file grows by whole chunks\<close>

lemma part_not_output [simp]: "partPathFor path \<noteq> path" "path \<noteq> partPathFor path"
  by (simp_all add: partPathFor_def)

lemma write_at_end:
  assumes "length pre = off" "length bytes \<le> n"
  shows "write_at off bytes (pre @ replicate n z) = (pre @ bytes) @ replicate (n - length bytes) z"
  using assms by (simp add: write_at_def)

definition no_faults :: "faults \<Rightarrow> bool" where
  "no_faults f \<longleftrightarrow> (\<forall>p. can_create f p \<and> can_resize f p \<and> can_write f p \<and> can_remove f p \<and> can_rename f p)"

definition hex_ok :: "evp_api \<Rightarrow> bool" where
  "hex_ok api \<longleftrightarrow> (\<forall>x. length (qt_sha256_hex api x) = 64 \<and> map lower_ascii (qt_sha256_hex api x) = qt_sha256_hex api x)"

text \<open>A download in progress: the first \<open>i\<close> chunks of \<open>data\<close> are in the part file.\<close>

definition progress :: "string \<Rightarrow> string \<Rightarrow> ChunkContext \<Rightarrow> string \<Rightarrow> nat \<Rightarrow> assembler \<times> files \<Rightarrow> bool" where
  "progress path key c data i st \<longleftrightarrow> (case st of (a, fs) \<Rightarrow>
     outputPath a = path \<and> partPath a = partPathFor path \<and> akey a = key \<and> acontext a = c \<and> nextIndex a = int i \<and>
     fs (partPathFor path) = Some (take (i * nat ChunkSize) data @ replicate (length data - i * nat ChunkSize) (CHR 0x00)))"

lemma chunk_count_last:
  assumes "0 < L" "i * nat ChunkSize < L"
  defines "n \<equiv> (int L + ChunkSize - 1) div ChunkSize"
  shows "int i < n" and "int i + 1 = n \<longleftrightarrow> L \<le> Suc i * nat ChunkSize"
proof -
  have c: "ChunkSize = 48128" by (simp add: ChunkSize_def PlaintextChunkBytes_def)
  have "n * 48128 + (int L + 48128 - 1) mod 48128 = int L + 48128 - 1" unfolding n_def c by (rule div_mult_mod_eq)
  moreover have "0 \<le> (int L + 48128 - 1) mod 48128" "(int L + 48128 - 1) mod 48128 < 48128" by simp_all
  moreover have "int i * 48128 < int L" using assms(2) unfolding c by simp
  ultimately have b: "n * 48128 \<le> int L + 48127" "int L \<le> n * 48128" "int i * 48128 < int L" by linarith+
  then show "int i < n" by linarith
  have "L \<le> Suc i * nat ChunkSize \<longleftrightarrow> int L \<le> int i * 48128 + 48128"
    unfolding c by simp linarith
  also have "\<dots> \<longleftrightarrow> int i + 1 = n"
  proof
    assume "int L \<le> int i * 48128 + 48128"
    with b have "n * 48128 < (int i + 2) * 48128" by simp
    then have "n < int i + 2" by simp
    with \<open>int i < n\<close> show "int i + 1 = n" by simp
  qed (use b in simp)
  finally show "int i + 1 = n \<longleftrightarrow> L \<le> Suc i * nat ChunkSize" by blast
qed

lemma accept_piece:
  assumes api: "evp_ok api" "hex_ok api" and f: "can_write f (partPathFor path)"
    and c: "ctx_chunk_size c = ChunkSize" "ctx_logical_size c = int (length data)"
    and pr: "progress path key c data i (a, fs)" and more: "i * nat ChunkSize < length data"
    and seal: "seals api key c (i, take (nat ChunkSize) (drop (i * nat ChunkSize) data)) ch"
    and lst: "l \<longleftrightarrow> length data \<le> Suc i * nat ChunkSize"
  shows "\<exists>a1 fs1. progress path key c data (Suc i) (a1, fs1) \<and> complete a1 = complete a \<and>
    (\<forall>p. p \<noteq> partPathFor path \<longrightarrow> fs1 p = fs p) \<and>
    acceptChunk api f (tc_index ch) (tc_ciphertext ch) (tc_cipher_sha256 ch) l (a, fs) =
      (if l then finalize f (a1, fs1) else (Inr (), a1, fs1))"
proof -
  let ?C = "nat ChunkSize"
  let ?off = "i * ?C" and ?p = "take ?C (drop (i * ?C) data)"
  let ?old = "take ?off data @ replicate (length data - ?off) (CHR 0x00)"
  have C: "ChunkSize = 48128" by (simp add: ChunkSize_def PlaintextChunkBytes_def)
  from seal obtain x where x: "encrypt api key (c\<lparr>ctx_chunk_index := int i\<rparr>) ?p = Some x"
    and ch: "ch = sealed_chunk api (int i) x" by (auto simp: seals_def)
  from aes_gcm.dec_enc [OF api(1) x] have dec: "decrypt api key (c\<lparr>ctx_chunk_index := int i\<rparr>) x = Some ?p" .
  from aes_gcm.enc_length [OF api(1) x] have len: "length x = length ?p + 16" .
  from pr have a: "outputPath a = path" "partPath a = partPathFor path" "akey a = key" "acontext a = c" "nextIndex a = int i"
    and old: "fs (partPathFor path) = Some ?old" by (simp_all add: progress_def)
  have plen: "int (length ?p) = min ChunkSize (int (length data) - int i * ChunkSize)"
    using more unfolding C by (simp add: min_def) linarith
  have L: "0 < length data" using more by linarith
  have cnt: "chunk_count c = (int (length data) + ChunkSize - 1) div ChunkSize"
    using c L by (simp add: chunk_count_def C)
  note idx = chunk_count_last [of "length data" i, folded cnt]
  have off: "nat (int i * ChunkSize) = ?off" by (simp add: C nat_mult_distrib)
  let ?new = "write_at ?off ?p ?old"
  have new: "?new = take (Suc i * ?C) data @ replicate (length data - Suc i * ?C) (CHR 0x00)"
  proof -
    have "?new = (take ?off data @ ?p) @ replicate (length data - ?off - length ?p) (CHR 0x00)"
      using more by (intro write_at_end) auto
    also have "take ?off data @ ?p = take (Suc i * ?C) data"
      by (simp add: take_add add.commute [of ?C])
    also have "length data - ?off - length ?p = length data - Suc i * ?C"
      using more by (simp add: min_def add.commute)
    finally show ?thesis .
  qed
  let ?a1 = "a\<lparr>nextIndex := int i + 1\<rparr>" and ?fs1 = "fs(partPathFor path \<mapsto> ?new)"
  have "acceptChunk api f (tc_index ch) (tc_ciphertext ch) (tc_cipher_sha256 ch) l (a, fs) =
      (if l then finalize f (?a1, ?fs1) else (Inr (), ?a1, ?fs1))"
  proof -
    have hex: "length (qt_sha256_hex api x) = 64" "map lower_ascii (qt_sha256_hex api x) = qt_sha256_hex api x"
      using api(2) by (simp_all add: hex_ok_def)
    have "int i * ChunkSize < int (length data)" using more unfolding C by simp
    then have exp: "0 < min (ctx_chunk_size c) (ctx_logical_size c - int i * ctx_chunk_size c)"
      "int (length ?p) = min (ctx_chunk_size c) (ctx_logical_size c - int i * ctx_chunk_size c)"
      using plen by (simp_all add: c)
    have size: "int (length x) = min (ctx_chunk_size c) (ctx_logical_size c - int i * ctx_chunk_size c) + int TagSize"
      using exp(2) len by (simp add: TagSize_def)
    have pos: "\<not> min ChunkSize (int (length data) - int i * ChunkSize) \<le> 0" using exp(1) unfolding c by (simp only: not_le)
    have l: "l = (int i + 1 = chunk_count c)" using idx(2) [OF L more] lst by blast
    have part: "partPathFor path \<noteq> []" by (simp add: partPathFor_def)
    have ne: "x \<noteq> []" using aes_gcm.enc_nonempty [OF api(1) x] .
    show ?thesis
      unfolding acceptChunk_def prod.case Let_def ch sealed_chunk_def TransferChunk.select_convs a
      using hex pos exp(2) size part ne dec idx(1) [OF L more] f old off c l by simp
  qed
  moreover have "progress path key c data (Suc i) (?a1, ?fs1)" using a new by (simp add: progress_def)
  ultimately show ?thesis by (intro exI [of _ ?a1] exI [of _ ?fs1]) auto
qed


lemma begin_ok:
  assumes f: "no_faults f" and path: "path \<noteq> []" and data: "data \<noteq> []"
    and c: "ctx_attachment_id c \<noteq> []" "ctx_room c \<noteq> []" "ctx_logical_size c = int (length data)"
      "ctx_chunk_size c = ChunkSize" "ctx_chunk_index c = 0"
  shows "\<exists>a fs0. begin_download f path key c st = (Inr (), a, fs0) \<and> progress path key c data 0 (a, fs0) \<and>
    (\<forall>p. p \<notin> {partPathFor path, partPath (fst st)} \<longrightarrow> fs0 p = snd st p)"
proof -
  obtain a0 fs where d: "discardPart f st = (a0, fs)" by fastforce
  then have frame: "\<And>p. p \<noteq> partPath (fst st) \<Longrightarrow> fs p = snd st p"
    by (cases st) (auto simp: discardPart_def file_remove_def split: if_splits)
  have pos: "\<not> ChunkSize \<le> 0" by (simp add: ChunkSize_def PlaintextChunkBytes_def)
  show ?thesis
    using f path data c frame pos by (auto simp: begin_download_def d Let_def progress_def no_faults_def)
qed

lemma finalize_ok:
  assumes "no_faults f" and "progress path key c data n (a, fs)" and "length data \<le> n * nat ChunkSize"
  shows "finalize f (a, fs) =
    (Inr (), a\<lparr>partPath := [], complete := True\<rparr>, fs(path := None, partPathFor path := None, path \<mapsto> data))"
  using assms by (auto simp: finalize_def progress_def no_faults_def file_remove_def file_rename_def)

text \<open>The sealed pieces from one index on: the first, the rest, and whether it is the last.\<close>

lemma sealed_pieces:
  assumes "i * nat ChunkSize < length data"
    and "list_all2 (seals api key c) (enumerate i (pieces (drop (i * nat ChunkSize) data))) (ch # chs)"
  shows "seals api key c (i, take (nat ChunkSize) (drop (i * nat ChunkSize) data)) ch"
    and "list_all2 (seals api key c) (enumerate (Suc i) (pieces (drop (Suc i * nat ChunkSize) data))) chs"
    and "chs = [] \<longleftrightarrow> length data \<le> Suc i * nat ChunkSize"
proof -
  let ?C = "nat ChunkSize"
  from assms(1) have "pieces (drop (i * ?C) data) =
      take ?C (drop (i * ?C) data) # pieces (drop (Suc i * ?C) data)"
    by (subst pieces.simps) (simp add: add.commute)
  with assms(2) show "seals api key c (i, take ?C (drop (i * ?C) data)) ch"
    and rest: "list_all2 (seals api key c) (enumerate (Suc i) (pieces (drop (Suc i * ?C) data))) chs"
    by simp_all
  show "chs = [] \<longleftrightarrow> length data \<le> Suc i * ?C"
  proof
    assume "chs = []"
    with rest have "pieces (drop (Suc i * ?C) data) = []"
      by (cases "pieces (drop (Suc i * ?C) data)") simp_all
    then show "length data \<le> Suc i * ?C" by (subst (asm) pieces.simps) (auto split: if_splits)
  next
    assume "length data \<le> Suc i * ?C"
    then have "pieces (drop (Suc i * ?C) data) = []" by (subst pieces.simps) simp
    with rest show "chs = []" by simp
  qed
qed

lemma accept_all_pieces:
  assumes api: "evp_ok api" "hex_ok api" and f: "no_faults f"
    and c: "ctx_chunk_size c = ChunkSize" "ctx_logical_size c = int (length data)"
    and "progress path key c data i (a, fs)" and "i * nat ChunkSize < length data"
    and "list_all2 (seals api key c) (enumerate i (pieces (drop (i * nat ChunkSize) data))) chs"
  shows "\<exists>a' fs'. accept_all api f chs (a, fs) = (Inr (), a', fs') \<and> complete a' \<and> partPath a' = [] \<and>
    fs' path = Some data \<and> fs' (partPathFor path) = None \<and>
    (\<forall>p. p \<noteq> path \<and> p \<noteq> partPathFor path \<longrightarrow> fs' p = fs p)"
  using assms(6-8)
proof (induction chs arbitrary: i a fs)
  case Nil
  from Nil(2,3) show ?case by (simp add: pieces.simps)
next
  case (Cons ch chs)
  let ?C = "nat ChunkSize"
  note seal = sealed_pieces(1) [OF Cons.prems(2,3)] and rest = sealed_pieces(2) [OF Cons.prems(2,3)]
    and lst = sealed_pieces(3) [OF Cons.prems(2,3)]
  have w: "can_write f (partPathFor path)" using f by (simp add: no_faults_def)
  from accept_piece [OF api w c Cons.prems(1,2) seal lst] obtain a1 fs1
    where pr: "progress path key c data (Suc i) (a1, fs1)"
      and frame: "\<And>p. p \<noteq> partPathFor path \<Longrightarrow> fs1 p = fs p"
      and acc: "acceptChunk api f (tc_index ch) (tc_ciphertext ch) (tc_cipher_sha256 ch) (chs = []) (a, fs) =
        (if chs = [] then finalize f (a1, fs1) else (Inr (), a1, fs1))" by blast
  show ?case
  proof (cases "chs = []")
    case True
    with lst finalize_ok [OF f pr] acc frame show ?thesis by simp
  next
    case False
    with lst have "Suc i * ?C < length data" by simp
    from Cons.IH [OF pr this rest] frame acc False show ?thesis by auto
  qed
qed

section \<open>Properties\<close>

text \<open>
  What the sender seals the receiver gets: streaming a file through the encryption and feeding
  the chunks in order to a download begun with the same key and context completes, and leaves the
  file's exact bytes at the output path and no part file; every other file is as it was before.
\<close>

theorem upload_download_identity:
  fixes st :: "assembler \<times> files"
  assumes api: "evp_ok api" "evp_live api" "hex_ok api" and f: "no_faults f"
    and path: "path \<noteq> []" and data: "data \<noteq> []"
    and c: "ctx_attachment_id c \<noteq> []" "ctx_room c \<noteq> []" "ctx_logical_size c = int (length data)"
      "ctx_chunk_size c = ChunkSize" "ctx_chunk_index c = 0"
  shows "\<exists>chs a fs0 a' fs'.
    stream_encrypt api key collect_sink c \<lparr>dev_usable = True, dev_rest = data\<rparr> [] = (Inr (), chs) \<and>
    begin_download f path key c st = (Inr (), a, fs0) \<and>
    accept_all api f chs (a, fs0) = (Inr (), a', fs') \<and> complete a' \<and>
    fs' path = Some data \<and> fs' (partPathFor path) = None \<and>
    (\<forall>p. p \<notin> {path, partPathFor path, partPath (fst st)} \<longrightarrow> fs' p = snd st p)"
proof -
  let ?d = "\<lparr>dev_usable = True, dev_rest = data\<rparr>"
  have c0: "c\<lparr>ctx_chunk_index := 0\<rparr> = c" using c(5) by simp
  have "valid_context c" using c data by (simp add: valid_context_def)
  with stream_succeeds [OF api(2), of c "length data" ?d key 0 "[]"] c0 obtain chs
    where loop: "stream_loop api key collect_sink c (int 0) (int (length data)) ?d [] = (Inr (), chs)" by auto
  then have enc: "stream_encrypt api key collect_sink c ?d [] = (Inr (), chs)"
    using c by (simp add: stream_encrypt_def ChunkSize_def PlaintextChunkBytes_def)
  from stream_collects [OF loop] have chs: "list_all2 (seals api key c) (enumerate 0 (pieces (drop (0 * nat ChunkSize) data))) chs"
    by simp
  obtain a fs0 where beg: "begin_download f path key c st = (Inr (), a, fs0)"
    and pr: "progress path key c data 0 (a, fs0)"
    and frame: "\<And>p. p \<notin> {partPathFor path, partPath (fst st)} \<Longrightarrow> fs0 p = snd st p"
    using begin_ok [OF f path data c, of key st] by blast
  have "0 * nat ChunkSize < length data" using data by simp
  from accept_all_pieces [OF api(1,3) f c(4,3) pr this chs] obtain a' fs'
    where "accept_all api f chs (a, fs0) = (Inr (), a', fs')" "complete a'" "fs' path = Some data"
      "fs' (partPathFor path) = None" "\<And>p. p \<noteq> path \<Longrightarrow> p \<noteq> partPathFor path \<Longrightarrow> fs' p = fs0 p" by blast
  with enc beg frame show ?thesis by auto
qed

definition reliable :: faults where
  "reliable = \<lparr>can_create = (\<lambda>p. True), can_resize = (\<lambda>p. True), can_write = (\<lambda>p. True),
     can_remove = (\<lambda>p. True), can_rename = (\<lambda>p. True)\<rparr>"

lemma reliable_ok: "no_faults reliable" "hex_ok toy_evp"
  by (simp_all add: no_faults_def hex_ok_def reliable_def toy_evp_def lower_ascii_def)

theorem upload_download_witness:
  "\<exists>chs a fs0 a' fs'.
    stream_encrypt toy_evp ''k'' collect_sink sample_context \<lparr>dev_usable = True, dev_rest = ''hello''\<rparr> [] = (Inr (), chs) \<and>
    begin_download reliable ''out'' ''k'' sample_context (new_assembler, Map.empty) = (Inr (), a, fs0) \<and>
    accept_all toy_evp reliable chs (a, fs0) = (Inr (), a', fs') \<and> complete a' \<and> fs' ''out'' = Some ''hello''"
proof -
  have "ctx_attachment_id sample_context \<noteq> []" "ctx_room sample_context \<noteq> []"
    "ctx_logical_size sample_context = int (length ''hello'')" "ctx_chunk_size sample_context = ChunkSize"
    "ctx_chunk_index sample_context = 0" by (simp_all add: sample_context_def)
  note main = upload_download_identity [OF toy_evp_ok reliable_ok(2,1) _ _ this, of "''out''" "''k''" "(new_assembler, Map.empty)"]
  have "''out'' \<noteq> []" "''hello'' \<noteq> []" by simp_all
  from main [OF this] show ?thesis
    by (elim ex_forward conjE, intro conjI) (assumption+)
qed


lemma fail_download_cleans:
  assumes "fail_download f reason (a, fs1) = (Inl e, a', fs')" and "partPath a \<noteq> []" and "can_remove f (partPath a)"
    and "\<forall>p. p \<noteq> partPath a \<longrightarrow> fs1 p = fs p"
  shows "partPath a' = [] \<and> fs' (partPath a) = None \<and> (\<forall>p. p \<noteq> partPath a \<longrightarrow> fs' p = fs p)"
  using assms by (auto simp: fail_download_def discardPart_def file_remove_def split: if_splits)

lemma finalize_fails_cleanly:
  assumes fin: "finalize f (a, fs1) = (Inl e, a', fs')"
    and a: "partPath a \<noteq> []" "partPath a \<noteq> outputPath a" "can_remove f (partPath a)" "fs1 (partPath a) \<noteq> None"
    and safe: "fs (outputPath a) = None \<or> can_rename f (partPath a)"
    and frame: "\<forall>p. p \<noteq> partPath a \<longrightarrow> fs1 p = fs p"
  shows "partPath a' = [] \<and> fs' (partPath a) = None \<and> (\<forall>p. p \<noteq> partPath a \<longrightarrow> fs' p = fs p)"
proof (cases "fs (outputPath a) = None")
  case True
  with frame a(2) have none: "fs1 (outputPath a) = None" by metis
  obtain ok fs2 where r: "file_rename f (partPath a) (outputPath a) fs1 = (ok, fs2)" by fastforce
  with fin none have "\<not> ok" by (auto simp: finalize_def split: if_splits)
  with r have "fs2 = fs1" by (auto simp: file_rename_def split: option.splits if_splits)
  with r fin none \<open>\<not> ok\<close> have "fail_download f ''unable to move attachment into place'' (a, fs1) = (Inl e, a', fs')"
    by (simp add: finalize_def)
  from fail_download_cleans [OF this a(1,3) frame] show ?thesis .
next
  case False
  with frame a(2) safe have some: "fs1 (outputPath a) \<noteq> None" and ren: "can_rename f (partPath a)" by metis+
  show ?thesis
  proof (cases "can_remove f (outputPath a)")
    case True
    with some ren a fin show ?thesis
      by (auto simp: finalize_def file_remove_def file_rename_def split: option.splits if_splits)
  next
    case False
    with some fin have "fail_download f ''unable to replace existing attachment output file'' (a, fs1) = (Inl e, a', fs')"
      by (simp add: finalize_def file_remove_def)
    from fail_download_cleans [OF this a(1,3) frame] show ?thesis .
  qed
qed



text \<open>A download to \<open>out\<close>, in progress over an existing file.\<close>

definition sample_download :: "assembler \<times> files" where
  "sample_download =
    (new_assembler\<lparr>outputPath := ''out'', partPath := ''out.lanchat-part'', akey := ''k'', acontext := sample_context\<rparr>,
     [''out'' \<mapsto> ''old'', ''out.lanchat-part'' \<mapsto> replicate 5 (CHR 0x00)])"

lemma sample_download_simps:
  "partPath (fst sample_download) = ''out.lanchat-part''" "outputPath (fst sample_download) = ''out''"
  "snd sample_download ''out'' = Some ''old''" "nextIndex (fst sample_download) = 0"
  "snd sample_download ''out.lanchat-part'' = Some (replicate 5 (CHR 0x00))"
  by (simp_all add: sample_download_def new_assembler_def)


text \<open>
  An accepted chunk has been verified: it is the next one, its hash is the announced one, it
  opens under the download's key in the context of its index and has exactly the expected length;
  the download is over just when it was the last chunk, and otherwise only the part file changed.
\<close>

theorem accepted_chunk_verified:
  assumes "acceptChunk api f i ct sha l (a, fs) = (Inr (), a', fs')"
  shows "i = nextIndex a \<and> nextIndex a' = i + 1 \<and> i < chunk_count (acontext a) \<and>
    qt_sha256_hex api ct = map lower_ascii sha \<and>
    (\<exists>p. decrypt api (akey a) ((acontext a)\<lparr>ctx_chunk_index := i\<rparr>) ct = Some p \<and>
       int (length p) = min (ctx_chunk_size (acontext a)) (ctx_logical_size (acontext a) - i * ctx_chunk_size (acontext a))) \<and>
    (l \<longleftrightarrow> i + 1 = chunk_count (acontext a)) \<and> (l \<longrightarrow> complete a' \<and> partPath a' = []) \<and>
    (\<not> l \<longrightarrow> partPath a' = partPath a \<and> (\<forall>p. p \<noteq> partPath a \<longrightarrow> fs' p = fs p))"
proof -
  have fin: "complete a' \<and> partPath a' = [] \<and> nextIndex a' = n"
    if "finalize f (a\<lparr>nextIndex := n\<rparr>, fs1) = (Inr (), a', fs')" for n fs1
    using that by (auto simp: finalize_def fail_download_def split: prod.splits if_splits bool.splits)
  have no_fail: "fail_download f r st \<noteq> (Inr (), a', fs')" for r st by (simp add: fail_download_def)
  show ?thesis
    using assms unfolding acceptChunk_def prod.case Let_def
    by (auto simp: no_fail split: if_split_asm option.split_asm dest: fin)
qed

theorem accepted_chunk_witness:
  "\<exists>a' fs'. acceptChunk toy_evp reliable 0 (replicate 21 (CHR ''c'')) (replicate 64 (CHR ''a'')) True sample_download =
      (Inr (), a', fs') \<and> complete a' \<and> partPath a' = []"
proof -
  obtain a fs where s: "sample_download = (a, fs)" by fastforce
  note S = sample_download_simps [unfolded s fst_conv snd_conv]
  have "fst (acceptChunk toy_evp reliable 0 (replicate 21 (CHR ''c'')) (replicate 64 (CHR ''a'')) True sample_download) = Inr ()"
    by (simp add: acceptChunk_def sample_download_def new_assembler_def sample_context_def toy_evp_def lower_ascii_def
        chunk_count_def ChunkSize_def PlaintextChunkBytes_def TagSize_def decrypt_def valid_context_def reliable_def
        finalize_def file_remove_def file_rename_def Let_def)
  then obtain a' fs' where acc: "acceptChunk toy_evp reliable 0 (replicate 21 (CHR ''c'')) (replicate 64 (CHR ''a'')) True (a, fs) =
      (Inr (), a', fs')"
    unfolding s by (metis prod.collapse)
  from accepted_chunk_verified [OF acc] acc s show ?thesis by auto
qed

text \<open>
  The existing file can be lost: when the verified download cannot be moved into place, the
  output file has already been removed, and the part file is removed as well.
\<close>

theorem failed_move_loses_both:
  assumes "fs (outputPath a) = Some old" and "fs (partPath a) = Some data" and "partPath a \<noteq> []"
    and "partPath a \<noteq> outputPath a" and "can_remove f (outputPath a)" and "can_remove f (partPath a)"
    and "\<not> can_rename f (partPath a)"
  shows "finalize f (a, fs) = (Inl ''unable to move attachment into place'', a\<lparr>partPath := []\<rparr>,
    fs(outputPath a := None, partPath a := None))"
  using assms by (simp add: finalize_def file_remove_def file_rename_def fail_download_def discardPart_def)

theorem failed_move_witness:
  "\<exists>a' fs'. finalize (reliable\<lparr>can_rename := (\<lambda>p. False)\<rparr>) sample_download =
      (Inl ''unable to move attachment into place'', a', fs') \<and> fs' ''out'' = None \<and> fs' ''out.lanchat-part'' = None"
proof -
  obtain a fs where s: "sample_download = (a, fs)" by fastforce
  note S = sample_download_simps [unfolded s fst_conv snd_conv]
  let ?f = "reliable\<lparr>can_rename := (\<lambda>p. False)\<rparr>"
  have "fs (outputPath a) = Some ''old''" "fs (partPath a) = Some (replicate 5 (CHR 0x00))" "partPath a \<noteq> []"
    "partPath a \<noteq> outputPath a" "can_remove ?f (outputPath a)" "can_remove ?f (partPath a)" "\<not> can_rename ?f (partPath a)"
    by (simp_all add: S reliable_def)
  from failed_move_loses_both [OF this] show ?thesis by (simp add: s S)
qed

end
