(* ===== verification/Manifest.thy ===== *)
theory Manifest
  imports Bridge_Protocol
begin

text \<open>
  The attachment manifest, \<open>client-cpp/gui/src/attachments/attachment_manifest.cpp\<close>: what the sender of
  an attachment tells the group, MLS-protected, so that the members can download and open it.

  Qt's JSON text and Base64 are a record of functions. An integer of a JSON number comes back through
  \<open>QVariant\<close>, which rounds a fraction to the nearest integer.
\<close>

record manifest =
  attachmentId :: string
  fileName :: string
  room :: string
  groupId :: string
  logicalSize :: int
  chunkSize :: int
  epoch :: int
  mkey :: string

record manifest_api =
  qtext :: qt_text
  toJson :: "qobject \<Rightarrow> string"
  fromJson :: "string \<Rightarrow> qjson option"
  toBase64 :: "string \<Rightarrow> string"
  fromBase64 :: "string \<Rightarrow> string"
  sha256_hex :: "string \<Rightarrow> string"

definition valid_manifest :: "manifest_api \<Rightarrow> manifest \<Rightarrow> bool" where
  "valid_manifest api m \<longleftrightarrow>
     trimmed (qtext api) (attachmentId m) \<noteq> [] \<and> trimmed (qtext api) (fileName m) \<noteq> [] \<and>
     trimmed (qtext api) (room m) \<noteq> [] \<and> trimmed (qtext api) (groupId m) \<noteq> [] \<and>
     0 < logicalSize m \<and> 0 < chunkSize m \<and> 0 < epoch m \<and> length (mkey m) = 32"

text \<open>\<open>static_cast<qint64>\<close> of an unsigned 64-bit integer, and back.\<close>

definition to_qint64 :: "int \<Rightarrow> int" where
  "to_qint64 n = (if n < 2 ^ 63 then n else n - 2 ^ 64)"

definition to_quint64 :: "int \<Rightarrow> int" where
  "to_quint64 n = n mod 2 ^ 64"

definition qRound64 :: "rat \<Rightarrow> int" where
  "qRound64 d = (if 0 \<le> d then \<lfloor>d + 1 / 2\<rfloor> else - \<lfloor>1 / 2 - d\<rfloor>)"

definition manifest_object :: "manifest_api \<Rightarrow> manifest \<Rightarrow> qobject" where
  "manifest_object api m =
    [(''v'', QDouble 1), (''attachment_id'', QString (attachmentId m)), (''file_name'', QString (fileName m)),
     (''room'', QString (room m)), (''group_id'', QString (groupId m)),
     (''logical_size'', QDouble (of_int (logicalSize m))), (''chunk_size'', QDouble (of_int (chunkSize m))),
     (''epoch'', QDouble (of_int (to_qint64 (epoch m)))), (''key'', QString (toBase64 api (mkey m)))]"

text \<open>An invalid manifest encodes to nothing.\<close>

definition encode_manifest :: "manifest_api \<Rightarrow> manifest \<Rightarrow> string" where
  "encode_manifest api m = (if \<not> valid_manifest api m then [] else toJson api (manifest_object api m))"

text \<open>\<open>toInt(-1)\<close> of a number that is not an integer is the default.\<close>

definition version_ok :: "qjson \<Rightarrow> bool" where
  "version_ok v \<longleftrightarrow> v = QDouble 1"

definition candidate_of :: "manifest_api \<Rightarrow> qobject \<Rightarrow> manifest" where
  "candidate_of api obj =
    \<lparr>attachmentId = to_qstring (member obj ''attachment_id''), fileName = to_qstring (member obj ''file_name''),
     room = to_qstring (member obj ''room''), groupId = to_qstring (member obj ''group_id''),
     logicalSize = qRound64 (toDouble (member obj ''logical_size'') 0),
     chunkSize = qRound64 (toDouble (member obj ''chunk_size'') 0),
     epoch = to_quint64 (qRound64 (toDouble (member obj ''epoch'') 0)),
     mkey = fromBase64 api (to_qstring (member obj ''key''))\<rparr>"

definition decode_manifest :: "manifest_api \<Rightarrow> string \<Rightarrow> manifest option" where
  "decode_manifest api encoded =
    (case fromJson api encoded of
       Some (QObject obj) \<Rightarrow>
         if \<not> version_ok (member obj ''v'') \<or> \<not> isString (member obj ''attachment_id'') \<or>
            \<not> isString (member obj ''file_name'') \<or> \<not> isString (member obj ''room'') \<or>
            \<not> isString (member obj ''group_id'') \<or> \<not> isDouble (member obj ''logical_size'') \<or>
            \<not> isDouble (member obj ''chunk_size'') \<or> \<not> isDouble (member obj ''epoch'') \<or>
            \<not> isString (member obj ''key'')
         then None
         else let c = candidate_of api obj in if valid_manifest api c then Some c else None
     | _ \<Rightarrow> None)"

definition manifestMessageId :: "manifest_api \<Rightarrow> string \<Rightarrow> string" where
  "manifestMessageId api attachmentId0 =
    (let normalized = trimmed (qtext api) attachmentId0 in
     if normalized = [] then [] else ''am-'' @ take 56 (sha256_hex api normalized))"

text \<open>What the code relies on: a document that was printed parses to the same members, Base64 decodes
  what it encoded, and a SHA-256 digest has 64 hexadecimal digits.\<close>

definition prints_back :: "manifest_api \<Rightarrow> qobject \<Rightarrow> bool" where
  "prints_back api obj \<longleftrightarrow>
     (\<exists>obj'. fromJson api (toJson api obj) = Some (QObject obj') \<and> (\<forall>k. member obj' k = member obj k))"

definition manifest_api_ok :: "manifest_api \<Rightarrow> bool" where
  "manifest_api_ok api \<longleftrightarrow>
     (\<forall>s. fromBase64 api (toBase64 api s) = s) \<and> (\<forall>s. length (sha256_hex api s) = 64)"

lemma round_whole [simp]: "qRound64 (of_int n) = n"
proof -
  have "\<lfloor>(of_int n :: rat) + 1 / 2\<rfloor> = n" by (rule floor_unique) simp_all
  moreover have "\<lfloor>1 / 2 - (of_int n :: rat)\<rfloor> = - n" by (rule floor_unique) simp_all
  ultimately show ?thesis by (simp add: qRound64_def)
qed

lemma epoch_there_and_back: "0 \<le> n \<Longrightarrow> n < 2 ^ 64 \<Longrightarrow> to_quint64 (to_qint64 n) = n"
proof -
  assume n: "0 \<le> n" "n < 2 ^ 64"
  have "(n - 2 ^ 64) mod 2 ^ 64 = n mod (2 ^ 64 :: int)" by (simp add: mod_diff_eq flip: mod_diff_right_eq)
  with n show ?thesis by (simp add: to_quint64_def to_qint64_def)
qed

lemma candidate_of_manifest:
  assumes "manifest_api_ok api" and "\<forall>k. member obj k = member (manifest_object api m) k" and "0 \<le> epoch m" "epoch m < 2 ^ 64"
  shows "candidate_of api obj = m"
  using assms epoch_there_and_back [of "epoch m"]
  by (simp add: candidate_of_def manifest_object_def member_def manifest_api_ok_def)


lemma manifest_id_length: "manifest_api_ok api \<Longrightarrow> length (manifestMessageId api a) \<in> {0, 59}"
  by (auto simp: manifestMessageId_def Let_def manifest_api_ok_def)

definition sample_manifest :: manifest where
  "sample_manifest = \<lparr>attachmentId = ''att'', fileName = ''f.txt'', room = ''lobby'', groupId = ''g'', logicalSize = 5,
     chunkSize = 48128, epoch = 2 ^ 63, mkey = replicate 32 (CHR ''k'')\<rparr>"

definition one_document :: manifest_api where
  "one_document = \<lparr>qtext = plain_text, toJson = (\<lambda>obj. ''{}''),
     fromJson = (\<lambda>s. Some (QObject (manifest_object \<lparr>qtext = plain_text, toJson = (\<lambda>obj. ''{}''), fromJson = (\<lambda>s. None),
       toBase64 = (\<lambda>s. s), fromBase64 = (\<lambda>s. s), sha256_hex = (\<lambda>s. replicate 64 (CHR ''a''))\<rparr> sample_manifest))),
     toBase64 = (\<lambda>s. s), fromBase64 = (\<lambda>s. s), sha256_hex = (\<lambda>s. replicate 64 (CHR ''a''))\<rparr>"


end
