(* ===== verification/Reconnect_Policy.thy ===== *)
theory Reconnect_Policy
  imports Prelude
begin

text \<open>
  The reconnect schedule of the graphical client, \<open>client-cpp/gui/src/reconnect_policy.cpp\<close>: the delay
  before the next attempt doubles from half a second to eight seconds; a cancelled policy schedules
  nothing until the next successful connection. \<open>generation\<close> changes whenever earlier timers become
  stale. The counters stay far below the range of \<open>int\<close>: an attempt takes at least half a second.
\<close>

record policy =
  active :: bool
  attemptCount :: int
  generation :: int

definition new_policy :: policy where
  "new_policy = \<lparr>active = True, attemptCount = 0, generation = 0\<rparr>"

definition kInitialDelayMs :: int where "kInitialDelayMs = 500"
definition kMaximumDelayMs :: int where "kMaximumDelayMs = 8000"

definition scheduleNextAttempt :: "policy \<Rightarrow> int \<times> policy" where
  "scheduleNextAttempt p =
    (if \<not> active p then (-1, p)
     else let exponent = nat (min (attemptCount p) 4);
              delayMs = min (kInitialDelayMs * 2 ^ exponent) kMaximumDelayMs in
          (delayMs, p\<lparr>attemptCount := attemptCount p + 1\<rparr>))"

definition markConnected :: "policy \<Rightarrow> policy" where
  "markConnected p = p\<lparr>active := True, attemptCount := 0, generation := generation p + 1\<rparr>"

definition cancel_policy :: "policy \<Rightarrow> policy" where
  "cancel_policy p = p\<lparr>active := False, generation := generation p + 1\<rparr>"

fun schedule :: "nat \<Rightarrow> policy \<Rightarrow> int list" where
  "schedule 0 p = []"
| "schedule (Suc n) p = (case scheduleNextAttempt p of (d, p') \<Rightarrow> d # schedule n p')"

lemma schedule_active:
  "active p \<Longrightarrow> attemptCount p = int k \<Longrightarrow> schedule n p = map (\<lambda>i. min 8000 (500 * 2 ^ i)) [k..<k + n]"
proof (induction n arbitrary: p k)
  case (Suc n)
  have "(2::int) ^ 4 \<le> 2 ^ k" if "4 \<le> k" using that by (intro power_increasing) simp_all
  then have "min (500 * 2 ^ nat (min (int k) 4)) 8000 = min 8000 (500 * (2::int) ^ k)"
    by (cases "k \<le> 4") (auto simp: min_def)
  moreover have "[k..<k + Suc n] = k # [Suc k..<Suc k + n]" by (simp add: upt_conv_Cons)
  moreover have "schedule n (p\<lparr>attemptCount := attemptCount p + 1\<rparr>) = map (\<lambda>i. min 8000 (500 * 2 ^ i)) [Suc k..<Suc k + n]"
    by (rule Suc.IH) (simp_all add: Suc.prems)
  ultimately show ?case using Suc.prems by (simp add: scheduleNextAttempt_def kInitialDelayMs_def kMaximumDelayMs_def)
qed simp

lemma schedule_cancelled: "\<not> active p \<Longrightarrow> schedule n p = replicate n (-1)"
  by (induction n) (simp_all add: scheduleNextAttempt_def)

text \<open>
  After a successful connection the delays are 500 ms doubled per attempt and never above 8 s;
  after a cancellation every attempt is refused with -1. Both make earlier timers stale by a new
  generation.
\<close>

theorem reconnect_schedule:
  "schedule n (markConnected p) = map (\<lambda>i. min 8000 (500 * 2 ^ i)) [0..<n] \<and>
   schedule n (cancel_policy p) = replicate n (-1) \<and>
   generation p < generation (markConnected p) \<and> generation p < generation (cancel_policy p)"
  using schedule_active [of "markConnected p" 0 n] schedule_cancelled [of "cancel_policy p" n]
  by (simp add: markConnected_def cancel_policy_def)

end
