(* ===== verification/Mls_Client.thy ===== *)
theory Mls_Client
  imports Prelude
begin

text \<open>
  The wrapper of one MLS participant, \<open>client-cpp/gui/src/crypto/mls_client.cpp\<close>. The MLS++ library is
  the record \<open>mls_lib\<close> over its own client, session and pending join objects: a call returns its value or
  the text of the exception it throws, with the object after the call. The wrapper throws when it lacks
  the session or the pending join an operation needs.
\<close>

record ('c, 's, 'j) mls_lib =
  lib_client :: "nat \<Rightarrow> string \<Rightarrow> string + 'c"
  lib_start_join :: "'c \<Rightarrow> string + 'j"
  lib_key_package :: "'j \<Rightarrow> string"
  lib_begin_session :: "string \<Rightarrow> 'c \<Rightarrow> string + 's"
  lib_complete :: "string \<Rightarrow> 'j \<Rightarrow> string + 's"
  lib_add :: "string \<Rightarrow> 's \<Rightarrow> (string + string) \<times> 's"
  lib_remove :: "nat \<Rightarrow> 's \<Rightarrow> (string + string) \<times> 's"
  lib_handle :: "string \<Rightarrow> 's \<Rightarrow> (string + bool) \<times> 's"
  lib_commit :: "'s \<Rightarrow> (string + string \<times> string) \<times> 's"
  lib_protect :: "string \<Rightarrow> 's \<Rightarrow> (string + string) \<times> 's"
  lib_unprotect :: "string \<Rightarrow> 's \<Rightarrow> (string + string) \<times> 's"
  lib_roster :: "'s \<Rightarrow> string option list"

text \<open>The roster has the identity of each basic credential, \<open>None\<close> for another kind.\<close>

record ('c, 's, 'j) MlsClient =
  mc_client :: 'c
  mc_session :: "'s option"
  mc_pendingJoin :: "'j option"

definition no_session :: string where "no_session = ''MLS client has no group session''"
definition no_join :: string where "no_join = ''MLS client has no pending key package''"

text \<open>Creating a client draws keys from the random source, here the argument \<open>seed\<close>.\<close>

definition mls_create :: "('c, 's, 'j) mls_lib \<Rightarrow> nat \<Rightarrow> string \<Rightarrow> string + ('c, 's, 'j) MlsClient" where
  "mls_create lib seed identity =
    (case lib_client lib seed identity of
       Inl what \<Rightarrow> Inl what
     | Inr c \<Rightarrow> (case lib_start_join lib c of
          Inl what \<Rightarrow> Inl what
        | Inr j \<Rightarrow> Inr \<lparr>mc_client = c, mc_session = None, mc_pendingJoin = Some j\<rparr>))"

definition keyPackage :: "('c, 's, 'j) mls_lib \<Rightarrow> ('c, 's, 'j) MlsClient \<Rightarrow> string + string" where
  "keyPackage lib m = (case mc_pendingJoin m of None \<Rightarrow> Inl no_join | Some j \<Rightarrow> Inr (lib_key_package lib j))"

definition createGroup :: "('c, 's, 'j) mls_lib \<Rightarrow> string \<Rightarrow> ('c, 's, 'j) MlsClient \<Rightarrow> string + ('c, 's, 'j) MlsClient" where
  "createGroup lib groupId m =
    (case lib_begin_session lib groupId (mc_client m) of Inl what \<Rightarrow> Inl what | Inr s \<Rightarrow> Inr (m\<lparr>mc_session := Some s\<rparr>))"

text \<open>An operation on the session.\<close>

definition on_session ::
    "('s \<Rightarrow> (string + 'r) \<times> 's) \<Rightarrow> ('c, 's, 'j) MlsClient \<Rightarrow> (string + 'r) \<times> ('c, 's, 'j) MlsClient" where
  "on_session f m = (case mc_session m of None \<Rightarrow> (Inl no_session, m)
     | Some s \<Rightarrow> (case f s of (r, s') \<Rightarrow> (r, m\<lparr>mc_session := Some s'\<rparr>)))"

text \<open>The proposal is handled by the own session, whose answer is ignored.\<close>

definition and_handle :: "('c, 's, 'j) mls_lib \<Rightarrow> ((string + string) \<times> 's) \<Rightarrow> (string + string) \<times> 's" where
  "and_handle lib r = (case r of (Inl what, s) \<Rightarrow> (Inl what, s)
     | (Inr p, s) \<Rightarrow> (case lib_handle lib p s of (Inl what, s') \<Rightarrow> (Inl what, s') | (Inr _, s') \<Rightarrow> (Inr p, s')))"

definition addMember ::
    "('c, 's, 'j) mls_lib \<Rightarrow> string \<Rightarrow> ('c, 's, 'j) MlsClient \<Rightarrow> (string + string) \<times> ('c, 's, 'j) MlsClient" where
  "addMember lib kp m = on_session (\<lambda>s. and_handle lib (lib_add lib kp s)) m"

definition handleProposal ::
    "('c, 's, 'j) mls_lib \<Rightarrow> string \<Rightarrow> ('c, 's, 'j) MlsClient \<Rightarrow> (string + bool) \<times> ('c, 's, 'j) MlsClient" where
  "handleProposal lib p m = on_session (lib_handle lib p) m"

definition removeMember ::
    "('c, 's, 'j) mls_lib \<Rightarrow> string \<Rightarrow> ('c, 's, 'j) MlsClient \<Rightarrow> (string + string) \<times> ('c, 's, 'j) MlsClient" where
  "removeMember lib identity m = on_session (\<lambda>s.
     case first_index (\<lambda>c. c = Some identity) (lib_roster lib s) of
       None \<Rightarrow> (Inl ''MLS member identity was not found'', s)
     | Some index \<Rightarrow> and_handle lib (lib_remove lib index s)) m"

text \<open>The result is the welcome and the handshake.\<close>

definition mls_commit ::
    "('c, 's, 'j) mls_lib \<Rightarrow> ('c, 's, 'j) MlsClient \<Rightarrow> (string + string \<times> string) \<times> ('c, 's, 'j) MlsClient" where
  "mls_commit lib m = on_session (\<lambda>s.
     case lib_commit lib s of
       (Inl what, s') \<Rightarrow> (Inl what, s')
     | (Inr (w, h), s') \<Rightarrow>
         (case lib_handle lib h s' of (Inl what, s'') \<Rightarrow> (Inl what, s'') | (Inr _, s'') \<Rightarrow> (Inr (w, h), s''))) m"

definition handleCommit ::
    "('c, 's, 'j) mls_lib \<Rightarrow> string \<Rightarrow> ('c, 's, 'j) MlsClient \<Rightarrow> (string + unit) \<times> ('c, 's, 'j) MlsClient" where
  "handleCommit lib h m = on_session (\<lambda>s.
     case lib_handle lib h s of
       (Inl what, s') \<Rightarrow> (Inl what, s')
     | (Inr False, s') \<Rightarrow> (Inl ''MLS handshake was rejected'', s')
     | (Inr True, s') \<Rightarrow> (Inr (), s')) m"

definition mls_join ::
    "('c, 's, 'j) mls_lib \<Rightarrow> string \<Rightarrow> ('c, 's, 'j) MlsClient \<Rightarrow> (string + unit) \<times> ('c, 's, 'j) MlsClient" where
  "mls_join lib w m =
    (case mc_pendingJoin m of None \<Rightarrow> (Inl no_join, m)
     | Some j \<Rightarrow> (case lib_complete lib w j of
          Inl what \<Rightarrow> (Inl what, m)
        | Inr s \<Rightarrow> (Inr (), m\<lparr>mc_session := Some s, mc_pendingJoin := None\<rparr>)))"

definition protect ::
    "('c, 's, 'j) mls_lib \<Rightarrow> string \<Rightarrow> ('c, 's, 'j) MlsClient \<Rightarrow> (string + string) \<times> ('c, 's, 'j) MlsClient" where
  "protect lib p m = on_session (lib_protect lib p) m"

definition unprotect ::
    "('c, 's, 'j) mls_lib \<Rightarrow> string \<Rightarrow> ('c, 's, 'j) MlsClient \<Rightarrow> (string + string) \<times> ('c, 's, 'j) MlsClient" where
  "unprotect lib c m = on_session (lib_unprotect lib c) m"

section \<open>Key packages are used once\<close>

text \<open>A successful join consumes the pending join: no further join and no key package.\<close>

lemma join_consumes:
  assumes "mls_join lib w m = (Inr (), m')"
  shows "keyPackage lib m' = Inl no_join" "mls_join lib w' m' = (Inl no_join, m')" "mc_session m' \<noteq> None"
  using assms by (auto simp: mls_join_def keyPackage_def split: option.splits sum.splits)

lemma create_has_package: "mls_create lib seed i = Inr m \<Longrightarrow> \<exists>kp. keyPackage lib m = Inr kp"
  by (auto simp: mls_create_def keyPackage_def split: sum.splits)

lemma session_ops_keep_join [simp]:
  "mc_pendingJoin (snd (on_session f m)) = mc_pendingJoin m"
  by (simp add: on_session_def split: option.splits prod.splits)

lemma session_ops_need_session: "mc_session m = None \<Longrightarrow> on_session f m = (Inl no_session, m)"
  by (simp add: on_session_def)

end
