(* ===== verification/Gui_Worker.thy ===== *)
theory Gui_Worker
  imports Connection Transfer_State Download Manifest Reconnect_Policy Mls_Client Ui_Message Ui_Texts
begin

text \<open>
  The connection worker of the graphical client, \<open>client-cpp/gui/src/gui_connection_worker.cpp\<close>: its state and
  the operations that send one message. \<open>Gui_Mls\<close>, \<open>Gui_Link\<close>, \<open>Gui_Attachments\<close> and \<open>Gui_Receive\<close> have the rest.

  The worker talks to the server through a \<open>ConnectionState\<close>; \<open>link_ops\<close> are the operations it uses, and
  \<open>conn_link\<close> are those of the theory \<open>Connection\<close>. \<open>w_connection\<close> says whether \<open>connection_\<close> is set. The code
  converts between \<open>QString\<close> and UTF-8, which is the identity here. Entries of the diagnostic log are left out.

  Clients of MLS are shared pointers: \<open>w_clients\<close> maps their addresses to them. Two maps are walked in key order
  by the code; they are association lists sorted by key. The build with MLS++ is the one modelled.
\<close>

section \<open>The connection\<close>

record 'l link_ops =
  lk_open :: "Config \<Rightarrow> 'l \<Rightarrow> 'l"
  lk_login :: "'l \<Rightarrow> (bool \<times> message \<times> LoginResult) \<times> 'l"
  lk_ready :: "'l \<Rightarrow> bool"
  lk_send :: "message \<Rightarrow> 'l \<Rightarrow> bool \<times> 'l"
  lk_receive :: "'l \<Rightarrow> (bool \<times> message) \<times> 'l"
  lk_error :: "'l \<Rightarrow> string"
  lk_stop :: "'l \<Rightarrow> 'l"
  lk_drop :: "'l \<Rightarrow> 'l"

section \<open>State\<close>

record saved_connection =
  sc_serverIp :: string
  sc_serverPort :: int
  sc_username :: string
  sc_userCode :: string
  sc_caFile :: string
  sc_tlsServerName :: string
  sc_valid :: bool

definition no_saved_connection :: saved_connection where
  "no_saved_connection = \<lparr>sc_serverIp = [], sc_serverPort = 0, sc_username = [], sc_userCode = [], sc_caFile = [],
     sc_tlsServerName = [], sc_valid = False\<rparr>"

record pending_file =
  pf_room :: string
  pf_groupId :: string
  pf_filePath :: string
  pf_key :: string
  pf_logicalSize :: int

record upload_job =
  uj_room :: string
  uj_fileName :: string
  uj_baseCommand :: string
  uj_key :: string
  uj_context :: ChunkContext
  uj_input :: device
  uj_lastChunkSent :: bool
  uj_inFlightChunks :: int

definition WindowSize :: int where "WindowSize = 8"

record mls_setup =
  ms_room :: string
  ms_filePath :: string
  ms_groupId :: string
  ms_commandId :: string
  ms_targetUsers :: "string list"
  ms_nextTarget :: nat

record download_job =
  dj_manifest :: manifest
  dj_manifestKey :: string
  dj_assembler :: assembler
  dj_commandId :: string

record mls_group =
  mg_client :: "nat option"
  mg_room :: string
  mg_epoch :: u64
  mg_commits :: "u64 \<rightharpoonup> string"
  mg_welcomes :: "u64 \<rightharpoonup> string"

datatype phase = Proposal | Commit | Welcome

record mls_operation =
  mo_phase :: phase
  mo_room :: string
  mo_group :: string
  mo_target :: string
  mo_epoch :: u64
  mo_proposal :: string
  mo_commit :: string
  mo_welcome :: string
  mo_add :: bool

record attachment_event =
  ae_type :: string
  ae_attachmentId :: string
  ae_uploadId :: string
  ae_commandId :: string
  ae_chunkSize :: int
  ae_chunkIndex :: int
  ae_ciphertext :: string
  ae_cipherSha256 :: string
  ae_expiresAt :: string
  ae_receivedIndexes :: "int list"
  ae_content :: string
  ae_logicalSize :: int

datatype worker_signal =
    Connected bool
  | ConnectionFailed string
  | Disconnected
  | ConnectionLost string
  | ReconnectScheduled int int
  | ReconnectAttempt int
  | ReconnectFailed string
  | MessageDeliveryFailed string
  | MessageReceived ui_message
  | HistoryReceived string string bool "QVariantMap list" bool string
  | AttachmentEvent attachment_event
  | MlsCommandResult string bool string string
  | MlsKeyPackageAvailable string string
  | MlsWelcomeEvent string u64 string
  | MlsGroupState string bool string u64 string
  | MlsDataResult string bool string string

record ('l, 'c, 's, 'j) worker =
  w_net :: 'l
  w_connection :: bool
  w_running :: bool
  w_receiver :: bool
  w_host :: bool
  w_saved :: saved_connection
  w_policy :: policy
  w_timerActive :: bool
  w_timers :: "int list"
  w_lastFailure :: string
  w_explicit :: bool
  w_transfers :: "string \<rightharpoonup> transfer"
  w_inits :: "string \<rightharpoonup> transfer"
  w_files :: "string \<rightharpoonup> pending_file"
  w_chunks :: "(string \<times> string \<times> int) list"
  w_jobs :: "string \<rightharpoonup> upload_job"
  w_setups :: "string \<rightharpoonup> mls_setup"
  w_fetches :: "string \<rightharpoonup> string"
  w_adds :: "string \<rightharpoonup> string"
  w_manifests :: "string \<rightharpoonup> manifest"
  w_received :: "string \<rightharpoonup> manifest"
  w_downloads :: "string \<rightharpoonup> download_job"
  w_client :: "nat option"
  w_clients :: "nat \<rightharpoonup> ('c, 's, 'j) MlsClient"
  w_nextClient :: nat
  w_keyPackages :: "string \<rightharpoonup> string"
  w_groups :: "string \<rightharpoonup> mls_group"
  w_operations :: "(string \<times> mls_operation) list"
  w_commands :: "string set"
  w_fs :: files
  w_signals :: "worker_signal list"

text \<open>What comes from Qt, OpenSSL, MLS++, the JSON library (\<open>we_type_error\<close> is the text of its type errors, \<open>we_float_int\<close> its
  conversion of a float to an integer) and the file system.\<close>

record ('c, 's, 'j) worker_env =
  we_text :: qt_text
  we_fold :: "string \<Rightarrow> string"
  we_manifest :: manifest_api
  we_evp :: evp_api
  we_faults :: faults
  we_lib :: "('c, 's, 'j) mls_lib"
  we_openssl :: "string + unit"
  we_is_file :: "string \<Rightarrow> bool"
  we_can_open :: "string \<Rightarrow> bool"
  we_absolute :: "string \<Rightarrow> string"
  we_is_absolute :: "string \<Rightarrow> bool"
  we_in_application :: "string \<Rightarrow> string"
  we_file_name :: "string \<Rightarrow> string"
  we_codec :: json_codec
  we_type_error :: "json \<Rightarrow> string"
  we_float_int :: "u64 \<Rightarrow> int"

definition new_worker :: "'l \<Rightarrow> files \<Rightarrow> ('l, 'c, 's, 'j) worker" where
  "new_worker net fs =
    \<lparr>w_net = net, w_connection = False, w_running = False, w_receiver = False, w_host = False, w_saved = no_saved_connection,
     w_policy = new_policy, w_timerActive = False, w_timers = [], w_lastFailure = [], w_explicit = False,
     w_transfers = Map.empty, w_inits = Map.empty, w_files = Map.empty, w_chunks = [], w_jobs = Map.empty,
     w_setups = Map.empty, w_fetches = Map.empty, w_adds = Map.empty, w_manifests = Map.empty, w_received = Map.empty,
     w_downloads = Map.empty, w_client = None, w_clients = Map.empty, w_nextClient = 0, w_keyPackages = Map.empty,
     w_groups = Map.empty, w_operations = [], w_commands = {}, w_fs = fs, w_signals = []\<rparr>"

text \<open>A map sorted by its keys.\<close>

fun map_put :: "string \<Rightarrow> 'v \<Rightarrow> (string \<times> 'v) list \<Rightarrow> (string \<times> 'v) list" where
  "map_put k v [] = [(k, v)]"
| "map_put k v ((k', v') # kvs) =
    (if k = k' then (k, v) # kvs else if k < k' then (k, v) # (k', v') # kvs else (k', v') # map_put k v kvs)"

definition map_erase :: "string \<Rightarrow> (string \<times> 'v) list \<Rightarrow> (string \<times> 'v) list" where
  "map_erase k kvs = filter (\<lambda>kv. fst kv \<noteq> k) kvs"

lemma map_put_lookup [simp]: "map_of (map_put k v kvs) x = (if x = k then Some v else map_of kvs x)"
  by (induction kvs) auto

lemma map_erase_lookup [simp]: "map_of (map_erase k kvs) x = (if x = k then None else map_of kvs x)"
  by (induction kvs) (auto simp: map_erase_def)

lemma map_put_set: "set (map_put k v kvs) \<subseteq> insert (k, v) (set kvs)"
  by (induction kvs) (auto split: if_splits)

section \<open>Sending\<close>

definition emit :: "worker_signal \<Rightarrow> ('l, 'c, 's, 'j) worker \<Rightarrow> ('l, 'c, 's, 'j) worker" where
  "emit s w = w\<lparr>w_signals := w_signals w @ [s]\<rparr>"

definition usable :: "'l link_ops \<Rightarrow> ('l, 'c, 's, 'j) worker \<Rightarrow> bool" where
  "usable ops w \<longleftrightarrow> w_connection w \<and> lk_ready ops (w_net w)"

definition link_send :: "'l link_ops \<Rightarrow> message \<Rightarrow> ('l, 'c, 's, 'j) worker \<Rightarrow> bool \<times> ('l, 'c, 's, 'j) worker" where
  "link_send ops m w = (case lk_send ops m (w_net w) of (ok, l) \<Rightarrow> (ok, w\<lparr>w_net := l\<rparr>))"

definition link_error :: "'l link_ops \<Rightarrow> ('l, 'c, 's, 'j) worker \<Rightarrow> string" where
  "link_error ops w = lk_error ops (w_net w)"

text \<open>Sending a message; a failure is reported as a lost connection.\<close>

definition send_or_lose :: "'l link_ops \<Rightarrow> message \<Rightarrow> ('l, 'c, 's, 'j) worker \<Rightarrow> ('l, 'c, 's, 'j) worker" where
  "send_or_lose ops m w =
    (case link_send ops m w of (ok, w1) \<Rightarrow> if ok then w1 else emit (ConnectionLost (link_error ops w1)) w1)"

definition simple :: "string \<Rightarrow> string \<Rightarrow> string \<Rightarrow> string \<Rightarrow> msg_fields" where
  "simple type text target rm = mk_fields type [] [] text [] target rm [] [] [] []"

definition delivery_failed :: "string \<Rightarrow> ('l, 'c, 's, 'j) worker \<Rightarrow> ('l, 'c, 's, 'j) worker" where
  "delivery_failed messageId w = (if messageId \<noteq> [] then emit (MessageDeliveryFailed messageId) w else w)"

definition send_tracked :: "'l link_ops \<Rightarrow> msg_fields \<Rightarrow> string \<Rightarrow> ('l, 'c, 's, 'j) worker \<Rightarrow> ('l, 'c, 's, 'j) worker" where
  "send_tracked ops m messageId w =
    (case link_send ops (Message (m\<lparr>message_id := messageId\<rparr>) []) w of (ok, w1) \<Rightarrow>
       if ok then w1 else emit (ConnectionLost (link_error ops w1)) (delivery_failed messageId w1))"

definition sendChatToRoom ::
    "('c, 's, 'j) worker_env \<Rightarrow> 'l link_ops \<Rightarrow> string \<Rightarrow> string \<Rightarrow> string \<Rightarrow> ('l, 'c, 's, 'j) worker \<Rightarrow> ('l, 'c, 's, 'j) worker" where
  "sendChatToRoom e ops text rm messageId w =
    (if \<not> usable ops w \<or> trimmed (we_text e) text = [] then delivery_failed messageId w
     else send_tracked ops (simple ''chat'' (trimmed (we_text e) text) [] rm) messageId w)"

definition sendPrivate ::
    "('c, 's, 'j) worker_env \<Rightarrow> 'l link_ops \<Rightarrow> string \<Rightarrow> string \<Rightarrow> string \<Rightarrow> ('l, 'c, 's, 'j) worker \<Rightarrow> ('l, 'c, 's, 'j) worker" where
  "sendPrivate e ops text target messageId w =
    (if \<not> usable ops w \<or> trimmed (we_text e) text = [] \<or> target = [] then delivery_failed messageId w
     else send_tracked ops (simple ''private_chat'' (trimmed (we_text e) text) target []) messageId w)"

definition joinRoom ::
    "('c, 's, 'j) worker_env \<Rightarrow> 'l link_ops \<Rightarrow> string \<Rightarrow> ('l, 'c, 's, 'j) worker \<Rightarrow> ('l, 'c, 's, 'j) worker" where
  "joinRoom e ops rm w =
    (if \<not> usable ops w \<or> trimmed (we_text e) rm = [] then w
     else send_or_lose ops (Message (simple ''room_join'' [] [] (trimmed (we_text e) rm)) []) w)"

definition createRoom ::
    "('c, 's, 'j) worker_env \<Rightarrow> 'l link_ops \<Rightarrow> string \<Rightarrow> bool \<Rightarrow> ('l, 'c, 's, 'j) worker \<Rightarrow> ('l, 'c, 's, 'j) worker" where
  "createRoom e ops rm isPrivate w =
    (if \<not> usable ops w \<or> trimmed (we_text e) rm = [] then w
     else send_or_lose ops (Message ((simple ''room_create'' [] [] (trimmed (we_text e) rm))\<lparr>is_private := isPrivate\<rparr>) []) w)"

definition sendRoomAction ::
    "('c, 's, 'j) worker_env \<Rightarrow> 'l link_ops \<Rightarrow> string \<Rightarrow> string \<Rightarrow> string \<Rightarrow> ('l, 'c, 's, 'j) worker \<Rightarrow> ('l, 'c, 's, 'j) worker" where
  "sendRoomAction e ops act rm target w =
    (let tr = trimmed (we_text e) in
     if \<not> usable ops w \<or> tr act = [] \<or> tr rm = [] then w
     else send_or_lose ops (Message (simple ''room_action'' (tr act) (tr target) (tr rm)) []) w)"

definition requestUsers :: "'l link_ops \<Rightarrow> ('l, 'c, 's, 'j) worker \<Rightarrow> ('l, 'c, 's, 'j) worker" where
  "requestUsers ops w =
    (if \<not> usable ops w then w else send_or_lose ops (Message (simple ''users_request'' [] [] []) []) w)"

definition requestRooms :: "'l link_ops \<Rightarrow> ('l, 'c, 's, 'j) worker \<Rightarrow> ('l, 'c, 's, 'j) worker" where
  "requestRooms ops w =
    (if \<not> usable ops w then w else send_or_lose ops (Message (simple ''rooms_request'' [] [] []) []) w)"

definition requestHistory ::
    "('c, 's, 'j) worker_env \<Rightarrow> 'l link_ops \<Rightarrow> string \<Rightarrow> string \<Rightarrow> bool \<Rightarrow> string \<Rightarrow> int \<Rightarrow> string \<Rightarrow>
     ('l, 'c, 's, 'j) worker \<Rightarrow> ('l, 'c, 's, 'j) worker" where
  "requestHistory e ops rm target isPrivate before count query w =
    (let tr = trimmed (we_text e) in
     if \<not> usable ops w then w
     else send_or_lose ops (Message ((simple ''history_request'' [] (tr target) (tr rm))\<lparr>is_private := isPrivate,
       before_message_id := tr before, search_query := tr query, limit := word_of_int (max 1 (min count 100))\<rparr>) []) w)"

definition sendAdminAction ::
    "('c, 's, 'j) worker_env \<Rightarrow> 'l link_ops \<Rightarrow> string \<Rightarrow> string \<Rightarrow> string \<Rightarrow> string \<Rightarrow>
     ('l, 'c, 's, 'j) worker \<Rightarrow> ('l, 'c, 's, 'j) worker" where
  "sendAdminAction e ops act target messageId commandId w =
    (let tr = trimmed (we_text e) in
     if \<not> usable ops w \<or> tr act = [] \<or>
        (tr act \<notin> {''recall'', ''approve_connection'', ''deny_connection''} \<and> tr target = []) then w
     else send_or_lose ops
       (Message (mk_fields ''admin_action'' [] [] (tr act) [] (tr target) [] [] [] (tr messageId) (tr commandId)) []) w)"

end
