(* ===== verification/Gui_Mls.thy ===== *)
theory Gui_Mls
  imports Gui_Worker
begin

text \<open>
  The MLS operations of the worker (\<open>gui_connection_worker.cpp\<close>, lines 989 to 1328): fetching key packages, adding
  and removing members, protecting and opening data, publishing the own key package, and resuming operations
  after a reconnect. An exception of the library is caught by the operation and reported.
\<close>

section \<open>Opaque values and clients\<close>

definition kMaxMlsOpaqueBytes :: nat where "kMaxMlsOpaqueBytes = 48 * 1024"

definition encodeMlsOpaque :: "manifest_api \<Rightarrow> string \<Rightarrow> string" where
  "encodeMlsOpaque api v =
    (if v = [] then []
     else let encoded = toBase64 api v in if length encoded \<le> kMaxMlsOpaqueBytes then encoded else [])"

definition decodeMlsOpaque :: "manifest_api \<Rightarrow> string \<Rightarrow> string + string" where
  "decodeMlsOpaque api encoded =
    (if encoded = [] \<or> kMaxMlsOpaqueBytes < length encoded \<or> toBase64 api (fromBase64 api encoded) \<noteq> encoded
     then Inl ''invalid MLS opaque value'' else Inr (fromBase64 api encoded))"

text \<open>\<open>make_shared<MlsClient>(MlsClient::create(...))\<close> for the own user code.\<close>

definition new_client :: "('c, 's, 'j) worker_env \<Rightarrow> ('l, 'c, 's, 'j) worker \<Rightarrow> (string + nat) \<times> ('l, 'c, 's, 'j) worker" where
  "new_client e w =
    (let p = w_nextClient w in
     case mls_create (we_lib e) p (sc_userCode (w_saved w)) of
       Inl what \<Rightarrow> (Inl what, w)
     | Inr m \<Rightarrow> (Inr p, w\<lparr>w_clients := (w_clients w)(p \<mapsto> m), w_nextClient := p + 1\<rparr>))"

text \<open>A call through a shared pointer.\<close>

definition on_client ::
    "nat option \<Rightarrow> (('c, 's, 'j) MlsClient \<Rightarrow> (string + 'r) \<times> ('c, 's, 'j) MlsClient) \<Rightarrow>
     ('l, 'c, 's, 'j) worker \<Rightarrow> (string + 'r) \<times> ('l, 'c, 's, 'j) worker" where
  "on_client q f w =
    (case q of None \<Rightarrow> (Inl [], w)
     | Some p \<Rightarrow> (case w_clients w p of None \<Rightarrow> (Inl [], w)
        | Some m \<Rightarrow> (case f m of (r, m') \<Rightarrow> (r, w\<lparr>w_clients := (w_clients w)(p \<mapsto> m')\<rparr>))))"

definition mls_result ::
    "string \<Rightarrow> bool \<Rightarrow> string \<Rightarrow> string \<Rightarrow> ('l, 'c, 's, 'j) worker \<Rightarrow> ('l, 'c, 's, 'j) worker" where
  "mls_result commandId ok code reason w = emit (MlsCommandResult commandId ok code reason) w"

definition mls_caught :: "string \<Rightarrow> string \<Rightarrow> ('l, 'c, 's, 'j) worker \<Rightarrow> ('l, 'c, 's, 'j) worker" where
  "mls_caught commandId what w = mls_result commandId False ''mls_operation_failed'' what w"

definition not_connected :: "string \<Rightarrow> ('l, 'c, 's, 'j) worker \<Rightarrow> ('l, 'c, 's, 'j) worker" where
  "not_connected commandId w = mls_result commandId False ''not_connected'' ''MLS control requires an active connection'' w"

definition new_group :: "nat \<Rightarrow> string \<Rightarrow> mls_group" where
  "new_group p rm = \<lparr>mg_client = Some p, mg_room = rm, mg_epoch = 0, mg_commits = Map.empty, mg_welcomes = Map.empty\<rparr>"

section \<open>Requests\<close>

definition fetchMlsKeyPackage ::
    "('c, 's, 'j) worker_env \<Rightarrow> 'l link_ops \<Rightarrow> string \<Rightarrow> string \<Rightarrow> string \<Rightarrow> ('l, 'c, 's, 'j) worker \<Rightarrow> ('l, 'c, 's, 'j) worker" where
  "fetchMlsKeyPackage e ops rm target commandId w =
    (let tr = trimmed (we_text e) in
     if \<not> usable ops w then not_connected commandId w
     else if tr rm = [] \<or> tr target = []
     then mls_result commandId False ''invalid_mls_request'' ''MLS room and target are required'' w
     else let w1 = w\<lparr>w_commands := insert commandId (w_commands w)\<rparr> in
       case link_send ops (Message ((simple ''mls.key_package.fetch'' [] (tr target) (tr rm))\<lparr>protocol_version := ''mls-v1'',
              command_id := tr commandId\<rparr>) []) w1 of
         (True, w2) \<Rightarrow> w2
       | (False, w2) \<Rightarrow>
           emit (ConnectionLost (link_error ops w2)) (mls_result commandId False ''send_failed'' (link_error ops w2)
             (w2\<lparr>w_commands := w_commands w2 - {commandId}\<rparr>)))"

definition proposal_message :: "string \<Rightarrow> mls_operation \<Rightarrow> message" where
  "proposal_message pendingId op =
     Message ((simple ''mls.group.proposal'' [] [] (mo_room op))\<lparr>protocol_version := ''mls-v1'', group_id := mo_group op,
       action := (if mo_add op then ''add'' else ''remove''), target_user_code := mo_target op, msg_fields.epoch := mo_epoch op,
       proposal_id := pendingId, proposal := mo_proposal op, command_id := pendingId\<rparr>) []"

definition commit_message :: "string \<Rightarrow> mls_operation \<Rightarrow> message" where
  "commit_message pendingId op =
     Message ((simple ''mls.group.commit'' [] [] (mo_room op))\<lparr>protocol_version := ''mls-v1'', group_id := mo_group op,
       msg_fields.epoch := mo_epoch op, proposal_id := pendingId, commit := mo_commit op, command_id := pendingId\<rparr>) []"

text \<open>The common end of adding and removing: the epoch advances, the operation becomes pending, the proposal is sent.\<close>

definition queue_operation ::
    "('c, 's, 'j) worker_env \<Rightarrow> 'l link_ops \<Rightarrow> string \<Rightarrow> u64 \<Rightarrow> mls_operation \<Rightarrow> ('l, 'c, 's, 'j) worker \<Rightarrow> ('l, 'c, 's, 'j) worker" where
  "queue_operation e ops commandId current op w =
    (if current = 2 ^ 64 - 1 then mls_result commandId False ''mls_epoch_exhausted'' ''MLS group epoch cannot advance'' w
     else let pendingId = trimmed (we_text e) commandId; op1 = op\<lparr>mo_epoch := current + 1\<rparr> in
     if pendingId = [] \<or> map_of (w_operations w) pendingId \<noteq> None
     then mls_result commandId False ''command_pending'' ''MLS command id is already pending or empty'' w
     else (case link_send ops (proposal_message pendingId op1)
                  (w\<lparr>w_operations := map_put pendingId op1 (w_operations w), w_commands := insert commandId (w_commands w)\<rparr>) of
         (True, w1) \<Rightarrow> w1
       | (False, w1) \<Rightarrow> mls_result commandId False ''send_failed'' (link_error ops w1)
             (w1\<lparr>w_operations := map_erase pendingId (w_operations w1), w_commands := w_commands w1 - {commandId}\<rparr>)))"

text \<open>The group, created with a client of its own when it does not exist yet; \<open>None\<close>: another room has it.\<close>

definition group_for_add ::
    "('c, 's, 'j) worker_env \<Rightarrow> string \<Rightarrow> string \<Rightarrow> ('l, 'c, 's, 'j) worker \<Rightarrow>
     (string + mls_group option) \<times> ('l, 'c, 's, 'j) worker" where
  "group_for_add e grp rm w =
    (case w_groups w grp of
       Some g \<Rightarrow> (Inr (if mg_room g \<noteq> rm then None else Some g), w)
     | None \<Rightarrow>
        (case new_client e w of
           (Inl what, w1) \<Rightarrow> (Inl what, w1)
         | (Inr p, w1) \<Rightarrow>
            (case on_client (Some p) (\<lambda>m. case createGroup (we_lib e) grp m of Inl what \<Rightarrow> (Inl what, m) | Inr m' \<Rightarrow> (Inr (), m')) w1 of
               (Inl what, w2) \<Rightarrow> (Inl what, w2)
             | (Inr _, w2) \<Rightarrow> (Inr (Some (new_group p rm)), w2\<lparr>w_groups := (w_groups w2)(grp \<mapsto> new_group p rm)\<rparr>))))"

definition too_large :: "string \<Rightarrow> ('l, 'c, 's, 'j) worker \<Rightarrow> ('l, 'c, 's, 'j) worker" where
  "too_large commandId w = mls_result commandId False ''mls_opaque_too_large'' ''MLS control payload exceeds the frame limit'' w"

definition room_mismatch :: "string \<Rightarrow> ('l, 'c, 's, 'j) worker \<Rightarrow> ('l, 'c, 's, 'j) worker" where
  "room_mismatch commandId w =
     mls_result commandId False ''group_room_mismatch'' ''MLS group is already bound to another room'' w"

text \<open>Proposing through the client and committing: the proposal, the welcome and the handshake.\<close>

definition propose_and_commit ::
    "('c, 's, 'j) worker_env \<Rightarrow> nat option \<Rightarrow> (('c, 's, 'j) MlsClient \<Rightarrow> (string + string) \<times> ('c, 's, 'j) MlsClient) \<Rightarrow>
     ('l, 'c, 's, 'j) worker \<Rightarrow> (string + string \<times> string \<times> string) \<times> ('l, 'c, 's, 'j) worker" where
  "propose_and_commit e q f w =
    (case on_client q f w of
       (Inl what, w1) \<Rightarrow> (Inl what, w1)
     | (Inr p, w1) \<Rightarrow>
        (case on_client q (mls_commit (we_lib e)) w1 of
           (Inl what, w2) \<Rightarrow> (Inl what, w2)
         | (Inr (wl, h), w2) \<Rightarrow> (Inr (p, wl, h), w2)))"

definition addMlsMember ::
    "('c, 's, 'j) worker_env \<Rightarrow> 'l link_ops \<Rightarrow> string \<Rightarrow> string \<Rightarrow> string \<Rightarrow> string \<Rightarrow>
     ('l, 'c, 's, 'j) worker \<Rightarrow> ('l, 'c, 's, 'j) worker" where
  "addMlsMember e ops rm groupId0 target commandId w =
    (let tr = trimmed (we_text e); nroom = tr rm; grp = tr groupId0; ntarget = toLower (we_text e) (tr target);
         enc = encodeMlsOpaque (we_manifest e) in
     if \<not> usable ops w then not_connected commandId w
     else if nroom = [] \<or> grp = [] \<or> ntarget = []
     then mls_result commandId False ''invalid_mls_request'' ''MLS room, group and target are required'' w
     else (case w_keyPackages w ntarget of
       None \<Rightarrow> mls_result commandId False ''key_package_unavailable'' ''Fetch the target key package before adding a member'' w
     | Some kp \<Rightarrow>
       (case group_for_add e grp nroom w of
          (Inl what, w1) \<Rightarrow> mls_caught commandId what w1
        | (Inr None, w1) \<Rightarrow> room_mismatch commandId w1
        | (Inr (Some g), w1) \<Rightarrow>
          (case decodeMlsOpaque (we_manifest e) kp of
             Inl what \<Rightarrow> mls_caught commandId what w1
           | Inr raw \<Rightarrow>
             (case propose_and_commit e (mg_client g) (addMember (we_lib e) raw) w1 of
                (Inl what, w2) \<Rightarrow> mls_caught commandId what w2
              | (Inr (p, wl, h), w2) \<Rightarrow>
                  if enc p = [] \<or> enc h = [] \<or> enc wl = [] then too_large commandId w2
                  else queue_operation e ops commandId (mg_epoch g)
                    \<lparr>mo_phase = Proposal, mo_room = nroom, mo_group = grp, mo_target = ntarget, mo_epoch = 0,
                     mo_proposal = enc p, mo_commit = enc h, mo_welcome = enc wl, mo_add = True\<rparr> w2)))))"

definition removeMlsMember ::
    "('c, 's, 'j) worker_env \<Rightarrow> 'l link_ops \<Rightarrow> string \<Rightarrow> string \<Rightarrow> string \<Rightarrow> string \<Rightarrow>
     ('l, 'c, 's, 'j) worker \<Rightarrow> ('l, 'c, 's, 'j) worker" where
  "removeMlsMember e ops rm groupId0 target commandId w =
    (let tr = trimmed (we_text e); nroom = tr rm; grp = tr groupId0; ntarget = tr target;
         enc = encodeMlsOpaque (we_manifest e);
         invalid = mls_result commandId False ''invalid_mls_request'' ''MLS room, group and target are required'' w in
     if \<not> usable ops w then not_connected commandId w
     else if nroom = [] \<or> grp = [] \<or> ntarget = [] then invalid
     else (case w_groups w grp of
       None \<Rightarrow> invalid
     | Some g \<Rightarrow>
       if mg_room g \<noteq> nroom then room_mismatch commandId w
       else (case propose_and_commit e (mg_client g) (removeMember (we_lib e) ntarget) w of
                (Inl what, w1) \<Rightarrow> mls_caught commandId what w1
              | (Inr (p, wl, h), w1) \<Rightarrow>
                  if enc p = [] \<or> enc h = [] then too_large commandId w1
                  else queue_operation e ops commandId (mg_epoch g)
                    \<lparr>mo_phase = Proposal, mo_room = nroom, mo_group = grp, mo_target = ntarget, mo_epoch = 0,
                     mo_proposal = enc p, mo_commit = enc h, mo_welcome = [], mo_add = False\<rparr> w1)))"

definition resetMlsState ::
    "('c, 's, 'j) worker_env \<Rightarrow> ('l, 'c, 's, 'j) worker \<Rightarrow> ('l, 'c, 's, 'j) worker" where
  "resetMlsState e w =
    (let w1 = w\<lparr>w_keyPackages := Map.empty, w_groups := Map.empty, w_operations := [], w_commands := {}\<rparr> in
     case new_client e w1 of
       (Inl what, w2) \<Rightarrow> w2\<lparr>w_client := None\<rparr>
     | (Inr p, w2) \<Rightarrow> w2\<lparr>w_client := Some p\<rparr>)"

definition inspectMlsGroup ::
    "('c, 's, 'j) worker_env \<Rightarrow> string \<Rightarrow> string \<Rightarrow> ('l, 'c, 's, 'j) worker \<Rightarrow> ('l, 'c, 's, 'j) worker" where
  "inspectMlsGroup e groupId0 commandId w =
    (let failed = emit (MlsGroupState commandId False groupId0 0 ''MLS group is not initialized'') w;
         grp = trimmed (we_text e) groupId0 in
     case w_groups w grp of
       None \<Rightarrow> failed
     | Some g \<Rightarrow> if mg_client g = None then failed else emit (MlsGroupState commandId True grp (mg_epoch g) []) w)"

definition protectMls ::
    "('c, 's, 'j) worker_env \<Rightarrow> string \<Rightarrow> string \<Rightarrow> string \<Rightarrow> ('l, 'c, 's, 'j) worker \<Rightarrow> ('l, 'c, 's, 'j) worker" where
  "protectMls e groupId0 plaintext commandId w =
    (let failed = emit (MlsDataResult commandId False [] ''MLS group is not initialized'') w in
     case w_groups w (trimmed (we_text e) groupId0) of
       None \<Rightarrow> failed
     | Some g \<Rightarrow>
        if mg_client g = None then failed
        else (case on_client (mg_client g) (protect (we_lib e) plaintext) w of
           (Inl what, w1) \<Rightarrow> emit (MlsDataResult commandId False [] what) w1
         | (Inr c, w1) \<Rightarrow>
             let enc = encodeMlsOpaque (we_manifest e) c in
             if enc = [] then emit (MlsDataResult commandId False [] ''MLS ciphertext exceeds the frame limit'') w1
             else emit (MlsDataResult commandId True enc []) w1))"

definition unprotectMls ::
    "('c, 's, 'j) worker_env \<Rightarrow> string \<Rightarrow> string \<Rightarrow> string \<Rightarrow> ('l, 'c, 's, 'j) worker \<Rightarrow> ('l, 'c, 's, 'j) worker" where
  "unprotectMls e groupId0 ciphertext0 commandId w =
    (let failed = emit (MlsDataResult commandId False [] ''MLS group is not initialized'') w in
     case w_groups w (trimmed (we_text e) groupId0) of
       None \<Rightarrow> failed
     | Some g \<Rightarrow>
        if mg_client g = None then failed
        else (case decodeMlsOpaque (we_manifest e) ciphertext0 of
           Inl what \<Rightarrow> emit (MlsDataResult commandId False [] what) w
         | Inr raw \<Rightarrow>
            (case on_client (mg_client g) (unprotect (we_lib e) raw) w of
               (Inl what, w1) \<Rightarrow> emit (MlsDataResult commandId False [] what) w1
             | (Inr p, w1) \<Rightarrow> emit (MlsDataResult commandId True p []) w1)))"

section \<open>The own key package\<close>

definition publishMlsKeyPackage ::
    "('c, 's, 'j) worker_env \<Rightarrow> 'l link_ops \<Rightarrow> ('l, 'c, 's, 'j) worker \<Rightarrow> ('l, 'c, 's, 'j) worker" where
  "publishMlsKeyPackage e ops w =
    (if \<not> usable ops w \<or> w_client w = None then w
     else (case on_client (w_client w) (\<lambda>m. (keyPackage (we_lib e) m, m)) w of
        (Inl what, w1) \<Rightarrow> emit (ConnectionLost (''MLS key package initialization failed: '' @ what)) w1
      | (Inr kp, w1) \<Rightarrow>
          let enc = encodeMlsOpaque (we_manifest e) kp in
          if enc = [] then emit (ConnectionLost ''MLS key package exceeds the frame limit'') w1
          else send_or_lose ops (Message ((mk_fields ''mls.key_package.publish'' [] (sc_userCode (w_saved w1)) [] [] [] [] [] [] [] [])
                 \<lparr>protocol_version := ''mls-v1'', key_package := enc\<rparr>) []) w1))"

definition resumed_message :: "string \<Rightarrow> mls_operation \<Rightarrow> message" where
  "resumed_message commandId op = (if mo_phase op = Proposal then proposal_message commandId op else commit_message commandId op)"

fun resume_loop ::
    "'l link_ops \<Rightarrow> (string \<times> mls_operation) list \<Rightarrow> ('l, 'c, 's, 'j) worker \<Rightarrow> ('l, 'c, 's, 'j) worker" where
  "resume_loop ops [] w = w"
| "resume_loop ops ((commandId, op) # rest) w =
    (if mo_phase op = Welcome
     then resume_loop ops rest (w\<lparr>w_commands := w_commands w - {commandId}, w_operations := map_erase commandId (w_operations w)\<rparr>)
     else (case link_send ops (resumed_message commandId op) w of
        (True, w1) \<Rightarrow> resume_loop ops rest w1
      | (False, w1) \<Rightarrow> resume_loop ops rest (mls_result commandId False ''send_failed'' (link_error ops w1) w1)))"

definition resumePendingMlsOperations ::
    "'l link_ops \<Rightarrow> ('l, 'c, 's, 'j) worker \<Rightarrow> ('l, 'c, 's, 'j) worker" where
  "resumePendingMlsOperations ops w = (if \<not> usable ops w then w else resume_loop ops (w_operations w) w)"

end
