(* ===== verification/Gui_Link.thy ===== *)
theory Gui_Link
  imports Gui_Mls
begin

text \<open>
  Connecting and reconnecting of the worker (\<open>gui_connection_worker.cpp\<close>, lines 24 to 366 and 1753 to 1767): attempts
  with retries, the hosted server, the reconnect timer and stopping the receiver.

  A single-shot timer is the generation of the policy it was started in (\<open>w_timers\<close>); \<open>timer_fires\<close> is its callback.
\<close>

definition kLocalHostPort :: int where "kLocalHostPort = 8888"
definition kLocalHostRetryAttempts :: int where "kLocalHostRetryAttempts = 8"

definition userFacingLoginFailure :: "string \<Rightarrow> string" where
  "userFacingLoginFailure reason =
    (if reason = ''The room owner declined this connection'' then txt_declined
     else if reason = ''The room owner did not approve the connection in time'' then txt_approval_timeout
     else txt_login_refused @ reason)"

text \<open>The thread is joined in any case; the stop request makes its blocking read return.\<close>

definition stopReceiveLoop :: "'l link_ops \<Rightarrow> ('l, 'c, 's, 'j) worker \<Rightarrow> ('l, 'c, 's, 'j) worker" where
  "stopReceiveLoop ops w =
    (if \<not> w_running w then w\<lparr>w_receiver := False\<rparr>
     else w\<lparr>w_running := False, w_receiver := False,
            w_net := (if w_connection w then lk_stop ops (w_net w) else w_net w)\<rparr>)"

definition reset_connection :: "'l link_ops \<Rightarrow> ('l, 'c, 's, 'j) worker \<Rightarrow> ('l, 'c, 's, 'j) worker" where
  "reset_connection ops w =
    (if w_connection w then w\<lparr>w_connection := False, w_net := lk_drop ops (w_net w)\<rparr> else w)"

definition stopHostedServer :: "('l, 'c, 's, 'j) worker \<Rightarrow> ('l, 'c, 's, 'j) worker" where
  "stopHostedServer w = w\<lparr>w_host := False\<rparr>"

section \<open>Attempts\<close>

definition report :: "bool \<Rightarrow> string \<Rightarrow> ('l, 'c, 's, 'j) worker \<Rightarrow> ('l, 'c, 's, 'j) worker" where
  "report reportFailure reason w = (if reportFailure then emit (ConnectionFailed reason) w else w)"

text \<open>After a successful login.\<close>

definition session_started ::
    "('c, 's, 'j) worker_env \<Rightarrow> 'l link_ops \<Rightarrow> bool \<Rightarrow> message \<Rightarrow> ('l, 'c, 's, 'j) worker \<Rightarrow> ('l, 'c, 's, 'j) worker" where
  "session_started e ops preserve response w =
    (let w1 = w\<lparr>w_running := True, w_receiver := True\<rparr>;
         w2 = (if \<not> preserve then resetMlsState e w1
               else if w_client w1 = None
               then (case new_client e w1 of (Inl what, w') \<Rightarrow> w' | (Inr p, w') \<Rightarrow> w'\<lparr>w_client := Some p\<rparr>)
               else w1);
         w3 = publishMlsKeyPackage e ops w2;
         w4 = (if preserve then resumePendingMlsOperations ops w3 else w3) in
     emit (Connected (is_admin (mfields response))) w4)"

fun connect_attempts ::
    "('c, 's, 'j) worker_env \<Rightarrow> 'l link_ops \<Rightarrow> Config \<Rightarrow> bool \<Rightarrow> bool \<Rightarrow> nat \<Rightarrow> string \<Rightarrow>
     ('l, 'c, 's, 'j) worker \<Rightarrow> bool \<times> ('l, 'c, 's, 'j) worker" where
  "connect_attempts e ops cfg reportFailure preserve 0 lastReason w =
    (let reason = (if lastReason = [] then ''Connection failed'' else lastReason) in
     (False, report reportFailure reason (w\<lparr>w_lastFailure := reason\<rparr>)))"
| "connect_attempts e ops cfg reportFailure preserve (Suc n) lastReason w =
    (let w0 = reset_connection ops w;
         w1 = w0\<lparr>w_connection := True, w_net := lk_open ops cfg (w_net w0)\<rparr> in
     case lk_login ops (w_net w1) of ((ok, response, result), l) \<Rightarrow>
     let w2 = w1\<lparr>w_net := l\<rparr> in
     if ok then (True, session_started e ops preserve response w2)
     else let reason = lk_error ops l;
              w3 = reset_connection ops (w2\<lparr>w_lastFailure := reason\<rparr>) in
     if result = kRejected
     then (False, report reportFailure (userFacingLoginFailure reason) (w3\<lparr>w_lastFailure := userFacingLoginFailure reason\<rparr>))
     else connect_attempts e ops cfg reportFailure preserve n reason w3)"

definition config_of :: "saved_connection \<Rightarrow> Config" where
  "config_of s = \<lparr>cfg_server_ip = sc_serverIp s, cfg_server_port = sc_serverPort s, cfg_username = sc_username s,
     cfg_user_code = sc_userCode s, cfg_ca_file = sc_caFile s, cfg_tls_server_name = sc_tlsServerName s\<rparr>"

definition connectToServerWithRetries ::
    "('c, 's, 'j) worker_env \<Rightarrow> 'l link_ops \<Rightarrow> Config \<Rightarrow> int \<Rightarrow> bool \<Rightarrow> bool \<Rightarrow>
     ('l, 'c, 's, 'j) worker \<Rightarrow> bool \<times> ('l, 'c, 's, 'j) worker" where
  "connectToServerWithRetries e ops cfg attempts reportFailure preserve w =
    (case we_openssl e of
       Inl reason \<Rightarrow> (False, report reportFailure reason (w\<lparr>w_lastFailure := reason\<rparr>))
     | Inr _ \<Rightarrow> connect_attempts e ops cfg reportFailure preserve (nat (max 1 attempts)) [] w)"

section \<open>Slots\<close>

definition connectToServer ::
    "('c, 's, 'j) worker_env \<Rightarrow> 'l link_ops \<Rightarrow> string \<Rightarrow> int \<Rightarrow> string \<Rightarrow> string \<Rightarrow> string \<Rightarrow> string \<Rightarrow>
     ('l, 'c, 's, 'j) worker \<Rightarrow> ('l, 'c, 's, 'j) worker" where
  "connectToServer e ops ip port nm code ca tls w =
    (let w1 = (stopReceiveLoop ops w)\<lparr>w_explicit := False, w_policy := markConnected (w_policy w), w_timerActive := False\<rparr>;
         preserve = (sc_valid (w_saved w1) \<and> we_fold e (sc_userCode (w_saved w1)) = we_fold e code);
         target = \<lparr>sc_serverIp = ip, sc_serverPort = port, sc_username = nm, sc_userCode = code, sc_caFile = ca,
                   sc_tlsServerName = tls, sc_valid = True\<rparr> in
     snd (connectToServerWithRetries e ops (config_of target) 1 True preserve (w1\<lparr>w_saved := target\<rparr>)))"

text \<open>What the hosted server shows while it starts: the files and the port before, the start, the observations of the
  waiting loop (output read, process ended, port open) until the time is up, and the state after it.\<close>

record host_env =
  he_exists_before :: "string \<Rightarrow> bool"
  he_listening :: "bool \<times> bool"
  he_start :: "string \<Rightarrow> string list \<Rightarrow> string + unit"
  he_observations :: "(string \<times> bool \<times> bool) list"
  he_rest :: string
  he_running :: bool
  he_error :: string
  he_exists_after :: "string \<Rightarrow> bool"

fun startup_loop :: "(string \<times> bool \<times> bool) list \<Rightarrow> string \<Rightarrow> bool \<times> string" where
  "startup_loop [] startupLog = (False, startupLog)"
| "startup_loop ((out, ended, listening) # rest) startupLog =
    (if ended then (False, startupLog @ out) else if listening then (True, startupLog @ out)
     else startup_loop rest (startupLog @ out))"

definition host_arguments :: "string \<Rightarrow> string \<Rightarrow> string \<Rightarrow> string \<Rightarrow> string \<Rightarrow> string list" where
  "host_arguments cert key db code nm =
     [''-cert'', cert, ''-key'', key, ''-auto-cert'', ''-db'', db, ''-admin-code'', code, ''-lan-discovery'', ''-discovery-name'', nm]"

text \<open>A relative path of the host configuration is taken from the directory of the application.\<close>

definition resolvePath :: "('c, 's, 'j) worker_env \<Rightarrow> string \<Rightarrow> string" where
  "resolvePath e path = (if we_is_absolute e path then we_absolute e path else we_in_application e path)"

definition connectToLocalHost ::
    "('c, 's, 'j) worker_env \<Rightarrow> 'l link_ops \<Rightarrow> host_env \<Rightarrow> string \<Rightarrow> string \<Rightarrow> string \<Rightarrow> string \<Rightarrow> string \<Rightarrow> string \<Rightarrow>
     ('l, 'c, 's, 'j) worker \<Rightarrow> ('l, 'c, 's, 'j) worker" where
  "connectToLocalHost e ops h serverExe certFile keyFile dbFile nm code w =
    (let tr = trimmed (we_text e); exe = resolvePath e serverExe; cert = resolvePath e certFile; key = resolvePath e keyFile;
         target = \<lparr>sc_serverIp = ''127.0.0.1'', sc_serverPort = kLocalHostPort, sc_username = nm, sc_userCode = code,
                   sc_caFile = cert, sc_tlsServerName = [], sc_valid = True\<rparr>;
         w1 = (reset_connection ops (stopReceiveLoop ops w))\<lparr>w_explicit := False, w_policy := markConnected (w_policy w),
                w_timerActive := False, w_saved := target\<rparr>;
         connect = (\<lambda>n w. snd (connectToServerWithRetries e ops (config_of target) n True False w)) in
     if \<not> he_exists_before h exe then emit (ConnectionFailed txt_no_server_file) w1
     else if fst (he_listening h) \<and> he_exists_before h cert \<and> he_exists_before h key then connect 2 w1
     else if snd (he_listening h)
     then emit (ConnectionFailed ''Local port 8888 is already in use before the local TLS identity was initialized.'') w1
     else let w2 = (stopHostedServer w1)\<lparr>w_host := True\<rparr> in
     case he_start h exe (host_arguments cert key (resolvePath e dbFile) code nm) of
       Inl text \<Rightarrow> (emit (ConnectionFailed (txt_cannot_start @ text)) w2)\<lparr>w_host := False\<rparr>
     | Inr _ \<Rightarrow>
        (case startup_loop (he_observations h) [] of (listening, startupLog) \<Rightarrow>
         if \<not> listening
         then let detail = tr (startupLog @ he_rest h) in
              stopHostedServer (emit (ConnectionFailed (''Local Go Server did not become ready'' @
                (if detail = [] then [] else '': '' @ detail))) w2)
         else if \<not> he_running h
         then let text = tr (he_error h) in
              (emit (ConnectionFailed (txt_server_exited @ (if text = [] then [] else txt_colon @ text))) w2)\<lparr>w_host := False\<rparr>
         else if \<not> he_exists_after h cert \<or> \<not> he_exists_after h key
         then stopHostedServer (emit (ConnectionFailed txt_no_certificate) w2)
         else connect kLocalHostRetryAttempts w2))"

definition disconnectFromServer :: "'l link_ops \<Rightarrow> ('l, 'c, 's, 'j) worker \<Rightarrow> ('l, 'c, 's, 'j) worker" where
  "disconnectFromServer ops w =
    (let w1 = w\<lparr>w_explicit := True, w_policy := cancel_policy (w_policy w), w_timerActive := False\<rparr> in
     emit Disconnected (stopHostedServer (reset_connection ops (stopReceiveLoop ops w1))))"

definition scheduleReconnect :: "'l link_ops \<Rightarrow> ('l, 'c, 's, 'j) worker \<Rightarrow> ('l, 'c, 's, 'j) worker" where
  "scheduleReconnect ops w =
    (if w_explicit w \<or> \<not> sc_valid (w_saved w) \<or> w_timerActive w then w
     else let w1 = reset_connection ops (stopReceiveLoop ops w) in
     case scheduleNextAttempt (w_policy w1) of (delayMs, p) \<Rightarrow>
     let w2 = w1\<lparr>w_policy := p\<rparr> in
     if delayMs < 0 then w2
     else (emit (ReconnectScheduled (attemptCount p) delayMs) w2)
            \<lparr>w_timerActive := True, w_timers := w_timers w2 @ [generation p]\<rparr>)"

definition retrySavedConnection ::
    "('c, 's, 'j) worker_env \<Rightarrow> 'l link_ops \<Rightarrow> ('l, 'c, 's, 'j) worker \<Rightarrow> ('l, 'c, 's, 'j) worker" where
  "retrySavedConnection e ops w =
    (if w_explicit w \<or> \<not> sc_valid (w_saved w) then w
     else let w1 = emit (ReconnectAttempt (attemptCount (w_policy w))) w in
     case connectToServerWithRetries e ops (config_of (w_saved w1)) 1 False True w1 of
       (True, w2) \<Rightarrow> w2\<lparr>w_policy := markConnected (w_policy w2)\<rparr>
     | (False, w2) \<Rightarrow> scheduleReconnect ops (emit (ReconnectFailed (w_lastFailure w2)) w2))"

definition timer_fires ::
    "('c, 's, 'j) worker_env \<Rightarrow> 'l link_ops \<Rightarrow> nat \<Rightarrow> ('l, 'c, 's, 'j) worker \<Rightarrow> ('l, 'c, 's, 'j) worker" where
  "timer_fires e ops i w =
    (if length (w_timers w) \<le> i then w
     else let g = w_timers w ! i;
              w1 = w\<lparr>w_timers := take i (w_timers w) @ drop (Suc i) (w_timers w)\<rparr> in
     if g \<noteq> generation (w_policy w1) then w1 else retrySavedConnection e ops (w1\<lparr>w_timerActive := False\<rparr>))"

end
