(* ===== verification/Gui_Attachments.thy ===== *)
theory Gui_Attachments
  imports Gui_Mls
begin

text \<open>
  Attachments in the worker (\<open>gui_connection_worker.cpp\<close>, lines 478 to 986): setting up the MLS group of an upload,
  sending encrypted chunks with at most eight unacknowledged ones, committing, announcing the manifest to the
  group, and downloading. Files are those of \<open>Download\<close>; an opened file is a \<open>device\<close> over its contents.
\<close>

section \<open>Uploading\<close>

definition attachment_error ::
    "string \<Rightarrow> string \<Rightarrow> string \<Rightarrow> int \<Rightarrow> int \<Rightarrow> string \<Rightarrow> ('l, 'c, 's, 'j) worker \<Rightarrow> ('l, 'c, 's, 'j) worker" where
  "attachment_error attId upId commandId chunkSz index reason w =
     emit (AttachmentEvent \<lparr>ae_type = ''error'', ae_attachmentId = attId, ae_uploadId = upId, ae_commandId = commandId,
       ae_chunkSize = chunkSz, ae_chunkIndex = index, ae_ciphertext = [], ae_cipherSha256 = [], ae_expiresAt = [],
       ae_receivedIndexes = [], ae_content = reason, ae_logicalSize = 0\<rparr>) w"

definition sendAttachmentInit ::
    "('c, 's, 'j) worker_env \<Rightarrow> 'l link_ops \<Rightarrow> string \<Rightarrow> int \<Rightarrow> string \<Rightarrow> ('l, 'c, 's, 'j) worker \<Rightarrow> ('l, 'c, 's, 'j) worker" where
  "sendAttachmentInit e ops rm sz commandId w =
    (let tr = trimmed (we_text e); nroom = tr rm; ncommand = tr commandId in
     if MaxLogicalBytes < sz then attachment_error [] [] commandId 0 0 txt_too_large w
     else if \<not> usable ops w \<or> nroom = [] \<or> sz \<le> 0
     then attachment_error [] [] commandId 0 0 ''invalid attachment initialization'' w
     else (case begin_transfer sz ChunkSize new_transfer of (begun, t) \<Rightarrow>
       if ncommand = [] \<or> \<not> begun
       then attachment_error [] [] commandId 0 0 ''attachment command id and transfer state are required'' w
       else (case link_send ops (Message ((simple ''attachment.init'' [] [] nroom)\<lparr>logical_size := word_of_int sz,
                     command_id := ncommand\<rparr>) []) (w\<lparr>w_inits := (w_inits w)(ncommand \<mapsto> t)\<rparr>) of
           (True, w1) \<Rightarrow> w1
         | (False, w1) \<Rightarrow>
             let reason = link_error ops w1 in
             emit (ConnectionLost reason) (attachment_error [] [] commandId 0 0 reason
               (w1\<lparr>w_inits := (w_inits w1)(ncommand := None)\<rparr>)))))"

text \<open>\<open>QFileInfo\<close>: the size of a missing file is zero.\<close>

definition readable :: "('c, 's, 'j) worker_env \<Rightarrow> string \<Rightarrow> ('l, 'c, 's, 'j) worker \<Rightarrow> bool" where
  "readable e path w \<longleftrightarrow> w_fs w (we_absolute e path) \<noteq> None \<and> we_is_file e path"

definition file_size :: "('c, 's, 'j) worker_env \<Rightarrow> string \<Rightarrow> ('l, 'c, 's, 'j) worker \<Rightarrow> int" where
  "file_size e path w = (case w_fs w (we_absolute e path) of None \<Rightarrow> 0 | Some d \<Rightarrow> int (length d))"

definition failAttachmentMlsSetup ::
    "string \<Rightarrow> string \<Rightarrow> ('l, 'c, 's, 'j) worker \<Rightarrow> ('l, 'c, 's, 'j) worker" where
  "failAttachmentMlsSetup command reason w =
     attachment_error [] [] command 0 0 reason
       (w\<lparr>w_setups := (w_setups w)(command := None),
          w_fetches := (\<lambda>k. if w_fetches w k = Some command then None else w_fetches w k),
          w_adds := (\<lambda>k. if w_adds w k = Some command then None else w_adds w k)\<rparr>)"

definition startNextAttachmentMlsSetup ::
    "('c, 's, 'j) worker_env \<Rightarrow> 'l link_ops \<Rightarrow> string \<Rightarrow> ('l, 'c, 's, 'j) worker \<Rightarrow> ('l, 'c, 's, 'j) worker" where
  "startNextAttachmentMlsSetup e ops command w =
    (case w_setups w command of
       None \<Rightarrow> w
     | Some setup0 \<Rightarrow>
        if length (ms_targetUsers setup0) \<le> ms_nextTarget setup0 then
          let path = ms_filePath setup0 in
          (case (if readable e path w then generate_key (we_evp e) else None) of
             None \<Rightarrow> failAttachmentMlsSetup command ''invalid attachment file or key generation failed'' w
           | Some key \<Rightarrow>
               sendAttachmentInit e ops (ms_room setup0) (file_size e path w) command
                 (w\<lparr>w_files := (w_files w)(command \<mapsto> \<lparr>pf_room = ms_room setup0, pf_groupId = ms_groupId setup0,
                      pf_filePath = we_absolute e path, pf_key = key, pf_logicalSize = file_size e path w\<rparr>),
                    w_setups := (w_setups w)(command := None)\<rparr>))
        else
          let fetch = command @ ''-mls-fetch-'' @ to_string (int (ms_nextTarget setup0)) in
          fetchMlsKeyPackage e ops (ms_room setup0) (ms_targetUsers setup0 ! ms_nextTarget setup0) fetch
            (w\<lparr>w_fetches := (w_fetches w)(fetch \<mapsto> command)\<rparr>))"

definition startAttachmentUpload ::
    "('c, 's, 'j) worker_env \<Rightarrow> 'l link_ops \<Rightarrow> string \<Rightarrow> string \<Rightarrow> string list \<Rightarrow> string \<Rightarrow>
     ('l, 'c, 's, 'j) worker \<Rightarrow> ('l, 'c, 's, 'j) worker" where
  "startAttachmentUpload e ops rm path targets commandId w =
    (let tr = trimmed (we_text e); nroom = tr rm; ncommand = tr commandId in
     if MaxLogicalBytes < file_size e path w then attachment_error [] [] commandId 0 0 txt_too_large w
     else if \<not> readable e path w \<or> ncommand = [] \<or> targets = []
     then attachment_error [] [] commandId 0 0
            (if targets = [] then txt_no_members else ''invalid attachment file or command'') w
     else let grp = attachment_mls_group_id (we_evp e) tr nroom ncommand in
     case new_client e w of
       (Inl what, w1) \<Rightarrow> attachment_error [] [] commandId 0 0 what w1
     | (Inr p, w1) \<Rightarrow>
        (case on_client (Some p) (\<lambda>m. case createGroup (we_lib e) grp m of Inl what \<Rightarrow> (Inl what, m) | Inr m' \<Rightarrow> (Inr (), m')) w1 of
           (Inl what, w2) \<Rightarrow> attachment_error [] [] commandId 0 0 what w2
         | (Inr _, w2) \<Rightarrow>
             startNextAttachmentMlsSetup e ops ncommand
               (w2\<lparr>w_groups := (if w_groups w2 grp = None then (w_groups w2)(grp \<mapsto> new_group p nroom) else w_groups w2),
                   w_setups := (w_setups w2)(ncommand \<mapsto> \<lparr>ms_room = nroom, ms_filePath = we_absolute e path, ms_groupId = grp,
                     ms_commandId = ncommand, ms_targetUsers = targets, ms_nextTarget = 0\<rparr>)\<rparr>)))"

section \<open>Chunks\<close>

definition chunk_message :: "manifest_api \<Rightarrow> string \<Rightarrow> int \<Rightarrow> string \<Rightarrow> string \<Rightarrow> string \<Rightarrow> message" where
  "chunk_message api upId index cipher sha command =
     Message ((simple ''attachment.chunk'' [] [] [])\<lparr>upload_id := upId, chunk_index := word_of_int index,
       ciphertext := toBase64 api cipher, cipher_sha256 := map lower_ascii sha, command_id := command\<rparr>) []"

definition sendAttachmentChunk ::
    "('c, 's, 'j) worker_env \<Rightarrow> 'l link_ops \<Rightarrow> string \<Rightarrow> int \<Rightarrow> string \<Rightarrow> string \<Rightarrow> string \<Rightarrow>
     ('l, 'c, 's, 'j) worker \<Rightarrow> ('l, 'c, 's, 'j) worker" where
  "sendAttachmentChunk e ops upId index cipher sha commandId w =
    (let tr = trimmed (we_text e); nupload = tr upId; ncommand = tr commandId in
     if \<not> usable ops w \<or> nupload = [] \<or> index < 0 \<or> cipher = [] \<or> length sha \<noteq> 64
     then attachment_error [] upId commandId 0 index ''invalid attachment chunk'' w
     else let refused = attachment_error [] upId commandId 0 index ''attachment transfer is not initialized or command is duplicated'' w in
     if ncommand = [] then refused
     else (case w_transfers w nupload of
        None \<Rightarrow> refused
      | Some t \<Rightarrow>
         (case registerChunkCommand ncommand index t of
            (False, _) \<Rightarrow> refused
          | (True, t1) \<Rightarrow>
             (case link_send ops (chunk_message (we_manifest e) nupload index cipher sha ncommand)
                     (w\<lparr>w_transfers := (w_transfers w)(nupload \<mapsto> t1), w_chunks := map_put ncommand (nupload, index) (w_chunks w)\<rparr>) of
                (True, w1) \<Rightarrow> w1
              | (False, w1) \<Rightarrow>
                  let reason = link_error ops w1 in
                  emit (ConnectionLost reason) (attachment_error [] upId commandId 0 index reason
                    (w1\<lparr>w_chunks := map_erase ncommand (w_chunks w1),
                        w_transfers := (w_transfers w1)(nupload \<mapsto> fail_transfer t1)\<rparr>))))))"

definition fail_upload :: "string \<Rightarrow> ('l, 'c, 's, 'j) worker \<Rightarrow> ('l, 'c, 's, 'j) worker" where
  "fail_upload upId w = w\<lparr>w_transfers := (case w_transfers w upId of None \<Rightarrow> w_transfers w
     | Some t \<Rightarrow> (w_transfers w)(upId \<mapsto> fail_transfer t))\<rparr>"

definition upload_failed :: "('l, 'c, 's, 'j) worker \<Rightarrow> string \<Rightarrow> bool" where
  "upload_failed w upId \<longleftrightarrow> (case w_transfers w upId of None \<Rightarrow> True | Some t \<Rightarrow> status t = Failed)"

text \<open>One round of the loop in \<open>sendNextAttachmentChunk\<close> for the job of the (trimmed) upload id; the result says
  whether the loop goes on.\<close>

definition send_one_chunk ::
    "('c, 's, 'j) worker_env \<Rightarrow> 'l link_ops \<Rightarrow> string \<Rightarrow> upload_job \<Rightarrow> ('l, 'c, 's, 'j) worker \<Rightarrow> bool \<times> ('l, 'c, 's, 'j) worker" where
  "send_one_chunk e ops upId job w =
    (let nupload = trimmed (we_text e) upId;
         abandon = (\<lambda>reason. attachment_error [] upId (uj_baseCommand job) 0 (ctx_chunk_index (uj_context job)) reason
                       ((fail_upload nupload w)\<lparr>w_jobs := (w_jobs w)(nupload := None)\<rparr>)) in
     case encrypt_next_chunk (we_evp e) (uj_key job) (uj_context job) (uj_input job) of
       (Inl reason, _) \<Rightarrow> (False, abandon reason)
     | (Inr (chunk, endOfFile), input) \<Rightarrow>
        if endOfFile \<and> tc_ciphertext chunk = [] then (False, abandon ''attachment file has no remaining data'')
        else let c = uj_context job;
                 job1 = job\<lparr>uj_lastChunkSent := endOfFile, uj_context := c\<lparr>ctx_chunk_index := ctx_chunk_index c + 1\<rparr>,
                          uj_inFlightChunks := uj_inFlightChunks job + 1, uj_input := input\<rparr>;
                 w1 = sendAttachmentChunk e ops upId (tc_index chunk) (tc_ciphertext chunk) (tc_cipher_sha256 chunk)
                        (uj_baseCommand job @ ''-chunk-'' @ to_string (tc_index chunk))
                        (w\<lparr>w_jobs := (w_jobs w)(nupload \<mapsto> job1)\<rparr>) in
             (\<not> upload_failed w1 nupload, w1))"

lemma send_chunk_jobs [simp]: "w_jobs (sendAttachmentChunk e ops upId i c s k w) = w_jobs w"
  by (auto simp: sendAttachmentChunk_def attachment_error_def emit_def link_send_def Let_def split: option.splits prod.splits bool.splits)

lemma send_one_chunk_job:
  assumes "send_one_chunk e ops upId job w = (True, w')"
  shows "\<exists>job'. w_jobs w' (trimmed (we_text e) upId) = Some job' \<and> uj_inFlightChunks job' = uj_inFlightChunks job + 1"
  using assms by (auto simp: send_one_chunk_def Let_def split: prod.splits sum.splits if_splits)

function sendNextAttachmentChunk ::
    "('c, 's, 'j) worker_env \<Rightarrow> 'l link_ops \<Rightarrow> string \<Rightarrow> ('l, 'c, 's, 'j) worker \<Rightarrow> ('l, 'c, 's, 'j) worker" where
  "sendNextAttachmentChunk e ops upId w =
    (case w_jobs w (trimmed (we_text e) upId) of
       None \<Rightarrow> w
     | Some job \<Rightarrow>
        if uj_lastChunkSent job \<or> WindowSize \<le> uj_inFlightChunks job then w
        else (case send_one_chunk e ops upId job w of
           (False, w1) \<Rightarrow> w1
         | (True, w1) \<Rightarrow> sendNextAttachmentChunk e ops upId w1))"
  by pat_completeness auto
termination
proof (relation "measure (\<lambda>(e, ops, upId, w). case w_jobs w (trimmed (we_text e) upId) of None \<Rightarrow> 0
    | Some job \<Rightarrow> nat (WindowSize - uj_inFlightChunks job))", goal_cases)
  case (2 e ops upId w job x w1)
  then have "send_one_chunk e ops upId job w = (True, w1)" by simp
  from send_one_chunk_job [OF this] obtain job' where
    "w_jobs w1 (trimmed (we_text e) upId) = Some job'" "uj_inFlightChunks job' = uj_inFlightChunks job + 1" by blast
  with 2(1,2) show ?case by simp
qed simp

declare sendNextAttachmentChunk.simps [simp del]

definition attachmentEventCommandId :: "msg_fields \<Rightarrow> ('l, 'c, 's, 'j) worker \<Rightarrow> string" where
  "attachmentEventCommandId m w =
    (let commandId = command_id m in
     if commandId \<noteq> [] \<and> map_of (w_chunks w) commandId \<noteq> None then commandId
     else if mtype m \<noteq> ''attachment.chunk'' then commandId
     else (case find (\<lambda>(k, u, i). u = upload_id m \<and> i = sint (chunk_index m)) (w_chunks w) of
             Some (k, _) \<Rightarrow> k | None \<Rightarrow> commandId))"

section \<open>Resuming, committing and downloading\<close>

definition send_attachment_message ::
    "'l link_ops \<Rightarrow> msg_fields \<Rightarrow> string \<Rightarrow> string \<Rightarrow> string \<Rightarrow> int \<Rightarrow> ('l, 'c, 's, 'j) worker \<Rightarrow> ('l, 'c, 's, 'j) worker" where
  "send_attachment_message ops m attId upId commandId index w =
    (case link_send ops (Message m []) w of
       (True, w1) \<Rightarrow> w1
     | (False, w1) \<Rightarrow>
         let reason = link_error ops w1 in emit (ConnectionLost reason) (attachment_error attId upId commandId 0 index reason w1))"

definition resumeAttachment ::
    "('c, 's, 'j) worker_env \<Rightarrow> 'l link_ops \<Rightarrow> string \<Rightarrow> string \<Rightarrow> ('l, 'c, 's, 'j) worker \<Rightarrow> ('l, 'c, 's, 'j) worker" where
  "resumeAttachment e ops upId commandId w =
    (let tr = trimmed (we_text e) in
     if \<not> usable ops w \<or> tr upId = [] then attachment_error [] upId commandId 0 0 ''invalid attachment resume'' w
     else send_attachment_message ops ((simple ''attachment.resume'' [] [] [])\<lparr>upload_id := tr upId, command_id := tr commandId\<rparr>)
            [] upId commandId 0 w)"

definition sendAttachmentCommit ::
    "('c, 's, 'j) worker_env \<Rightarrow> 'l link_ops \<Rightarrow> string \<Rightarrow> string \<Rightarrow> ('l, 'c, 's, 'j) worker \<Rightarrow> ('l, 'c, 's, 'j) worker" where
  "sendAttachmentCommit e ops upId commandId w =
    (let tr = trimmed (we_text e) in
     if \<not> usable ops w \<or> tr upId = [] \<or> tr commandId = [] then attachment_error [] upId commandId 0 0 ''invalid attachment commit'' w
     else send_attachment_message ops ((simple ''attachment.commit'' [] [] [])\<lparr>upload_id := tr upId, command_id := tr commandId\<rparr>)
            [] upId commandId 0 w)"

definition sendAttachmentDownload ::
    "('c, 's, 'j) worker_env \<Rightarrow> 'l link_ops \<Rightarrow> string \<Rightarrow> int \<Rightarrow> string \<Rightarrow> ('l, 'c, 's, 'j) worker \<Rightarrow> ('l, 'c, 's, 'j) worker" where
  "sendAttachmentDownload e ops attId index commandId w =
    (let tr = trimmed (we_text e) in
     if \<not> usable ops w \<or> tr attId = [] \<or> index < 0 \<or> tr commandId = []
     then attachment_error attId [] commandId 0 index ''invalid attachment download'' w
     else send_attachment_message ops ((simple ''attachment.download'' [] [] [])\<lparr>attachment_id := tr attId,
            chunk_index := word_of_int index, command_id := tr commandId\<rparr>) attId [] commandId index w)"

definition manifest_context :: "manifest \<Rightarrow> ChunkContext" where
  "manifest_context m = \<lparr>ctx_attachment_id = manifest.attachmentId m, ctx_room = manifest.room m, ctx_group_id = manifest.groupId m,
     ctx_logical_size = manifest.logicalSize m, ctx_chunk_size = manifest.chunkSize m, ctx_chunk_index = 0\<rparr>"

text \<open>The new job replaces one for the same attachment, whose part file is discarded.\<close>

definition startAttachmentDownload ::
    "('c, 's, 'j) worker_env \<Rightarrow> 'l link_ops \<Rightarrow> string \<Rightarrow> string \<Rightarrow> string \<Rightarrow> ('l, 'c, 's, 'j) worker \<Rightarrow> ('l, 'c, 's, 'j) worker" where
  "startAttachmentDownload e ops attId path commandId w =
    (let tr = trimmed (we_text e); failed = attachment_error attId [] commandId 0 0 in
     case (if tr path = [] \<or> tr commandId = [] then None else w_received w (tr attId)) of
       None \<Rightarrow> failed ''attachment manifest or output path is unavailable'' w
     | Some m \<Rightarrow>
        if length (mkey m) \<noteq> KeySize then failed ''attachment manifest contains an invalid key'' w
        else (case begin_download (we_faults e) (tr path) (mkey m) (manifest_context m) (new_assembler, w_fs w) of
           (Inl reason, _, fs) \<Rightarrow> failed reason (w\<lparr>w_fs := fs\<rparr>)
         | (Inr _, a, fs) \<Rightarrow>
             let old = (case w_downloads w (manifest.attachmentId m) of None \<Rightarrow> new_assembler | Some j \<Rightarrow> dj_assembler j);
                 fs1 = snd (move_assign (we_faults e) a (old, fs)) in
             sendAttachmentDownload e ops attId 0 commandId
               (w\<lparr>w_fs := fs1, w_downloads := (w_downloads w)(manifest.attachmentId m \<mapsto>
                  \<lparr>dj_manifest = m, dj_manifestKey = mkey m, dj_assembler = a, dj_commandId = tr commandId\<rparr>)\<rparr>)))"

definition envelope :: "string \<Rightarrow> u64 \<Rightarrow> string \<Rightarrow> json" where
  "envelope grp ep cipher = JObject [(''alg'', JString ''mls-v1''), (''ciphertext'', JString cipher), (''epoch'', JUnsigned ep),
     (''group_id'', JString grp), (''v'', JInteger 1)]"

definition sendAttachmentManifest ::
    "('c, 's, 'j) worker_env \<Rightarrow> 'l link_ops \<Rightarrow> manifest \<Rightarrow> ('l, 'c, 's, 'j) worker \<Rightarrow> ('l, 'c, 's, 'j) worker" where
  "sendAttachmentManifest e ops m w =
    (let plaintext = encode_manifest (we_manifest e) m; failed = attachment_error (manifest.attachmentId m) [] [] 0 0 in
     case w_groups w (manifest.groupId m) of
       None \<Rightarrow> failed ''unable to protect attachment manifest'' w
     | Some g \<Rightarrow>
        if mg_client g = None \<or> plaintext = [] then failed ''unable to protect attachment manifest'' w
        else (case on_client (mg_client g) (protect (we_lib e) plaintext) w of
           (Inl what, w1) \<Rightarrow> failed what w1
         | (Inr c, w1) \<Rightarrow>
             let cipher = encodeMlsOpaque (we_manifest e) c in
             if cipher = [] then failed ''MLS attachment manifest is too large'' w1
             else (case json_dump (we_codec e) (envelope (manifest.groupId m) (mg_epoch g) cipher) of
                Inl what \<Rightarrow> failed what w1
              | Inr txt \<Rightarrow>
                  send_or_lose ops (Message ((simple ''chat'' [] [] (manifest.room m))\<lparr>
                    message_id := manifestMessageId (we_manifest e) (manifest.attachmentId m), crypto := txt\<rparr>) []) w1)))"

section \<open>Answers of the server\<close>

definition on_attachment_error :: "msg_fields \<Rightarrow> ('l, 'c, 's, 'j) worker \<Rightarrow> ('l, 'c, 's, 'j) worker" where
  "on_attachment_error m w =
    (let k = command_id m; w1 = w\<lparr>w_inits := (w_inits w)(k := None), w_files := (w_files w)(k := None)\<rparr> in
     case map_of (w_chunks w1) k of
       None \<Rightarrow> w1
     | Some (upId, _) \<Rightarrow>
         (fail_upload upId w1)\<lparr>w_jobs := (w_jobs w1)(upId := None), w_chunks := filter (\<lambda>(k, u, i). u \<noteq> upId) (w_chunks w1)\<rparr>)"

definition on_attachment_init ::
    "('c, 's, 'j) worker_env \<Rightarrow> 'l link_ops \<Rightarrow> msg_fields \<Rightarrow> ('l, 'c, 's, 'j) worker \<Rightarrow> ('l, 'c, 's, 'j) worker" where
  "on_attachment_init e ops m w =
    (let k = command_id m; upId = upload_id m; chunkSz = sint (chunk_size m) in
     case w_inits w k of
       None \<Rightarrow> w
     | Some t0 \<Rightarrow>
       let w1 = w\<lparr>w_inits := (w_inits w)(k := None)\<rparr> in
       (case acceptInit (attachment_id m) upId chunkSz (expires_at m) t0 of
          (False, _) \<Rightarrow> attachment_error [] [] k 0 0 ''invalid attachment initialization response'' w1
        | (True, t) \<Rightarrow>
          let w2 = w1\<lparr>w_transfers := (w_transfers w1)(upId \<mapsto> t)\<rparr> in
          (case w_files w2 k of
             None \<Rightarrow> w2
           | Some f \<Rightarrow>
             let w3 = w2\<lparr>w_files := (w_files w2)(k := None)\<rparr> in
             (case (if we_can_open e (pf_filePath f) then w_fs w3 (pf_filePath f) else None) of
                None \<Rightarrow> attachment_error [] upId k chunkSz 0 ''unable to open attachment file'' w3
              | Some contents \<Rightarrow>
                  sendNextAttachmentChunk e ops upId (w3\<lparr>w_jobs := (w_jobs w3)(upId \<mapsto>
                    \<lparr>uj_room = pf_room f, uj_fileName = we_file_name e (pf_filePath f), uj_baseCommand = k, uj_key = pf_key f,
                     uj_context = \<lparr>ctx_attachment_id = attachment_id m, ctx_room = pf_room f, ctx_group_id = pf_groupId f,
                       ctx_logical_size = pf_logicalSize f, ctx_chunk_size = chunkSz, ctx_chunk_index = 0\<rparr>,
                     uj_input = \<lparr>dev_usable = True, dev_rest = contents\<rparr>, uj_lastChunkSent = False, uj_inFlightChunks = 0\<rparr>)\<rparr>)))))"

definition on_attachment_resume :: "msg_fields \<Rightarrow> ('l, 'c, 's, 'j) worker \<Rightarrow> ('l, 'c, 's, 'j) worker" where
  "on_attachment_resume m w =
    (case w_transfers w (upload_id m) of
       None \<Rightarrow> w
     | Some t \<Rightarrow> w\<lparr>w_transfers := (w_transfers w)(upload_id m \<mapsto> snd (acceptResume (map sint (received_indexes m)) t))\<rparr>)"

definition manifest_of :: "mls_group option \<Rightarrow> upload_job \<Rightarrow> manifest" where
  "manifest_of g job =
    \<lparr>attachmentId = ctx_attachment_id (uj_context job), fileName = uj_fileName job, room = uj_room job,
     groupId = ctx_group_id (uj_context job), logicalSize = ctx_logical_size (uj_context job),
     chunkSize = ctx_chunk_size (uj_context job), epoch = (case g of None \<Rightarrow> 0 | Some x \<Rightarrow> uint (mg_epoch x)), mkey = uj_key job\<rparr>"

text \<open>The entry a chunk acknowledgement is for: by command, otherwise by upload and index.\<close>

definition pending_chunk :: "msg_fields \<Rightarrow> ('l, 'c, 's, 'j) worker \<Rightarrow> (string \<times> string \<times> int) option" where
  "pending_chunk m w =
    (case map_of (w_chunks w) (command_id m) of
       Some ui \<Rightarrow> Some (command_id m, ui)
     | None \<Rightarrow> find (\<lambda>(k, u, i). u = upload_id m \<and> i = sint (chunk_index m)) (w_chunks w))"

definition chunk_acknowledged ::
    "('c, 's, 'j) worker_env \<Rightarrow> 'l link_ops \<Rightarrow> string \<Rightarrow> upload_job \<Rightarrow> ('l, 'c, 's, 'j) worker \<Rightarrow> ('l, 'c, 's, 'j) worker" where
  "chunk_acknowledged e ops upId job0 w =
    (let job = job0\<lparr>uj_inFlightChunks := uj_inFlightChunks job0 - 1\<rparr>;
         w1 = w\<lparr>w_jobs := (w_jobs w)(upId \<mapsto> job)\<rparr> in
     if uj_lastChunkSent job \<and> uj_inFlightChunks job = 0 then
       let command = uj_baseCommand job @ ''-commit'';
           m = manifest_of (w_groups w1 (ctx_group_id (uj_context job))) job;
           w2 = sendAttachmentCommit e ops upId command (w1\<lparr>w_manifests := (w_manifests w1)(command \<mapsto> m)\<rparr>) in
       w2\<lparr>w_jobs := (w_jobs w2)(upId := None)\<rparr>
     else sendNextAttachmentChunk e ops upId w1)"

definition on_attachment_chunk ::
    "('c, 's, 'j) worker_env \<Rightarrow> 'l link_ops \<Rightarrow> msg_fields \<Rightarrow> ('l, 'c, 's, 'j) worker \<Rightarrow> ('l, 'c, 's, 'j) worker" where
  "on_attachment_chunk e ops m w =
    (case pending_chunk m w of
       None \<Rightarrow> w
     | Some (k, upId, index) \<Rightarrow>
       let w1 = w\<lparr>w_chunks := map_erase k (w_chunks w)\<rparr> in
       (case w_transfers w1 upId of
          None \<Rightarrow> w1
        | Some t \<Rightarrow>
          (case acceptCommandAck k index t of
             (False, t1) \<Rightarrow> w1\<lparr>w_transfers := (w_transfers w1)(upId \<mapsto> t1)\<rparr>
           | (True, t1) \<Rightarrow>
             let w2 = w1\<lparr>w_transfers := (w_transfers w1)(upId \<mapsto> t1)\<rparr> in
             (case w_jobs w2 upId of None \<Rightarrow> w2 | Some job \<Rightarrow> chunk_acknowledged e ops upId job w2))))"

definition on_attachment_commit ::
    "('c, 's, 'j) worker_env \<Rightarrow> 'l link_ops \<Rightarrow> msg_fields \<Rightarrow> ('l, 'c, 's, 'j) worker \<Rightarrow> ('l, 'c, 's, 'j) worker" where
  "on_attachment_commit e ops m w =
    (case w_manifests w (command_id m) of
       None \<Rightarrow> w
     | Some mf \<Rightarrow>
        let w1 = w\<lparr>w_manifests := (w_manifests w)(command_id m := None)\<rparr> in
        if attachment_id m = manifest.attachmentId mf then sendAttachmentManifest e ops mf w1 else w1)"

definition on_attachment_download ::
    "('c, 's, 'j) worker_env \<Rightarrow> 'l link_ops \<Rightarrow> msg_fields \<Rightarrow> ('l, 'c, 's, 'j) worker \<Rightarrow> ('l, 'c, 's, 'j) worker" where
  "on_attachment_download e ops m w =
    (let attId = attachment_id m in
     case w_downloads w attId of
       None \<Rightarrow> w
     | Some job \<Rightarrow>
        (case acceptChunk (we_evp e) (we_faults e) (sint (chunk_index m)) (fromBase64 (we_manifest e) (ciphertext m))
                (cipher_sha256 m) (content m = ''last'') (dj_assembler job, w_fs w) of
           (Inl reason, a, fs) \<Rightarrow>
             attachment_error attId [] (dj_commandId job) (sint (chunk_size m)) (sint (chunk_index m)) reason
               (w\<lparr>w_fs := snd (discardPart (we_faults e) (a, fs)), w_downloads := (w_downloads w)(attId := None)\<rparr>)
         | (Inr _, a, fs) \<Rightarrow>
             if assembler.complete a
             then emit (AttachmentEvent \<lparr>ae_type = ''completed'', ae_attachmentId = attId, ae_uploadId = [],
                    ae_commandId = dj_commandId job, ae_chunkSize = sint (chunk_size m), ae_chunkIndex = sint (chunk_index m),
                    ae_ciphertext = [], ae_cipherSha256 = [], ae_expiresAt = [], ae_receivedIndexes = [], ae_content = [],
                    ae_logicalSize = 0\<rparr>)
                    (w\<lparr>w_fs := snd (discardPart (we_faults e) (a, fs)), w_downloads := (w_downloads w)(attId := None)\<rparr>)
             else sendAttachmentDownload e ops attId (sint (chunk_index m) + 1) (dj_commandId job)
                    (w\<lparr>w_fs := fs, w_downloads := (w_downloads w)(attId \<mapsto> job\<lparr>dj_assembler := a\<rparr>)\<rparr>)))"

definition processAttachmentMessage ::
    "('c, 's, 'j) worker_env \<Rightarrow> 'l link_ops \<Rightarrow> msg_fields \<Rightarrow> ('l, 'c, 's, 'j) worker \<Rightarrow> ('l, 'c, 's, 'j) worker" where
  "processAttachmentMessage e ops m w =
    (if mtype m = ''error'' then on_attachment_error m w
     else if mtype m = ''attachment.init'' then on_attachment_init e ops m w
     else if mtype m = ''attachment.resume'' then on_attachment_resume m w
     else if mtype m = ''attachment.chunk'' then on_attachment_chunk e ops m w
     else if mtype m = ''attachment.commit'' then on_attachment_commit e ops m w
     else if mtype m = ''attachment.download'' then on_attachment_download e ops m w
     else w)"

end
