(* ===== verification/Gui_Receive.thy ===== *)
theory Gui_Receive
  imports Gui_Link Gui_Attachments
begin

text \<open>
  The receive loop of the worker and the MLS messages it handles (\<open>gui_connection_worker.cpp\<close>, lines 1330 to 1751).
  A handler returns the text of the exception that leaves it, if any; \<open>processMlsMessage\<close> catches and reports it.
\<close>

type_synonym ('l, 'c, 's, 'j) handled = "string option \<times> ('l, 'c, 's, 'j) worker"

definition emplace :: "'k \<Rightarrow> 'v \<Rightarrow> ('k \<rightharpoonup> 'v) \<Rightarrow> ('k \<rightharpoonup> 'v)" where
  "emplace k v m = (if m k = None then m(k \<mapsto> v) else m)"

section \<open>Manifests\<close>

text \<open>\<open>json::value\<close> with an integer and with a text default.\<close>

definition value_int :: "('c, 's, 'j) worker_env \<Rightarrow> jobj \<Rightarrow> string \<Rightarrow> string + int" where
  "value_int e obj k =
    (case map_of obj k of
       None \<Rightarrow> Inr 0
     | Some v \<Rightarrow> (case v of
          JInteger n \<Rightarrow> Inr (sint (get_int32 v))
        | JUnsigned n \<Rightarrow> Inr (sint (get_int32 v))
        | JFloat f \<Rightarrow> Inr (we_float_int e f)
        | JBool b \<Rightarrow> Inr (if b then 1 else 0)
        | _ \<Rightarrow> Inl (we_type_error e v)))"

definition value_text :: "('c, 's, 'j) worker_env \<Rightarrow> jobj \<Rightarrow> string \<Rightarrow> string + string" where
  "value_text e obj k =
    (case map_of obj k of
       None \<Rightarrow> Inr []
     | Some v \<Rightarrow> (case v of JString s \<Rightarrow> Inr s | _ \<Rightarrow> Inl (we_type_error e v)))"

text \<open>The group and the ciphertext of an envelope; \<open>None\<close> when it is not one of version 1.\<close>

definition open_envelope :: "('c, 's, 'j) worker_env \<Rightarrow> json \<Rightarrow> string + (string \<times> string) option" where
  "open_envelope e j =
    (case j of
       JObject obj \<Rightarrow>
         (case value_int e obj ''v'' of
            Inl what \<Rightarrow> Inl what
          | Inr v \<Rightarrow>
            if v \<noteq> 1 then Inr None
            else (case value_text e obj ''alg'' of
               Inl what \<Rightarrow> Inl what
             | Inr alg \<Rightarrow>
               if alg \<noteq> ''mls-v1'' then Inr None
               else (case (map_of obj ''group_id'', map_of obj ''ciphertext'') of
                  (Some (JString g), Some (JString c)) \<Rightarrow> Inr (Some (g, c))
                | _ \<Rightarrow> Inr None)))
     | _ \<Rightarrow> Inl (we_type_error e j))"

definition public_metadata :: "manifest \<Rightarrow> qobject" where
  "public_metadata m =
    [(''chunkSize'', QDouble (of_int (manifest.chunkSize m))), (''fileName'', QString (fileName m)),
     (''logicalSize'', QDouble (of_int (manifest.logicalSize m))),
     (''totalChunks'', QDouble (of_int (cdiv (manifest.logicalSize m + manifest.chunkSize m - 1) (manifest.chunkSize m))))]"

definition manifest_event :: "manifest_api \<Rightarrow> string \<Rightarrow> manifest \<Rightarrow> attachment_event" where
  "manifest_event api messageId m =
    \<lparr>ae_type = ''manifest'', ae_attachmentId = manifest.attachmentId m, ae_uploadId = [], ae_commandId = messageId,
     ae_chunkSize = manifest.chunkSize m, ae_chunkIndex = 0, ae_ciphertext = [], ae_cipherSha256 = [], ae_expiresAt = [],
     ae_receivedIndexes = [], ae_content = toJson api (public_metadata m), ae_logicalSize = 0\<rparr>"

definition on_encrypted_chat ::
    "('c, 's, 'j) worker_env \<Rightarrow> msg_fields \<Rightarrow> ('l, 'c, 's, 'j) worker \<Rightarrow> ('l, 'c, 's, 'j) handled" where
  "on_encrypted_chat e m w =
    (case json_parse (we_codec e) (crypto m) of
       Inl what \<Rightarrow> (Some what, w)
     | Inr j \<Rightarrow>
       (case open_envelope e j of
          Inl what \<Rightarrow> (Some what, w)
        | Inr None \<Rightarrow> (None, w)
        | Inr (Some (grp, cipher)) \<Rightarrow>
          (case w_groups w grp of
             None \<Rightarrow> (None, w)
           | Some g \<Rightarrow>
             if mg_client g = None then (None, w)
             else (case decodeMlsOpaque (we_manifest e) cipher of
                Inl what \<Rightarrow> (Some what, w)
              | Inr raw \<Rightarrow>
                (case on_client (mg_client g) (unprotect (we_lib e) raw) w of
                   (Inl what, w1) \<Rightarrow> (Some what, w1)
                 | (Inr plaintext, w1) \<Rightarrow>
                   (case decode_manifest (we_manifest e) plaintext of
                      None \<Rightarrow> (None, w1)
                    | Some mf \<Rightarrow>
                      if manifest.room mf \<noteq> msg_fields.room m \<or> manifest.groupId mf \<noteq> grp then (None, w1)
                      else (None, emit (AttachmentEvent (manifest_event (we_manifest e) (message_id m) mf))
                             (w1\<lparr>w_received := (w_received w1)(manifest.attachmentId mf \<mapsto> mf)\<rparr>))))))))"

section \<open>Key packages and proposals\<close>

definition on_key_package ::
    "('c, 's, 'j) worker_env \<Rightarrow> 'l link_ops \<Rightarrow> msg_fields \<Rightarrow> ('l, 'c, 's, 'j) worker \<Rightarrow> ('l, 'c, 's, 'j) handled" where
  "on_key_package e ops m w =
    (let kp = key_package m; target = target_user_code m; k = command_id m; api = we_manifest e;
         w1 = emit (MlsKeyPackageAvailable target (sha256_hex api (fromBase64 api kp)))
                (w\<lparr>w_keyPackages := (w_keyPackages w)(toLower (we_text e) target \<mapsto> kp)\<rparr>);
         w2 = (if k \<in> w_commands w1 then mls_result k True [] [] (w1\<lparr>w_commands := w_commands w1 - {k}\<rparr>) else w1) in
     (None, case w_fetches w2 k of
        None \<Rightarrow> w2
      | Some command \<Rightarrow>
         let w3 = w2\<lparr>w_fetches := (w_fetches w2)(k := None)\<rparr> in
         (case w_setups w3 command of
            None \<Rightarrow> w3
          | Some st \<Rightarrow>
              let add = command @ ''-mls-add-'' @ to_string (int (ms_nextTarget st)) in
              addMlsMember e ops (ms_room st) (ms_groupId st) target add (w3\<lparr>w_adds := (w_adds w3)(add \<mapsto> command)\<rparr>))))"

definition group_unavailable :: "string \<Rightarrow> ('l, 'c, 's, 'j) worker \<Rightarrow> ('l, 'c, 's, 'j) worker" where
  "group_unavailable k w = mls_result k False ''group_unavailable'' ''MLS group is not initialized for this room'' w"

definition on_proposal ::
    "('c, 's, 'j) worker_env \<Rightarrow> msg_fields \<Rightarrow> ('l, 'c, 's, 'j) worker \<Rightarrow> ('l, 'c, 's, 'j) handled" where
  "on_proposal e m w =
    (case w_groups w (group_id m) of
       None \<Rightarrow> (None, group_unavailable [] w)
     | Some g \<Rightarrow>
        if mg_room g \<noteq> msg_fields.room m then (None, group_unavailable [] w)
        else (case decodeMlsOpaque (we_manifest e) (proposal m) of
           Inl what \<Rightarrow> (Some what, w)
         | Inr raw \<Rightarrow>
            (case on_client (mg_client g) (handleProposal (we_lib e) raw) w of
               (Inl what, w1) \<Rightarrow> (Some what, w1)
             | (Inr _, w1) \<Rightarrow> (None, w1))))"

text \<open>The server accepted the own proposal: the commit follows.\<close>

definition on_proposal_accepted ::
    "'l link_ops \<Rightarrow> msg_fields \<Rightarrow> ('l, 'c, 's, 'j) worker \<Rightarrow> ('l, 'c, 's, 'j) worker" where
  "on_proposal_accepted ops m w =
    (let k = command_id m in
     case map_of (w_operations w) k of
       None \<Rightarrow> w
     | Some op \<Rightarrow>
        if mo_phase op \<noteq> Proposal then w
        else (case link_send ops (commit_message k op) (w\<lparr>w_operations := map_put k (op\<lparr>mo_phase := Commit\<rparr>) (w_operations w)\<rparr>) of
           (True, w1) \<Rightarrow> w1
         | (False, w1) \<Rightarrow> mls_result k False ''send_failed'' (link_error ops w1)
             (w1\<lparr>w_operations := map_erase k (w_operations w1), w_commands := w_commands w1 - {k}\<rparr>)))"

section \<open>Welcomes\<close>

definition kWelcomeAcceptCommandDigestSize :: nat where "kWelcomeAcceptCommandDigestSize = 56"

definition welcomeAcceptCommandId :: "manifest_api \<Rightarrow> string \<Rightarrow> u64 \<Rightarrow> string" where
  "welcomeAcceptCommandId api grp ep =
     ''wa-'' @ take kWelcomeAcceptCommandDigestSize (sha256_hex api (grp @ ''|'' @ to_string (uint ep)))"

definition send_welcome_accept ::
    "('c, 's, 'j) worker_env \<Rightarrow> 'l link_ops \<Rightarrow> msg_fields \<Rightarrow> ('l, 'c, 's, 'j) worker \<Rightarrow> bool \<times> ('l, 'c, 's, 'j) worker" where
  "send_welcome_accept e ops m w =
    (if proposal_id m = [] \<or> mwelcome m = [] then (False, w)
     else if \<not> w_connection w then (False, w)
     else link_send ops (Message ((mk_fields ''mls.group.welcome.accept'' [] (sc_username (w_saved w)) [] []
            (sc_userCode (w_saved w)) (msg_fields.room m) [] [] [] [])\<lparr>protocol_version := ''mls-v1'', group_id := group_id m,
            msg_fields.epoch := msg_fields.epoch m, proposal_id := proposal_id m,
            welcome_digest := sha256_hex (we_manifest e) (mwelcome m),
            command_id := welcomeAcceptCommandId (we_manifest e) (group_id m) (msg_fields.epoch m)\<rparr>) []) w)"

text \<open>A welcome to a group that is already there: a repetition is acknowledged again, an older epoch refused.\<close>

definition welcome_again ::
    "('c, 's, 'j) worker_env \<Rightarrow> 'l link_ops \<Rightarrow> msg_fields \<Rightarrow> mls_group \<Rightarrow> ('l, 'c, 's, 'j) worker \<Rightarrow> ('l, 'c, 's, 'j) worker" where
  "welcome_again e ops m g w =
    (let grp = group_id m; ep = msg_fields.epoch m in
     if mg_room g \<noteq> msg_fields.room m then room_mismatch [] w
     else if mg_welcomes g ep = Some (mwelcome m)
     then (case send_welcome_accept e ops m (emit (MlsWelcomeEvent grp ep ''received'') w) of
             (True, w1) \<Rightarrow> emit (MlsWelcomeEvent grp ep ''accept_sent'') w1
           | (False, w1) \<Rightarrow> w1)
     else if ep \<le> mg_epoch g
     then mls_result [] False ''mls_epoch_conflict'' ''MLS welcome epoch is not strictly increasing'' w
     else w)"

definition welcome_new ::
    "('c, 's, 'j) worker_env \<Rightarrow> 'l link_ops \<Rightarrow> msg_fields \<Rightarrow> ('l, 'c, 's, 'j) worker \<Rightarrow> ('l, 'c, 's, 'j) handled" where
  "welcome_new e ops m w =
    (let grp = group_id m; ep = msg_fields.epoch m in
     if w_client w = None
     then (None, mls_result [] False ''key_package_unavailable'' ''No pending MLS key package is available for this welcome'' w)
     else (case decodeMlsOpaque (we_manifest e) (mwelcome m) of
        Inl what \<Rightarrow> (Some what, w)
      | Inr raw \<Rightarrow>
        (case on_client (w_client w) (mls_join (we_lib e) raw) w of
           (Inl what, w1) \<Rightarrow> (Some what, w1)
         | (Inr _, w1) \<Rightarrow>
           let g = \<lparr>mg_client = w_client w1, mg_room = msg_fields.room m, mg_epoch = ep, mg_commits = Map.empty,
                    mg_welcomes = [ep \<mapsto> mwelcome m]\<rparr>;
               w2 = emit (MlsWelcomeEvent grp ep ''received'') (w1\<lparr>w_groups := (w_groups w1)(grp \<mapsto> g)\<rparr>) in
           (case send_welcome_accept e ops m w2 of
              (False, w3) \<Rightarrow> (None, mls_result [] False ''send_failed'' (link_error ops w3) w3)
            | (True, w3) \<Rightarrow>
              (case new_client e (emit (MlsWelcomeEvent grp ep ''accept_sent'') w3) of
                 (Inl what, w4) \<Rightarrow> (Some what, w4)
               | (Inr p, w4) \<Rightarrow> (None, publishMlsKeyPackage e ops (w4\<lparr>w_client := Some p\<rparr>)))))))"

definition on_welcome ::
    "('c, 's, 'j) worker_env \<Rightarrow> 'l link_ops \<Rightarrow> msg_fields \<Rightarrow> ('l, 'c, 's, 'j) worker \<Rightarrow> ('l, 'c, 's, 'j) handled" where
  "on_welcome e ops m w =
    (if target_user_code m \<noteq> [] \<and> we_fold e (target_user_code m) \<noteq> we_fold e (sc_userCode (w_saved w))
     then (None, mls_result [] False ''mls_welcome_target_mismatch'' ''MLS welcome is addressed to another member'' w)
     else (case w_groups w (group_id m) of
        Some g \<Rightarrow> (None, welcome_again e ops m g w)
      | None \<Rightarrow> welcome_new e ops m w))"

section \<open>Commits\<close>

definition on_commit ::
    "('c, 's, 'j) worker_env \<Rightarrow> msg_fields \<Rightarrow> ('l, 'c, 's, 'j) worker \<Rightarrow> ('l, 'c, 's, 'j) handled" where
  "on_commit e m w =
    (let ep = msg_fields.epoch m in
     case w_groups w (group_id m) of
       None \<Rightarrow> (None, group_unavailable [] w)
     | Some g \<Rightarrow>
        if mg_room g \<noteq> msg_fields.room m then (None, group_unavailable [] w)
        else if mg_commits g ep = Some (commit m) then (None, w)
        else if ep \<noteq> mg_epoch g + 1
        then (None, mls_result [] False ''mls_epoch_conflict'' ''MLS commit epoch is not the next epoch'' w)
        else (case decodeMlsOpaque (we_manifest e) (commit m) of
           Inl what \<Rightarrow> (Some what, w)
         | Inr raw \<Rightarrow>
            (case on_client (mg_client g) (handleCommit (we_lib e) raw) w of
               (Inl what, w1) \<Rightarrow> (Some what, w1)
             | (Inr _, w1) \<Rightarrow> (None, w1\<lparr>w_groups := (w_groups w1)(group_id m \<mapsto>
                 g\<lparr>mg_epoch := ep, mg_commits := emplace ep (commit m) (mg_commits g)\<rparr>)\<rparr>))))"

definition duplicate_code :: "msg_fields \<Rightarrow> string" where
  "duplicate_code m = (if content m = ''duplicate'' then ''duplicate'' else [])"

text \<open>A finished addition moves the attachment it was made for to its next member.\<close>

definition advance_setup ::
    "('c, 's, 'j) worker_env \<Rightarrow> 'l link_ops \<Rightarrow> string \<Rightarrow> ('l, 'c, 's, 'j) worker \<Rightarrow> ('l, 'c, 's, 'j) worker" where
  "advance_setup e ops k w =
    (case w_adds w k of
       None \<Rightarrow> w
     | Some command \<Rightarrow>
        let w1 = w\<lparr>w_adds := (w_adds w)(k := None)\<rparr> in
        (case w_setups w1 command of
           None \<Rightarrow> w1
         | Some st \<Rightarrow> startNextAttachmentMlsSetup e ops command
             (w1\<lparr>w_setups := (w_setups w1)(command \<mapsto> st\<lparr>ms_nextTarget := ms_nextTarget st + 1\<rparr>)\<rparr>)))"

definition finish_operation ::
    "('c, 's, 'j) worker_env \<Rightarrow> 'l link_ops \<Rightarrow> msg_fields \<Rightarrow> ('l, 'c, 's, 'j) worker \<Rightarrow> ('l, 'c, 's, 'j) worker" where
  "finish_operation e ops m w =
    (let k = command_id m in
     mls_result k True (duplicate_code m) [] (advance_setup e ops k
       (w\<lparr>w_operations := map_erase k (w_operations w), w_commands := w_commands w - {k}\<rparr>)))"

definition welcome_message :: "manifest_api \<Rightarrow> string \<Rightarrow> mls_operation \<Rightarrow> message" where
  "welcome_message api k op =
     Message ((simple ''mls.group.welcome'' [] (mo_target op) (mo_room op))\<lparr>protocol_version := ''mls-v1'',
       group_id := mo_group op, msg_fields.epoch := mo_epoch op, proposal_id := k,
       welcome_digest := sha256_hex api (mo_welcome op), mwelcome := mo_welcome op, command_id := k\<rparr>) []"

text \<open>The server accepted the own commit: the group moves to the epoch of the operation, and a new member gets the welcome.\<close>

definition own_commit_accepted ::
    "('c, 's, 'j) worker_env \<Rightarrow> 'l link_ops \<Rightarrow> msg_fields \<Rightarrow> mls_operation \<Rightarrow> ('l, 'c, 's, 'j) worker \<Rightarrow> ('l, 'c, 's, 'j) worker" where
  "own_commit_accepted e ops m op w =
    (let k = command_id m; dropped = (\<lambda>w. w\<lparr>w_operations := map_erase k (w_operations w), w_commands := w_commands w - {k}\<rparr>) in
     case w_groups w (mo_group op) of
       None \<Rightarrow> group_unavailable k (dropped w)
     | Some g \<Rightarrow>
        let w1 = w\<lparr>w_groups := (w_groups w)(mo_group op \<mapsto>
               g\<lparr>mg_epoch := mo_epoch op, mg_commits := emplace (mo_epoch op) (mo_commit op) (mg_commits g)\<rparr>)\<rparr> in
        if mo_add op
        then (case link_send ops (welcome_message (we_manifest e) k op)
                     (w1\<lparr>w_operations := map_put k (op\<lparr>mo_phase := Welcome\<rparr>) (w_operations w1)\<rparr>) of
                (True, w2) \<Rightarrow> w2
              | (False, w2) \<Rightarrow> mls_result k False ''send_failed'' (link_error ops w2) (dropped w2))
        else finish_operation e ops m w1)"

definition on_commit_accepted ::
    "('c, 's, 'j) worker_env \<Rightarrow> 'l link_ops \<Rightarrow> msg_fields \<Rightarrow> ('l, 'c, 's, 'j) worker \<Rightarrow> ('l, 'c, 's, 'j) worker" where
  "on_commit_accepted e ops m w =
    (let k = command_id m;
         other = (if k \<in> w_commands w then mls_result k True (duplicate_code m) [] (w\<lparr>w_commands := w_commands w - {k}\<rparr>) else w) in
     case map_of (w_operations w) k of
       None \<Rightarrow> other
     | Some op \<Rightarrow> if mo_phase op = Commit then own_commit_accepted e ops m op w else other)"

definition on_welcome_accepted ::
    "('c, 's, 'j) worker_env \<Rightarrow> 'l link_ops \<Rightarrow> msg_fields \<Rightarrow> ('l, 'c, 's, 'j) worker \<Rightarrow> ('l, 'c, 's, 'j) worker" where
  "on_welcome_accepted e ops m w =
    (case map_of (w_operations w) (command_id m) of
       None \<Rightarrow> w
     | Some op \<Rightarrow>
        if mo_phase op \<noteq> Welcome then w
        else finish_operation e ops m (case w_groups w (mo_group op) of
               None \<Rightarrow> w
             | Some g \<Rightarrow> w\<lparr>w_groups := (w_groups w)(mo_group op \<mapsto>
                 g\<lparr>mg_welcomes := emplace (mo_epoch op) (mo_welcome op) (mg_welcomes g)\<rparr>)\<rparr>))"

definition on_mls_error :: "msg_fields \<Rightarrow> ('l, 'c, 's, 'j) worker \<Rightarrow> ('l, 'c, 's, 'j) worker" where
  "on_mls_error m w =
    (let k = command_id m;
         w1 = (case w_fetches w k of None \<Rightarrow> w
               | Some command \<Rightarrow> failAttachmentMlsSetup command (content m) (w\<lparr>w_fetches := (w_fetches w)(k := None)\<rparr>));
         w2 = (case w_adds w1 k of None \<Rightarrow> w1
               | Some command \<Rightarrow> failAttachmentMlsSetup command (content m) (w1\<lparr>w_adds := (w_adds w1)(k := None)\<rparr>));
         w3 = w2\<lparr>w_operations := map_erase k (w_operations w2)\<rparr> in
     if k \<in> w_commands w3 then mls_result k False ''server_rejected'' (content m) (w3\<lparr>w_commands := w_commands w3 - {k}\<rparr>) else w3)"

definition mls_handler ::
    "('c, 's, 'j) worker_env \<Rightarrow> 'l link_ops \<Rightarrow> msg_fields \<Rightarrow> ('l, 'c, 's, 'j) worker \<Rightarrow> ('l, 'c, 's, 'j) handled" where
  "mls_handler e ops m w =
    (let t = mtype m; own = (command_id m \<noteq> []) in
     if t = ''chat'' \<and> crypto m \<noteq> [] then on_encrypted_chat e m w
     else if t = ''mls.key_package.fetch'' \<and> key_package m \<noteq> [] then on_key_package e ops m w
     else if t = ''mls.group.proposal'' \<and> proposal m \<noteq> [] then on_proposal e m w
     else if t = ''mls.group.proposal'' \<and> own then (None, on_proposal_accepted ops m w)
     else if t = ''mls.group.welcome'' \<and> mwelcome m \<noteq> [] then on_welcome e ops m w
     else if t = ''mls.group.commit'' \<and> commit m \<noteq> [] then on_commit e m w
     else if t = ''mls.group.commit'' \<and> own then (None, on_commit_accepted e ops m w)
     else if t = ''mls.group.welcome'' \<and> own then (None, on_welcome_accepted e ops m w)
     else if t = ''error'' \<and> own then (None, on_mls_error m w)
     else (None, w))"

definition processMlsMessage ::
    "('c, 's, 'j) worker_env \<Rightarrow> 'l link_ops \<Rightarrow> msg_fields \<Rightarrow> ('l, 'c, 's, 'j) worker \<Rightarrow> ('l, 'c, 's, 'j) worker" where
  "processMlsMessage e ops m w =
    (case mls_handler e ops m w of (None, w1) \<Rightarrow> w1 | (Some what, w1) \<Rightarrow> mls_caught (command_id m) what w1)"

section \<open>The receive loop\<close>

definition user_detail :: "OnlineUser \<Rightarrow> QVariantMap" where
  "user_detail u = fmap_of_list [(''displayName'', VStr (ou_username u)), (''userCode'', VStr (ou_user_code u)),
     (''room'', VStr (ou_room u)), (''admin'', VBool (ou_is_admin u))]"

definition room_detail :: "RoomInfo \<Rightarrow> QVariantMap" where
  "room_detail r = fmap_of_list [(''roomName'', VStr (ri_name r)), (''ownerCode'', VStr (ri_owner_code r)),
     (''private'', VBool (ri_is_private r)), (''canManage'', VBool (ri_can_manage r))]"

definition history_detail :: "message \<Rightarrow> QVariantMap" where
  "history_detail h = (let m = mfields h in fmap_of_list [(''messageId'', VStr (message_id m)), (''displayName'', VStr (username m)),
     (''userCode'', VStr (user_code m)), (''content'', VStr (content m)), (''createdAt'', VStr (created_at m)),
     (''deliveryState'', VStr (delivery_state m)), (''recalled'', VBool (recalled m))])"

definition ui_of :: "msg_fields \<Rightarrow> ui_message" where
  "ui_of m = \<lparr>um_type = mtype m, um_message_id = message_id m, um_command_id = command_id m, um_username = username m,
     um_user_code = user_code m, um_content = content m, um_room = msg_fields.room m, um_target = target_user_code m,
     um_delivery_state = delivery_state m, um_users = users m, um_rooms = rooms m,
     um_user_details = map user_detail (user_details m), um_room_details = map room_detail (room_details m),
     um_is_admin = is_admin m\<rparr>"

definition attachment_types :: "string list" where
  "attachment_types = [''attachment.init'', ''attachment.chunk'', ''attachment.resume'', ''attachment.commit'',
     ''attachment.download'', ''error'']"

text \<open>The event for the page; \<open>w\<close> is the worker after the message was processed.\<close>

definition event_of :: "('c, 's, 'j) worker_env \<Rightarrow> msg_fields \<Rightarrow> string \<Rightarrow> ('l, 'c, 's, 'j) worker \<Rightarrow> attachment_event" where
  "event_of e m commandId w =
    \<lparr>ae_type = mtype m, ae_attachmentId = attachment_id m, ae_uploadId = upload_id m, ae_commandId = commandId,
     ae_chunkSize = sint (chunk_size m), ae_chunkIndex = sint (chunk_index m),
     ae_ciphertext = fromBase64 (we_manifest e) (ciphertext m), ae_cipherSha256 = cipher_sha256 m, ae_expiresAt = expires_at m,
     ae_receivedIndexes = map sint (received_indexes m), ae_content = content m,
     ae_logicalSize = (if mtype m = ''attachment.init'' then
        (case w_transfers w (upload_id m) of None \<Rightarrow> 0 | Some t \<Rightarrow> transfer.logicalSize t) else 0)\<rparr>"

definition handle_incoming ::
    "('c, 's, 'j) worker_env \<Rightarrow> 'l link_ops \<Rightarrow> message \<Rightarrow> ('l, 'c, 's, 'j) worker \<Rightarrow> ('l, 'c, 's, 'j) worker" where
  "handle_incoming e ops msg w =
    (let m = mfields msg;
         commandId = attachmentEventCommandId m w;
         w1 = processAttachmentMessage e ops m (processMlsMessage e ops m w);
         w2 = (if mtype m \<in> set attachment_types then emit (AttachmentEvent (event_of e m commandId w1)) w1 else w1) in
     if mtype m = ''history_response''
     then emit (HistoryReceived (msg_fields.room m) (target_user_code m) (is_private m) (map history_detail (messages msg))
                  (has_more m) (search_query m)) w2
     else emit (MessageReceived (ui_of m)) w2)"

text \<open>A failed read ends the loop; it is reported unless the loop was told to stop meanwhile.\<close>

definition receive_failed :: "'l link_ops \<Rightarrow> ('l, 'c, 's, 'j) worker \<Rightarrow> ('l, 'c, 's, 'j) worker" where
  "receive_failed ops w =
    (if w_running w then emit (ConnectionLost (link_error ops w)) (w\<lparr>w_running := False\<rparr>) else w)"

definition receive_step ::
    "('c, 's, 'j) worker_env \<Rightarrow> 'l link_ops \<Rightarrow> ('l, 'c, 's, 'j) worker \<Rightarrow> bool \<times> ('l, 'c, 's, 'j) worker" where
  "receive_step e ops w =
    (if \<not> w_running w then (False, w)
     else (case lk_receive ops (w_net w) of
        ((True, msg), l) \<Rightarrow> (True, handle_incoming e ops msg (w\<lparr>w_net := l\<rparr>))
      | ((False, msg), l) \<Rightarrow> (False, receive_failed ops (w\<lparr>w_net := l\<rparr>))))"

end
