(* ===== verification/Worker_Frame.thy ===== *)
theory Worker_Frame
  imports Gui_Receive
begin

text \<open>
  What the operations of the worker leave alone. \<open>session_frame\<close> is a view of the worker that depends neither on the
  connection's state nor on the signals nor on what the MLS operations change: every sending operation and every MLS
  message keeps it. \<open>worker_frame\<close> is a view that does not depend on the transfers either: every received message keeps it.
\<close>

locale session_frame =
  fixes view :: "('l, 'c, 's, 'j) worker \<Rightarrow> 'x"
  assumes view_fields [simp]:
    "view (w\<lparr>w_net := x0\<rparr>) = view w"
    "view (w\<lparr>w_signals := x1\<rparr>) = view w"
    "view (w\<lparr>w_client := x2\<rparr>) = view w"
    "view (w\<lparr>w_clients := x3\<rparr>) = view w"
    "view (w\<lparr>w_nextClient := x4\<rparr>) = view w"
    "view (w\<lparr>w_keyPackages := x5\<rparr>) = view w"
    "view (w\<lparr>w_groups := x6\<rparr>) = view w"
    "view (w\<lparr>w_operations := x7\<rparr>) = view w"
    "view (w\<lparr>w_commands := x8\<rparr>) = view w"
    "view (w\<lparr>w_setups := x9\<rparr>) = view w"
    "view (w\<lparr>w_fetches := x10\<rparr>) = view w"
    "view (w\<lparr>w_adds := x11\<rparr>) = view w"
    "view (w\<lparr>w_inits := x12\<rparr>) = view w"
    "view (w\<lparr>w_files := x13\<rparr>) = view w"
    "view (w\<lparr>w_received := x14\<rparr>) = view w"
begin

lemma view_emit [simp]: "view (emit s w) = view w"
  by (simp add: emit_def)

lemma view_results [simp]:
  "view (mls_result k b c t w) = view w" "view (mls_caught k t w) = view w" "view (not_connected k w) = view w"
  "view (too_large k w) = view w" "view (room_mismatch k w) = view w" "view (group_unavailable k w) = view w"
  "view (attachment_error a b' k n i t w) = view w" "view (delivery_failed k w) = view w"
  by (simp_all add: mls_result_def mls_caught_def not_connected_def too_large_def room_mismatch_def group_unavailable_def
      attachment_error_def delivery_failed_def)

lemma view_sendD: "link_send ops m w = (b, w') \<Longrightarrow> view w' = view w"
  by (auto simp: link_send_def split: prod.splits)

lemma view_lose [simp]: "view (send_or_lose ops m w) = view w"
  by (auto simp: send_or_lose_def split: prod.splits dest!: view_sendD)

lemma view_tracked [simp]: "view (send_tracked ops m k w) = view w"
  by (auto simp: send_tracked_def split: prod.splits dest!: view_sendD)

lemma view_new_client: "new_client e w = (r, w') \<Longrightarrow> view w' = view w"
  by (auto simp: new_client_def Let_def split: sum.splits)

lemma view_on_client: "on_client q f w = (r, w') \<Longrightarrow> view w' = view w"
  by (auto simp: on_client_def split: option.splits prod.splits)

lemma view_group: "group_for_add e g r w = (x, w') \<Longrightarrow> view w' = view w"
  by (auto simp: group_for_add_def split: option.splits prod.splits sum.splits
      dest!: view_new_client view_on_client)

lemma view_propose: "propose_and_commit e q f w = (x, w') \<Longrightarrow> view w' = view w"
  by (auto simp: propose_and_commit_def split: prod.splits sum.splits dest!: view_on_client)

lemma view_fetch [simp]: "view (fetchMlsKeyPackage e ops r t k w) = view w"
  by (auto simp: fetchMlsKeyPackage_def Let_def split: prod.splits bool.splits dest!: view_sendD)

lemma view_queue [simp]: "view (queue_operation e ops k n op w) = view w"
  by (auto simp: queue_operation_def Let_def split: prod.splits bool.splits dest!: view_sendD)

lemma view_add [simp]: "view (addMlsMember e ops r g t k w) = view w"
  by (auto simp: addMlsMember_def Let_def split: option.splits prod.splits sum.splits
      dest!: view_group view_propose)

lemma view_remove [simp]: "view (removeMlsMember e ops r g t k w) = view w"
  by (auto simp: removeMlsMember_def Let_def split: option.splits prod.splits sum.splits dest!: view_propose)

lemma view_mls [simp]:
  "view (inspectMlsGroup e g k w) = view w" "view (protectMls e g p k w) = view w"
  "view (unprotectMls e g c k w) = view w" "view (publishMlsKeyPackage e ops w) = view w"
  by (auto simp: inspectMlsGroup_def protectMls_def unprotectMls_def publishMlsKeyPackage_def Let_def
      split: option.splits prod.splits sum.splits dest!: view_on_client)

lemma view_reset [simp]: "view (resetMlsState e w) = view w"
  by (auto simp: resetMlsState_def Let_def split: prod.splits sum.splits dest!: view_new_client)

lemma view_resume_loop [simp]: "view (resume_loop ops xs w) = view w"
proof (induction xs arbitrary: w)
  case (Cons x xs)
  obtain k op where x: "x = (k, op)" by fastforce
  obtain b w1 where sent: "link_send ops (resumed_message k op) w = (b, w1)" by fastforce
  show ?case using view_sendD [OF sent] by (cases b) (simp_all add: x sent Cons.IH)
qed simp

lemma view_resume [simp]: "view (resumePendingMlsOperations ops w) = view w"
  by (simp add: resumePendingMlsOperations_def)

lemma view_senders [simp]:
  "view (sendChatToRoom e ops t r k w) = view w" "view (sendPrivate e ops t r k w) = view w"
  "view (joinRoom e ops r w) = view w" "view (createRoom e ops r b w) = view w"
  "view (sendRoomAction e ops a r t w) = view w" "view (requestUsers ops w) = view w"
  "view (requestRooms ops w) = view w" "view (requestHistory e ops r t b m n q w) = view w"
  "view (sendAdminAction e ops a t m k w) = view w"
  by (simp_all add: sendChatToRoom_def sendPrivate_def joinRoom_def createRoom_def sendRoomAction_def requestUsers_def
      requestRooms_def requestHistory_def sendAdminAction_def Let_def)

lemma view_init [simp]: "view (sendAttachmentInit e ops r n k w) = view w"
  by (auto simp: sendAttachmentInit_def Let_def split: prod.splits bool.splits dest!: view_sendD)

lemma view_setup [simp]:
  "view (failAttachmentMlsSetup k t w) = view w" "view (startNextAttachmentMlsSetup e ops k w) = view w"
  by (auto simp: failAttachmentMlsSetup_def startNextAttachmentMlsSetup_def Let_def split: option.splits)

lemma view_upload [simp]: "view (startAttachmentUpload e ops r p ts k w) = view w"
  by (auto simp: startAttachmentUpload_def Let_def split: prod.splits sum.splits
      dest!: view_new_client view_on_client)

lemma view_attachment_send [simp]: "view (send_attachment_message ops m a b k i w) = view w"
  by (auto simp: send_attachment_message_def Let_def split: prod.splits bool.splits dest!: view_sendD)

lemma view_attachments [simp]:
  "view (resumeAttachment e ops a k w) = view w" "view (sendAttachmentCommit e ops a k w) = view w"
  "view (sendAttachmentDownload e ops a i k w) = view w"
  by (simp_all add: resumeAttachment_def sendAttachmentCommit_def sendAttachmentDownload_def Let_def)

lemma view_manifest [simp]: "view (sendAttachmentManifest e ops m w) = view w"
  by (auto simp: sendAttachmentManifest_def Let_def split: option.splits prod.splits sum.splits dest!: view_on_client)

lemma view_handlers:
  "on_encrypted_chat e m w = (x, w') \<Longrightarrow> view w' = view w"
  "on_key_package e ops m w = (x, w') \<Longrightarrow> view w' = view w"
  "on_proposal e m w = (x, w') \<Longrightarrow> view w' = view w"
  "on_commit e m w = (x, w') \<Longrightarrow> view w' = view w"
  by (auto simp: on_encrypted_chat_def on_key_package_def on_proposal_def on_commit_def Let_def
      split: option.splits prod.splits sum.splits if_splits dest!: view_on_client)

lemma view_accepted [simp]: "view (on_proposal_accepted ops m w) = view w"
  by (auto simp: on_proposal_accepted_def Let_def split: option.splits prod.splits bool.splits dest!: view_sendD)

lemma view_accept: "send_welcome_accept e ops m w = (b, w') \<Longrightarrow> view w' = view w"
  by (auto simp: send_welcome_accept_def split: if_splits dest!: view_sendD)

lemma view_again [simp]: "view (welcome_again e ops m g w) = view w"
  by (auto simp: welcome_again_def Let_def split: prod.splits bool.splits dest!: view_accept)

lemma view_welcome: "on_welcome e ops m w = (x, w') \<Longrightarrow> view w' = view w"
  by (auto simp: on_welcome_def welcome_new_def Let_def split: option.splits prod.splits sum.splits if_splits bool.splits
      dest!: view_on_client view_accept view_new_client)

lemma view_advance [simp]: "view (advance_setup e ops k w) = view w"
  by (simp add: advance_setup_def Let_def split: option.split)

lemma view_finish [simp]: "view (finish_operation e ops m w) = view w"
  by (simp add: finish_operation_def Let_def)

lemma view_acks [simp]:
  "view (own_commit_accepted e ops m op w) = view w" "view (on_commit_accepted e ops m w) = view w"
  "view (on_welcome_accepted e ops m w) = view w" "view (on_mls_error m w) = view w"
  by (auto simp: own_commit_accepted_def on_commit_accepted_def on_welcome_accepted_def on_mls_error_def Let_def
      split: option.splits prod.splits bool.splits dest!: view_sendD)

lemma view_handler: "view (snd (mls_handler e ops m w)) = view w"
proof -
  have "view (snd (on_encrypted_chat e m w)) = view w"
    by (rule view_handlers(1) [of e m w "fst (on_encrypted_chat e m w)"]) simp
  moreover have "view (snd (on_key_package e ops m w)) = view w"
    by (rule view_handlers(2) [of e ops m w "fst (on_key_package e ops m w)"]) simp
  moreover have "view (snd (on_proposal e m w)) = view w"
    by (rule view_handlers(3) [of e m w "fst (on_proposal e m w)"]) simp
  moreover have "view (snd (on_commit e m w)) = view w"
    by (rule view_handlers(4) [of e m w "fst (on_commit e m w)"]) simp
  moreover have "view (snd (on_welcome e ops m w)) = view w"
    by (rule view_welcome [of e ops m w "fst (on_welcome e ops m w)"]) simp
  ultimately show ?thesis
    unfolding mls_handler_def Let_def if_distrib [of snd] if_distrib [of view] snd_conv
    by (simp only: view_accepted view_acks if_cancel)
qed

lemma view_mls_message [simp]: "view (processMlsMessage e ops m w) = view w"
  using view_handler [of e ops m w] by (auto simp: processMlsMessage_def split: prod.splits option.splits)

end

locale worker_frame = session_frame view
  for view :: "('l, 'c, 's, 'j) worker \<Rightarrow> 'x" +
  assumes transfer_fields [simp]:
    "view (w\<lparr>w_transfers := x0\<rparr>) = view w"
    "view (w\<lparr>w_chunks := x1\<rparr>) = view w"
    "view (w\<lparr>w_jobs := x2\<rparr>) = view w"
    "view (w\<lparr>w_manifests := x3\<rparr>) = view w"
    "view (w\<lparr>w_downloads := x4\<rparr>) = view w"
    "view (w\<lparr>w_fs := x5\<rparr>) = view w"
begin

lemma view_chunk [simp]: "view (sendAttachmentChunk e ops up n c h k w) = view w"
  by (auto simp: sendAttachmentChunk_def Let_def split: option.splits prod.splits bool.splits dest!: view_sendD)

lemma view_fail [simp]: "view (fail_upload k w) = view w"
  by (simp add: fail_upload_def)

lemma view_one_chunk: "send_one_chunk e ops up job w = (b, w') \<Longrightarrow> view w' = view w"
  by (auto simp: send_one_chunk_def Let_def split: prod.splits sum.splits if_splits)

lemma view_next_chunk [simp]: "view (sendNextAttachmentChunk e ops up w) = view w"
proof (induction e ops up w rule: sendNextAttachmentChunk.induct)
  case (1 e ops up w)
  then show ?case
    by (subst sendNextAttachmentChunk.simps) (auto split: option.splits prod.splits bool.splits dest: view_one_chunk)
qed

lemma view_download [simp]: "view (startAttachmentDownload e ops a p k w) = view w"
  by (auto simp: startAttachmentDownload_def Let_def split: option.splits prod.splits sum.splits)

lemma view_answers [simp]:
  "view (on_attachment_error m w) = view w" "view (on_attachment_init e ops m w) = view w"
  "view (on_attachment_resume m w) = view w" "view (on_attachment_chunk e ops m w) = view w"
  "view (on_attachment_commit e ops m w) = view w" "view (on_attachment_download e ops m w) = view w"
  by (auto simp: on_attachment_error_def on_attachment_init_def on_attachment_resume_def on_attachment_chunk_def chunk_acknowledged_def
      on_attachment_commit_def on_attachment_download_def Let_def split: option.splits prod.splits sum.splits bool.splits)

lemma view_process [simp]: "view (processAttachmentMessage e ops m w) = view w"
  by (simp add: processAttachmentMessage_def)

lemma view_incoming [simp]: "view (handle_incoming e ops msg w) = view w"
  by (simp add: handle_incoming_def Let_def)

end

end
