(* ===== verification/Worker_Safety.thy ===== *)
theory Worker_Safety
  imports Gui_Session Transition
begin

text \<open>
  Guarantees of the worker's session logic over every sequence of its steps: chat messages are sent or reported, a
  disconnect is final, at most one reconnect timer can act; and a session whose key package stays used up.
\<close>

section \<open>Frames of the steps\<close>

lemma same_link_receive:
  "same_link w (snd (receive_step e ops w)) \<or> same_link (w\<lparr>w_running := False\<rparr>) (snd (receive_step e ops w))"
proof -
  have "link_view (receive_failed ops (w\<lparr>w_net := l\<rparr>)) = link_view (w\<lparr>w_running := False\<rparr>)" if "w_running w" for l
    using that by (simp add: receive_failed_def) (simp add: link_view_def)
  then show ?thesis by (auto simp: receive_step_def same_link_def split: prod.splits bool.splits)
qed

lemma quiet_frame:
  assumes "quiet_step ops w w'"
  shows "same_link w w' \<or> same_link (w\<lparr>w_running := False\<rparr>) w' \<or> w' = disconnectFromServer ops w \<or>
    w' = scheduleReconnect ops w \<or> (\<exists>e i. w' = timer_fires e ops i w)"
  using assms by (cases rule: quiet_step.cases) (use same_link_receive in \<open>simp_all add: same_link_def, blast+\<close>)

text \<open>What connecting leaves alone: everything about the reconnect timers.\<close>

definition plan :: "('l, 'c, 's, 'j) worker \<Rightarrow> policy \<times> bool \<times> int list \<times> bool \<times> saved_connection" where
  "plan w = (w_policy w, w_timerActive w, w_timers w, w_explicit w, w_saved w)"

lemma plan_simps [simp]:
  "plan (emit s w) = plan w" "plan (reset_connection ops w) = plan w" "plan (stopReceiveLoop ops w) = plan w"
  "plan (report b t w) = plan w" "plan (w\<lparr>w_net := l\<rparr>) = plan w" "plan (w\<lparr>w_connection := c\<rparr>) = plan w"
  "plan (w\<lparr>w_lastFailure := t\<rparr>) = plan w"
  "plan (w\<lparr>w_connection := c, w_net := l\<rparr>) = plan w" "plan (w\<lparr>w_running := r, w_receiver := r\<rparr>) = plan w"
  "plan (stopHostedServer w) = plan w" "plan (w\<lparr>w_host := c\<rparr>) = plan w"
  by (simp_all add: plan_def emit_def reset_connection_def stopReceiveLoop_def report_def stopHostedServer_def)

lemma same_link_plan: "link_view w' = link_view w \<Longrightarrow> plan w' = plan w"
  by (simp add: link_view_def plan_def)

lemma session_plan [simp]: "plan (session_started e ops p m w) = plan w"
  using same_link_plan [OF link_session] by (simp add: plan_def)

lemma attempts_plan: "plan (snd (connect_attempts e ops cfg rf pr n reason w)) = plan w"
  by (induction n arbitrary: reason w) (simp_all add: Let_def split: prod.split)

lemma retries_plan [simp]: "plan (snd (connectToServerWithRetries e ops cfg n rf pr w)) = plan w"
  by (simp add: connectToServerWithRetries_def attempts_plan split: sum.split)

lemma local_host_plan:
  "\<exists>s. plan (connectToLocalHost e ops h exe cert key db nm cd w) = (markConnected (w_policy w), False, w_timers w, False, s)"
proof -
  define prepared where "prepared s = (reset_connection ops (stopReceiveLoop ops w))\<lparr>w_explicit := False,
    w_policy := markConnected (w_policy w), w_timerActive := False, w_saved := s\<rparr>" for s
  have p: "plan (prepared s) = (markConnected (w_policy w), False, w_timers w, False, s)" for s
    by (simp add: prepared_def plan_def stopReceiveLoop_def reset_connection_def)
  have "\<exists>s. plan (connectToLocalHost e ops h exe cert key db nm cd w) = plan (prepared s)"
    unfolding connectToLocalHost_def Let_def prepared_def [symmetric] if_distrib [of plan] sum.case_distrib [of plan]
      prod.case_distrib [of plan] plan_simps retries_plan
    by (intro exI) (simp only: if_cancel split: sum.split prod.split, blast)
  with p show ?thesis by simp
qed

lemma running_simps [simp]:
  "w_running (emit s w) = w_running w" "w_running (reset_connection ops w) = w_running w" "w_running (report b t w) = w_running w"
  "w_connection (emit s w) = w_connection w" "w_connection (report b t w) = w_connection w"
  "\<not> w_running (stopReceiveLoop ops w)" "\<not> w_connection (reset_connection ops w)"
  "w_connection (stopReceiveLoop ops w) = w_connection w"
  by (simp_all add: emit_def reset_connection_def report_def stopReceiveLoop_def)

lemma attempts_running:
  "connect_attempts e ops cfg rf pr n reason w = (False, w') \<Longrightarrow> w_running w' = w_running w"
  by (induction n arbitrary: reason w) (fastforce simp: Let_def split: prod.splits if_splits)+


lemma retries_fail:
  assumes "connectToServerWithRetries e ops cfg n rf pr w = (False, w')"
  shows "w_running w' = w_running w" "we_openssl e = Inr u \<Longrightarrow> \<not> w_connection w'"
proof -
  show "w_running w' = w_running w"
    using assms by (auto simp: connectToServerWithRetries_def dest: attempts_running split: sum.splits)
  have "\<not> w_connection v'" if "connect_attempts e ops cfg rf pr k r v = (False, v')" "0 < k" for k r v v'
    using that
  proof (induction k arbitrary: r v)
    case (Suc k)
    then show ?case by (cases k) (auto simp: Let_def split: prod.splits if_splits)
  qed simp
  then show "\<not> w_connection w'" if "we_openssl e = Inr u"
    using assms that by (auto simp: connectToServerWithRetries_def)
qed

section \<open>Sent or reported\<close>

lemma link_send_signals: "link_send ops m w = (ok, w') \<Longrightarrow> w_signals w' = w_signals w"
  by (auto simp: link_send_def split: prod.splits)

text \<open>
  A chat message with an id is either handed to the connection, and then nothing is reported, or the page
  hears that its delivery failed: exactly once, and followed by the loss of the connection if sending failed.
\<close>

theorem chat_sent_or_reported:
  assumes "messageId \<noteq> []"
  shows "(\<exists>m. fst (lk_send ops m (w_net w)) \<and> content (mfields m) = trimmed (we_text e) text \<and> msg_fields.room (mfields m) = rm \<and>
            message_id (mfields m) = messageId \<and>
            sendChatToRoom e ops text rm messageId w = w\<lparr>w_net := snd (lk_send ops m (w_net w))\<rparr>) \<or>
         (\<exists>rest. w_signals (sendChatToRoom e ops text rm messageId w) = w_signals w @ MessageDeliveryFailed messageId # rest \<and>
            set rest \<subseteq> range ConnectionLost)"
proof (cases "\<not> usable ops w \<or> trimmed (we_text e) text = []")
  case True
  then show ?thesis using assms by (auto simp: sendChatToRoom_def delivery_failed_def emit_def)
next
  case False
  let ?m = "Message ((simple ''chat'' (trimmed (we_text e) text) [] rm)\<lparr>message_id := messageId\<rparr>) []"
  show ?thesis
  proof (cases "lk_send ops ?m (w_net w)")
    case (Pair ok l)
    show ?thesis
    proof (cases ok)
      case True
      with Pair False show ?thesis
        by (intro disjI1 exI [of _ ?m]) (simp add: sendChatToRoom_def send_tracked_def link_send_def simple_def mk_fields_def)
    next
      case no: False
      with Pair False assms show ?thesis
        by (intro disjI2) (simp add: sendChatToRoom_def send_tracked_def link_send_def delivery_failed_def emit_def)
    qed
  qed
qed

theorem chat_sent_or_reported_witness:
  "let w' = sendChatToRoom worker_sample_env memory_link ''hi'' ''lobby'' ''m1'' idle_worker in
     w_signals w' = [MessageDeliveryFailed ''m1''] \<and> w_net w' = (False, [])"
  using chat_sent_or_reported [of "''m1''" memory_link idle_worker worker_sample_env "''hi''" "''lobby''"]
  by (simp add: sample_defs sendChatToRoom_def usable_def delivery_failed_def emit_def)

section \<open>A disconnect is final\<close>

definition offline :: "('l, 'c, 's, 'j) worker \<Rightarrow> bool" where
  "offline w \<longleftrightarrow> w_explicit w \<and> \<not> w_connection w \<and> \<not> w_running w"

lemma offline_disconnect: "offline (disconnectFromServer ops w)"
  by (simp add: offline_def disconnectFromServer_def stopHostedServer_def Let_def)
    (simp add: reset_connection_def stopReceiveLoop_def emit_def)

lemma offline_step:
  assumes "offline w" "quiet_step ops w w'"
  shows "offline w'"
  using quiet_frame [OF assms(2)] assms(1)
  by (auto simp: offline_disconnect)
    (auto simp: offline_def same_link_def link_view_def scheduleReconnect_def timer_fires_def retrySavedConnection_def Let_def)

interpretation offline_worker: stable_system "quiet_step ops" offline for ops
  by unfold_locales (rule offline_step)

text \<open>
  After the user disconnects, nothing but the user connecting brings the connection back: whatever timers fire,
  messages arrive or operations are called, there is no connection and no receive loop, and every chat message is refused.
\<close>

theorem disconnect_is_final:
  assumes "steps (quiet_step ops) (disconnectFromServer ops w) w'"
  shows "\<not> w_connection w' \<and> \<not> w_running w' \<and> sendChatToRoom e ops text rm messageId w' = delivery_failed messageId w'"
proof -
  have "offline w'" using offline_worker.steps_stable [OF assms offline_disconnect] .
  then show ?thesis by (simp add: offline_def sendChatToRoom_def usable_def)
qed

theorem disconnect_is_final_witness:
  "let w' = scheduleReconnect memory_link (disconnectFromServer memory_link online_worker) in
     \<not> w_connection w' \<and> \<not> w_running w' \<and>
     sendChatToRoom worker_sample_env memory_link ''hi'' ''lobby'' ''m1'' w' = delivery_failed ''m1'' w'"
proof -
  have "steps (quiet_step memory_link) (disconnectFromServer memory_link online_worker)
      (scheduleReconnect memory_link (disconnectFromServer memory_link online_worker))"
    by (rule steps_step [OF steps_refl]) (rule quiet_step.intros)
  from disconnect_is_final [OF this] show ?thesis by (simp add: Let_def)
qed


section \<open>One reconnect\<close>

text \<open>The started timers are those of this generation, of which one is active at most, and stale ones.\<close>

definition timers_ok :: "policy \<times> bool \<times> int list \<times> bool \<times> saved_connection \<Rightarrow> bool" where
  "timers_ok = (\<lambda>(p, act, ts, ex, sc). (\<forall>g \<in> set ts. g \<le> generation p) \<and> count_list ts (generation p) = (if act then 1 else 0))"

definition one_reconnect :: "('l, 'c, 's, 'j) worker \<Rightarrow> bool" where
  "one_reconnect w \<longleftrightarrow> timers_ok (plan w) \<and> (w_timerActive w \<longrightarrow> \<not> w_connection w \<and> \<not> w_running w)"

lemma count_future [simp]: "\<forall>g \<in> set ts. g \<le> (n::int) \<Longrightarrow> count_list ts (n + 1) = 0"
  by (induction ts) auto

lemma count_remove: "i < length ts \<Longrightarrow> count_list (take i ts @ drop (Suc i) ts) g = count_list ts g - (if ts ! i = g then 1 else 0)"
  using arg_cong [OF id_take_nth_drop [of i ts], of "\<lambda>xs. count_list xs g"] by simp

lemma stale_ok:
  assumes "timers_ok (plan w)" "plan w' = (p, False, w_timers w, x, s)"
    "generation p = generation (w_policy w) + 1"
  shows "one_reconnect w'"
  using assms by (auto simp: one_reconnect_def timers_ok_def plan_def dest: order_trans)

lemma connected_one: "one_reconnect w \<Longrightarrow> plan w' = (markConnected (w_policy w), False, w_timers w, x, s) \<Longrightarrow> one_reconnect w'"
  using stale_ok [of w w' "markConnected (w_policy w)" x s] by (simp add: one_reconnect_def [of w] markConnected_def)

lemma schedule_one:
  assumes "timers_ok (plan w)"
  shows "one_reconnect (scheduleReconnect ops w) \<or> w_timerActive w \<and> scheduleReconnect ops w = w"
proof (cases "w_explicit w \<or> \<not> sc_valid (w_saved w) \<or> w_timerActive w")
  case True
  with assms show ?thesis by (auto simp: scheduleReconnect_def one_reconnect_def)
next
  case False
  define v where "v = reset_connection ops (stopReceiveLoop ops w)"
  have v: "plan v = plan w" "\<not> w_connection v" "\<not> w_running v" by (simp_all add: v_def)
  with False assms show ?thesis
    by (auto simp: scheduleReconnect_def v_def [symmetric] scheduleNextAttempt_def Let_def one_reconnect_def timers_ok_def plan_def emit_def)
qed

lemma retry_one:
  assumes v: "timers_ok (plan v)" "\<not> w_timerActive v"
  shows "one_reconnect (retrySavedConnection e ops v)"
proof (cases "w_explicit v \<or> \<not> sc_valid (w_saved v)")
  case True
  with v show ?thesis by (simp add: retrySavedConnection_def one_reconnect_def)
next
  case False
  let ?c = "connectToServerWithRetries e ops (config_of (w_saved v)) 1 False True (emit (ReconnectAttempt (attemptCount (w_policy v))) v)"
  obtain ok u where c: "?c = (ok, u)" by fastforce
  have "plan (snd ?c) = plan v" by simp
  with c v have u: "timers_ok (plan u)" "\<not> w_timerActive u" by (auto simp: plan_def)
  have "one_reconnect (u\<lparr>w_policy := markConnected (w_policy u)\<rparr>)"
    by (rule stale_ok [OF u(1), where p = "markConnected (w_policy u)" and x = "w_explicit u" and s = "w_saved u"])
      (use u(2) in \<open>simp_all add: plan_def markConnected_def\<close>)
  moreover have "one_reconnect (scheduleReconnect ops (emit (ReconnectFailed (w_lastFailure u)) u))"
    using schedule_one [of "emit (ReconnectFailed (w_lastFailure u)) u" ops] u by (auto simp: emit_def plan_def)
  ultimately show ?thesis using False c by (auto simp: retrySavedConnection_def emit_def split: bool.split)
qed

lemma timer_one:
  assumes "one_reconnect w"
  shows "one_reconnect (timer_fires e ops i w)"
proof -
  define ts where "ts = take i (w_timers w) @ drop (Suc i) (w_timers w)"
  have rest: "set ts \<subseteq> set (w_timers w)"
    "i < length (w_timers w) \<Longrightarrow> count_list ts g = count_list (w_timers w) g - (if w_timers w ! i = g then 1 else 0)" for g
    using set_take_subset [of i "w_timers w"] set_drop_subset [of "Suc i" "w_timers w"] count_remove [of i "w_timers w" g]
    by (auto simp: ts_def)
  show ?thesis
  proof (cases "i < length (w_timers w) \<and> w_timers w ! i = generation (w_policy w)")
    case False
    with assms rest show ?thesis
      by (auto simp: timer_fires_def Let_def ts_def [symmetric] one_reconnect_def timers_ok_def plan_def)
  next
    case True
    with assms rest have "one_reconnect (retrySavedConnection e ops (w\<lparr>w_timers := ts, w_timerActive := False\<rparr>))"
      by (intro retry_one) (auto simp: one_reconnect_def timers_ok_def plan_def split: if_splits)
    with True show ?thesis by (simp add: timer_fires_def Let_def ts_def)
  qed
qed

lemma step_one:
  assumes "one_reconnect w" "worker_step ops w w'"
  shows "one_reconnect w'"
  using assms(2)
proof (cases rule: worker_step.cases)
  case quiet
  from quiet_frame [OF this] show ?thesis
  proof (elim disjE exE)
    assume "w' = disconnectFromServer ops w"
    then have "plan w' = (cancel_policy (w_policy w), False, w_timers w, True, w_saved w)"
      by (simp add: disconnectFromServer_def Let_def) (simp add: plan_def)
    with assms(1) show ?thesis by (intro stale_ok [where w=w]) (auto simp: one_reconnect_def cancel_policy_def)
  next
    assume "w' = scheduleReconnect ops w"
    with assms(1) schedule_one [of w ops] show ?thesis by (auto simp: one_reconnect_def)
  next
    fix e i
    assume "w' = timer_fires e ops i w"
    with assms(1) show ?thesis by (simp add: timer_one)
  qed (use assms(1) in \<open>auto simp: one_reconnect_def plan_def same_link_def link_view_def\<close>)
next
  case (connect e ip port nm cd ca tls)
  then have "\<exists>s. plan w' = (markConnected (w_policy w), False, w_timers w, False, s)"
    by (simp add: connectToServer_def Let_def) (simp add: plan_def stopReceiveLoop_def)
  with connected_one [OF assms(1)] show ?thesis by blast
next
  case (host e h exe cert key db nm cd)
  then have "\<exists>s. plan w' = (markConnected (w_policy w), False, w_timers w, False, s)"
    using local_host_plan by blast
  with connected_one [OF assms(1)] show ?thesis by blast
qed

lemma new_one: "one_reconnect (new_worker net fs)"
  by (simp add: one_reconnect_def timers_ok_def plan_def new_worker_def)

interpretation reconnecting: invariant_system "\<lambda>w. \<exists>net fs. w = new_worker net fs" "worker_step ops" one_reconnect for ops
  by unfold_locales (auto intro: step_one new_one)

text \<open>
  C13. In every reachable state at most one reconnect is due: of all the timers ever started and not yet fired, exactly one
  carries the current generation while a reconnect is pending and none otherwise; the others do nothing when they fire. While
  one is pending there is no connection and no receive loop.
\<close>

theorem one_pending_reconnect:
  assumes "reachable (\<lambda>w. \<exists>net fs. w = new_worker net fs) (worker_step ops) w"
  shows "length (filter (\<lambda>g. g = generation (w_policy w)) (w_timers w)) = (if w_timerActive w then 1 else 0) \<and>
    (w_timerActive w \<longrightarrow> \<not> w_connection w \<and> \<not> w_running w) \<and>
    (i < length (w_timers w) \<longrightarrow> w_timers w ! i \<noteq> generation (w_policy w) \<longrightarrow>
       timer_fires e ops i w = w\<lparr>w_timers := take i (w_timers w) @ drop (Suc i) (w_timers w)\<rparr>)"
proof -
  have "count_list ts g = length (filter (\<lambda>x. x = g) ts)" for ts :: "int list" and g by (induction ts) auto
  with reconnecting.reachable_inv [OF assms] show ?thesis
    by (auto simp: one_reconnect_def timers_ok_def plan_def timer_fires_def Let_def)
qed

theorem one_pending_reconnect_witness:
  "let w = scheduleReconnect memory_link (connectToServer worker_sample_env memory_link ''10.0.0.1'' 8888 ''Amy'' ''amy'' [] [] idle_worker)
   in w_timerActive w \<and> w_timers w = [1] \<and> \<not> w_connection w \<and> \<not> w_running w"
proof -
  define c where "c = connectToServer worker_sample_env memory_link ''10.0.0.1'' 8888 ''Amy'' ''amy'' [] [] idle_worker"
  define w where "w = scheduleReconnect memory_link c"
  have "reachable (\<lambda>w. \<exists>net fs. w = new_worker net fs) (worker_step memory_link) c"
    unfolding c_def by (rule reachable_step [where s=idle_worker], rule reachable_init) (auto simp: idle_worker_def intro: worker_step.connect)
  then have "reachable (\<lambda>w. \<exists>net fs. w = new_worker net fs) (worker_step memory_link) w"
    unfolding w_def by (rule reachable_step) (rule worker_step.quiet, rule quiet_step.intros)
  note reached = one_pending_reconnect [OF this]
  have "plan c = (\<lparr>active = True, attemptCount = 0, generation = 1\<rparr>, False, [], False,
      \<lparr>sc_serverIp = ''10.0.0.1'', sc_serverPort = 8888, sc_username = ''Amy'', sc_userCode = ''amy'', sc_caFile = [],
       sc_tlsServerName = [], sc_valid = True\<rparr>)"
    by (simp add: c_def connectToServer_def Let_def) (simp add: plan_def stopReceiveLoop_def sample_defs markConnected_def new_policy_def)
  then have "w_timerActive w" "w_timers w = [1]"
    by (simp_all add: w_def scheduleReconnect_def scheduleNextAttempt_def plan_def reset_connection_def stopReceiveLoop_def Let_def
        emit_def kInitialDelayMs_def kMaximumDelayMs_def)
  with reached show ?thesis by (simp add: w_def c_def Let_def)
qed


section \<open>A used-up key package\<close>

text \<open>The own client has joined a group and offers no key package any more.\<close>

definition used_up :: "('l, 'c, 's, 'j) worker \<Rightarrow> bool" where
  "used_up w \<longleftrightarrow> (\<exists>p m. w_client w = Some p \<and> w_clients w p = Some m \<and> mc_pendingJoin m = None)"

lemma used_up_publish:
  assumes "used_up w" "usable ops w"
  shows "publishMlsKeyPackage e ops w = emit (ConnectionLost (''MLS key package initialization failed: '' @ no_join)) w"
  using assms by (auto simp: used_up_def publishMlsKeyPackage_def on_client_def keyPackage_def map_upd_triv)

lemma join_uses_up:
  assumes "on_client (w_client w) (mls_join lib raw) w = (Inr u, w1)"
  shows "used_up w1" "w_saved w1 = w_saved w" "w_connection w1 = w_connection w" "w_net w1 = w_net w"
  using assms
  by (auto simp: on_client_def used_up_def mls_join_def split: option.splits prod.splits sum.splits)

lemma used_up_simps [simp]:
  "used_up (emit s w) = used_up w" "used_up (w\<lparr>w_net := l\<rparr>) = used_up w" "used_up (w\<lparr>w_groups := g\<rparr>) = used_up w"
  "used_up (w\<lparr>w_connection := c, w_net := l\<rparr>) = used_up w" "used_up (w\<lparr>w_running := r, w_receiver := r\<rparr>) = used_up w"
  "used_up (w\<lparr>w_commands := k, w_operations := ps\<rparr>) = used_up w" "used_up (mls_result cid b t u w) = used_up w"
  by (simp_all add: used_up_def emit_def mls_result_def)

lemma used_up_send: "link_send ops m w = (b, w') \<Longrightarrow> used_up w' = used_up w"
  by (auto simp: link_send_def split: prod.splits)

lemma used_up_resume [simp]: "used_up (resume_loop ops xs w) = used_up w"
proof (induction xs arbitrary: w)
  case (Cons x xs)
  obtain k op b w1 where x: "x = (k, op)" and sent: "link_send ops (resumed_message k op) w = (b, w1)" by (metis prod.exhaust)
  show ?case using used_up_send [OF sent] by (cases b) (simp_all add: x sent Cons.IH)
qed simp

lemma resume_signals: "set (w_signals w) \<subseteq> set (w_signals (resume_loop ops xs w))"
proof (induction xs arbitrary: w)
  case (Cons x xs)
  obtain k op b w1 where x: "x = (k, op)" and sent: "link_send ops (resumed_message k op) w = (b, w1)" by (metis prod.exhaust)
  show ?case
    using link_send_signals [OF sent] Cons.IH [of w1] Cons.IH [of "mls_result k False ''send_failed'' (link_error ops w1) w1"]
      Cons.IH [of "w\<lparr>w_commands := w_commands w - {k}, w_operations := map_erase k (w_operations w)\<rparr>"]
    by (cases b) (auto simp: x sent mls_result_def emit_def)
qed simp

lemma session_used_up:
  assumes "used_up w" "usable ops w"
  shows "used_up (session_started e ops True response w)"
    "ConnectionLost (''MLS key package initialization failed: '' @ no_join) \<in> set (w_signals (session_started e ops True response w))"
proof -
  define w1 where "w1 = w\<lparr>w_running := True, w_receiver := True\<rparr>"
  define lost where "lost = ConnectionLost (''MLS key package initialization failed: '' @ no_join)"
  have 1: "used_up w1" "usable ops w1" "w_client w1 \<noteq> None"
    using assms by (auto simp: w1_def usable_def) (auto simp: used_up_def)
  define r where "r = resumePendingMlsOperations ops (emit lost w1)"
  have "session_started e ops True response w = emit (Connected (is_admin (mfields response))) r"
    using 1(3) used_up_publish [OF 1(1,2), of e, folded lost_def]
    by (simp only: session_started_def w1_def [symmetric] r_def Let_def simp_thms if_False if_True)
  moreover have "lost \<in> set (w_signals r)"
    using resume_signals [of "emit lost w1" ops] by (auto simp: r_def resumePendingMlsOperations_def emit_def)
  moreover have "used_up r" using 1 by (simp add: r_def resumePendingMlsOperations_def)
  ultimately show "used_up (session_started e ops True response w)" "lost \<in> set (w_signals (session_started e ops True response w))"
    by (simp, simp add: emit_def)
qed

lemma refused_acceptance:
  assumes "proposal_id m = [] \<or> (\<forall>msg. \<not> fst (lk_send ops msg l))" "used_up w" "w_net w = l"
  shows "\<exists>w'. send_welcome_accept e ops m w = (False, w') \<and> used_up w'"
proof -
  have "\<exists>w'. link_send ops msg w = (False, w') \<and> used_up w'" if "\<not> fst (lk_send ops msg l)" for msg
    using that assms(2,3) by (auto simp: link_send_def split: prod.split)
  with assms show ?thesis by (auto simp: send_welcome_accept_def)
qed


definition welcome_without_proposal :: msg_fields where
  "welcome_without_proposal = (simple ''mls.group.welcome'' [] [] ''lobby'')\<lparr>group_id := ''g'', mwelcome := ''wel''\<rparr>"


end
