(* ===== verification/Gui_Models.thy ===== *)
theory Gui_Models
  imports Gui_Behaviour
begin

text \<open>
  Properties of all conversation models: what a new model has and every operation of the list model keeps, every conversation
  of the controller has, whatever happens to it.
\<close>

definition all_models :: "(ChatListModel \<Rightarrow> bool) \<Rightarrow> controller \<Rightarrow> bool" where
  "all_models Q c \<longleftrightarrow> (\<forall>m \<in> ran (heap c). Q m)"

lemma all_models_frame [simp]:
  "all_models Q (emit_sig s c) = all_models Q c" "all_models Q (invoke w c) = all_models Q c"
  "all_models Q (c\<lparr>historySearchQuery := q\<rparr>) = all_models Q c" "all_models Q (c\<lparr>historyLoading := b\<rparr>) = all_models Q c"
  "all_models Q (c\<lparr>joinedRoom := r\<rparr>) = all_models Q c" "all_models Q (c\<lparr>refreshTimer := b\<rparr>) = all_models Q c"
  "all_models Q (c\<lparr>clipboard := t\<rparr>) = all_models Q c" "all_models Q (c\<lparr>onlineMemberCount := k\<rparr>) = all_models Q c"
  "all_models Q (c\<lparr>localMessageCounter := i\<rparr>) = all_models Q c" "all_models Q (c\<lparr>pendingAttachmentMetadata := pm\<rparr>) = all_models Q c"
  "all_models Q (c\<lparr>roomMemberCounts := rc\<rparr>) = all_models Q c" "all_models Q (c\<lparr>roomModel := m\<rparr>) = all_models Q c"
  "all_models Q (c\<lparr>directMessageModel := m\<rparr>) = all_models Q c" "all_models Q (c\<lparr>memberModel := m\<rparr>) = all_models Q c"
  "all_models Q (c\<lparr>messageModel := p\<rparr>) = all_models Q c" "all_models Q (c\<lparr>activeConversationKey := t\<rparr>) = all_models Q c"
  "all_models Q (c\<lparr>connected := b\<rparr>) = all_models Q c" "all_models Q (c\<lparr>reconnecting := b\<rparr>) = all_models Q c"
  "all_models Q (c\<lparr>admin := b\<rparr>) = all_models Q c" "all_models Q (c\<lparr>statusText := t\<rparr>) = all_models Q c"
  "all_models Q (c\<lparr>settings := st\<rparr>) = all_models Q c" "all_models Q (c\<lparr>bundledCaFile := t\<rparr>) = all_models Q c"
  "all_models Q (c\<lparr>localUserName := nm, localUserCode := t\<rparr>) = all_models Q c"
  "all_models Q (c\<lparr>activeRoomCanManage := b\<rparr>) = all_models Q c" "all_models Q (c\<lparr>pendingApprovals := a\<rparr>) = all_models Q c"
  "all_models Q (c\<lparr>emitted := es\<rparr>) = all_models Q c"
  by (simp_all add: all_models_def emit_sig_def invoke_def)

lemma all_models_small [simp]:
  "all_models Q (setStatus t c) = all_models Q c" "all_models Q (set_can_manage b c) = all_models Q c" "all_models Q (set_admin b c) = all_models Q c"
  "all_models Q (set_identity nm cd c) = all_models Q c" "all_models Q (saveConnectionPreferences e ip port nm cd ca c) = all_models Q c"
  "all_models Q (setBundledCaFile e t c) = all_models Q c" "all_models Q (requestActiveHistory i q c) = all_models Q c"
  "all_models Q (refresh_tick c) = all_models Q c" "all_models Q (searchActiveHistory e q c) = all_models Q c"
  "all_models Q (incrementUnreadForConversation e k nm cd c) = all_models Q c"
  by (simp_all add: setStatus_def set_can_manage_def set_admin_def set_identity_def saveConnectionPreferences_def setBundledCaFile_def
      requestActiveHistory_def refresh_tick_def searchActiveHistory_def incrementUnreadForConversation_def Let_def split: option.split)

locale model_property =
  fixes Q :: "ChatListModel \<Rightarrow> bool"
  assumes new_has: "Q (new_model kMessageRoles)"
    and op_keeps: "Q m \<Longrightarrow> Q (fst (run_op op m))"
begin

lemma ops_keep [simp]:
  assumes "Q m"
  shows "Q (fst (append_row r m))" "Q (fst (prependRows new m))" "Q (fst (update_row i vals m))"
    "Q (fst (removeRowsByValue k v m))" "Q (fst (clear_model m))" "Q (update_message t vs m)"
  using op_keeps [OF assms, of "Append [r]"] op_keeps [OF assms, of "Prepend new"] op_keeps [OF assms, of "Update i vals" for i vals]
    op_keeps [OF assms, of "RemoveByValue k v"] op_keeps [OF assms, of Clear] assms
  by (simp_all add: append_row_def update_message_def split: option.split)

lemma with_keeps [simp]: "all_models Q c \<Longrightarrow> (\<And>m. Q m \<Longrightarrow> Q (f m)) \<Longrightarrow> all_models Q (with_model p f c)"
  by (auto simp: all_models_def with_model_def ran_def split: option.splits if_splits)

lemma each_keeps [simp]:
  assumes "all_models Q c" "\<And>m. Q m \<Longrightarrow> Q (f m)"
  shows "all_models Q (each_model f c)"
proof -
  have "all_models Q d \<Longrightarrow> all_models Q (fold (\<lambda>(k, p). with_model p f) ms d)" for ms d
    using assms(2) by (induction ms arbitrary: d) (auto intro: with_keeps)
  with assms(1) show ?thesis by (simp add: each_model_def)
qed

lemma ensure_keeps: "ensureConversationModel key c = (p, d) \<Longrightarrow> all_models Q c \<Longrightarrow> all_models Q d"
  using ensure_ran [of key c p d] new_has by (auto simp: all_models_def)

lemma append_keeps [simp]:
  "all_models Q c \<Longrightarrow> all_models Q (append_to p row c)" "all_models Q c \<Longrightarrow> all_models Q (appendSystemMessageToModel e p t c)"
  "all_models Q c \<Longrightarrow> all_models Q (appendSystemMessage e t c)"
  by (simp_all add: append_to_def appendSystemMessageToModel_def appendSystemMessage_def)

lemma select_keeps [simp]:
  assumes "all_models Q c"
  shows "all_models Q (selectRoom e r c)" "all_models Q (selectDirectMessage e t c)"
    "all_models Q (openPrivateChat e nm t c)" "all_models Q (resetSessionData c)"
proof -
  have direct: "all_models Q (selectDirectMessage e t d)" if "all_models Q d" for d
    using that by (auto simp: selectDirectMessage_def Let_def dest!: ensure_keeps split: prod.splits option.splits)
  from direct assms show "all_models Q (selectDirectMessage e t c)" by blast
  show "all_models Q (selectRoom e r c)"
    using assms by (auto simp: selectRoom_def Let_def dest!: ensure_keeps split: prod.splits)
  show "all_models Q (openPrivateChat e nm t c)" using assms by (simp add: openPrivateChat_def Let_def direct)
  show "all_models Q (resetSessionData c)"
    using assms by (auto simp: resetSessionData_def Let_def dest!: ensure_keeps split: prod.splits)
qed

lemma chat_keeps [simp]: "all_models Q c \<Longrightarrow> all_models Q (on_chat e u c)"
proof -
  assume c: "all_models Q c"
  define key where "key = conversation_key e u c"
  define c1 where "c1 = (if um_message_id u = [] then c\<lparr>localMessageCounter := localMessageCounter c + 1\<rparr> else c)"
  define i where "i = (if um_message_id u = [] then ''local-'' @ to_string (localMessageCounter c1) else um_message_id u)"
  obtain p d where pd: "ensureConversationModel key (c1\<lparr>pendingAttachmentMetadata := hash_remove i (pendingAttachmentMetadata c1)\<rparr>) = (p, d)"
    by fastforce
  have "all_models Q d" using c by (intro ensure_keeps [OF pd]) (simp add: c1_def)
  then show ?thesis
    unfolding on_chat_def Let_def key_def [symmetric] c1_def [symmetric] i_def [symmetric] pd prod.case by simp
qed

lemma message_parts_keep [simp]:
  assumes "all_models Q c"
  shows "all_models Q (on_delivery_receipt u c)" "all_models Q (on_approval_request u c)" "all_models Q (on_recalled u c)"
  unfolding on_delivery_receipt_def on_approval_request_def on_recalled_def Let_def using assms by simp_all

lemma approval_keeps [simp]: "all_models Q c \<Longrightarrow> all_models Q (on_approval_result e u c)"
  unfolding on_approval_result_def Let_def by simp

lemma error_keeps [simp]: "all_models Q c \<Longrightarrow> all_models Q (on_error u c)"
  unfolding on_error_def Let_def by simp

lemma system_keeps [simp]: "all_models Q c \<Longrightarrow> all_models Q (on_room_system e u c)"
  unfolding on_room_system_def by (auto dest!: ensure_keeps split: prod.splits)

lemma rooms_keep [simp]: "all_models Q c \<Longrightarrow> all_models Q (on_rooms_response u c)"
  unfolding on_rooms_response_def Let_def by (simp only: all_models_small all_models_frame)

lemma users_keep [simp]: "all_models Q c \<Longrightarrow> all_models Q (on_users_response e u c)"
  unfolding on_users_response_def Let_def by (simp only: all_models_frame split: if_split) blast

lemma message_keeps [simp]: "all_models Q c \<Longrightarrow> all_models Q (handleMessage e u c)"
  unfolding handleMessage_def Let_def by simp

lemma history_keeps [simp]: "all_models Q c \<Longrightarrow> all_models Q (handleHistory e r t b ms q c)"
  unfolding handleHistory_def Let_def by simp

lemma attachment_keeps [simp]: "all_models Q c \<Longrightarrow> all_models Q (handleAttachmentEvent e t a k s c)"
  unfolding handleAttachmentEvent_def Let_def by (auto split: option.split qjson.split)

lemma send_keeps [simp]:
  "all_models Q c \<Longrightarrow> all_models Q (sendRoomMessage e uuid s r c)" "all_models Q c \<Longrightarrow> all_models Q (sendPrivateMessage e uuid s t c)"
  "all_models Q c \<Longrightarrow> all_models Q (removeLocalMessage k c)" "all_models Q c \<Longrightarrow> all_models Q (snd (recallMessage e i k c))"
  "all_models Q c \<Longrightarrow> all_models Q (snd (retryMessage i c))"
  by (auto simp: sendRoomMessage_def sendPrivateMessage_def removeLocalMessage_def recallMessage_def retryMessage_def Let_def
      dest!: ensure_keeps split: prod.split option.split)

lemma link_keeps [simp]:
  assumes "all_models Q c"
  shows "all_models Q (handleConnected b c)" "all_models Q (handleConnectionFailed e t c)" "all_models Q (handleConnectionLost t c)"
    "all_models Q (ctl_disconnectFromServer c)"
  using assms by (simp_all add: handleConnected_def handleConnectionFailed_def handleConnectionLost_def ctl_disconnectFromServer_def Let_def)

lemma run_event_keeps: "all_models Q c \<Longrightarrow> all_models Q (run_event e ev c)"
  by (cases ev)
    (simp_all add: connectToServerWithTlsName_def ctl_connectToLocalHost_def ctl_createRoom_def copyText_def chooseAndUploadAttachment_def
      ctl_sendAttachmentDownload_def handleReconnectScheduled_def handleReconnectAttempt_def handleReconnectFailed_def
      message_delivery_failed_def)

lemma new_controller_has: "all_models Q new_controller"
  by (simp add: all_models_def new_controller_def new_has)

end

section \<open>Roles\<close>

lemma remove_down_roles: "roles (fst (remove_down n k v m)) = roles m"
proof (induction n arbitrary: m)
  case (Suc n)
  have "roles (fst (removeRow i m)) = roles m" for i by (simp add: removeRow_def)
  with Suc [of m] Suc [of "fst (removeRow (int n) m)"] show ?case by (simp add: Let_def prod.case_eq_if)
qed simp

lemma run_op_roles: "roles (fst (run_op op m)) = roles m"
  by (cases op) (auto simp: appendRows_def prependRows_def replaceRows_def update_row_def updateRows_def removeRow_def
      removeRowsByValue_def remove_down_roles clear_model_def Let_def split: prod.splits)

definition message_model :: "ChatListModel \<Rightarrow> bool" where
  "message_model m \<longleftrightarrow> roles m = roles (new_model kMessageRoles)"

interpretation conv_roles: model_property message_model
  by unfold_locales (simp_all add: message_model_def run_op_roles)

end
