(* ===== verification/Performance.thy ===== *)
theory Performance
  imports Bridge_Protocol
begin

text \<open>
  The rendering profile of the graphical client: \<open>client-cpp/gui/src/performance_profile.cpp\<close>, the graphics
  information it is fed with (\<open>graphics_info.cpp\<close>) and the gate of the benchmarks (\<open>performance_benchmark_gate.cpp\<close>).

  A \<open>double\<close> is a rational: the frame times come from JSON and are finite, and for the at most 24 samples of the
  window the index of the 95th percentile is the same. \<open>pp_saved\<close> is the entry of \<open>QSettings\<close>, \<open>pp_emitted\<close> the signals.
\<close>

section \<open>The profile\<close>

definition kFrameWindowSize :: nat where "kFrameWindowSize = 24"
definition kAutomaticModeConfirmations :: nat where "kAutomaticModeConfirmations = 3"
definition kBalancedFrameThresholdMs :: rat where "kBalancedFrameThresholdMs = 167 / 10"
definition kPowerSavingFrameThresholdMs :: rat where "kPowerSavingFrameThresholdMs = 40"

datatype profile_signal = ModeChanged | EffectiveModeChanged | CapabilitiesChanged | ObservedFrameCountChanged | MetricsChanged
  | AutomaticReasonChanged

record profile =
  pp_mode :: string
  pp_effectiveMode :: string
  pp_effectsEnabled :: bool
  pp_animationsEnabled :: bool
  pp_gradientsEnabled :: bool
  pp_animationDurationScale :: rat
  pp_hardwareAcceleration :: bool
  pp_softwareRendering :: bool
  pp_refreshRate :: rat
  pp_frameTimesMs :: "rat list"
  pp_observedFps :: rat
  pp_observedP95FrameMs :: rat
  pp_observedMaxFrameMs :: rat
  pp_automaticReason :: string
  pp_pendingAutomaticMode :: string
  pp_pendingStreak :: nat
  pp_saved :: "string option"
  pp_emitted :: "profile_signal list"

definition p95 :: "rat list \<Rightarrow> rat" where
  "p95 samples =
    (if samples = [] then 0
     else let lastIndex = int (length samples) - 1;
              index = max 0 (min lastIndex \<lceil>(95 / 100) * rat_of_int lastIndex\<rceil>) in
          sort samples ! nat index)"

definition normalizeMode :: "qt_text \<Rightarrow> string \<Rightarrow> string" where
  "normalizeMode q m =
    (let v = trimmed q m in if v \<in> {''High'', ''Balanced'', ''Power Saving''} then v else ''Automatic'')"

definition pp_emit :: "profile_signal \<Rightarrow> profile \<Rightarrow> profile" where
  "pp_emit s p = p\<lparr>pp_emitted := pp_emitted p @ [s]\<rparr>"

definition automaticMode :: "profile \<Rightarrow> string" where
  "automaticMode p =
    (if pp_softwareRendering p \<or> \<not> pp_hardwareAcceleration p then ''Power Saving''
     else if pp_refreshRate p \<le> 60 then ''Balanced''
     else if length (pp_frameTimesMs p) < kFrameWindowSize then ''High''
     else if kPowerSavingFrameThresholdMs \<le> pp_observedP95FrameMs p then ''Power Saving''
     else if kBalancedFrameThresholdMs \<le> pp_observedP95FrameMs p then ''Balanced''
     else ''High'')"

definition automaticReasonForContext :: "profile \<Rightarrow> string" where
  "automaticReasonForContext p =
    (if pp_softwareRendering p then ''software-rendering''
     else if \<not> pp_hardwareAcceleration p then ''no-hardware-acceleration''
     else if pp_refreshRate p \<le> 60 then ''refresh-rate-limit''
     else if length (pp_frameTimesMs p) < kFrameWindowSize then ''waiting-for-samples''
     else if kPowerSavingFrameThresholdMs \<le> pp_observedP95FrameMs p then ''p95-over-40ms''
     else if kBalancedFrameThresholdMs \<le> pp_observedP95FrameMs p then ''p95-over-16.7ms''
     else ''stable'')"

definition recomputeMetrics :: "profile \<Rightarrow> profile" where
  "recomputeMetrics p =
    (let ts = pp_frameTimesMs p; total = sum_list ts in
     if ts = [] then p\<lparr>pp_observedFps := 0, pp_observedP95FrameMs := 0, pp_observedMaxFrameMs := 0\<rparr>
     else p\<lparr>pp_observedMaxFrameMs := fold max ts 0,
            pp_observedFps := (if 0 < total then 1000 * of_nat (length ts) / total else 0),
            pp_observedP95FrameMs := p95 ts\<rparr>)"

definition hard_limit :: "profile \<Rightarrow> bool" where
  "hard_limit p \<longleftrightarrow> pp_softwareRendering p \<or> \<not> pp_hardwareAcceleration p \<or> pp_refreshRate p \<le> 60"

text \<open>The effective mode that follows, and the candidate waiting for confirmation.\<close>

definition next_effective :: "profile \<Rightarrow> string \<times> profile" where
  "next_effective p =
    (let candidate = automaticMode p; settled = p\<lparr>pp_pendingAutomaticMode := [], pp_pendingStreak := 0\<rparr> in
     if pp_mode p \<noteq> ''Automatic'' then (pp_mode p, p)
     else if hard_limit p \<or> length (pp_frameTimesMs p) < kFrameWindowSize \<or> candidate = pp_effectiveMode p then (candidate, settled)
     else let p1 = (if pp_pendingAutomaticMode p = candidate then p\<lparr>pp_pendingStreak := pp_pendingStreak p + 1\<rparr>
                    else p\<lparr>pp_pendingAutomaticMode := candidate, pp_pendingStreak := 1\<rparr>);
              nxt = (if kAutomaticModeConfirmations \<le> pp_pendingStreak p1 then candidate else pp_effectiveMode p) in
          (nxt, if nxt = candidate then settled else p1))"

definition recompute :: "profile \<Rightarrow> profile" where
  "recompute p =
    (case next_effective p of (nextEffective, p1) \<Rightarrow>
     let nextReason = (if pp_mode p = ''Automatic'' then automaticReasonForContext p else ''manual-selection'');
         rich = (nextEffective \<noteq> ''Power Saving'');
         nextScale = (if nextEffective = ''High'' then 1 else if nextEffective = ''Balanced'' then 3 / 4 else 0);
         effectiveChanged = (pp_effectiveMode p \<noteq> nextEffective);
         capabilitiesDidChange = (pp_effectsEnabled p \<noteq> rich \<or> pp_animationsEnabled p \<noteq> rich \<or> pp_gradientsEnabled p \<noteq> rich \<or>
           pp_animationDurationScale p \<noteq> nextScale);
         reasonChanged = (pp_automaticReason p \<noteq> nextReason);
         p2 = p1\<lparr>pp_effectiveMode := nextEffective, pp_automaticReason := nextReason, pp_effectsEnabled := rich,
                pp_animationsEnabled := rich, pp_gradientsEnabled := rich, pp_animationDurationScale := nextScale\<rparr>;
         sig = (\<lambda>b s p. if b then pp_emit s p else p) in
     sig reasonChanged AutomaticReasonChanged (sig capabilitiesDidChange CapabilitiesChanged (sig effectiveChanged EffectiveModeChanged p2)))"

definition initial_profile :: profile where
  "initial_profile =
    \<lparr>pp_mode = ''Automatic'', pp_effectiveMode = ''Balanced'', pp_effectsEnabled = True, pp_animationsEnabled = True,
     pp_gradientsEnabled = True, pp_animationDurationScale = 3 / 4, pp_hardwareAcceleration = False, pp_softwareRendering = False,
     pp_refreshRate = 60, pp_frameTimesMs = [], pp_observedFps = 0, pp_observedP95FrameMs = 0, pp_observedMaxFrameMs = 0,
     pp_automaticReason = ''waiting-for-samples'', pp_pendingAutomaticMode = [], pp_pendingStreak = 0, pp_saved = None, pp_emitted = []\<rparr>"

definition new_profile :: "qt_text \<Rightarrow> string option \<Rightarrow> profile" where
  "new_profile q saved = recompute (initial_profile\<lparr>pp_saved := saved,
     pp_mode := normalizeMode q (case saved of None \<Rightarrow> ''Automatic'' | Some m \<Rightarrow> m)\<rparr>)"

definition setMode :: "qt_text \<Rightarrow> string \<Rightarrow> profile \<Rightarrow> profile" where
  "setMode q m p =
    (let normalized = normalizeMode q m in
     if pp_mode p = normalized then p
     else recompute (pp_emit ModeChanged (pp_emit MetricsChanged (pp_emit ObservedFrameCountChanged (recomputeMetrics
       (p\<lparr>pp_mode := normalized, pp_saved := Some normalized, pp_frameTimesMs := [], pp_pendingAutomaticMode := [], pp_pendingStreak := 0\<rparr>))))))"

definition updateGraphicsContext :: "bool \<Rightarrow> bool \<Rightarrow> rat \<Rightarrow> profile \<Rightarrow> profile" where
  "updateGraphicsContext hw sw rate p =
     recompute (p\<lparr>pp_hardwareAcceleration := hw, pp_softwareRendering := sw, pp_refreshRate := (if 0 < rate then rate else 60)\<rparr>)"

definition observeFrameTime :: "rat \<Rightarrow> profile \<Rightarrow> profile" where
  "observeFrameTime frameMs p =
    (if pp_mode p \<noteq> ''Automatic'' \<or> frameMs \<le> 0 then p
     else let ts = pp_frameTimesMs p @ [frameMs] in
          recompute (pp_emit MetricsChanged (pp_emit ObservedFrameCountChanged (recomputeMetrics
            (p\<lparr>pp_frameTimesMs := drop (length ts - kFrameWindowSize) ts\<rparr>)))))"

section \<open>Graphics information\<close>

record graphics =
  gi_graphicsApi :: string
  gi_renderer :: string
  gi_vendor :: string
  gi_hardwareAcceleration :: bool
  gi_softwareRendering :: bool
  gi_refreshRate :: rat
  gi_dpi :: rat
  gi_resolution :: string

definition new_graphics :: graphics where
  "new_graphics = \<lparr>gi_graphicsApi = ''Unknown'', gi_renderer = ''Unknown'', gi_vendor = ''Unknown'', gi_hardwareAcceleration = False,
     gi_softwareRendering = False, gi_refreshRate = 0, gi_dpi = 0, gi_resolution = ''Unknown''\<rparr>"

text \<open>The primary screen, if there is one: refresh rate, logical dots per inch and the text of its size.\<close>

definition gi_refresh :: "(rat \<times> rat \<times> string) option \<Rightarrow> graphics \<Rightarrow> graphics" where
  "gi_refresh screen g =
    (case screen of
       Some (rate, dots, res) \<Rightarrow> g\<lparr>gi_refreshRate := rate, gi_dpi := dots, gi_resolution := res\<rparr>
     | None \<Rightarrow> g\<lparr>gi_refreshRate := 0, gi_dpi := 0, gi_resolution := ''Unknown''\<rparr>)"

text \<open>\<open>main\<close> connects \<open>changed\<close> of the graphics information with the profile.\<close>

definition graphics_changed :: "graphics \<Rightarrow> profile \<Rightarrow> profile" where
  "graphics_changed g = updateGraphicsContext (gi_hardwareAcceleration g) (gi_softwareRendering g) (gi_refreshRate g)"

section \<open>The benchmark gate\<close>

record bench_env =
  be_hardwareAcceleration :: bool
  be_softwareRendering :: bool
  be_refreshRateHz :: rat
  be_batterySaverEnabled :: bool

record bench_data =
  bd_warmUpWorkingSetBytes :: int
  bd_peakWorkingSetBytes :: int
  bd_p95FrameMs :: rat
  bd_p99FrameMs :: rat
  bd_animationBurstsOver33Ms :: int

record verdict =
  vd_supported :: bool
  vd_passed :: bool
  vd_workingSetGrowthPercent :: rat
  vd_unsupportedReasons :: "string list"
  vd_failures :: "string list"

definition unsupported_reasons :: "bench_env \<Rightarrow> string list" where
  "unsupported_reasons e =
     (if be_softwareRendering e then [''software-rendering''] else []) @
     (if \<not> be_hardwareAcceleration e then [''no-hardware-acceleration''] else []) @
     (if be_refreshRateHz e < 60 then [''refresh-rate-below-60hz''] else []) @
     (if be_batterySaverEnabled e then [''battery-saver-enabled''] else [])"

definition working_set :: "bench_data \<Rightarrow> rat \<times> string list" where
  "working_set m =
    (let warm = bd_warmUpWorkingSetBytes m; peak = bd_peakWorkingSetBytes m;
         growth = 100 * rat_of_int (peak - warm) / rat_of_int warm in
     if warm \<le> 0 \<or> peak < warm then (0, [''invalid-working-set-sample''])
     else (growth, if 15 < growth then [''working-set-growth-over-15-percent''] else []))"

definition evaluate :: "bench_env \<Rightarrow> bench_data \<Rightarrow> verdict" where
  "evaluate e m =
    (let reasons = unsupported_reasons e in
     if reasons \<noteq> [] then \<lparr>vd_supported = False, vd_passed = False, vd_workingSetGrowthPercent = 0, vd_unsupportedReasons = reasons, vd_failures = []\<rparr>
     else (case working_set m of (growth, fs) \<Rightarrow>
       let failures = fs @ (if 167 / 10 < bd_p95FrameMs m then [''p95-over-16.7ms''] else []) @
                      (if 1 < bd_animationBurstsOver33Ms m then [''too-many-animation-bursts-over-33.3ms''] else []) in
       \<lparr>vd_supported = True, vd_passed = (failures = []), vd_workingSetGrowthPercent = growth, vd_unsupportedReasons = [],
        vd_failures = failures\<rparr>))"


section \<open>Properties\<close>

datatype profile_event = SetMode string | UpdateGraphics bool bool rat | ObserveFrame rat

fun run_profile :: "qt_text \<Rightarrow> profile_event \<Rightarrow> profile \<Rightarrow> profile" where
  "run_profile q (SetMode m) p = setMode q m p"
| "run_profile q (UpdateGraphics hw sw rate) p = updateGraphicsContext hw sw rate p"
| "run_profile q (ObserveFrame f) p = observeFrameTime f p"

definition rendering_modes :: "string set" where
  "rendering_modes = {''High'', ''Balanced'', ''Power Saving''}"

definition sound_start :: "profile \<Rightarrow> bool" where
  "sound_start p \<longleftrightarrow> pp_mode p \<in> insert ''Automatic'' rendering_modes \<and> pp_effectiveMode p \<in> rendering_modes \<and>
     length (pp_frameTimesMs p) \<le> kFrameWindowSize \<and> pp_pendingStreak p < kAutomaticModeConfirmations"

definition profile_ok :: "profile \<Rightarrow> bool" where
  "profile_ok p \<longleftrightarrow> sound_start p \<and> (pp_mode p \<noteq> ''Automatic'' \<longrightarrow> pp_effectiveMode p = pp_mode p)"

lemma automatic_modes: "automaticMode p \<in> rendering_modes"
  by (simp add: automaticMode_def rendering_modes_def)

lemma sig_fields:
  "pp_effectiveMode (if b then pp_emit s p else p) = pp_effectiveMode p"
  "pp_mode (if b then pp_emit s p else p) = pp_mode p"
  "pp_frameTimesMs (if b then pp_emit s p else p) = pp_frameTimesMs p"
  "pp_pendingStreak (if b then pp_emit s p else p) = pp_pendingStreak p"
  "pp_hardwareAcceleration (if b then pp_emit s p else p) = pp_hardwareAcceleration p"
  "pp_softwareRendering (if b then pp_emit s p else p) = pp_softwareRendering p"
  by (simp_all add: pp_emit_def)

lemma recompute_fields:
  "pp_effectiveMode (recompute p) = fst (next_effective p)" "pp_mode (recompute p) = pp_mode (snd (next_effective p))"
  "pp_frameTimesMs (recompute p) = pp_frameTimesMs (snd (next_effective p))"
  "pp_pendingStreak (recompute p) = pp_pendingStreak (snd (next_effective p))"
  "pp_hardwareAcceleration (recompute p) = pp_hardwareAcceleration (snd (next_effective p))"
  "pp_softwareRendering (recompute p) = pp_softwareRendering (snd (next_effective p))"
  by (simp_all only: recompute_def Let_def prod.case_eq_if sig_fields) simp_all

lemma next_frame [simp]:
  "pp_mode (snd (next_effective p)) = pp_mode p" "pp_frameTimesMs (snd (next_effective p)) = pp_frameTimesMs p"
  "pp_hardwareAcceleration (snd (next_effective p)) = pp_hardwareAcceleration p"
  "pp_softwareRendering (snd (next_effective p)) = pp_softwareRendering p"
  by (simp_all add: next_effective_def Let_def)

lemma next_effective_ok:
  assumes "sound_start p"
  shows "fst (next_effective p) \<in> rendering_modes" "pp_mode p \<noteq> ''Automatic'' \<Longrightarrow> fst (next_effective p) = pp_mode p"
    "pp_pendingStreak (snd (next_effective p)) < kAutomaticModeConfirmations"
proof -
  consider "pp_mode p \<noteq> ''Automatic''" | "pp_mode p = ''Automatic''" "hard_limit p \<or> length (pp_frameTimesMs p) < kFrameWindowSize \<or> automaticMode p = pp_effectiveMode p"
    | "pp_mode p = ''Automatic''" "\<not> (hard_limit p \<or> length (pp_frameTimesMs p) < kFrameWindowSize \<or> automaticMode p = pp_effectiveMode p)"
    by blast
  then have "fst (next_effective p) \<in> rendering_modes \<and> (pp_mode p \<noteq> ''Automatic'' \<longrightarrow> fst (next_effective p) = pp_mode p) \<and>
      pp_pendingStreak (snd (next_effective p)) < kAutomaticModeConfirmations"
  proof cases
    case 1
    with assms show ?thesis by (simp add: next_effective_def sound_start_def)
  next
    case 2
    with automatic_modes [of p] show ?thesis by (simp add: next_effective_def Let_def kAutomaticModeConfirmations_def)
  next
    case 3
    with assms automatic_modes [of p] show ?thesis
      by (simp add: next_effective_def sound_start_def Let_def kAutomaticModeConfirmations_def)
  qed
  then show "fst (next_effective p) \<in> rendering_modes" "pp_mode p \<noteq> ''Automatic'' \<Longrightarrow> fst (next_effective p) = pp_mode p"
    "pp_pendingStreak (snd (next_effective p)) < kAutomaticModeConfirmations" by auto
qed

lemma recompute_ok: "sound_start p \<Longrightarrow> profile_ok (recompute p)"
  using next_effective_ok [of p] by (auto simp: profile_ok_def sound_start_def recompute_fields)

lemma emit_fields [simp]:
  "sound_start (pp_emit s p) = sound_start p" "pp_mode (pp_emit s p) = pp_mode p" "pp_frameTimesMs (pp_emit s p) = pp_frameTimesMs p"
  "pp_hardwareAcceleration (pp_emit s p) = pp_hardwareAcceleration p" "pp_softwareRendering (pp_emit s p) = pp_softwareRendering p"
  "pp_effectiveMode (pp_emit s p) = pp_effectiveMode p" "pp_pendingStreak (pp_emit s p) = pp_pendingStreak p"
  "pp_pendingAutomaticMode (pp_emit s p) = pp_pendingAutomaticMode p" "pp_refreshRate (pp_emit s p) = pp_refreshRate p"
  by (simp_all add: sound_start_def pp_emit_def)

lemma metrics_fields [simp]:
  "sound_start (recomputeMetrics p) = sound_start p" "pp_mode (recomputeMetrics p) = pp_mode p"
  "pp_frameTimesMs (recomputeMetrics p) = pp_frameTimesMs p" "pp_hardwareAcceleration (recomputeMetrics p) = pp_hardwareAcceleration p"
  "pp_softwareRendering (recomputeMetrics p) = pp_softwareRendering p" "pp_effectiveMode (recomputeMetrics p) = pp_effectiveMode p"
  "pp_pendingStreak (recomputeMetrics p) = pp_pendingStreak p" "pp_refreshRate (recomputeMetrics p) = pp_refreshRate p"
  "pp_pendingAutomaticMode (recomputeMetrics p) = pp_pendingAutomaticMode p"
  by (simp_all add: sound_start_def recomputeMetrics_def Let_def)

lemma normalized_mode: "normalizeMode q m \<in> insert ''Automatic'' rendering_modes"
  by (simp add: normalizeMode_def rendering_modes_def Let_def)

lemma profile_step_ok: "profile_ok p \<Longrightarrow> profile_ok (run_profile q ev p)"
proof (cases ev)
  case (SetMode m)
  assume ok: "profile_ok p"
  have "sound_start (p\<lparr>pp_mode := normalizeMode q m, pp_saved := s, pp_frameTimesMs := [], pp_pendingAutomaticMode := [], pp_pendingStreak := 0\<rparr>)" for s
    using ok normalized_mode [of q m] by (simp add: profile_ok_def sound_start_def kAutomaticModeConfirmations_def)
  with ok show ?thesis by (simp add: SetMode setMode_def Let_def recompute_ok)
next
  case (UpdateGraphics hw sw rate)
  assume "profile_ok p"
  then show ?thesis unfolding UpdateGraphics run_profile.simps updateGraphicsContext_def
    by (intro recompute_ok) (simp add: profile_ok_def sound_start_def)
next
  case (ObserveFrame f)
  assume ok: "profile_ok p"
  then have "sound_start (p\<lparr>pp_frameTimesMs := drop (Suc (length (pp_frameTimesMs p)) - kFrameWindowSize) (pp_frameTimesMs p @ [f])\<rparr>)"
    by (simp add: profile_ok_def sound_start_def kFrameWindowSize_def)
  with ok show ?thesis by (simp add: ObserveFrame observeFrameTime_def Let_def recompute_ok del: drop_append)
qed

lemma new_profile_ok: "profile_ok (new_profile q saved)"
  unfolding new_profile_def
  by (intro recompute_ok) (use normalized_mode in \<open>simp add: sound_start_def initial_profile_def rendering_modes_def kAutomaticModeConfirmations_def\<close>)

lemma run_profile_ok: "profile_ok p \<Longrightarrow> profile_ok (fold (run_profile q) evs p)"
  by (induction evs arbitrary: p) (simp_all add: profile_step_ok)

text \<open>
  The effective mode does not flicker: whatever happened before, once the automatic mode judges by full windows of frame
  times, a frame changes it only to a candidate that the two frames before already called for.
\<close>

theorem automatic_change_confirmed:
  assumes "p = fold (run_profile q) evs (new_profile q saved)" "pp_mode p = ''Automatic''" "\<not> hard_limit p"
    and "length (pp_frameTimesMs p) = kFrameWindowSize"
    and "pp_effectiveMode (observeFrameTime frameMs p) \<noteq> pp_effectiveMode p"
  shows "pp_pendingStreak p = 2 \<and> pp_pendingAutomaticMode p = pp_effectiveMode (observeFrameTime frameMs p)"
proof -
  have streak: "pp_pendingStreak p < 3"
    using run_profile_ok [OF new_profile_ok, of q evs q saved] by (simp add: assms(1) profile_ok_def sound_start_def kAutomaticModeConfirmations_def)
  define p1 where "p1 = pp_emit MetricsChanged (pp_emit ObservedFrameCountChanged (recomputeMetrics
    (p\<lparr>pp_frameTimesMs := drop (Suc (length (pp_frameTimesMs p)) - kFrameWindowSize) (pp_frameTimesMs p @ [frameMs])\<rparr>)))"
  have p1: "pp_mode p1 = ''Automatic''" "\<not> hard_limit p1" "length (pp_frameTimesMs p1) = kFrameWindowSize"
      "pp_effectiveMode p1 = pp_effectiveMode p" "pp_pendingStreak p1 = pp_pendingStreak p"
      "pp_pendingAutomaticMode p1 = pp_pendingAutomaticMode p"
    using assms(2-4) by (simp_all add: p1_def hard_limit_def)
  have "observeFrameTime frameMs p = recompute p1"
    using assms(2,5) by (auto simp: observeFrameTime_def p1_def Let_def)
  then show ?thesis
    using assms(5) p1 streak
    by (auto simp: recompute_fields next_effective_def Let_def kAutomaticModeConfirmations_def split: if_split_asm)
qed

definition slow_frames :: "profile_event list" where
  "slow_frames = UpdateGraphics True False 144 # replicate 24 (ObserveFrame 5) @ replicate 3 (ObserveFrame 50)"

theorem automatic_change_confirmed_witness:
  "let p = fold (run_profile plain_text) slow_frames (new_profile plain_text None) in
     pp_effectiveMode p = ''High'' \<and> pp_effectiveMode (observeFrameTime 50 p) = ''Power Saving'' \<and> pp_pendingStreak p = 2"
proof -
  define p where "p = fold (run_profile plain_text) slow_frames (new_profile plain_text None)"
  have "pp_mode p = ''Automatic'' \<and> \<not> hard_limit p \<and> length (pp_frameTimesMs p) = kFrameWindowSize \<and> pp_effectiveMode p = ''High'' \<and>
      pp_effectiveMode (observeFrameTime 50 p) = ''Power Saving''"
    unfolding p_def by code_simp
  with automatic_change_confirmed [OF p_def, of 50] show ?thesis by (simp add: p_def [symmetric])
qed

text \<open>
  C40. The graphics information leaves the acceleration unknown, which counts as none: in the automatic mode the client always
  renders in the power saving mode, however powerful the machine and whatever the frame times.
\<close>

theorem automatic_is_power_saving:
  assumes "pp_mode p = ''Automatic''"
  shows "pp_effectiveMode (fold observeFrameTime frames (graphics_changed (fold gi_refresh screens new_graphics) p)) = ''Power Saving''"
proof -
  have g: "\<not> gi_hardwareAcceleration (fold gi_refresh screens g)" if "\<not> gi_hardwareAcceleration g" for g
    using that by (induction screens arbitrary: g) (auto simp: gi_refresh_def split: option.splits)
  have step: "pp_mode (recompute r) = ''Automatic'' \<and> \<not> pp_hardwareAcceleration (recompute r) \<and> pp_effectiveMode (recompute r) = ''Power Saving''"
    if "pp_mode r = ''Automatic''" "\<not> pp_hardwareAcceleration r" for r
    using that by (simp add: recompute_fields) (simp add: next_effective_def hard_limit_def automaticMode_def Let_def)
  have "pp_effectiveMode (fold observeFrameTime frames r) = ''Power Saving''"
    if "pp_mode r = ''Automatic''" "\<not> pp_hardwareAcceleration r" "pp_effectiveMode r = ''Power Saving''" for r
    using that by (induction frames arbitrary: r) (simp_all add: observeFrameTime_def Let_def step)
  moreover have "\<not> gi_hardwareAcceleration (fold gi_refresh screens new_graphics)" using g by (simp add: new_graphics_def)
  ultimately show ?thesis using assms step by (simp add: graphics_changed_def updateGraphicsContext_def)
qed

theorem automatic_is_power_saving_witness:
  "pp_effectiveMode (fold observeFrameTime [5, 6] (graphics_changed (fold gi_refresh [Some (144, 96, ''1920 x 1080'')] new_graphics)
     (new_profile plain_text None))) = ''Power Saving''"
  using automatic_is_power_saving [of "new_profile plain_text None" "[5, 6]" "[Some (144, 96, ''1920 x 1080'')]"]
  by (simp add: new_profile_def recompute_fields initial_profile_def normalizeMode_def plain_text_def)

text \<open>
  The gate passes exactly the runs on supported machines whose working set grew by at most 15 percent, whose 95th
  percentile is at most 16.7 ms and that have at most one slow animation burst.
\<close>

theorem gate_verdict:
  "vd_passed (evaluate e m) \<longleftrightarrow>
     be_hardwareAcceleration e \<and> \<not> be_softwareRendering e \<and> 60 \<le> be_refreshRateHz e \<and> \<not> be_batterySaverEnabled e \<and>
     0 < bd_warmUpWorkingSetBytes m \<and> bd_warmUpWorkingSetBytes m \<le> bd_peakWorkingSetBytes m \<and>
     20 * bd_peakWorkingSetBytes m \<le> 23 * bd_warmUpWorkingSetBytes m \<and>
     bd_p95FrameMs m \<le> 167 / 10 \<and> bd_animationBurstsOver33Ms m \<le> 1"
proof -
  have growth: "100 * rat_of_int (p - w) / rat_of_int w \<le> 15 \<longleftrightarrow> 20 * p \<le> 23 * w" if "0 < w" for p w
  proof -
    have "100 * rat_of_int (p - w) / rat_of_int w \<le> 15 \<longleftrightarrow> rat_of_int (100 * (p - w)) \<le> rat_of_int (15 * w)"
      using that by (simp add: divide_le_eq)
    then show ?thesis by (simp only: of_int_le_iff) presburger
  qed
  have supported: "unsupported_reasons e = [] \<longleftrightarrow>
      be_hardwareAcceleration e \<and> \<not> be_softwareRendering e \<and> 60 \<le> be_refreshRateHz e \<and> \<not> be_batterySaverEnabled e"
    by (auto simp: unsupported_reasons_def not_less)
  have set: "snd (working_set m) = [] \<longleftrightarrow> 0 < bd_warmUpWorkingSetBytes m \<and> bd_warmUpWorkingSetBytes m \<le> bd_peakWorkingSetBytes m \<and>
      20 * bd_peakWorkingSetBytes m \<le> 23 * bd_warmUpWorkingSetBytes m"
    using growth [of "bd_warmUpWorkingSetBytes m" "bd_peakWorkingSetBytes m"] by (auto simp: working_set_def Let_def not_less not_le)
  show ?thesis
    using supported set by (auto simp: evaluate_def Let_def not_less split: prod.splits)
qed

end
