(* ===== verification/Lan_Discovery.thy ===== *)
theory Lan_Discovery
  imports Manifest Download Transition "HOL-Library.AList" "HOL-Library.List_Lexorder" "HOL-Library.Char_ord"
begin

text \<open>
  Discovery of chat rooms in the local network, \<open>client-cpp/gui/src/lan_discovery_service.cpp\<close>: UDP announcements are
  decoded and checked, the announced hosts expire after 4.5 seconds, and the certificate of a chosen host is pinned.

  Times are milliseconds since the epoch. \<open>disc_env\<close> has what comes from OpenSSL, Qt and the system: whether a PEM text
  is a certificate, the clock, case folding, and the directories. A file is saved through \<open>QSaveFile\<close>, that is whole or not at all.
\<close>

section \<open>State\<close>

definition kDiscoveryVersion :: int where "kDiscoveryVersion = 1"
definition kHostLifetimeMs :: int where "kHostLifetimeMs = 4500"
definition kMaximumPacketSize :: nat where "kMaximumPacketSize = 16 * 1024"

record discovered_host =
  dh_id :: string
  dh_hostName :: string
  dh_serverIp :: string
  dh_serverPort :: int
  dh_fingerprintSha256 :: string
  dh_certificatePem :: string
  dh_expiresAt :: int

datatype discovery_signal = HostsChanged | ScanningChanged

record discovery =
  ds_socket :: bool
  ds_expiryTimer :: bool
  ds_scanTimer :: bool
  ds_hosts :: "(string \<times> discovered_host) list"
  ds_storageRoot :: string
  ds_scanning :: bool
  ds_emitted :: "discovery_signal list"

record disc_env =
  de_api :: manifest_api
  de_valid_pem :: "string \<Rightarrow> bool"
  de_now :: int
  de_fold :: "string \<Rightarrow> string"
  de_openssl :: "string + unit"
  de_bind :: "string + unit"
  de_config_dir :: string
  de_file_path :: "string \<Rightarrow> string \<Rightarrow> string"
  de_mkpath :: "string \<Rightarrow> bool"
  de_save :: "string \<Rightarrow> bool"

definition new_discovery :: "string \<Rightarrow> discovery" where
  "new_discovery dir = \<lparr>ds_socket = False, ds_expiryTimer = False, ds_scanTimer = False, ds_hosts = [], ds_storageRoot = dir,
     ds_scanning = False, ds_emitted = []\<rparr>"

definition ds_emit :: "discovery_signal \<Rightarrow> discovery \<Rightarrow> discovery" where
  "ds_emit s d = d\<lparr>ds_emitted := ds_emitted d @ [s]\<rparr>"

definition setScanning :: "bool \<Rightarrow> discovery \<Rightarrow> discovery" where
  "setScanning b d = (if ds_scanning d = b then d else ds_emit ScanningChanged (d\<lparr>ds_scanning := b\<rparr>))"

definition finishScan :: "discovery \<Rightarrow> discovery" where
  "finishScan d = setScanning False (d\<lparr>ds_scanTimer := False\<rparr>)"

definition discovery_refresh :: "disc_env \<Rightarrow> discovery \<Rightarrow> (string + unit) \<times> discovery" where
  "discovery_refresh e d =
    (case de_openssl e of
       Inl what \<Rightarrow> (Inl what, d)
     | Inr _ \<Rightarrow>
        let d1 = d\<lparr>ds_expiryTimer := True\<rparr> in
        (case (if ds_socket d1 then Inr () else de_bind e) of
           Inl what \<Rightarrow> (Inl (''Unable to listen for LAN discovery: '' @ what), d1)
         | Inr _ \<Rightarrow>
            let d2 = d1\<lparr>ds_socket := True\<rparr>;
                d3 = (if ds_hosts d2 \<noteq> [] then ds_emit HostsChanged (d2\<lparr>ds_hosts := []\<rparr>) else d2) in
            (Inr (), (setScanning True d3)\<lparr>ds_scanTimer := True\<rparr>)))"

section \<open>Announcements\<close>

definition fingerprintFor :: "disc_env \<Rightarrow> string \<Rightarrow> string" where
  "fingerprintFor e pem = sha256_hex (de_api e) pem"

definition pem_header :: string where "pem_header = ''-----BEGIN CERTIFICATE-----''"

text \<open>The sender is its text and whether it is an IPv4 address.\<close>

definition decodeAnnouncement :: "disc_env \<Rightarrow> string \<Rightarrow> string \<times> bool \<Rightarrow> int \<Rightarrow> string + discovered_host" where
  "decodeAnnouncement e payload sender receivedAt =
    (if payload = [] \<or> kMaximumPacketSize < length payload \<or> \<not> snd sender then Inl ''Invalid LAN discovery payload.''
     else case fromJson (de_api e) payload of
       Some (QObject obj) \<Rightarrow>
         if to_qstring (member obj ''service'') \<noteq> ''lan-chat'' \<or> toInt (member obj ''version'') \<noteq> kDiscoveryVersion
         then Inl ''This is not a LAN Chat room announcement.''
         else let q = qtext (de_api e);
                  hostName = trimmed q (to_qstring (member obj ''hostName''));
                  port = toInt (member obj ''port'');
                  advertised = toLower q (trimmed q (to_qstring (member obj ''fingerprintSha256'')));
                  pem = fromBase64 (de_api e) (to_qstring (member obj ''certificateBase64''));
                  fingerprint = fingerprintFor e pem in
         if hostName = [] \<or> port < 1 \<or> 65535 < port \<or> pem = [] \<or> kMaximumPacketSize < length pem \<or>
            take (length pem_header) pem \<noteq> pem_header \<or> \<not> de_valid_pem e pem
         then Inl ''The room announcement contains an invalid certificate.''
         else if utf16_size q advertised \<noteq> 64 \<or> advertised \<noteq> fingerprint
         then Inl ''The room certificate fingerprint does not match the announcement.''
         else Inr \<lparr>dh_id = fingerprint, dh_hostName = hostName, dh_serverIp = fst sender, dh_serverPort = port,
                   dh_fingerprintSha256 = fingerprint, dh_certificatePem = pem, dh_expiresAt = receivedAt + kHostLifetimeMs\<rparr>
     | _ \<Rightarrow> Inl ''This is not a LAN Chat room announcement.'')"

definition host_put :: "discovered_host \<Rightarrow> (string \<times> discovered_host) list \<Rightarrow> (string \<times> discovered_host) list" where
  "host_put h hs = AList.update (dh_id h) h hs"

text \<open>\<open>secsTo\<close> counts whole seconds, towards zero.\<close>

definition host_changed :: "discovered_host \<Rightarrow> (string \<times> discovered_host) list \<Rightarrow> bool" where
  "host_changed h hs =
    (case map_of hs (dh_id h) of
       None \<Rightarrow> True
     | Some old \<Rightarrow> dh_serverIp old \<noteq> dh_serverIp h \<or> 1000 \<le> \<bar>dh_expiresAt h - dh_expiresAt old\<bar>)"

fun read_datagrams :: "disc_env \<Rightarrow> (string \<times> string \<times> bool) list \<Rightarrow> bool \<Rightarrow> discovery \<Rightarrow> bool \<times> discovery" where
  "read_datagrams e [] changed d = (changed, d)"
| "read_datagrams e ((payload, sender) # rest) changed d =
    (case decodeAnnouncement e payload sender (de_now e) of
       Inl _ \<Rightarrow> read_datagrams e rest changed d
     | Inr h \<Rightarrow> read_datagrams e rest (changed \<or> host_changed h (ds_hosts d)) (d\<lparr>ds_hosts := host_put h (ds_hosts d)\<rparr>))"

definition readPendingDatagrams :: "disc_env \<Rightarrow> (string \<times> string \<times> bool) list \<Rightarrow> discovery \<Rightarrow> discovery" where
  "readPendingDatagrams e datagrams d =
    (if \<not> ds_socket d then d
     else case read_datagrams e datagrams False d of (changed, d1) \<Rightarrow> if changed then ds_emit HostsChanged d1 else d1)"

definition expireStaleHosts :: "disc_env \<Rightarrow> discovery \<Rightarrow> discovery" where
  "expireStaleHosts e d =
    (let alive = filter (\<lambda>(k, h). de_now e < dh_expiresAt h) (ds_hosts d) in
     if length alive < length (ds_hosts d) then ds_emit HostsChanged (d\<lparr>ds_hosts := alive\<rparr>) else d)"

section \<open>Choosing a host\<close>

definition storageRoot :: "disc_env \<Rightarrow> discovery \<Rightarrow> string" where
  "storageRoot e d = (if ds_storageRoot d \<noteq> [] then ds_storageRoot d else de_config_dir e)"

definition certificatePath :: "disc_env \<Rightarrow> discovery \<Rightarrow> discovered_host \<Rightarrow> string" where
  "certificatePath e d h = de_file_path e (storageRoot e d) (''known-hosts/'' @ dh_id h @ ''.crt'')"

definition host_json :: "disc_env \<Rightarrow> discovery \<Rightarrow> files \<Rightarrow> discovered_host \<Rightarrow> qjson" where
  "host_json e d fs h = QObject [(''id'', QString (dh_id h)), (''hostName'', QString (dh_hostName h)), (''serverIp'', QString (dh_serverIp h)),
     (''serverPort'', QDouble (of_int (dh_serverPort h))), (''fingerprintSha256'', QString (dh_fingerprintSha256 h)),
     (''known'', QBool (fs (certificatePath e d h) \<noteq> None))]"

definition hostsJson :: "disc_env \<Rightarrow> discovery \<Rightarrow> files \<Rightarrow> qjson list" where
  "hostsJson e d fs = map (host_json e d fs) (sort_key (\<lambda>h. de_fold e (dh_hostName h)) (map snd (ds_hosts d)))"

definition connectData :: "disc_env \<Rightarrow> string \<Rightarrow> discovery \<Rightarrow> string + discovered_host" where
  "connectData e hostId d =
    (let q = qtext (de_api e); unavailable = Inl ''This LAN chat room is no longer available. Please scan again.'' in
     case map_of (ds_hosts d) (toLower q (trimmed q hostId)) of
       None \<Rightarrow> unavailable
     | Some h \<Rightarrow> if dh_expiresAt h \<le> de_now e then unavailable else Inr h)"

definition persistCertificate :: "disc_env \<Rightarrow> discovered_host \<Rightarrow> discovery \<Rightarrow> files \<Rightarrow> (string + string) \<times> files" where
  "persistCertificate e h d fs =
    (let path = certificatePath e d h in
     if dh_id h = [] \<or> dh_certificatePem h = []
     then (Inl ''The discovery announcement does not include a host certificate.'', fs)
     else if \<not> de_mkpath e path then (Inl ''Unable to create the host certificate directory.'', fs)
     else if \<not> de_save e path then (Inl ''Unable to save the host public certificate.'', fs)
     else (Inr path, fs(path \<mapsto> dh_certificatePem h)))"


section \<open>Properties\<close>

definition pinned :: "disc_env \<Rightarrow> string \<times> discovered_host \<Rightarrow> bool" where
  "pinned e = (\<lambda>(k, h). k = dh_id h \<and> dh_id h = fingerprintFor e (dh_certificatePem h) \<and> dh_fingerprintSha256 h = dh_id h \<and>
     dh_certificatePem h \<noteq> [] \<and> de_valid_pem e (dh_certificatePem h) \<and> length (dh_certificatePem h) \<le> kMaximumPacketSize \<and>
     1 \<le> dh_serverPort h \<and> dh_serverPort h \<le> 65535)"

text \<open>What changes from one call to the next: the clock and the failures, not the cryptography.\<close>

definition same_crypto :: "disc_env \<Rightarrow> disc_env \<Rightarrow> bool" where
  "same_crypto e e' \<longleftrightarrow> de_api e' = de_api e \<and> de_valid_pem e' = de_valid_pem e"

inductive discovery_step :: "disc_env \<Rightarrow> discovery \<Rightarrow> discovery \<Rightarrow> bool" for e :: disc_env where
  "same_crypto e e' \<Longrightarrow> discovery_step e d (snd (discovery_refresh e' d))"
| "same_crypto e e' \<Longrightarrow> discovery_step e d (readPendingDatagrams e' datagrams d)"
| "same_crypto e e' \<Longrightarrow> discovery_step e d (expireStaleHosts e' d)"
| "discovery_step e d (finishScan d)"

definition hosts_pinned :: "disc_env \<Rightarrow> discovery \<Rightarrow> bool" where
  "hosts_pinned e d \<longleftrightarrow> list_all (pinned e) (ds_hosts d) \<and> distinct (map fst (ds_hosts d))"

lemma decoded_pinned: "decodeAnnouncement e payload sender t = Inr h \<Longrightarrow> pinned e (dh_id h, h)"
  by (auto simp: decodeAnnouncement_def Let_def pinned_def split: if_splits option.splits qjson.splits)

lemma hosts_emit [simp]: "ds_hosts (ds_emit s d) = ds_hosts d" "ds_hosts (setScanning b d) = ds_hosts d"
  by (simp_all add: ds_emit_def setScanning_def)

lemma host_put_set: "set (host_put h hs) \<subseteq> insert (dh_id h, h) (set hs)"
  unfolding host_put_def by (induction hs) auto

lemma put_pinned: "hosts_pinned e d \<Longrightarrow> pinned e (dh_id h, h) \<Longrightarrow> hosts_pinned e (d\<lparr>ds_hosts := host_put h (ds_hosts d)\<rparr>)"
  using host_put_set [of h "ds_hosts d"] AList.distinct_update [of "ds_hosts d" "dh_id h" h]
  by (auto simp: hosts_pinned_def list_all_iff) (simp add: host_put_def)

lemma read_pinned: "hosts_pinned e d \<Longrightarrow> hosts_pinned e (snd (read_datagrams e ps c d))"
proof (induction ps arbitrary: c d)
  case (Cons x ps)
  obtain payload s where x: "x = (payload, s)" by (cases x)
  show ?case
    using Cons.prems by (auto simp: x intro!: Cons.IH put_pinned dest: decoded_pinned split: sum.split)
qed simp

lemma pinned_cong: "same_crypto e e' \<Longrightarrow> hosts_pinned e' = hosts_pinned e"
  by (simp add: fun_eq_iff hosts_pinned_def pinned_def fingerprintFor_def same_crypto_def)

lemma filter_distinct_keys: "distinct (map fst xs) \<Longrightarrow> distinct (map fst (filter P xs))"
  by (induction xs) auto

lemma discovery_step_pinned:
  assumes "discovery_step e d d'" "hosts_pinned e d"
  shows "hosts_pinned e d'"
  using assms
proof cases
  case (1 e')
  then show ?thesis using assms(2)
    by (auto simp: discovery_refresh_def Let_def hosts_pinned_def split: sum.splits if_splits)
next
  case (2 e' datagrams)
  have "hosts_pinned e' d" using assms(2) pinned_cong [OF 2(2)] by simp
  then have "hosts_pinned e' (snd (read_datagrams e' datagrams False d))" by (rule read_pinned)
  then have "hosts_pinned e (snd (read_datagrams e' datagrams False d))" using pinned_cong [OF 2(2)] by simp
  then show ?thesis using 2 assms(2) by (auto simp: readPendingDatagrams_def hosts_pinned_def split: prod.splits)
next
  case (3 e')
  then show ?thesis using assms(2)
    by (auto simp: expireStaleHosts_def hosts_pinned_def Let_def list_all_iff intro: filter_distinct_keys)
next
  case 4
  then show ?thesis using assms(2) by (simp add: finishScan_def hosts_pinned_def)
qed

interpretation discovering: invariant_system "\<lambda>d. \<exists>dir. d = new_discovery dir" "discovery_step e" "hosts_pinned e" for e
proof
  show "hosts_pinned e d" if "\<exists>dir. d = new_discovery dir" for d using that by (auto simp: hosts_pinned_def new_discovery_def)
qed (rule discovery_step_pinned)

text \<open>
  C17. Whatever datagrams arrive, the host a user connects to has not expired and is identified by the SHA-256 fingerprint of
  the certificate it announced, a valid one; exactly that certificate is saved, in a file named by the fingerprint.
\<close>

theorem chosen_host_pinned:
  assumes "reachable (\<lambda>d. \<exists>dir. d = new_discovery dir) (discovery_step e) d"
    and "connectData e hostId d = Inr h" "persistCertificate e h d fs = (Inr path, fs')"
  shows "de_now e < dh_expiresAt h \<and> dh_id h = fingerprintFor e (dh_certificatePem h) \<and> de_valid_pem e (dh_certificatePem h) \<and>
    path = de_file_path e (storageRoot e d) (''known-hosts/'' @ fingerprintFor e (dh_certificatePem h) @ ''.crt'') \<and>
    fs' = fs(path \<mapsto> dh_certificatePem h) \<and> 1 \<le> dh_serverPort h \<and> dh_serverPort h \<le> 65535"
proof -
  obtain k where "(k, h) \<in> set (ds_hosts d)" "de_now e < dh_expiresAt h"
    using assms(2) by (auto simp: connectData_def Let_def split: option.splits if_splits dest: map_of_SomeD)
  moreover have "hosts_pinned e d" using discovering.reachable_inv [OF assms(1)] .
  ultimately have h: "pinned e (k, h)" "de_now e < dh_expiresAt h" by (auto simp: hosts_pinned_def list_all_iff)
  have saved: "path = certificatePath e d h" "fs' = fs(path \<mapsto> dh_certificatePem h)"
    using assms(3) by (auto simp: persistCertificate_def Let_def split: if_splits)
  from h saved show ?thesis by (auto simp: pinned_def certificatePath_def)
qed


definition announcing_env :: disc_env where
  "announcing_env = \<lparr>de_api = one_document\<lparr>fromJson := (\<lambda>s. Some (QObject [(''service'', QString ''lan-chat''), (''version'', QDouble 1),
       (''hostName'', QString ''room''), (''port'', QDouble 8888), (''fingerprintSha256'', QString (replicate 64 (CHR ''a''))),
       (''certificateBase64'', QString pem_header)]))\<rparr>,
     de_valid_pem = (\<lambda>s. True), de_now = 0, de_fold = id, de_openssl = Inr (), de_bind = Inr (), de_config_dir = ''cfg'',
     de_file_path = (\<lambda>d f. d @ ''/'' @ f), de_mkpath = (\<lambda>p. True), de_save = (\<lambda>p. True)\<rparr>"

definition announced_host :: discovered_host where
  "announced_host = \<lparr>dh_id = replicate 64 (CHR ''a''), dh_hostName = ''room'', dh_serverIp = ''10.0.0.7'', dh_serverPort = 8888,
     dh_fingerprintSha256 = replicate 64 (CHR ''a''), dh_certificatePem = pem_header, dh_expiresAt = 4500\<rparr>"

lemma announcing_simps:
  "de_openssl announcing_env = Inr ()" "de_bind announcing_env = Inr ()" "de_now announcing_env = 0" "de_config_dir announcing_env = ''cfg''"
  by (simp_all add: announcing_env_def)

lemma announcement_accepted: "decodeAnnouncement announcing_env ''x'' (''10.0.0.7'', True) 0 = Inr announced_host"
  by (simp add: decodeAnnouncement_def announcing_env_def announced_host_def one_document_def plain_text_def member_def toInt_def
      lower_ascii_def fingerprintFor_def kMaximumPacketSize_def kDiscoveryVersion_def kHostLifetimeMs_def pem_header_def Let_def)

definition discovered_room :: discovery where
  "discovered_room = readPendingDatagrams announcing_env [(''x'', ''10.0.0.7'', True)] (snd (discovery_refresh announcing_env (new_discovery [])))"

lemma discovered_room_hosts: "ds_hosts discovered_room = [(replicate 64 (CHR ''a''), announced_host)]"
  by (simp add: discovered_room_def readPendingDatagrams_def discovery_refresh_def new_discovery_def announcement_accepted
      announcing_simps host_changed_def host_put_def announced_host_def setScanning_def ds_emit_def Let_def)

theorem chosen_host_pinned_witness:
  "persistCertificate announcing_env announced_host discovered_room Map.empty =
     (Inr (''cfg/known-hosts/'' @ fingerprintFor announcing_env pem_header @ ''.crt''),
      [''cfg/known-hosts/'' @ fingerprintFor announcing_env pem_header @ ''.crt'' \<mapsto> pem_header])"
proof -
  have "reachable (\<lambda>d. \<exists>dir. d = new_discovery dir) (discovery_step announcing_env) (new_discovery [])"
    by (rule reachable_init) blast
  moreover have "same_crypto announcing_env announcing_env" by (simp add: same_crypto_def)
  ultimately have r: "reachable (\<lambda>d. \<exists>dir. d = new_discovery dir) (discovery_step announcing_env) discovered_room"
    unfolding discovered_room_def by (blast intro: reachable_step discovery_step.intros)
  have c: "connectData announcing_env (replicate 64 (CHR ''a'')) discovered_room = Inr announced_host"
    by (simp add: connectData_def discovered_room_hosts announcing_env_def one_document_def plain_text_def announced_host_def lower_ascii_def Let_def)
  have p: "persistCertificate announcing_env announced_host discovered_room Map.empty =
      (Inr (certificatePath announcing_env discovered_room announced_host),
       [certificatePath announcing_env discovered_room announced_host \<mapsto> pem_header])"
    by (simp add: persistCertificate_def announced_host_def announcing_env_def pem_header_def Let_def)
  have "storageRoot announcing_env discovered_room = ''cfg''"
    by (simp add: storageRoot_def discovered_room_def readPendingDatagrams_def discovery_refresh_def new_discovery_def announcement_accepted
      announcing_simps host_changed_def host_put_def setScanning_def ds_emit_def Let_def)
  with chosen_host_pinned [OF r c p] p show ?thesis by (simp add: announcing_env_def announced_host_def)
qed

end
