(* ===== verification/Host_Setup.thy ===== *)
theory Host_Setup
  imports Bridge_Protocol Ui_Texts
begin

text \<open>
  What the graphical client does around its windows: \<open>host_path_resolver.cpp\<close>, \<open>local_host_bootstrap.cpp\<close>,
  \<open>network_diagnostics.cpp\<close>, \<open>openssl_runtime.cpp\<close> (the Windows build), \<open>web_ui_host.cpp\<close> and the launcher
  \<open>launcher_main.cpp\<close>, all under \<open>client-cpp/gui/src\<close>. Paths, files, processes and the environment are parameters.
\<close>

section \<open>Paths of the hosted server\<close>

record host_paths =
  hp_serverExe :: string
  hp_certFile :: string
  hp_keyFile :: string
  hp_dbFile :: string

record path_env =
  pe_text :: qt_text
  pe_is_file :: "string \<Rightarrow> bool"
  pe_exists :: "string \<Rightarrow> bool"
  pe_absolute :: "string \<Rightarrow> string"
  pe_clean :: "string \<Rightarrow> string"
  pe_file_path :: "string \<Rightarrow> string \<Rightarrow> string"
  pe_absolute_dir :: "string \<Rightarrow> string"
  pe_up :: "string \<Rightarrow> string option"
  pe_test_root :: string
  pe_data_dir :: string
  pe_base_name :: "string \<Rightarrow> string"
  pe_dir :: "string \<Rightarrow> string"

definition existingFile :: "path_env \<Rightarrow> string \<Rightarrow> string" where
  "existingFile e path = (if pe_is_file e path then pe_absolute e path else [])"

definition legacyPathsForRoot :: "path_env \<Rightarrow> string \<Rightarrow> host_paths" where
  "legacyPathsForRoot e dir =
    (let f = (\<lambda>rel. pe_clean e (pe_file_path e dir rel)) in
     \<lparr>hp_serverExe = f ''server-go/chat-server.exe'', hp_certFile = f ''server-go/certs/server-lan.crt'',
      hp_keyFile = f ''server-go/certs/server-lan.key'', hp_dbFile = f ''server-go/chat.db''\<rparr>)"

definition test_root :: "path_env \<Rightarrow> string" where
  "test_root e = trimmed (pe_text e) (pe_test_root e)"

definition protectedHostDataRoot :: "path_env \<Rightarrow> string" where
  "protectedHostDataRoot e =
    (if test_root e \<noteq> [] then pe_clean e (test_root e)
     else pe_clean e (pe_file_path e (pe_data_dir e) ''DUSK1NG/LAN Chat/host''))"

definition data_paths :: "path_env \<Rightarrow> string \<Rightarrow> string \<Rightarrow> host_paths" where
  "data_paths e exe dir =
    (let f = (\<lambda>rel. pe_clean e (pe_file_path e dir rel)) in
     \<lparr>hp_serverExe = exe, hp_certFile = f ''certs/server-lan.crt'', hp_keyFile = f ''certs/server-lan.key'', hp_dbFile = f ''chat.db''\<rparr>)"

definition pathsForRoot :: "path_env \<Rightarrow> string \<Rightarrow> host_paths" where
  "pathsForRoot e dir =
    (let legacy = legacyPathsForRoot e dir in
     if test_root e \<noteq> [] then data_paths e (hp_serverExe legacy) (pe_clean e (test_root e))
     else if pe_exists e (hp_certFile legacy) \<or> pe_exists e (hp_keyFile legacy) \<or> pe_exists e (hp_dbFile legacy) then legacy
     else data_paths e (hp_serverExe legacy) (protectedHostDataRoot e))"

definition available :: "path_env \<Rightarrow> host_paths \<Rightarrow> bool" where
  "available e p \<longleftrightarrow> existingFile e (hp_serverExe p) \<noteq> []"

fun resolve_walk :: "path_env \<Rightarrow> nat \<Rightarrow> string \<Rightarrow> host_paths option" where
  "resolve_walk e 0 dir = None"
| "resolve_walk e (Suc n) dir =
    (let candidate = pathsForRoot e (pe_absolute_dir e dir) in
     if existingFile e (hp_serverExe candidate) \<noteq> [] then Some candidate
     else case pe_up e dir of None \<Rightarrow> None | Some up \<Rightarrow> resolve_walk e n up)"

definition resolveHostPaths :: "path_env \<Rightarrow> string \<Rightarrow> host_paths" where
  "resolveHostPaths e applicationDirectory =
    (case resolve_walk e 8 (pe_clean e applicationDirectory) of
       Some p \<Rightarrow> p | None \<Rightarrow> pathsForRoot e (pe_clean e applicationDirectory))"

definition key_candidates :: "path_env \<Rightarrow> string \<Rightarrow> string \<Rightarrow> string list" where
  "key_candidates e serverExe certFile =
    (let cert = trimmed (pe_text e) certFile; exe = trimmed (pe_text e) serverExe in
     (if cert = [] then []
      else (if pe_base_name e cert = [] then [] else [pe_file_path e (pe_dir e cert) (pe_base_name e cert @ ''.key'')]) @
           [pe_file_path e (pe_dir e cert) ''server-lan.key'']) @
     (if exe = [] then []
      else [pe_file_path e (pe_dir e exe) ''certs/server-lan.key'', pe_file_path e (pe_dir e exe) ''server-lan.key'']))"

definition findPrivateKeyPath :: "path_env \<Rightarrow> string \<Rightarrow> string \<Rightarrow> string" where
  "findPrivateKeyPath e serverExe certFile =
    (case find (\<lambda>c. existingFile e c \<noteq> []) (key_candidates e serverExe certFile) of None \<Rightarrow> [] | Some c \<Rightarrow> existingFile e c)"

section \<open>Initializing the local host\<close>

text \<open>The run of the server: whether it starts, ends in time, how it exits, and which files exist afterwards.\<close>

record bootstrap_run =
  br_start :: "string + unit"
  br_finished :: bool
  br_normal_exit :: bool
  br_exit_code :: int
  br_stderr :: string
  br_stdout :: string
  br_files_after :: "string \<Rightarrow> bool"

definition processDetail :: "qt_text \<Rightarrow> bootstrap_run \<Rightarrow> string" where
  "processDetail q r =
    (let detail = trimmed q (br_stderr r); out = trimmed q (br_stdout r) in
     if out = [] then detail else if detail = [] then out else detail @ [CHR 0x0A] @ out)"

definition bootstrap_arguments :: "host_paths \<Rightarrow> string list" where
  "bootstrap_arguments p = [''-initialize-local-host'', ''-cert'', hp_certFile p, ''-key'', hp_keyFile p, ''-db'', hp_dbFile p]"

text \<open>The result is the error text if the host is not ready, and the arguments the server was run with, if it was.\<close>

definition ensureInitialized ::
    "path_env \<Rightarrow> (string \<Rightarrow> string list \<Rightarrow> bootstrap_run) \<Rightarrow> host_paths \<Rightarrow> (string + unit) \<times> string list option" where
  "ensureInitialized e run p =
    (if \<not> pe_is_file e (hp_serverExe p) then (Inl ''Local Go Server executable is missing.'', None)
     else if pe_is_file e (hp_certFile p) \<and> pe_is_file e (hp_keyFile p) \<and> pe_is_file e (hp_dbFile p) then (Inr (), None)
     else let args = bootstrap_arguments p; r = run (hp_serverExe p) args; detail = processDetail (pe_text e) r in
     case br_start r of
       Inl what \<Rightarrow> (Inl (''Unable to start local host initialization: '' @ what), Some args)
     | Inr _ \<Rightarrow>
        if \<not> br_finished r then (Inl ''Local host initialization timed out.'', Some args)
        else if \<not> br_normal_exit r \<or> br_exit_code r \<noteq> 0
        then (Inl (''Local host initialization failed'' @ (if detail = [] then [] else '': '' @ detail)), Some args)
        else if \<not> br_files_after r (hp_certFile p) \<or> \<not> br_files_after r (hp_keyFile p) \<or> \<not> br_files_after r (hp_dbFile p)
        then (Inl ''Local host initialization completed without creating all required files.'', Some args)
        else (Inr (), Some args))"

text \<open>The launcher: the message box it shows and its exit code, and whether it started the window.\<close>

definition launcher_main ::
    "path_env \<Rightarrow> (string \<Rightarrow> string list \<Rightarrow> bootstrap_run) \<Rightarrow> (string \<Rightarrow> string list \<Rightarrow> string \<Rightarrow> bool) \<Rightarrow>
     string list \<Rightarrow> string \<Rightarrow> string option \<times> int \<times> bool" where
  "launcher_main e run startDetached arguments applicationDirectory =
    (let paths = resolveHostPaths e applicationDirectory;
         ready = (if available e paths then fst (ensureInitialized e run paths) else Inr ());
         gui = pe_file_path e applicationDirectory ''lan-chat-gui.exe'' in
     case ready of
       Inl what \<Rightarrow> (Some (''Unable to initialize the local chat-room identity:'' @ [CHR 0x0A] @ what), 1, False)
     | Inr _ \<Rightarrow>
        if \<not> pe_exists e gui then (Some (''LAN Chat graphical interface was not found:'' @ [CHR 0x0A] @ gui), 1, False)
        else if \<not> startDetached gui (drop 1 arguments) applicationDirectory then (Some ''Unable to start the LAN Chat graphical interface.'', 1, False)
        else (None, 0, True))"

section \<open>The connection log\<close>

record diag_env =
  dg_text :: qt_text
  dg_left :: "nat \<Rightarrow> string \<Rightarrow> string"
  dg_clean :: "string \<Rightarrow> string"
  dg_file_path :: "string \<Rightarrow> string \<Rightarrow> string"
  dg_variable :: string
  dg_directory_variable :: string
  dg_data_dir :: string
  dg_session :: string
  dg_clock :: string
  dg_can_open :: "string \<Rightarrow> bool"

text \<open>The settings entry and the log files.\<close>

record diagnostics =
  di_setting :: "bool option"
  di_logs :: "string \<Rightarrow> string"

definition diagnosticDirectory :: "diag_env \<Rightarrow> string" where
  "diagnosticDirectory e = (if dg_directory_variable e \<noteq> [] then dg_clean e (dg_directory_variable e)
     else dg_clean e (dg_data_dir e @ ''/logs''))"

definition environmentOverride :: "diag_env \<Rightarrow> bool option" where
  "environmentOverride e =
    (let v = toLower (dg_text e) (trimmed (dg_text e) (dg_variable e)) in
     if v = [] then None else Some (v \<in> {''1'', ''true'', ''yes''}))"

definition diagnostics_enabled :: "diag_env \<Rightarrow> diagnostics \<Rightarrow> bool" where
  "diagnostics_enabled e d =
    (case environmentOverride e of Some b \<Rightarrow> b | None \<Rightarrow> (case di_setting d of None \<Rightarrow> False | Some b \<Rightarrow> b))"

definition setEnabled :: "bool \<Rightarrow> diagnostics \<Rightarrow> diagnostics" where
  "setEnabled b d = d\<lparr>di_setting := Some b\<rparr>"

definition logPath :: "diag_env \<Rightarrow> diagnostics \<Rightarrow> string \<Rightarrow> string" where
  "logPath e d prefix =
    (if \<not> diagnostics_enabled e d then []
     else dg_file_path e (diagnosticDirectory e) (prefix @ ''-'' @ dg_session e @ ''.log''))"

definition oneLine :: "diag_env \<Rightarrow> string \<Rightarrow> string" where
  "oneLine e value =
     dg_left e 512 (trimmed (dg_text e) (map (\<lambda>c. if c = CHR 0x0D \<or> c = CHR 0x0A then CHR '' '' else c) value))"

definition log_line :: "diag_env \<Rightarrow> string \<Rightarrow> string \<Rightarrow> int \<Rightarrow> int \<Rightarrow> string \<Rightarrow> string" where
  "log_line e event endpoint port attempt reason =
     dg_clock e @ '' event='' @ oneLine e event @ '' endpoint='' @ oneLine e endpoint @ '':'' @ to_string port @
     '' attempt='' @ to_string attempt @
     (if trimmed (dg_text e) reason \<noteq> [] then '' reason='' @ oneLine e reason else []) @ [CHR 0x0A]"

definition writeConnectionEvent ::
    "diag_env \<Rightarrow> string \<Rightarrow> string \<Rightarrow> int \<Rightarrow> int \<Rightarrow> string \<Rightarrow> diagnostics \<Rightarrow> diagnostics" where
  "writeConnectionEvent e event endpoint port attempt reason d =
    (let path = logPath e d ''network'' in
     if path = [] \<or> \<not> dg_can_open e path then d
     else d\<lparr>di_logs := (di_logs d)(path := di_logs d path @ log_line e event endpoint port attempt reason)\<rparr>)"

section \<open>The OpenSSL libraries\<close>

record ssl_env =
  se_variable :: string
  se_packaged :: "string option"
  se_file_path :: "string \<Rightarrow> string \<Rightarrow> string"
  se_exists :: "string \<Rightarrow> bool"
  se_set_directory :: "string \<Rightarrow> int option"

text \<open>The state behind \<open>std::call_once\<close>: nothing yet, or the outcome of the first call.\<close>

definition ssl_configure :: "qt_text \<Rightarrow> ssl_env \<Rightarrow> string + unit" where
  "ssl_configure q e =
    (let configured = trimmed q (se_variable e);
         dir = (if configured \<noteq> [] then configured else case se_packaged e of None \<Rightarrow> [] | Some p \<Rightarrow> p) in
     if dir = [] then Inr ()
     else if \<not> se_exists e (se_file_path e dir ''libssl-3-x64.dll'') \<or> \<not> se_exists e (se_file_path e dir ''libcrypto-3-x64.dll'')
     then Inl (''OpenSSL runtime is missing: '' @ dir)
     else case se_set_directory e dir of
       Some code \<Rightarrow> Inl (''Unable to prepare OpenSSL runtime directory: '' @ dir @ '' (Windows error '' @ to_string code @ '')'')
     | None \<Rightarrow> Inr ())"

definition ssl_prepare :: "qt_text \<Rightarrow> ssl_env \<Rightarrow> (string + unit) option \<Rightarrow> (string + unit) \<times> (string + unit) option" where
  "ssl_prepare q e st = (let r = (case st of None \<Rightarrow> ssl_configure q e | Some r \<Rightarrow> r) in (r, Some r))"

section \<open>The web page\<close>

record url =
  url_valid :: bool
  url_scheme :: string
  url_userInfo :: string
  url_host :: string

definition isLoopbackHost :: "qt_text \<Rightarrow> string \<Rightarrow> bool" where
  "isLoopbackHost q host \<longleftrightarrow> toLower q host \<in> {''127.0.0.1'', ''localhost'', ''::1''}"

definition isDevelopmentUrlAllowed :: "qt_text \<Rightarrow> url \<Rightarrow> bool" where
  "isDevelopmentUrlAllowed q u \<longleftrightarrow> url_valid u \<and> url_userInfo u = [] \<and> toLower q (url_scheme u) \<in> {''http'', ''https''} \<and>
     isLoopbackHost q (url_host u)"

definition opensExternally :: "qt_text \<Rightarrow> url \<Rightarrow> bool" where
  "opensExternally q u \<longleftrightarrow> url_valid u \<and> url_host u \<noteq> [] \<and> url_userInfo u = [] \<and> toLower q (url_scheme u) \<in> {''http'', ''https''}"

text \<open>Whether the page navigates to the address, and whether the system browser opens it; \<open>base\<close> is the decision of Qt.\<close>

definition acceptNavigationRequest :: "qt_text \<Rightarrow> bool \<Rightarrow> bool \<Rightarrow> url \<Rightarrow> bool \<times> bool" where
  "acceptNavigationRequest q linkClicked base u =
    (if \<not> linkClicked then (base, False) else (False, opensExternally q u))"

text \<open>The view shows an address; its page has the web channel with the objects registered there. A null pointer is \<open>None\<close>.\<close>

record web_view =
  wv_url :: "url option"

record 'b web_page =
  wp_channel :: "(string \<times> 'b) list option"

definition releaseUrl :: "(string \<Rightarrow> url) \<Rightarrow> url" where
  "releaseUrl parse_url = parse_url ''qrc:/frontend/index.html''"

definition loadDevelopment :: "qt_text \<Rightarrow> web_view option \<Rightarrow> url \<Rightarrow> bool \<times> web_view option" where
  "loadDevelopment q view u =
    (case view of
       None \<Rightarrow> (False, None)
     | Some v \<Rightarrow> if \<not> isDevelopmentUrlAllowed q u then (False, view) else (True, Some (v\<lparr>wv_url := Some u\<rparr>)))"

definition loadRelease :: "(string \<Rightarrow> url) \<Rightarrow> web_view option \<Rightarrow> bool \<times> web_view option" where
  "loadRelease parse_url view =
    (case view of None \<Rightarrow> (False, None) | Some v \<Rightarrow> (True, Some (v\<lparr>wv_url := Some (releaseUrl parse_url)\<rparr>)))"

definition registerBridge :: "'b web_page option \<Rightarrow> 'b option \<Rightarrow> bool \<times> 'b web_page option" where
  "registerBridge page bridge =
    (case (page, bridge) of
       (Some p, Some b) \<Rightarrow> (True, Some (p\<lparr>wp_channel := Some [(''chatBridge'', b)]\<rparr>))
     | _ \<Rightarrow> (False, page))"


section \<open>Properties\<close>

fun ancestor :: "path_env \<Rightarrow> nat \<Rightarrow> string \<Rightarrow> string option" where
  "ancestor e 0 dir = Some dir"
| "ancestor e (Suc k) dir = (case pe_up e dir of None \<Rightarrow> None | Some up \<Rightarrow> ancestor e k up)"

definition server_at :: "path_env \<Rightarrow> string \<Rightarrow> nat \<Rightarrow> bool" where
  "server_at e dir k \<longleftrightarrow> (\<exists>d. ancestor e k dir = Some d \<and> available e (pathsForRoot e (pe_absolute_dir e d)))"

lemma server_at_Suc: "pe_up e dir = Some up \<Longrightarrow> server_at e dir (Suc k) = server_at e up k"
  by (simp add: server_at_def)

lemma server_at_0: "server_at e dir 0 = available e (pathsForRoot e (pe_absolute_dir e dir))"
  by (simp add: server_at_def)

lemma walk_Some:
  "resolve_walk e n dir = Some p \<Longrightarrow>
   \<exists>k<n. \<exists>d. ancestor e k dir = Some d \<and> p = pathsForRoot e (pe_absolute_dir e d) \<and> available e p \<and> (\<forall>j<k. \<not> server_at e dir j)"
proof (induction n arbitrary: dir)
  case (Suc n)
  show ?case
  proof (cases "server_at e dir 0")
    case True
    with Suc.prems show ?thesis by (intro exI [of _ 0]) (simp add: server_at_0 available_def Let_def)
  next
    case False
    with Suc.prems obtain up where up: "pe_up e dir = Some up" "resolve_walk e n up = Some p"
      by (auto simp: server_at_0 available_def Let_def split: if_splits option.splits)
    from Suc.IH [OF up(2)] obtain k d where k: "k < n" "ancestor e k up = Some d" "p = pathsForRoot e (pe_absolute_dir e d)"
      "available e p" "\<forall>j<k. \<not> server_at e up j" by blast
    have "\<not> server_at e dir j" if "j < Suc k" for j
      using that k(5) False up(1) by (cases j) (auto simp: server_at_Suc)
    with k up(1) show ?thesis by (intro exI [of _ "Suc k"]) auto
  qed
qed simp

lemma walk_None: "resolve_walk e n dir = None \<Longrightarrow> k < n \<Longrightarrow> \<not> server_at e dir k"
proof (induction n arbitrary: dir k)
  case (Suc n)
  have "\<not> server_at e dir 0" using Suc.prems(1) by (auto simp: server_at_0 available_def Let_def split: if_splits)
  moreover have "\<not> server_at e dir (Suc j)" if "k = Suc j" for j
  proof (cases "pe_up e dir")
    case None
    then show ?thesis by (simp add: server_at_def)
  next
    case (Some up)
    with Suc.prems(1) \<open>\<not> server_at e dir 0\<close> have "resolve_walk e n up = None"
      by (simp add: server_at_0 available_def Let_def)
    with Suc.IH [of up j] Suc.prems(2) that Some show ?thesis by (simp add: server_at_Suc)
  qed
  ultimately show ?case by (cases k) auto
qed simp

text \<open>
  The hosted server is the nearest one: it is available exactly if the directory of the application or one of its next
  seven parents holds a server, and then the paths are those of the first such directory.
\<close>

theorem nearest_server:
  assumes "pe_absolute_dir e (pe_clean e dir) = pe_clean e dir"
  shows "(available e (resolveHostPaths e dir) \<longleftrightarrow> (\<exists>k<8. server_at e (pe_clean e dir) k)) \<and>
    (available e (resolveHostPaths e dir) \<longrightarrow>
      (\<exists>k<8. \<exists>d. ancestor e k (pe_clean e dir) = Some d \<and> resolveHostPaths e dir = pathsForRoot e (pe_absolute_dir e d) \<and>
        (\<forall>j<k. \<not> server_at e (pe_clean e dir) j)))"
proof (cases "resolve_walk e 8 (pe_clean e dir)")
  case None
  from walk_None [OF None] have none: "\<not> server_at e (pe_clean e dir) k" if "k < 8" for k using that by blast
  have "\<not> available e (resolveHostPaths e dir)"
    using none [of 0] assms by (simp add: resolveHostPaths_def None server_at_0)
  with none show ?thesis by blast
next
  case (Some p)
  then have p: "resolveHostPaths e dir = p" by (simp add: resolveHostPaths_def)
  from walk_Some [OF Some] show ?thesis unfolding p by (auto simp: server_at_def)
qed

definition installed_env :: path_env where
  "installed_env = \<lparr>pe_text = plain_text, pe_is_file = (\<lambda>p. p = ''repo/server-go/chat-server.exe''), pe_exists = (\<lambda>p. False), pe_absolute = id,
     pe_clean = id, pe_file_path = (\<lambda>d f. d @ ''/'' @ f), pe_absolute_dir = id, pe_up = (\<lambda>d. if d = ''repo/out'' then Some ''repo'' else None),
     pe_test_root = [], pe_data_dir = ''data'', pe_base_name = id, pe_dir = id\<rparr>"

theorem nearest_server_witness:
  "available installed_env (resolveHostPaths installed_env ''repo/out'') \<and>
   hp_certFile (resolveHostPaths installed_env ''repo/out'') = ''data/DUSK1NG/LAN Chat/host/certs/server-lan.crt''"
proof -
  have "server_at installed_env ''repo/out'' 1"
    by (simp add: server_at_def installed_env_def available_def existingFile_def pathsForRoot_def legacyPathsForRoot_def test_root_def
        data_paths_def plain_text_def Let_def)
  with nearest_server [of installed_env "''repo/out''"] have "available installed_env (resolveHostPaths installed_env ''repo/out'')"
    by (auto simp: installed_env_def)
  moreover have "hp_certFile (resolveHostPaths installed_env ''repo/out'') = ''data/DUSK1NG/LAN Chat/host/certs/server-lan.crt''"
    by (simp add: resolveHostPaths_def installed_env_def eval_nat_numeral existingFile_def pathsForRoot_def legacyPathsForRoot_def
        test_root_def data_paths_def protectedHostDataRoot_def plain_text_def Let_def)
  ultimately show ?thesis by blast
qed

text \<open>What the log relies on: trimming and cutting a text only remove characters.\<close>

definition diag_ok :: "diag_env \<Rightarrow> bool" where
  "diag_ok e \<longleftrightarrow> (\<forall>s. set (trimmed (dg_text e) s) \<subseteq> set s) \<and> (\<forall>n s. set (dg_left e n s) \<subseteq> set s) \<and> CHR 0x0A \<notin> set (dg_clock e)"

lemma oneLine_no_break: "diag_ok e \<Longrightarrow> CHR 0x0A \<notin> set (oneLine e s)"
  by (fastforce simp: diag_ok_def oneLine_def)

text \<open>
  An event adds exactly one line to the log, whatever line breaks the endpoint, the reason or the page's error report
  contain; and it adds nothing when logging is off.
\<close>

theorem event_is_one_line:
  assumes "diag_ok e"
  shows "writeConnectionEvent e event endpoint port attempt reason d = d \<or>
    diagnostics_enabled e d \<and>
    (\<exists>line. CHR 0x0A \<notin> set line \<and>
      di_logs (writeConnectionEvent e event endpoint port attempt reason d) (logPath e d ''network'') =
        di_logs d (logPath e d ''network'') @ line @ [CHR 0x0A])"
proof (cases "logPath e d ''network'' = [] \<or> \<not> dg_can_open e (logPath e d ''network'')")
  case True
  then show ?thesis by (auto simp: writeConnectionEvent_def Let_def)
next
  case False
  then have on: "diagnostics_enabled e d" by (auto simp: logPath_def split: if_splits)
  define line where "line = dg_clock e @ '' event='' @ oneLine e event @ '' endpoint='' @ oneLine e endpoint @ '':'' @ to_string port @
     '' attempt='' @ to_string attempt @ (if trimmed (dg_text e) reason \<noteq> [] then '' reason='' @ oneLine e reason else [])"
  have "CHR 0x0A \<notin> set line"
    using assms oneLine_no_break [OF assms] by (simp add: line_def diag_ok_def to_string_no_newline)
  moreover have "log_line e event endpoint port attempt reason = line @ [CHR 0x0A]" by (simp add: log_line_def line_def)
  ultimately show ?thesis using False on by (auto simp: writeConnectionEvent_def Let_def)
qed

definition logging_env :: diag_env where
  "logging_env = \<lparr>dg_text = plain_text, dg_left = take, dg_clean = id, dg_file_path = (\<lambda>d f. d @ ''/'' @ f), dg_variable = ''1'',
     dg_directory_variable = ''logs'', dg_data_dir = [], dg_session = ''s'', dg_clock = ''t'', dg_can_open = (\<lambda>p. True)\<rparr>"

definition no_logs :: diagnostics where
  "no_logs = \<lparr>di_setting = None, di_logs = (\<lambda>p. [])\<rparr>"

theorem event_is_one_line_witness:
  "\<exists>line. CHR 0x0A \<notin> set line \<and> di_logs (writeConnectionEvent logging_env ''lost'' ''h'' 1 2 [CHR ''a'', CHR 0x0A, CHR ''b''] no_logs)
     ''logs/network-s.log'' = line @ [CHR 0x0A]"
proof -
  have ok: "diag_ok logging_env" by (auto simp: diag_ok_def logging_env_def plain_text_def dest: in_set_takeD)
  have path: "logPath logging_env no_logs ''network'' = ''logs/network-s.log''"
    by (simp add: logPath_def diagnostics_enabled_def environmentOverride_def logging_env_def plain_text_def diagnosticDirectory_def
        lower_ascii_def Let_def)
  have "di_logs (writeConnectionEvent logging_env ev ep p a r no_logs) ''logs/network-s.log'' \<noteq> []" for ev ep p a r
    unfolding writeConnectionEvent_def path Let_def by (simp add: log_line_def) (simp add: logging_env_def)
  then have "writeConnectionEvent logging_env ev ep p a r no_logs \<noteq> no_logs" for ev ep p a r
    by (metis (no_types) diagnostics.select_convs(2) no_logs_def)
  with event_is_one_line [OF ok, of "''lost''" "''h''" 1 2 "[CHR ''a'', CHR 0x0A, CHR ''b'']" no_logs] show ?thesis
    unfolding path by (auto simp: no_logs_def)
qed

end
