(* ===== verification/Chat_Bridge.thy ===== *)
theory Chat_Bridge
  imports Gui_Models Performance Lan_Discovery Host_Setup
begin

text \<open>
  The bridge between the web page and the controller, \<open>client-cpp/gui/src/chat_bridge.cpp\<close>: it dispatches the commands
  of the page, answers them, and publishes the state of the client. List models are serialized only when they changed: a
  model marks itself dirty by its signals, and the state is rebuilt when the timer fires.

  The bridge owns the discovery service and points to the controller, the profile and the graphics information; all of
  them are parts of its state here. Their signals reach the bridge at once, but what its handlers read of the controller is
  final when the signal is emitted, so they are handled after the call that emitted them. A signal of the bridge carries
  the object whose compact JSON text is sent. The duration of a rebuild is not kept.
\<close>

section \<open>State\<close>

text \<open>The list models, a conversation by its address.\<close>

datatype model_ref = RoomList | DirectList | MemberList | Conversation nat

datatype bridge_signal = StateChanged qobject | CommandResult qobject | BridgeError qobject

record bridge =
  br_controller :: controller
  br_profile :: "profile option"
  br_graphics :: "graphics option"
  br_discovery :: discovery
  br_diagnostics :: diagnostics
  br_files :: files
  br_timer :: bool
  br_latest :: qobject
  br_hostDefaults :: qobject
  br_lastError :: qobject
  br_recalls :: "(string \<times> string) list"
  br_serialized :: "model_ref \<rightharpoonup> qjson list"
  br_dirty :: "model_ref set"
  br_connected :: "model_ref set"
  br_lastCount :: nat
  br_builds :: nat
  br_out :: "bridge_signal list"

text \<open>What comes from outside: the environments of the parts, base64, a new message id and the path a file dialog returns.\<close>

record bridge_env =
  be_ctl :: ctl_env
  be_disc :: disc_env
  be_diag :: diag_env
  be_toBase64 :: "string \<Rightarrow> string"
  be_fromBase64 :: "string \<Rightarrow> string"
  be_uuid :: string
  be_path :: string

definition br_emit :: "bridge_signal \<Rightarrow> bridge \<Rightarrow> bridge" where
  "br_emit s b = b\<lparr>br_out := br_out b @ [s]\<rparr>"

section \<open>Serializing models\<close>

definition kMaxSerializedRows :: nat where "kMaxSerializedRows = 500"

text \<open>\<open>QJsonValue::fromVariant\<close>.\<close>

fun variant_json :: "QVariant \<Rightarrow> qjson" where
  "variant_json Invalid = QNull"
| "variant_json (VStr s) = QString s"
| "variant_json (VInt n) = QDouble (of_int n)"
| "variant_json (VBool b) = qjson.QBool b"
| "variant_json (VMap kvs) = QObject (map (\<lambda>(k, v). (k, variant_json v)) kvs)"

definition map_json :: "QVariantMap \<Rightarrow> qjson" where
  "map_json m = QObject (map (\<lambda>k. (k, variant_json (value_of m k))) (sorted_list_of_fset (fmdom m)))"

definition serializeModel :: "ChatListModel \<Rightarrow> qjson list" where
  "serializeModel m =
    (let count = rowCount False m in
     map (\<lambda>row. QObject (map (\<lambda>(role, name). (name, variant_json (model_data m True (int row) role))) (roles m)))
       [count - kMaxSerializedRows ..< count])"

definition roomFromConversationKey :: "string \<Rightarrow> string" where
  "roomFromConversationKey key = (if starts_with ''room:'' key then drop 5 key else [])"

fun model_at :: "model_ref \<Rightarrow> controller \<Rightarrow> ChatListModel option" where
  "model_at RoomList c = Some (roomModel c)"
| "model_at DirectList c = Some (directMessageModel c)"
| "model_at MemberList c = Some (memberModel c)"
| "model_at (Conversation p) c = heap c p"

definition model_rows :: "model_ref \<Rightarrow> controller \<Rightarrow> qjson list" where
  "model_rows r c = (case model_at r c of None \<Rightarrow> [] | Some m \<Rightarrow> serializeModel m)"

section \<open>Publishing\<close>

definition scheduleStateUpdate :: "bridge \<Rightarrow> bridge" where
  "scheduleStateUpdate b = b\<lparr>br_timer := True\<rparr>"

definition markModelDirty :: "model_ref \<Rightarrow> bool \<Rightarrow> bridge \<Rightarrow> bridge" where
  "markModelDirty r scheduleUpdate b =
    (let b1 = b\<lparr>br_dirty := insert r (br_dirty b)\<rparr> in if scheduleUpdate then scheduleStateUpdate b1 else b1)"

definition connectModel :: "model_ref \<Rightarrow> bool \<Rightarrow> bridge \<Rightarrow> bridge" where
  "connectModel r scheduleUpdate b =
    (if r \<in> br_connected b then b
     else markModelDirty r scheduleUpdate (b\<lparr>br_connected := insert r (br_connected b)\<rparr>))"

definition buildActiveConversation :: "controller \<Rightarrow> qobject" where
  "buildActiveConversation c =
    (let key = activeConversationKey c; userCode = drop 3 key; room = roomFromConversationKey key in
     if starts_with ''dm:'' key
     then [(''kind'', QString ''dm''), (''id'', QString userCode), (''title'', QString userCode), (''userCode'', QString userCode)]
     else [(''kind'', QString ''room''), (''id'', QString room), (''title'', QString room)])"

definition connection_phase :: "controller \<Rightarrow> qobject \<Rightarrow> string" where
  "connection_phase c lastError =
    (if connected c then ''connected''
     else if reconnecting c then ''reconnecting''
     else if lastError \<noteq> [] then ''error''
     else if statusText c \<noteq> txt_not_connected then ''connecting''
     else ''idle'')"

fun to_qbool :: "qjson \<Rightarrow> bool" where
  "to_qbool (qjson.QBool b) = b"
| "to_qbool v = False"

definition connection_object :: "controller \<Rightarrow> qobject \<Rightarrow> qobject" where
  "connection_object c lastError =
    (let connection = [(''phase'', QString (connection_phase c lastError)), (''statusText'', QString (statusText c)),
           (''retryable'', qjson.QBool (lastError \<noteq> [] \<and> to_qbool (member lastError ''retryable'')))] in
     if lastError \<noteq> [] then qinsert ''lastError'' (QObject lastError) connection else connection)"

definition performance_object :: "profile option \<Rightarrow> qobject" where
  "performance_object profile =
    (case profile of None \<Rightarrow> []
     | Some p \<Rightarrow> [(''mode'', QString (pp_mode p)), (''effectiveMode'', QString (pp_effectiveMode p)),
         (''effectsEnabled'', qjson.QBool (pp_effectsEnabled p)), (''animationsEnabled'', qjson.QBool (pp_animationsEnabled p)),
         (''gradientsEnabled'', qjson.QBool (pp_gradientsEnabled p)), (''animationDurationScale'', QDouble (pp_animationDurationScale p)),
         (''observedFrameCount'', QDouble (of_nat (length (pp_frameTimesMs p)))), (''observedFps'', QDouble (pp_observedFps p)),
         (''observedP95FrameMs'', QDouble (pp_observedP95FrameMs p)), (''observedMaxFrameMs'', QDouble (pp_observedMaxFrameMs p)),
         (''automaticReason'', QString (pp_automaticReason p))])"

definition graphics_object :: "graphics option \<Rightarrow> qobject" where
  "graphics_object graphics =
    (case graphics of None \<Rightarrow> []
     | Some g \<Rightarrow> [(''graphicsApi'', QString (gi_graphicsApi g)), (''renderer'', QString (gi_renderer g)), (''vendor'', QString (gi_vendor g)),
         (''hardwareAcceleration'', qjson.QBool (gi_hardwareAcceleration g)), (''softwareRendering'', qjson.QBool (gi_softwareRendering g)),
         (''refreshRate'', QDouble (gi_refreshRate g)), (''dpi'', QDouble (gi_dpi g)), (''resolution'', QString (gi_resolution g))])"

definition saved_object :: "ctl_env \<Rightarrow> controller \<Rightarrow> qobject" where
  "saved_object e c = [(''serverIp'', QString (savedServerIp e c)), (''serverPort'', QDouble (of_int (savedServerPort c))),
     (''username'', QString (savedUsername e c)), (''userCode'', QString (savedUserCode e c)), (''caFile'', QString (savedCaFile e c))]"

text \<open>The state object, given what \<open>snapshotFor\<close> returns for a model.\<close>

definition state_object :: "bridge_env \<Rightarrow> (model_ref \<Rightarrow> qjson list) \<Rightarrow> bridge \<Rightarrow> qobject" where
  "state_object e snapshotFor b =
    (let c = br_controller b; page = (if connected c then ''workspace'' else ''mode'') in
     [(''connection'', QObject (connection_object c (br_lastError b))),
      (''identity'', QObject [(''displayName'', QString (localUserName c)), (''userCode'', QString (localUserCode c)),
         (''admin'', qjson.QBool (admin c))]),
      (''navigation'', QObject [(''page'', QString page), (''activeConversation'', QObject (buildActiveConversation c))]),
      (''rooms'', QArray (snapshotFor RoomList)),
      (''directMessages'', QArray (snapshotFor DirectList)),
      (''activeMessages'', QArray (snapshotFor (Conversation (messageModel c)))),
      (''members'', QArray (snapshotFor MemberList)),
      (''permissions'', QObject [(''activeRoomCanManage'', qjson.QBool (activeRoomCanManage c))]),
      (''connectionApprovals'', QArray (map map_json (pendingApprovals c))),
      (''diagnostics'', QObject [(''enabled'', qjson.QBool (diagnostics_enabled (be_diag e) (br_diagnostics b))),
         (''directory'', QString (diagnosticDirectory (be_diag e)))]),
      (''performance'', QObject (performance_object (br_profile b))),
      (''graphics'', QObject (graphics_object (br_graphics b))),
      (''savedConnection'', QObject (saved_object (be_ctl e) c)),
      (''lanDiscovery'', QObject [(''scanning'', qjson.QBool (ds_scanning (br_discovery b))),
         (''hosts'', QArray (hostsJson (be_disc e) (br_discovery b) (br_files b)))]),
      (''hostDefaults'', QObject (br_hostDefaults b))])"

definition buildState :: "bridge_env \<Rightarrow> bridge \<Rightarrow> qobject \<times> bridge" where
  "buildState e b =
    (let ser = (\<lambda>r. if r \<in> br_dirty b then Some (model_rows r (br_controller b)) else br_serialized b r);
         b1 = b\<lparr>br_lastCount := card (br_dirty b), br_serialized := ser, br_dirty := {}\<rparr> in
     (state_object e (\<lambda>r. case ser r of None \<Rightarrow> [] | Some items \<Rightarrow> items) b1, b1))"

definition rebuildStateSnapshot :: "bridge_env \<Rightarrow> bridge \<Rightarrow> bridge" where
  "rebuildStateSnapshot e b =
    (case buildState e b of (state, b1) \<Rightarrow> b1\<lparr>br_latest := safeState state, br_builds := br_builds b1 + 1\<rparr>)"

text \<open>The timer is single shot: it is inactive when \<open>publishState\<close> runs.\<close>

definition publishState :: "bridge_env \<Rightarrow> bridge \<Rightarrow> bridge" where
  "publishState e b =
    (if \<not> br_timer b then b
     else let b1 = rebuildStateSnapshot e (b\<lparr>br_timer := False\<rparr>) in br_emit (StateChanged (br_latest b1)) b1)"

definition setHostDefaults :: "bridge_env \<Rightarrow> string \<Rightarrow> string \<Rightarrow> string \<Rightarrow> string \<Rightarrow> bool \<Rightarrow> string \<Rightarrow> bridge \<Rightarrow> bridge" where
  "setHostDefaults e serverExe certFile keyFile dbFile avail unavailableReason b =
     rebuildStateSnapshot e (b\<lparr>br_hostDefaults :=
       [(''serverExe'', QString serverExe), (''certFile'', QString certFile), (''keyFile'', QString keyFile),
        (''dbFile'', QString dbFile), (''available'', qjson.QBool avail), (''unavailableReason'', QString unavailableReason)]\<rparr>)"

section \<open>Signals of the controller\<close>

definition handleConnectionError :: "string \<Rightarrow> string \<Rightarrow> bool \<Rightarrow> bridge \<Rightarrow> bridge" where
  "handleConnectionError code reason can_retry b =
    (let err = makeError code (if reason = [] then statusText (br_controller b) else reason) can_retry ''controller'' [] in
     scheduleStateUpdate (br_emit (BridgeError err) (b\<lparr>br_lastError := err\<rparr>)))"

definition answer :: "string \<Rightarrow> bool \<Rightarrow> qobject \<Rightarrow> bridge \<Rightarrow> bridge" where
  "answer commandId ok err b = br_emit (CommandResult (makeCommandResult commandId ok err)) b"

definition completeRecallCommand :: "string \<Rightarrow> bool \<Rightarrow> string \<Rightarrow> bridge \<Rightarrow> bridge" where
  "completeRecallCommand commandId ok reason b =
    (case map_of (br_recalls b) commandId of
       None \<Rightarrow> b
     | Some resultCommandId \<Rightarrow>
         answer resultCommandId ok
           (if ok then [] else makeError ''recall_rejected'' (if reason = [] then ''Recall rejected'' else reason) False ''server'' resultCommandId)
           (b\<lparr>br_recalls := hash_remove commandId (br_recalls b)\<rparr>))"

fun on_signal :: "ctl_signal \<Rightarrow> bridge \<Rightarrow> bridge" where
  "on_signal ConnectedChanged b =
     scheduleStateUpdate (if connected (br_controller b) then b\<lparr>br_lastError := []\<rparr> else b)"
| "on_signal ActiveMessageModelChanged b =
     scheduleStateUpdate (connectModel (Conversation (messageModel (br_controller b))) True b)"
| "on_signal (ConnectionFailedSig reason) b = handleConnectionError ''connection_failed'' reason True b"
| "on_signal (ConnectionLostSig reason) b =
     (if reconnecting (br_controller b) then scheduleStateUpdate (b\<lparr>br_lastError := []\<rparr>)
      else handleConnectionError ''connection_lost'' reason True b)"
| "on_signal (RecallSucceeded commandId) b = completeRecallCommand commandId True [] b"
| "on_signal (RecallFailed commandId reason) b = completeRecallCommand commandId False reason b"
| "on_signal s b = scheduleStateUpdate b"

text \<open>
  The signals of the models. A change of a model comes with a signal (\<open>unsignalled_op\<close> below); \<open>extra\<close> are the models whose
  signal announces no change. A destroyed model is forgotten.
\<close>

definition destroyed :: "controller \<Rightarrow> controller \<Rightarrow> model_ref set" where
  "destroyed c d = {Conversation p | p. heap c p \<noteq> None \<and> heap d p = None}"

definition forget :: "model_ref set \<Rightarrow> bridge \<Rightarrow> bridge" where
  "forget rs b = b\<lparr>br_serialized := br_serialized b |` (- rs), br_dirty := br_dirty b - rs, br_connected := br_connected b - rs\<rparr>"

definition mark_changed :: "model_ref set \<Rightarrow> controller \<Rightarrow> bridge \<Rightarrow> bridge" where
  "mark_changed extra c b =
    (let marked = {r \<in> br_connected b. r \<in> extra \<or> model_rows r c \<noteq> model_rows r (br_controller b)} in
     if marked = {} then b else scheduleStateUpdate (b\<lparr>br_dirty := br_dirty b \<union> marked\<rparr>))"

text \<open>A call of the controller, with everything its signals cause in the bridge.\<close>

definition with_controller :: "model_ref set \<Rightarrow> (controller \<Rightarrow> controller) \<Rightarrow> bridge \<Rightarrow> bridge" where
  "with_controller extra f b =
    (let c = br_controller b; d = f (c\<lparr>emitted := []\<rparr>);
         b1 = mark_changed extra c (forget (destroyed c d) (b\<lparr>br_controller := d\<lparr>emitted := []\<rparr>\<rparr>)) in
     fold on_signal (emitted d) b1)"

definition with_discovery :: "(discovery \<Rightarrow> discovery) \<Rightarrow> bridge \<Rightarrow> bridge" where
  "with_discovery f b =
    (let d = f ((br_discovery b)\<lparr>ds_emitted := []\<rparr>); b1 = b\<lparr>br_discovery := d\<lparr>ds_emitted := []\<rparr>\<rparr> in
     if ds_emitted d \<noteq> [] then scheduleStateUpdate b1 else b1)"

definition with_profile :: "(profile \<Rightarrow> profile) \<Rightarrow> bridge \<Rightarrow> bridge" where
  "with_profile f b =
    (case br_profile b of
       None \<Rightarrow> b
     | Some p \<Rightarrow>
        let q = f (p\<lparr>pp_emitted := []\<rparr>); b1 = b\<lparr>br_profile := Some (q\<lparr>pp_emitted := []\<rparr>)\<rparr> in
        if \<exists>s \<in> set (pp_emitted q). s \<noteq> ObservedFrameCountChanged then scheduleStateUpdate b1 else b1)"

text \<open>The graphics information changed: \<open>main\<close> tells the profile, the bridge schedules an update.\<close>

definition graphics_refreshed :: "(rat \<times> rat \<times> string) option \<Rightarrow> bridge \<Rightarrow> bridge" where
  "graphics_refreshed screen b =
    (case br_graphics b of
       None \<Rightarrow> b
     | Some g \<Rightarrow> let g1 = gi_refresh screen g in
         scheduleStateUpdate (with_profile (graphics_changed g1) (b\<lparr>br_graphics := Some g1\<rparr>)))"

definition on_mls_result :: "string \<Rightarrow> bool \<Rightarrow> string \<Rightarrow> string \<Rightarrow> bridge \<Rightarrow> bridge" where
  "on_mls_result commandId ok code msg b =
    (if commandId = [] then b
     else answer commandId ok
       (if ok then [] else makeError (if code = [] then ''mls_operation_failed'' else code)
          (if msg = [] then ''MLS operation failed'' else msg) False ''mls'' commandId) b)"

record attachment_signal =
  as_type :: string
  as_attachmentId :: string
  as_uploadId :: string
  as_commandId :: string
  as_chunkSize :: int
  as_chunkIndex :: int
  as_ciphertext :: string
  as_cipherSha256 :: string
  as_expiresAt :: string
  as_receivedIndexes :: "int list"
  as_content :: string
  as_logicalSize :: int

definition attachment_payload :: "bridge_env \<Rightarrow> attachment_signal \<Rightarrow> qobject" where
  "attachment_payload e a =
    (let num = (\<lambda>i. QDouble (of_int i));
         payload = [(''type'', QString (as_type a)), (''attachmentId'', QString (as_attachmentId a)), (''uploadId'', QString (as_uploadId a)),
           (''chunkSize'', num (as_chunkSize a)), (''chunkIndex'', num (as_chunkIndex a)),
           (''ciphertext'', QString (be_toBase64 e (as_ciphertext a))), (''cipherSha256'', QString (as_cipherSha256 a)),
           (''expiresAt'', QString (as_expiresAt a)), (''receivedIndexes'', QArray (map num (as_receivedIndexes a))),
           (''content'', QString (as_content a))];
         p1 = (if as_type a = ''attachment.init'' \<and> 0 < as_logicalSize a
               then qinsert ''logicalSize'' (num (as_logicalSize a)) payload else payload) in
     if as_type a = ''error''
     then qinsert ''message'' (QString (as_content a)) (qinsert ''code'' (QString ''attachment_failed'') p1) else p1)"

definition on_attachment_event :: "bridge_env \<Rightarrow> attachment_signal \<Rightarrow> bridge \<Rightarrow> bridge" where
  "on_attachment_event e a b =
     br_emit (CommandResult [(''type'', QString ''attachment.event''), (''id'', QString (as_commandId a)),
       (''payload'', QObject (attachment_payload e a))]) b"

section \<open>Construction\<close>

definition new_bridge :: "bridge_env \<Rightarrow> controller \<Rightarrow> profile option \<Rightarrow> graphics option \<Rightarrow> diagnostics \<Rightarrow> files \<Rightarrow> bridge" where
  "new_bridge e c p g di fs =
    (let b = \<lparr>br_controller = c, br_profile = p, br_graphics = g, br_discovery = new_discovery [], br_diagnostics = di, br_files = fs,
              br_timer = False, br_latest = [], br_hostDefaults = [], br_lastError = [], br_recalls = [], br_serialized = Map.empty,
              br_dirty = {}, br_connected = {}, br_lastCount = 0, br_builds = 0, br_out = []\<rparr> in
     rebuildStateSnapshot e (fold (\<lambda>r. connectModel r False)
       [RoomList, DirectList, Conversation (messageModel c), MemberList, Conversation (messageModel c)] b))"


section \<open>Commands of the page\<close>

definition emitInvalidCommand :: "string \<Rightarrow> string \<Rightarrow> bridge \<Rightarrow> bridge" where
  "emitInvalidCommand commandId code b = answer commandId False (makeError code txt_bad_command False ''bridge'' commandId) b"

text \<open>A string of the payload, and \<open>QJsonValue::toInteger\<close>.\<close>

definition str :: "qobject \<Rightarrow> string \<Rightarrow> string" where
  "str payload key = to_qstring (member payload key)"

definition toInteger :: "qjson \<Rightarrow> int" where
  "toInteger v = (let d = toDouble v 0 in if whole d \<and> -(2 ^ 63) \<le> \<lfloor>d\<rfloor> \<and> \<lfloor>d\<rfloor> < 2 ^ 63 then \<lfloor>d\<rfloor> else 0)"

text \<open>
  The commands that are a single call of the controller, by what follows the call. A call is written as the event of
  \<open>run_event\<close> that makes it. These are answered at once, with success:
\<close>

definition simple_commands :: "bridge_env \<Rightarrow> (string \<times> (qobject \<Rightarrow> ctl_event)) list" where
  "simple_commands e =
    [(''session.connectRemote'', \<lambda>p. ConnectEvent (str p ''serverIp'') (toInt (member p ''serverPort'')) (str p ''username'')
        (str p ''userCode'') (str p ''caFile'') (if str p ''tlsServerName'' = ''localhost'' then ''localhost'' else [])),
     (''session.connectLocalHost'', \<lambda>p. LocalHostEvent (str p ''serverExe'') (str p ''certFile'') (str p ''keyFile'') (str p ''dbFile'')
        (str p ''username'') (str p ''userCode'')),
     (''session.disconnect'', \<lambda>p. DisconnectEvent),
     (''chat.sendRoom'', \<lambda>p. RoomMessageEvent (be_uuid e) (str p ''content'') (str p ''room'')),
     (''chat.sendPrivate'', \<lambda>p. PrivateMessageEvent (be_uuid e) (str p ''content'') (str p ''targetUserCode'')),
     (''history.search'', \<lambda>p. SearchEvent (str p ''query'')),
     (''conversation.selectRoom'', \<lambda>p. SelectRoomEvent (str p ''room'')),
     (''conversation.selectDirect'', \<lambda>p. SelectDirectEvent (str p ''userCode'')),
     (''conversation.openPrivate'', \<lambda>p. OpenPrivateEvent (str p ''displayName'') (str p ''userCode'')),
     (''directory.refreshUsers'', \<lambda>p. ForwardEvent RequestUsers),
     (''directory.refreshRooms'', \<lambda>p. ForwardEvent RequestRooms),
     (''room.create'', \<lambda>p. CreateRoomEvent (str p ''room'') (to_qbool (member p ''isPrivate''))),
     (''room.action'', \<lambda>p. ForwardEvent (SendRoomAction (str p ''action'') (str p ''room'') (str p ''targetUserCode''))),
     (''admin.action'', \<lambda>p. ForwardEvent (SendAdminAction (str p ''action'') (str p ''targetUserCode'') (str p ''messageId'') [])),
     (''message.copy'', \<lambda>p. CopyEvent (str p ''text'')),
     (''message.removeLocal'', \<lambda>p. RemoveLocalEvent (str p ''messageId'')),
     (''message.retry'', \<lambda>p. RetryEvent (str p ''messageId''))]"

text \<open>The worker answers these:\<close>

definition mls_commands :: "(string \<times> (qobject \<Rightarrow> string \<Rightarrow> ctl_event)) list" where
  "mls_commands =
    [(''mls.keyPackage.fetch'', \<lambda>p i. ForwardEvent (FetchMlsKeyPackage (str p ''room'') (str p ''targetUserCode'') i)),
     (''mls.group.add'', \<lambda>p i. ForwardEvent (AddMlsMember (str p ''room'') (str p ''groupId'') (str p ''targetUserCode'') i)),
     (''mls.group.remove'', \<lambda>p i. ForwardEvent (RemoveMlsMember (str p ''room'') (str p ''groupId'') (str p ''targetUserCode'') i))]"

text \<open>The progress of these is reported by events of the worker:\<close>

definition attachment_commands :: "bridge_env \<Rightarrow> (string \<times> (qobject \<Rightarrow> string \<Rightarrow> ctl_event)) list" where
  "attachment_commands e =
    [(''attachment.init'', \<lambda>p i. ForwardEvent (SendAttachmentInit (str p ''room'') (toInteger (member p ''logicalSize'')) i)),
     (''attachment.chooseUpload'', \<lambda>p i. UploadEvent (be_path e) (str p ''room'') i),
     (''attachment.chunk'', \<lambda>p i. ForwardEvent (SendAttachmentChunk (str p ''uploadId'') (toInteger (member p ''chunkIndex''))
        (be_fromBase64 e (str p ''ciphertext'')) (str p ''cipherSha256'') i)),
     (''attachment.resume'', \<lambda>p i. ForwardEvent (ResumeAttachment (str p ''uploadId'') i)),
     (''attachment.commit'', \<lambda>p i. ForwardEvent (SendAttachmentCommit (str p ''uploadId'') i)),
     (''attachment.download'', \<lambda>p i. DownloadEvent (be_path e) (str p ''attachmentId'') (toInteger (member p ''chunkIndex'')) i)]"

definition call_controller :: "bridge_env \<Rightarrow> model_ref set \<Rightarrow> ctl_event \<Rightarrow> bridge \<Rightarrow> bridge" where
  "call_controller e extra ev b = with_controller extra (run_event (be_ctl e) ev) b"

definition succeed :: "string \<Rightarrow> bridge \<Rightarrow> bridge" where
  "succeed commandId b = scheduleStateUpdate (answer commandId True [] b)"

definition discover_hosts :: "bridge_env \<Rightarrow> string \<Rightarrow> bridge \<Rightarrow> bridge" where
  "discover_hosts e commandId b =
    (let b1 = with_discovery (\<lambda>d. snd (discovery_refresh (be_disc e) d)) b in
     case fst (discovery_refresh (be_disc e) (br_discovery b)) of
       Inl discoveryError \<Rightarrow> scheduleStateUpdate (answer commandId False
         (makeError ''discovery_unavailable'' discoveryError True ''bridge'' commandId) b1)
     | Inr _ \<Rightarrow> succeed commandId b1)"

definition connect_discovered :: "bridge_env \<Rightarrow> model_ref set \<Rightarrow> string \<Rightarrow> qobject \<Rightarrow> bridge \<Rightarrow> bridge" where
  "connect_discovered e extra commandId payload b =
    (case connectData (be_disc e) (str payload ''hostId'') (br_discovery b) of
       Inl discoveryError \<Rightarrow> scheduleStateUpdate (answer commandId False
         (makeError ''discovery_host_unavailable'' discoveryError True ''bridge'' commandId) b)
     | Inr host \<Rightarrow>
        (case persistCertificate (be_disc e) host (br_discovery b) (br_files b) of
           (Inl discoveryError, fs) \<Rightarrow> scheduleStateUpdate (answer commandId False
             (makeError ''discovery_certificate_failed'' discoveryError False ''bridge'' commandId) (b\<lparr>br_files := fs\<rparr>))
         | (Inr path, fs) \<Rightarrow> succeed commandId (call_controller e extra
             (ConnectEvent (dh_serverIp host) (dh_serverPort host) (str payload ''username'') (str payload ''userCode'') path ''localhost'')
             (b\<lparr>br_files := fs\<rparr>))))"

definition recall_denied :: string where
  "recall_denied = ''Recall is only available to the message author or an administrator''"

definition recall_command :: "bridge_env \<Rightarrow> model_ref set \<Rightarrow> string \<Rightarrow> qobject \<Rightarrow> bridge \<Rightarrow> bridge" where
  "recall_command e extra commandId payload b =
    (let messageId = str payload ''messageId''; b1 = b\<lparr>br_recalls := hash_put commandId commandId (br_recalls b)\<rparr>;
         b2 = call_controller e extra (RecallEvent messageId commandId) b1 in
     if \<not> fst (recallMessage (be_ctl e) messageId commandId (br_controller b))
     then answer commandId False (makeError ''permission_denied'' recall_denied False ''controller'' commandId)
            (b2\<lparr>br_recalls := hash_remove commandId (br_recalls b2)\<rparr>)
     else scheduleStateUpdate b2)"

definition set_mode_command :: "qt_text \<Rightarrow> string \<Rightarrow> qobject \<Rightarrow> bridge \<Rightarrow> bridge" where
  "set_mode_command q commandId payload b =
    (if br_profile b = None
     then answer commandId False (makeError ''capability_unavailable'' txt_no_performance False ''bridge'' commandId) b
     else succeed commandId (with_profile (setMode q (str payload ''mode'')) b))"

definition report_frames :: "qobject \<Rightarrow> bridge \<Rightarrow> bridge" where
  "report_frames payload b =
    (if br_profile b = None then b
     else let frameTimes = (case member payload ''frameTimesMs'' of QArray vs \<Rightarrow> vs | _ \<Rightarrow> []) in
          scheduleStateUpdate (fold (\<lambda>v. with_profile (observeFrameTime (toDouble v 0))) frameTimes b))"

definition frontend_error :: "bridge_env \<Rightarrow> string \<Rightarrow> qobject \<Rightarrow> bridge \<Rightarrow> bridge" where
  "frontend_error e commandId payload b =
     answer commandId True [] (b\<lparr>br_diagnostics :=
       writeConnectionEvent (be_diag e) ''frontend-error'' (str payload ''name'') 0 0 (str payload ''stack'') (br_diagnostics b)\<rparr>)"

text \<open>The commands with more to do than a call of the controller, and those of no known type.\<close>

definition other_commands ::
    "bridge_env \<Rightarrow> model_ref set \<Rightarrow> (string \<times> (string \<Rightarrow> qobject \<Rightarrow> bridge \<Rightarrow> bridge)) list" where
  "other_commands e extra =
    [(''session.discoverLanHosts'', \<lambda>i p. discover_hosts e i),
     (''session.connectDiscoveredHost'', connect_discovered e extra),
     (''message.recall'', recall_command e extra),
     (''settings.setPerformanceMode'', set_mode_command (qt (be_ctl e))),
     (''settings.setConnectionLogging'', \<lambda>i p b.
        succeed i (scheduleStateUpdate (b\<lparr>br_diagnostics := setEnabled (to_qbool (member p ''enabled'')) (br_diagnostics b)\<rparr>))),
     (''diagnostics.frontendError'', frontend_error e),
     (''performance.reportFrameTimes'', \<lambda>i. report_frames)]"

definition run_command :: "bridge_env \<Rightarrow> model_ref set \<Rightarrow> string \<Rightarrow> string \<Rightarrow> qobject \<Rightarrow> bridge \<Rightarrow> bridge" where
  "run_command e extra type commandId payload b =
    (case map_of (simple_commands e) type of
       Some ev \<Rightarrow> succeed commandId (call_controller e extra (ev payload) b)
     | None \<Rightarrow>
        (case map_of mls_commands type of
           Some ev \<Rightarrow> scheduleStateUpdate (call_controller e extra (ev payload commandId) b)
         | None \<Rightarrow>
            (case map_of (attachment_commands e) type of
               Some ev \<Rightarrow> call_controller e extra (ev payload commandId) b
             | None \<Rightarrow>
                (case map_of (other_commands e extra) type of
                   Some run \<Rightarrow> run commandId payload b
                 | None \<Rightarrow> succeed commandId b))))"

definition dispatch :: "bridge_env \<Rightarrow> model_ref set \<Rightarrow> string \<Rightarrow> bridge \<Rightarrow> bridge" where
  "dispatch e extra commandJson b =
    (case parse_json (be_ctl e) commandJson of
       Some (QObject command) \<Rightarrow>
         let commandId = str command ''id'' in
         (case validateCommand (qt (be_ctl e)) command of
            Inl errorCode \<Rightarrow> emitInvalidCommand commandId errorCode b
          | Inr _ \<Rightarrow> run_command e extra (str command ''type'') commandId (to_qobject (member command ''payload'')) b)
     | _ \<Rightarrow> emitInvalidCommand [] ''invalid_command'' b)"

end
