(* ===== verification/Bridge_Cache.thy ===== *)
theory Bridge_Cache
  imports Chat_Bridge
begin

text \<open>
  What the page is told: whatever the controller changes that the published state shows is announced by a signal that
  schedules an update, so that the state published last is the state of the client unless an update is pending, although
  the bridge serializes only the models that changed.
\<close>

section \<open>The controller announces its changes\<close>

text \<open>The part of the controller the state shows, besides the models.\<close>

definition ctl_view :: "controller \<Rightarrow> _" where
  "ctl_view c = (connected c, reconnecting c, admin c, localUserName c, localUserCode c, statusText c, activeConversationKey c,
     activeRoomCanManage c, pendingApprovals c, settings c, bundledCaFile c)"

fun schedules :: "ctl_signal \<Rightarrow> bool" where
  "schedules (RecallSucceeded i) = False"
| "schedules (RecallFailed i r) = False"
| "schedules s = True"

definition seen :: "_ \<Rightarrow> controller \<Rightarrow> bool" where
  "seen v c \<longleftrightarrow> ctl_view c = v \<or> (\<exists>s \<in> set (emitted c). schedules s)"

definition located :: "nat \<Rightarrow> controller \<Rightarrow> bool" where
  "located p c \<longleftrightarrow> messageModel c = p \<or> ActiveMessageModelChanged \<in> set (emitted c)"

definition told :: "_ \<Rightarrow> nat \<Rightarrow> controller \<Rightarrow> bool" where
  "told v p c \<longleftrightarrow> seen v c \<and> located p c"

text \<open>No answer to a recall among the signals.\<close>

definition quiet :: "controller \<Rightarrow> bool" where
  "quiet c \<longleftrightarrow> list_all schedules (emitted c)"

lemma located_emit [simp]: "located p c \<Longrightarrow> located p (emit_sig s c)" "located p (emit_sig ActiveMessageModelChanged c)"
  by (auto simp: located_def emit_sig_def)

lemma seen_emit [simp]: "schedules s \<Longrightarrow> seen v (emit_sig s c)"
  by (simp add: seen_def emit_sig_def)

lemma told_emit [simp]: "told v p c \<Longrightarrow> told v p (emit_sig s c)"
  by (auto simp: told_def seen_def located_def emit_sig_def ctl_view_def)

lemma told_emit_schedules [simp]: "schedules s \<Longrightarrow> located p c \<Longrightarrow> told v p (emit_sig s c)"
  "told v p (emit_sig ActiveMessageModelChanged c)"
  by (auto simp: told_def)

lemma quiet_emit [simp]: "quiet (emit_sig s c) = (schedules s \<and> quiet c)"
  by (auto simp: quiet_def emit_sig_def)

text \<open>What is not shown.\<close>

lemma hidden_invoke [simp]: "told v p (invoke w c) = told v p c" "quiet (invoke w c) = quiet c"
  by (simp_all add: told_def seen_def located_def ctl_view_def quiet_def invoke_def)

lemma told_hidden [simp]:
  "told v p (c\<lparr>historySearchQuery := q\<rparr>) = told v p c" "told v p (c\<lparr>historyLoading := b\<rparr>) = told v p c"
  "told v p (c\<lparr>joinedRoom := r\<rparr>) = told v p c" "told v p (c\<lparr>refreshTimer := b\<rparr>) = told v p c"
  "told v p (c\<lparr>clipboard := t\<rparr>) = told v p c" "told v p (c\<lparr>onlineMemberCount := k\<rparr>) = told v p c"
  "told v p (c\<lparr>localMessageCounter := i\<rparr>) = told v p c" "told v p (c\<lparr>pendingAttachmentMetadata := pm\<rparr>) = told v p c"
  "told v p (c\<lparr>roomMemberCounts := rc\<rparr>) = told v p c" "told v p (c\<lparr>roomModel := m\<rparr>) = told v p c"
  "told v p (c\<lparr>directMessageModel := m\<rparr>) = told v p c" "told v p (c\<lparr>memberModel := m\<rparr>) = told v p c"
  "told v p (c\<lparr>heap := h\<rparr>) = told v p c"
  by (simp_all add: told_def seen_def located_def ctl_view_def)

lemma quiet_fields [simp]:
  "quiet (c\<lparr>historySearchQuery := q\<rparr>) = quiet c" "quiet (c\<lparr>historyLoading := b\<rparr>) = quiet c" "quiet (c\<lparr>joinedRoom := r\<rparr>) = quiet c"
  "quiet (c\<lparr>refreshTimer := b\<rparr>) = quiet c" "quiet (c\<lparr>clipboard := t\<rparr>) = quiet c" "quiet (c\<lparr>onlineMemberCount := k\<rparr>) = quiet c"
  "quiet (c\<lparr>localMessageCounter := i\<rparr>) = quiet c" "quiet (c\<lparr>pendingAttachmentMetadata := pm\<rparr>) = quiet c"
  "quiet (c\<lparr>roomMemberCounts := rc\<rparr>) = quiet c" "quiet (c\<lparr>roomModel := m\<rparr>) = quiet c" "quiet (c\<lparr>directMessageModel := m\<rparr>) = quiet c"
  "quiet (c\<lparr>memberModel := m\<rparr>) = quiet c" "quiet (c\<lparr>heap := h\<rparr>) = quiet c" "quiet (c\<lparr>messageModel := q'\<rparr>) = quiet c"
  "quiet (c\<lparr>activeConversationKey := t\<rparr>) = quiet c" "quiet (c\<lparr>connected := b\<rparr>) = quiet c" "quiet (c\<lparr>reconnecting := b\<rparr>) = quiet c"
  "quiet (c\<lparr>admin := b\<rparr>) = quiet c" "quiet (c\<lparr>statusText := t\<rparr>) = quiet c" "quiet (c\<lparr>settings := st\<rparr>) = quiet c"
  "quiet (c\<lparr>bundledCaFile := t\<rparr>) = quiet c" "quiet (c\<lparr>localUserName := nm, localUserCode := t\<rparr>) = quiet c"
  "quiet (c\<lparr>activeRoomCanManage := b\<rparr>) = quiet c" "quiet (c\<lparr>pendingApprovals := a\<rparr>) = quiet c"
  by (simp_all add: quiet_def)

lemma located_fields [simp]:
  "located p (c\<lparr>connected := b\<rparr>) = located p c" "located p (c\<lparr>reconnecting := b\<rparr>) = located p c" "located p (c\<lparr>admin := b\<rparr>) = located p c"
  "located p (c\<lparr>statusText := t\<rparr>) = located p c" "located p (c\<lparr>settings := st\<rparr>) = located p c" "located p (c\<lparr>refreshTimer := b\<rparr>) = located p c"
  "located p (c\<lparr>bundledCaFile := t\<rparr>) = located p c" "located p (c\<lparr>localUserName := nm, localUserCode := t\<rparr>) = located p c"
  "located p (c\<lparr>activeRoomCanManage := b\<rparr>) = located p c" "located p (c\<lparr>pendingApprovals := a\<rparr>) = located p c"
  "located p (c\<lparr>onlineMemberCount := k\<rparr>) = located p c" "located p (invoke w c) = located p c"
  by (simp_all add: located_def invoke_def)

lemma told_located: "told v p c \<Longrightarrow> located p c"
  by (simp add: told_def)

text \<open>Changes of the models are not shown by these fields.\<close>

lemma with_model_hidden [simp]: "told v p (with_model q f c) = told v p c" "quiet (with_model q f c) = quiet c"
  by (simp_all add: with_model_def split: option.splits)

lemma each_model_hidden [simp]: "told v p (each_model f c) = told v p c" "quiet (each_model f c) = quiet c"
proof -
  obtain h where h: "each_model f c = c\<lparr>heap := h\<rparr>" using each_model_heap by blast
  show "told v p (each_model f c) = told v p c" "quiet (each_model f c) = quiet c" unfolding h by simp_all
qed

lemma append_to_hidden [simp]: "told v p (append_to q row c) = told v p c" "quiet (append_to q row c) = quiet c"
  by (simp_all add: append_to_def)

lemma trim_frame: "\<exists>h ms os. trimConversationModelCache key c = c\<lparr>heap := h, conversationModels := ms, accessOrder := os\<rparr>"
proof (induction key c rule: trimConversationModelCache.induct)
  case (1 key c)
  show ?case
  proof (cases "kMaxCachedConversationModels < length (conversationModels c) \<and> lru_key key c \<noteq> []")
    case True
    with 1 obtain h ms os where "trimConversationModelCache key (delete_model (lru_key key c) c) =
        (delete_model (lru_key key c) c)\<lparr>heap := h, conversationModels := ms, accessOrder := os\<rparr>" by blast
    with True show ?thesis by (subst trimConversationModelCache.simps) (auto simp: delete_model_def)
  next
    case False
    then have "trimConversationModelCache key c = c" by (subst trimConversationModelCache.simps) auto
    then show ?thesis
      by (intro exI [of _ "heap c"] exI [of _ "conversationModels c"] exI [of _ "accessOrder c"]) simp
  qed
qed


lemma ensure_frame: "\<exists>h n ms os q. snd (ensureConversationModel key c) =
  c\<lparr>heap := h, next_address := n, conversationModels := ms, accessOrder := os, accessSequence := q\<rparr>"
proof (cases "map_of (conversationModels c) key")
  case (Some p)
  let ?n = "(accessSequence c + 1) mod 2 ^ 64"
  show ?thesis
    by (rule exI [of _ "heap c"], rule exI [of _ "next_address c"], rule exI [of _ "conversationModels c"],
        rule exI [of _ "hash_put key ?n (accessOrder c)"], rule exI [of _ ?n])
      (simp add: Some ensureConversationModel_def touch_def Let_def)
next
  case None
  define e where "e = touch key (with_new_model key c)"
  obtain h ms os where "trimConversationModelCache key e = e\<lparr>heap := h, conversationModels := ms, accessOrder := os\<rparr>"
    using trim_frame by blast
  with None have "snd (ensureConversationModel key c) = c\<lparr>heap := h, next_address := next_address c + 1, conversationModels := ms,
      accessOrder := os, accessSequence := (accessSequence c + 1) mod 2 ^ 64\<rparr>"
    by (simp add: ensureConversationModel_def Let_def e_def with_new_model_def touch_def)
  then show ?thesis by blast
qed

lemma ensure_hidden [simp]:
  assumes "ensureConversationModel key c = (q, d)"
  shows "told v p d = told v p c" "quiet d = quiet c" "located p d = located p c"
proof -
  obtain h n ms os sq where "d = c\<lparr>heap := h, next_address := n, conversationModels := ms, accessOrder := os, accessSequence := sq\<rparr>"
    using ensure_frame [of key c] assms by auto
  then show "told v p d = told v p c" "quiet d = quiet c" "located p d = located p c"
    by (simp_all add: told_def seen_def located_def ctl_view_def quiet_def)
qed

text \<open>The small operations.\<close>

lemma told_small [simp]:
  assumes "told v p c"
  shows "told v p (setStatus t c)" "told v p (set_can_manage b c)" "told v p (set_admin b c)"
    "told v p (saveConnectionPreferences e ip port nm cd ca c)" "told v p (setBundledCaFile e t c)"
    "told v p (requestActiveHistory i q c)" "told v p (refresh_tick c)" "told v p (searchActiveHistory e q c)"
    "told v p (appendSystemMessageToModel e m t c)" "told v p (appendSystemMessage e t c)"
  using assms told_located [OF assms]
  by (simp_all add: setStatus_def set_can_manage_def set_admin_def saveConnectionPreferences_def setBundledCaFile_def
      requestActiveHistory_def refresh_tick_def searchActiveHistory_def appendSystemMessageToModel_def appendSystemMessage_def Let_def)


lemma told_identity [simp]: "told v p c \<Longrightarrow> told v p (set_identity nm cd c)"
  using told_located [of v p c]
  by (cases "localUserName c = nm \<and> localUserCode c = cd") (auto simp: set_identity_def Let_def)

lemma quiet_small [simp]:
  assumes "quiet c"
  shows "quiet (setStatus t c)" "quiet (set_can_manage b c)" "quiet (set_admin b c)" "quiet (set_identity nm cd c)"
    "quiet (saveConnectionPreferences e ip port nm cd ca c)" "quiet (setBundledCaFile e t c)"
    "quiet (requestActiveHistory i q c)" "quiet (refresh_tick c)" "quiet (searchActiveHistory e q c)"
    "quiet (appendSystemMessageToModel e m t c)" "quiet (appendSystemMessage e t c)"
  using assms
  by (simp_all add: setStatus_def set_can_manage_def set_admin_def set_identity_def saveConnectionPreferences_def setBundledCaFile_def
      requestActiveHistory_def refresh_tick_def searchActiveHistory_def appendSystemMessageToModel_def appendSystemMessage_def Let_def)

lemma unread_hidden [simp]: "told v p (incrementUnreadForConversation e k nm cd c) = told v p c"
  by (simp add: incrementUnreadForConversation_def Let_def split: option.splits)

text \<open>The operations that select a conversation.\<close>

lemma told_after [simp]:
  "told v p (requestActiveHistory i q (emit_sig ActiveMessageModelChanged c))"
  "told v p (requestActiveHistory i q ((invoke w (emit_sig ActiveMessageModelChanged c))\<lparr>joinedRoom := r\<rparr>))"
  by simp_all

lemma told_select [simp]: "told v p (selectRoom e r c)" "told v p (selectDirectMessage e t c)" "told v p (resetSessionData c)"
proof -
  have last: "told v p (if reconnecting d then emit_sig ReconnectingChanged (d\<lparr>reconnecting := b\<rparr>) else d)" if "told v p d" for d b
    using that told_located [OF that] by simp
  show "told v p (selectRoom e r c)"
    unfolding selectRoom_def Let_def by (split prod.split, intro allI impI last) simp
  show "told v p (selectDirectMessage e t c)" "told v p (resetSessionData c)"
    by (simp_all add: selectDirectMessage_def resetSessionData_def Let_def split: prod.splits)
qed

lemma quiet_select [simp]:
  assumes "quiet c"
  shows "quiet (selectRoom e r c)" "quiet (selectDirectMessage e t c)" "quiet (resetSessionData c)"
  using assms by (auto simp: selectRoom_def selectDirectMessage_def resetSessionData_def Let_def split: prod.splits option.splits)


text \<open>The signals of the worker.\<close>

lemma located_small [simp]: "located p c \<Longrightarrow> located p (set_admin b c)" "located p (resetSessionData c)"
  using told_located [OF told_select(3)] by (simp_all add: set_admin_def)

lemma told_connected [simp]: "told v p c \<Longrightarrow> told v p (handleConnected b c)"
  using told_located [of v p c] by (simp add: handleConnected_def Let_def)

lemma told_lost [simp]:
  assumes "told v p c"
  shows "told v p (ctl_disconnectFromServer c)" "told v p (handleConnectionFailed e t c)" "told v p (handleConnectionLost t c)"
  using assms told_located [OF assms]
  by (simp_all add: ctl_disconnectFromServer_def handleConnectionFailed_def handleConnectionLost_def Let_def)

lemma told_receipt [simp]: "told v p c \<Longrightarrow> told v p (on_delivery_receipt u c)"
  unfolding on_delivery_receipt_def Let_def by simp

lemma told_request [simp]: "told v p c \<Longrightarrow> told v p (on_approval_request u c)"
  using told_located [of v p c] unfolding on_approval_request_def Let_def by simp

lemma told_recalled [simp]: "told v p c \<Longrightarrow> told v p (on_recalled u c)"
  unfolding on_recalled_def by simp

lemma told_error [simp]: "told v p c \<Longrightarrow> told v p (on_error u c)"
  unfolding on_error_def Let_def by simp

lemma told_system [simp]: "told v p c \<Longrightarrow> told v p (on_room_system e u c)"
  unfolding on_room_system_def by (simp split: prod.split)

lemma told_rooms [simp]: "told v p c \<Longrightarrow> told v p (on_rooms_response u c)"
  unfolding on_rooms_response_def Let_def by (rule told_small) (simp only: told_hidden)

lemma told_users [simp]: "told v p c \<Longrightarrow> told v p (on_users_response e u c)"
  unfolding on_users_response_def Let_def by (simp only: told_hidden told_emit split: if_split) blast

lemma told_chat [simp]: "told v p c \<Longrightarrow> told v p (on_chat e u c)"
proof -
  assume c: "told v p c"
  define key where "key = conversation_key e u c"
  define c1 where "c1 = (if um_message_id u = [] then c\<lparr>localMessageCounter := localMessageCounter c + 1\<rparr> else c)"
  define i where "i = (if um_message_id u = [] then ''local-'' @ to_string (localMessageCounter c1) else um_message_id u)"
  obtain q d where qd: "ensureConversationModel key (c1\<lparr>pendingAttachmentMetadata := hash_remove i (pendingAttachmentMetadata c1)\<rparr>) = (q, d)"
    by fastforce
  have "told v p d" using c unfolding ensure_hidden [OF qd] by (simp add: c1_def)
  then show ?thesis
    unfolding on_chat_def Let_def key_def [symmetric] c1_def [symmetric] i_def [symmetric] qd prod.case by simp
qed

lemma told_approval [simp]:
  assumes "told v p c"
  shows "told v p (on_approval_result e u c)"
proof -
  define kept where "kept = filter (\<lambda>r. request_id r \<noteq> um_message_id u) (pendingApprovals c)"
  have "told v p (if kept \<noteq> pendingApprovals c then emit_sig PendingApprovalsChanged (c\<lparr>pendingApprovals := kept\<rparr>)
      else c\<lparr>pendingApprovals := kept\<rparr>)"
    using assms told_located [OF assms] by (cases "kept = pendingApprovals c") simp_all
  then show ?thesis unfolding on_approval_result_def Let_def kept_def by simp
qed

lemma told_message [simp]: "told v p c \<Longrightarrow> told v p (handleMessage e u c)"
  unfolding handleMessage_def Let_def by simp

lemma told_others [simp]:
  assumes "told v p c"
  shows "told v p (handleHistory e r t b ms q c)" "told v p (handleAttachmentEvent e t a k s c)" "told v p (openPrivateChat e nm t c)"
    "told v p (sendRoomMessage e uuid s r c)" "told v p (sendPrivateMessage e uuid s t c)" "told v p (removeLocalMessage k c)"
    "told v p (snd (recallMessage e i k c))" "told v p (snd (retryMessage i c))"
  using assms
  by (auto simp: handleHistory_def handleAttachmentEvent_def openPrivateChat_def sendRoomMessage_def sendPrivateMessage_def
      removeLocalMessage_def recallMessage_def retryMessage_def Let_def split: option.splits prod.splits qjson.splits)

lemma run_event_told: "told v p c \<Longrightarrow> told v p (run_event e ev c)"
  by (cases ev)
    (simp_all add: connectToServerWithTlsName_def ctl_connectToLocalHost_def ctl_createRoom_def copyText_def chooseAndUploadAttachment_def
      ctl_sendAttachmentDownload_def handleReconnectScheduled_def handleReconnectAttempt_def handleReconnectFailed_def
      message_delivery_failed_def)


text \<open>Only a message of the server answers a recall.\<close>

lemma quiet_others [simp]:
  assumes "quiet c"
  shows "quiet (handleConnected b c)" "quiet (ctl_disconnectFromServer c)" "quiet (handleConnectionFailed e t c)"
    "quiet (handleConnectionLost t c)" "quiet (handleHistory e r t b ms q c)" "quiet (handleAttachmentEvent e t a k s c)"
    "quiet (openPrivateChat e nm t c)" "quiet (sendRoomMessage e uuid s r c)" "quiet (sendPrivateMessage e uuid s t c)"
    "quiet (removeLocalMessage k c)" "quiet (snd (recallMessage e i k c))" "quiet (snd (retryMessage i c))"
  using assms
  by (auto simp: handleConnected_def ctl_disconnectFromServer_def handleConnectionFailed_def handleConnectionLost_def
      handleHistory_def handleAttachmentEvent_def openPrivateChat_def sendRoomMessage_def sendPrivateMessage_def
      removeLocalMessage_def recallMessage_def retryMessage_def Let_def split: option.splits prod.splits qjson.splits)

fun from_server :: "ctl_event \<Rightarrow> bool" where
  "from_server (MessageEvent u) = True"
| "from_server ev = False"

lemma run_event_quiet: "quiet c \<Longrightarrow> \<not> from_server ev \<Longrightarrow> quiet (run_event e ev c)"
  by (cases ev)
    (simp_all add: connectToServerWithTlsName_def ctl_connectToLocalHost_def ctl_createRoom_def copyText_def chooseAndUploadAttachment_def
      ctl_sendAttachmentDownload_def handleReconnectScheduled_def handleReconnectAttempt_def handleReconnectFailed_def
      message_delivery_failed_def)

section \<open>A model that sends no signal has not changed\<close>

lemma serializeModel_shown:
  assumes "shown (rows m) = shown (rows m')" "roles m = roles m'"
  shows "serializeModel m = serializeModel m'"
proof -
  have len: "length (rows m) = length (rows m')" using assms(1) by (metis shown_simps(4))
  have "value_of (rows m ! i) = value_of (rows m' ! i)" if "i < length (rows m)" for i
    using that assms(1) len by (metis nth_map shown_def)
  then have "model_data m True (int row) role = model_data m' True (int row) role" for row role
    by (simp add: model_data_def len assms(2) split: option.splits)
  then show ?thesis by (simp add: serializeModel_def rowCount_def len assms(2))
qed

lemma unsignalled_op: "run_op op m = (m', []) \<Longrightarrow> serializeModel m' = serializeModel m"
  using run_op_shown [of op m m' "[]"] run_op_roles [of op m] by (intro serializeModel_shown) simp_all


section \<open>The invariant of the bridge\<close>

text \<open>The state built from the models themselves, with nothing cached.\<close>

definition fresh_state :: "bridge_env \<Rightarrow> bridge \<Rightarrow> qobject" where
  "fresh_state e b = state_object e (\<lambda>r. model_rows r (br_controller b)) b"

definition shown_models :: "controller \<Rightarrow> model_ref set" where
  "shown_models c = {RoomList, DirectList, MemberList, Conversation (messageModel c)}"

definition bridge_core :: "nat \<Rightarrow> bridge \<Rightarrow> bool" where
  "bridge_core n b \<longleftrightarrow> ctl_inv n (br_controller b) \<and> shown_models (br_controller b) \<subseteq> br_connected b \<and> br_dirty b \<subseteq> br_connected b \<and>
     (\<forall>r \<in> br_connected b. model_at r (br_controller b) \<noteq> None) \<and>
     (\<forall>r \<in> br_connected b - br_dirty b. br_serialized b r = Some (model_rows r (br_controller b)))"

text \<open>Up to the list of discovered hosts, see \<open>Lan_Discovery.host_changed\<close>.\<close>

definition up_to_date :: "bridge_env \<Rightarrow> bridge \<Rightarrow> bool" where
  "up_to_date e b \<longleftrightarrow>
     (\<exists>de d fs. br_latest b = safeState (fresh_state (e\<lparr>be_disc := de\<rparr>) (b\<lparr>br_discovery := d, br_files := fs\<rparr>)))"

definition bridge_inv :: "bridge_env \<Rightarrow> nat \<Rightarrow> bridge \<Rightarrow> bool" where
  "bridge_inv e n b \<longleftrightarrow> bridge_core n b \<and> (br_timer b \<or> br_dirty b = {} \<and> up_to_date e b)"

lemma state_object_cong:
  assumes "\<And>r. r \<in> shown_models (br_controller b) \<Longrightarrow> s r = s' r"
    and "ctl_view (br_controller b) = ctl_view (br_controller b')" "messageModel (br_controller b) = messageModel (br_controller b')"
    and "br_lastError b = br_lastError b'" "br_profile b = br_profile b'" "br_graphics b = br_graphics b'"
      "di_setting (br_diagnostics b) = di_setting (br_diagnostics b')" "br_hostDefaults b = br_hostDefaults b'"
      "br_discovery b = br_discovery b'" "br_files b = br_files b'"
  shows "state_object e s b = state_object e s' b'"
proof -
  let ?c = "br_controller b" and ?d = "br_controller b'"
  have "connection_object ?c le = connection_object ?d le" "buildActiveConversation ?c = buildActiveConversation ?d" for le
    using assms(2) by (simp_all add: ctl_view_def Let_def connection_object_def connection_phase_def buildActiveConversation_def)
  moreover have "saved_object (be_ctl e) ?c = saved_object (be_ctl e) ?d"
    using assms(2) by (simp add: ctl_view_def saved_object_def savedServerIp_def savedServerPort_def savedUsername_def savedUserCode_def
        savedCaFile_def saved_text_def Let_def)
  moreover have "diagnostics_enabled (be_diag e) (br_diagnostics b) = diagnostics_enabled (be_diag e) (br_diagnostics b')"
    by (simp only: diagnostics_enabled_def assms(7))
  ultimately show ?thesis
    using assms(2) by (simp add: state_object_def Let_def assms(1,3-) shown_models_def) (simp add: ctl_view_def)
qed

lemma core_frame [simp]:
  "bridge_core n (br_emit s b) = bridge_core n b" "bridge_core n (answer i ok err b) = bridge_core n b"
  "bridge_core n (scheduleStateUpdate b) = bridge_core n b" "bridge_core n (b\<lparr>br_files := fs\<rparr>) = bridge_core n b"
  "bridge_core n (b\<lparr>br_discovery := d\<rparr>) = bridge_core n b" "bridge_core n (b\<lparr>br_profile := p\<rparr>) = bridge_core n b"
  "bridge_core n (b\<lparr>br_graphics := g\<rparr>) = bridge_core n b" "bridge_core n (b\<lparr>br_diagnostics := di\<rparr>) = bridge_core n b"
  "bridge_core n (b\<lparr>br_recalls := rs\<rparr>) = bridge_core n b" "bridge_core n (b\<lparr>br_lastError := err\<rparr>) = bridge_core n b"
  "bridge_core n (b\<lparr>br_hostDefaults := ho\<rparr>) = bridge_core n b" "bridge_core n (b\<lparr>br_timer := t\<rparr>) = bridge_core n b"
  by (simp_all add: bridge_core_def br_emit_def answer_def scheduleStateUpdate_def)

lemma timer_fields [simp]: "br_timer (scheduleStateUpdate b)" "br_timer (br_emit s b) = br_timer b" "br_timer (answer i ok err b) = br_timer b"
  by (simp_all add: scheduleStateUpdate_def br_emit_def answer_def)

lemma inv_scheduled [simp]: "bridge_inv e n (scheduleStateUpdate b) = bridge_core n b"
  by (simp add: bridge_inv_def)

lemma inv_core: "bridge_inv e n b \<Longrightarrow> bridge_core n b"
  by (simp add: bridge_inv_def)

lemma inv_frame [simp]:
  "bridge_inv e n (br_emit s b) = bridge_inv e n b" "bridge_inv e n (answer i ok err b) = bridge_inv e n b"
  "bridge_inv e n (b\<lparr>br_recalls := rs\<rparr>) = bridge_inv e n b"
  by (simp_all add: bridge_inv_def up_to_date_def fresh_state_def state_object_def br_emit_def answer_def bridge_core_def)

lemma inv_discovery [simp]: "bridge_inv e n (b\<lparr>br_discovery := d\<rparr>) = bridge_inv e n b"
  by (simp add: bridge_inv_def up_to_date_def)

section \<open>Handling signals\<close>

text \<open>What handling signals does to the caches: more models are connected, all of them dirty; unless an update is scheduled, nothing changes.\<close>

definition same_parts :: "bridge \<Rightarrow> bridge \<Rightarrow> bool" where
  "same_parts b b' \<longleftrightarrow> br_controller b' = br_controller b \<and> br_profile b' = br_profile b \<and> br_graphics b' = br_graphics b \<and>
     br_discovery b' = br_discovery b \<and> br_diagnostics b' = br_diagnostics b \<and> br_files b' = br_files b \<and>
     br_latest b' = br_latest b \<and> br_hostDefaults b' = br_hostDefaults b \<and> br_serialized b' = br_serialized b"

definition follows :: "bridge \<Rightarrow> bridge \<Rightarrow> bool" where
  "follows b b' \<longleftrightarrow> same_parts b b' \<and> br_connected b \<subseteq> br_connected b' \<and> br_dirty b \<subseteq> br_dirty b' \<and>
     br_connected b' - br_connected b \<subseteq> br_dirty b' \<inter> {Conversation (messageModel (br_controller b))} \<and>
     br_dirty b' \<subseteq> br_dirty b \<union> br_connected b' \<and> (br_timer b \<longrightarrow> br_timer b') \<and>
     (\<not> br_timer b' \<longrightarrow> br_dirty b' = br_dirty b \<and> br_lastError b' = br_lastError b)"

lemma follows_refl: "follows b b"
  by (simp add: follows_def same_parts_def)

lemma same_parts_trans: "same_parts b b' \<Longrightarrow> same_parts b' b'' \<Longrightarrow> same_parts b b''"
  by (simp add: same_parts_def)

lemma followsD:
  assumes "follows b b'"
  shows "same_parts b b'" "br_connected b \<subseteq> br_connected b'" "br_dirty b \<subseteq> br_dirty b'"
    "br_connected b' - br_connected b \<subseteq> br_dirty b' \<inter> {Conversation (messageModel (br_controller b))}"
    "br_dirty b' \<subseteq> br_dirty b \<union> br_connected b'" "br_timer b \<longrightarrow> br_timer b'"
    "\<not> br_timer b' \<longrightarrow> br_dirty b' = br_dirty b \<and> br_lastError b' = br_lastError b" "br_controller b' = br_controller b"
  using assms by (auto simp only: follows_def same_parts_def)

lemma follows_trans:
  assumes "follows b b'" "follows b' b''"
  shows "follows b b''"
proof -
  note f = followsD [OF assms(1)] and g = followsD [OF assms(2), unfolded followsD(8) [OF assms(1)]]
  show ?thesis
    unfolding follows_def
  proof (intro conjI)
    show "same_parts b b''" by (rule same_parts_trans [OF f(1) g(1)])
    show "br_connected b'' - br_connected b \<subseteq> br_dirty b'' \<inter> {Conversation (messageModel (br_controller b))}"
      using f(4) g(3,4) by blast
    show "br_dirty b'' \<subseteq> br_dirty b \<union> br_connected b''" using f(5) g(2,5) by blast
    show "br_timer b \<longrightarrow> br_timer b''" "\<not> br_timer b'' \<longrightarrow> br_dirty b'' = br_dirty b \<and> br_lastError b'' = br_lastError b"
      using f(6,7) g(6,7) by auto
  qed (use f(2,3) g(2,3) in auto)
qed

lemma follows_signal: "follows b (on_signal s b)"
  by (cases s) (auto simp: follows_def same_parts_def scheduleStateUpdate_def connectModel_def markModelDirty_def handleConnectionError_def
      br_emit_def answer_def completeRecallCommand_def Let_def split: option.splits)

lemma follows_signals: "follows b (fold on_signal sigs b)"
  by (induction sigs arbitrary: b) (auto intro: follows_refl follows_trans follows_signal)

lemma signal_schedules: "schedules s \<Longrightarrow> br_timer (on_signal s b)"
  by (cases s) (auto simp: handleConnectionError_def Let_def)

lemma signals_schedule:
  assumes "s \<in> set sigs" "schedules s"
  shows "br_timer (fold on_signal sigs b)"
proof -
  obtain xs ys where "sigs = xs @ s # ys" using assms(1) by (meson split_list)
  moreover have "br_timer (fold on_signal ys (on_signal s b'))" for b'
    using signal_schedules [OF assms(2), of b'] follows_signals [of "on_signal s b'" ys] by (simp add: follows_def)
  ultimately show ?thesis by simp
qed

lemma signals_connect:
  assumes "ActiveMessageModelChanged \<in> set sigs"
  shows "Conversation (messageModel (br_controller b)) \<in> br_connected (fold on_signal sigs b)"
proof -
  obtain xs ys where sigs: "sigs = xs @ ActiveMessageModelChanged # ys" using assms by (meson split_list)
  define b1 where "b1 = fold on_signal xs b"
  define b2 where "b2 = on_signal ActiveMessageModelChanged b1"
  have "br_controller b1 = br_controller b" using follows_signals [of b xs] by (simp add: b1_def follows_def same_parts_def)
  then have "Conversation (messageModel (br_controller b)) \<in> br_connected b2"
    by (simp add: b2_def scheduleStateUpdate_def connectModel_def markModelDirty_def Let_def)
  with follows_signals [of b2 ys] show ?thesis by (auto simp: sigs b1_def b2_def follows_def)
qed


section \<open>Calls of the controller\<close>

text \<open>The models after a call, before its signals are handled.\<close>

definition models_after :: "model_ref set \<Rightarrow> controller \<Rightarrow> bridge \<Rightarrow> bridge" where
  "models_after extra d b = mark_changed extra (br_controller b) (forget (destroyed (br_controller b) d) (b\<lparr>br_controller := d\<rparr>))"

lemma with_controller_signals:
  "with_controller extra f b =
     (let d = f ((br_controller b)\<lparr>emitted := []\<rparr>) in fold on_signal (emitted d) (models_after extra (d\<lparr>emitted := []\<rparr>) b))"
  by (simp add: with_controller_def models_after_def destroyed_def Let_def)

lemma models_after_fields [simp]:
  "br_controller (models_after extra d b) = d" "br_latest (models_after extra d b) = br_latest b"
  "br_profile (models_after extra d b) = br_profile b" "br_graphics (models_after extra d b) = br_graphics b"
  "br_diagnostics (models_after extra d b) = br_diagnostics b" "br_hostDefaults (models_after extra d b) = br_hostDefaults b"
  "br_lastError (models_after extra d b) = br_lastError b" "br_recalls (models_after extra d b) = br_recalls b"
  "br_out (models_after extra d b) = br_out b"
  "br_connected (models_after extra d b) = br_connected b - destroyed (br_controller b) d"
  "br_serialized (models_after extra d b) = br_serialized b |` (- destroyed (br_controller b) d)"
  by (simp_all add: models_after_def mark_changed_def forget_def scheduleStateUpdate_def Let_def)

lemma models_after_timer: "\<not> br_timer (models_after extra d b) \<Longrightarrow> \<not> br_timer b"
  by (auto simp: models_after_def mark_changed_def forget_def scheduleStateUpdate_def Let_def split: if_splits)

lemma models_after_dirty:
  "br_dirty (models_after extra d b) = (br_dirty b - destroyed (br_controller b) d) \<union>
     {r \<in> br_connected (models_after extra d b). r \<in> extra \<or> model_rows r (br_controller b) \<noteq> model_rows r d}"
  by (auto simp: models_after_def mark_changed_def forget_def scheduleStateUpdate_def Let_def)

lemma unmarked:
  assumes "\<not> br_timer (models_after extra d b)" "r \<in> br_connected (models_after extra d b)"
  shows "model_rows r (br_controller b) = model_rows r d"
  using assms by (auto simp: models_after_def mark_changed_def forget_def scheduleStateUpdate_def Let_def split: if_splits)

lemma alive_after:
  assumes "bridge_core n b" "r \<in> br_connected (models_after extra d b)"
  shows "model_at r d \<noteq> None"
  using assms by (cases r) (auto simp: bridge_core_def destroyed_def)

lemma cached_after:
  assumes "bridge_core n b" "r \<in> br_connected (models_after extra d b) - br_dirty (models_after extra d b)"
  shows "br_serialized (models_after extra d b) r = Some (model_rows r d)"
  using assms by (auto simp: bridge_core_def models_after_dirty)

lemma shown_alive:
  assumes "ctl_inv m d"
  shows "heap d (messageModel d) \<noteq> None"
proof -
  have "map_of (conversationModels d) (activeConversationKey d) = Some (messageModel d)" "dom (heap d) = snd ` set (conversationModels d)"
    using assms by (simp_all add: ctl_inv_def shows_active_def models_ok_def)
  then show ?thesis by (force dest: map_of_SomeD)
qed

lemma shown_after:
  assumes "bridge_core n b" "ctl_inv m d" "messageModel d = messageModel (br_controller b)"
  shows "shown_models d \<subseteq> br_connected (models_after extra d b)"
  using assms(1,3) shown_alive [OF assms(2)] by (auto simp: bridge_core_def shown_models_def destroyed_def)


lemma clear_emitted [simp]: "ctl_inv n (c\<lparr>emitted := s\<rparr>) = ctl_inv n c" "ctl_view (c\<lparr>emitted := s\<rparr>) = ctl_view c"
  "model_rows r (c\<lparr>emitted := s\<rparr>) = model_rows r c" "told (ctl_view c) (messageModel c) (c\<lparr>emitted := []\<rparr>)" "quiet (c\<lparr>emitted := []\<rparr>)"
  by (simp_all add: ctl_inv_def models_ok_def cache_ok_def shows_active_def ctl_view_def told_def seen_def located_def quiet_def)
    (cases r; simp add: model_rows_def)

lemma signals_core:
  assumes core: "bridge_core n b" and d: "ctl_inv m d"
    and moved: "messageModel d = messageModel (br_controller b) \<or> ActiveMessageModelChanged \<in> set sigs"
  shows "bridge_core m (fold on_signal sigs (models_after extra d b))"
proof -
  define b1 where "b1 = models_after extra d b"
  define b2 where "b2 = fold on_signal sigs b1"
  note f = followsD [OF follows_signals [of b1 sigs], folded b2_def]
  have c: "br_controller b2 = d" "br_controller b1 = d" using f(8) by (simp_all add: b1_def)
  have shown: "shown_models d \<subseteq> br_connected b2"
  proof (cases "messageModel d = messageModel (br_controller b)")
    case True
    with shown_after [OF core d] f(2) show ?thesis by (auto simp: b1_def)
  next
    case False
    with moved signals_connect [of sigs b1] have "Conversation (messageModel d) \<in> br_connected b2" by (simp add: b2_def c)
    moreover have "{RoomList, DirectList, MemberList} \<subseteq> br_connected b1"
      using core by (auto simp: b1_def bridge_core_def shown_models_def destroyed_def)
    ultimately show ?thesis using f(2) by (auto simp: shown_models_def)
  qed
  from shown_alive [OF d] have alive: "model_at r d \<noteq> None" if "r \<in> br_connected b2" for r
    using that f(4) alive_after [OF core, of r extra d, folded b1_def] by (cases "r \<in> br_connected b1") (auto simp: c)
  have cached: "br_serialized b2 r = Some (model_rows r d)" if "r \<in> br_connected b2 - br_dirty b2" for r
  proof -
    have "r \<in> br_connected b1 - br_dirty b1" using that f(3,4) by blast
    from cached_after [OF core, of r extra d, folded b1_def, OF this] f(1) show ?thesis by (simp add: same_parts_def)
  qed
  have "br_dirty b1 \<subseteq> br_connected b1" using core by (auto simp: b1_def models_after_dirty bridge_core_def)
  with f(2,5) have "br_dirty b2 \<subseteq> br_connected b2" by blast
  with d shown alive cached show ?thesis unfolding b1_def [symmetric] b2_def [symmetric] bridge_core_def c by blast
qed

lemma signals_current:
  assumes inv: "bridge_inv e n b" and told: "told (ctl_view (br_controller b)) (messageModel (br_controller b)) d0"
    and d: "ctl_inv m d0" and quiet_timer: "\<not> br_timer b2"
    and b2: "b2 = fold on_signal (emitted d0) (models_after extra (d0\<lparr>emitted := []\<rparr>) b)"
  shows "br_dirty b2 = {} \<and> up_to_date e b2"
proof -
  define b1 where "b1 = models_after extra (d0\<lparr>emitted := []\<rparr>) b"
  note f = followsD [OF follows_signals [of b1 "emitted d0"], unfolded b1_def, folded b2, folded b1_def]
  from f(6) quiet_timer have t1: "\<not> br_timer b1" by blast
  then have "\<not> br_timer b" unfolding b1_def by (rule models_after_timer)
  with inv have b: "br_dirty b = {}" "up_to_date e b" and core: "bridge_core n b" by (auto simp: bridge_inv_def)
  have "\<not> schedules s" if "s \<in> set (emitted d0)" for s
    using signals_schedule [OF that] quiet_timer unfolding b2 by blast
  moreover from this have "ActiveMessageModelChanged \<notin> set (emitted d0)" by fastforce
  ultimately have same: "ctl_view d0 = ctl_view (br_controller b)" "messageModel d0 = messageModel (br_controller b)"
    using told by (auto simp: told_def seen_def located_def)
  have unm: "model_rows r (br_controller b) = model_rows r d0" if "r \<in> br_connected b1" for r
    using unmarked [OF t1 [unfolded b1_def] that [unfolded b1_def]] by simp
  have "shown_models d0 \<subseteq> br_connected b1"
    using shown_after [OF core, of m "d0\<lparr>emitted := []\<rparr>" extra] d same(2) by (simp add: b1_def shown_models_def)
  with unm have rows: "model_rows r (br_controller b) = model_rows r d0" if "r \<in> shown_models d0" for r using that by blast
  have "br_controller b2 = d0\<lparr>emitted := []\<rparr>" using f(8) by (simp add: b1_def)
  moreover have "br_lastError b2 = br_lastError b" using f(7) quiet_timer by (simp add: b1_def)
  ultimately have fresh: "fresh_state e' (b2\<lparr>br_discovery := x, br_files := fs\<rparr>) = fresh_state e' (b\<lparr>br_discovery := x, br_files := fs\<rparr>)" for e' x fs
    unfolding fresh_state_def using rows same f(1)
    by (intro state_object_cong) (simp_all add: shown_models_def same_parts_def b1_def)
  have "br_latest b2 = br_latest b" using f(1) by (simp add: same_parts_def b1_def)
  with b(2) have "up_to_date e b2" unfolding up_to_date_def fresh by simp
  moreover have "br_dirty b2 = {}"
  proof -
    have "br_dirty b1 = {}" using t1 b(1) unfolding b1_def
      by (auto simp: models_after_def mark_changed_def forget_def scheduleStateUpdate_def Let_def split: if_splits)
    with f(7) quiet_timer show ?thesis by blast
  qed
  ultimately show ?thesis by blast
qed

lemma call_controller_inv:
  assumes "bridge_inv e n b"
  shows "bridge_inv e (Suc n) (call_controller e' extra ev b)"
proof -
  define d where "d = run_event (be_ctl e') ev ((br_controller b)\<lparr>emitted := []\<rparr>)"
  define b2 where "b2 = fold on_signal (emitted d) (models_after extra (d\<lparr>emitted := []\<rparr>) b)"
  have inv: "ctl_inv (Suc n) d" using inv_core [OF assms] by (simp add: d_def bridge_core_def run_event_inv)
  have told: "told (ctl_view (br_controller b)) (messageModel (br_controller b)) d"
    unfolding d_def by (rule run_event_told) simp
  then have "messageModel (d\<lparr>emitted := []\<rparr>) = messageModel (br_controller b) \<or> ActiveMessageModelChanged \<in> set (emitted d)"
    by (simp add: told_def located_def)
  with inv have "bridge_core (Suc n) b2" unfolding b2_def by (intro signals_core [OF inv_core [OF assms]]) simp_all
  moreover have "br_timer b2 \<or> br_dirty b2 = {} \<and> up_to_date e b2"
    using signals_current [OF assms told inv _ b2_def] by blast
  ultimately show ?thesis
    by (simp add: bridge_inv_def call_controller_def with_controller_signals Let_def d_def [symmetric] b2_def [symmetric])
qed


section \<open>Rebuilding\<close>

text \<open>Two environments in which the state reads the same: same text functions, same files, same settings of the diagnostics.\<close>

definition same_machine :: "bridge_env \<Rightarrow> bridge_env \<Rightarrow> bool" where
  "same_machine e e' \<longleftrightarrow> qt (be_ctl e) = qt (be_ctl e') \<and> file_exists (be_ctl e) = file_exists (be_ctl e') \<and>
     absolute_path (be_ctl e) = absolute_path (be_ctl e') \<and> dg_text (be_diag e) = dg_text (be_diag e') \<and>
     dg_variable (be_diag e) = dg_variable (be_diag e') \<and> dg_clean (be_diag e) = dg_clean (be_diag e') \<and>
     dg_directory_variable (be_diag e) = dg_directory_variable (be_diag e') \<and> dg_data_dir (be_diag e) = dg_data_dir (be_diag e')"

lemma state_object_machine:
  assumes "same_machine e e'"
  shows "state_object e' s b = state_object (e\<lparr>be_disc := be_disc e'\<rparr>) s b"
proof -
  have "saved_object (be_ctl e') c = saved_object (be_ctl e) c" for c
    using assms by (simp add: same_machine_def saved_object_def savedServerIp_def savedUsername_def savedUserCode_def
        savedCaFile_def saved_text_def Let_def)
  moreover have "environmentOverride (be_diag e') = environmentOverride (be_diag e)"
    using assms by (simp add: same_machine_def environmentOverride_def)
  moreover have "diagnosticDirectory (be_diag e') = diagnosticDirectory (be_diag e)"
    using assms by (simp add: same_machine_def diagnosticDirectory_def)
  ultimately show ?thesis by (simp add: state_object_def diagnostics_enabled_def)
qed

lemma rebuild_parts:
  "br_controller (rebuildStateSnapshot e b) = br_controller b" "br_connected (rebuildStateSnapshot e b) = br_connected b"
  "br_dirty (rebuildStateSnapshot e b) = {}" "br_timer (rebuildStateSnapshot e b) = br_timer b" "br_out (rebuildStateSnapshot e b) = br_out b"
  "br_serialized (rebuildStateSnapshot e b) = (\<lambda>r. if r \<in> br_dirty b then Some (model_rows r (br_controller b)) else br_serialized b r)"
  by (simp_all add: rebuildStateSnapshot_def buildState_def Let_def)

text \<open>The cache is as good as serializing every model.\<close>

lemma rebuild_latest:
  assumes "bridge_core n b"
  shows "br_latest (rebuildStateSnapshot e b) = safeState (fresh_state e b)"
proof -
  define ser where "ser = (\<lambda>r. if r \<in> br_dirty b then Some (model_rows r (br_controller b)) else br_serialized b r)"
  have "(case ser r of None \<Rightarrow> [] | Some items \<Rightarrow> items) = model_rows r (br_controller b)" if "r \<in> shown_models (br_controller b)" for r
    using that assms by (auto simp: ser_def bridge_core_def)
  then have "state_object e (\<lambda>r. case ser r of None \<Rightarrow> [] | Some items \<Rightarrow> items) (b\<lparr>br_lastCount := k, br_serialized := ser, br_dirty := {}\<rparr>) =
      fresh_state e b" for k
    unfolding fresh_state_def by (intro state_object_cong) simp_all
  then show ?thesis by (simp add: rebuildStateSnapshot_def buildState_def Let_def ser_def)
qed

lemma fresh_rebuild: "fresh_state e (rebuildStateSnapshot e' b) = fresh_state e b"
  unfolding fresh_state_def rebuild_parts
  by (intro state_object_cong) (simp_all add: rebuildStateSnapshot_def buildState_def Let_def)

lemma rebuild_inv:
  assumes core: "bridge_core n b" and "same_machine e e'"
  shows "bridge_inv e n (rebuildStateSnapshot e' b)"
proof -
  define b1 where "b1 = rebuildStateSnapshot e' b"
  have "br_latest b1 = safeState (fresh_state (e\<lparr>be_disc := be_disc e'\<rparr>) b1)"
    unfolding b1_def rebuild_latest [OF core] fresh_rebuild by (simp add: fresh_state_def state_object_machine [OF assms(2)])
  then have "up_to_date e b1"
    unfolding up_to_date_def by (intro exI [of _ "be_disc e'"] exI [of _ "br_discovery b1"] exI [of _ "br_files b1"]) simp
  moreover have "bridge_core n b1" using core by (auto simp: b1_def bridge_core_def rebuild_parts)
  ultimately show ?thesis unfolding b1_def [symmetric] bridge_inv_def by (simp add: b1_def rebuild_parts)
qed

lemma publish_inv: "bridge_inv e n b \<Longrightarrow> same_machine e e' \<Longrightarrow> bridge_inv e n (publishState e' b)"
  using rebuild_inv [of n "b\<lparr>br_timer := False\<rparr>" e e'] by (simp add: publishState_def Let_def inv_core)

lemma new_bridge_inv:
  assumes "same_machine e e'" and c: "ctl_inv n c"
  shows "bridge_inv e n (new_bridge e' c p g di fs)"
proof -
  have "heap c (messageModel c) \<noteq> None" by (rule shown_alive [OF c])
  with c show ?thesis unfolding new_bridge_def Let_def
    by (intro rebuild_inv [OF _ assms(1)])
      (auto simp: bridge_core_def shown_models_def connectModel_def markModelDirty_def Let_def)
qed


section \<open>Every event\<close>

lemma core_mono: "bridge_core n b \<Longrightarrow> bridge_core (Suc n) b"
  using inv_mono [of n "br_controller b"] by (auto simp: bridge_core_def)

lemma bridge_mono: "bridge_inv e n b \<Longrightarrow> bridge_inv e (Suc n) b"
  using core_mono [of n b] by (simp add: bridge_inv_def)

lemma core_succeed [simp]: "bridge_inv e n (succeed i b) = bridge_core n b"
  by (simp add: succeed_def)

lemma core_profile [simp]: "bridge_core n (with_profile f b) = bridge_core n b"
  by (simp add: with_profile_def Let_def split: option.split)

lemma core_frames [simp]: "bridge_core n (fold (\<lambda>v. with_profile (g v)) vs b) = bridge_core n b"
  by (induction vs arbitrary: b) simp_all

lemma with_discovery_inv: "bridge_inv e n b \<Longrightarrow> bridge_inv e n (with_discovery f b)"
  by (auto simp: with_discovery_def Let_def intro: inv_core)

lemma diagnostics_inv:
  assumes "bridge_inv e n b" "di_setting di = di_setting (br_diagnostics b)"
  shows "bridge_inv e n (b\<lparr>br_diagnostics := di\<rparr>)"
proof -
  have "fresh_state e' (b\<lparr>br_diagnostics := di, br_discovery := d, br_files := fs\<rparr>) = fresh_state e' (b\<lparr>br_discovery := d, br_files := fs\<rparr>)" for e' d fs
    unfolding fresh_state_def using assms(2) by (intro state_object_cong) simp_all
  then show ?thesis using assms(1) by (simp add: bridge_inv_def up_to_date_def)
qed

lemma frontend_error_inv: "bridge_inv e n b \<Longrightarrow> bridge_inv e n (frontend_error e' i p b)"
  by (simp add: frontend_error_def, intro diagnostics_inv) (simp_all add: writeConnectionEvent_def Let_def)

lemma core_call: "bridge_inv e n b \<Longrightarrow> bridge_core (Suc n) (call_controller e' extra ev b)"
  by (rule inv_core [OF call_controller_inv])

lemma files_inv: "bridge_inv e n b \<Longrightarrow> bridge_inv e n (b\<lparr>br_files := fs\<rparr>)"
  by (auto simp: bridge_inv_def up_to_date_def)

lemma discover_inv: "bridge_inv e n b \<Longrightarrow> bridge_inv e n (discover_hosts e' i b)"
  using inv_core [OF with_discovery_inv] by (simp add: discover_hosts_def Let_def split: sum.split)

lemma connect_discovered_inv: "bridge_inv e n b \<Longrightarrow> bridge_inv e (Suc n) (connect_discovered e' extra i p b)"
  using core_mono [OF inv_core [of e n b]] core_call [OF files_inv [of e n b]]
  by (simp add: connect_discovered_def split: sum.split prod.split)

lemma recall_inv: "bridge_inv e n b \<Longrightarrow> bridge_inv e (Suc n) (recall_command e' extra i p b)"
  using call_controller_inv [of e n "b\<lparr>br_recalls := rs\<rparr>" e' extra for rs] core_call [of e n "b\<lparr>br_recalls := rs\<rparr>" e' extra for rs]
  by (simp add: recall_command_def Let_def)

lemma set_mode_inv: "bridge_inv e n b \<Longrightarrow> bridge_inv e n (set_mode_command q i p b)"
  by (simp add: set_mode_command_def inv_core)

lemma report_inv: "bridge_inv e n b \<Longrightarrow> bridge_inv e n (report_frames p b)"
  by (simp add: report_frames_def Let_def inv_core)

lemma other_commands_inv:
  assumes "map_of (other_commands e' extra) type = Some run" "bridge_inv e n b"
  shows "bridge_inv e (Suc n) (run i p b)"
proof -
  have "run \<in> {\<lambda>i p. discover_hosts e' i, connect_discovered e' extra, recall_command e' extra, set_mode_command (qt (be_ctl e')),
      \<lambda>i p b. succeed i (scheduleStateUpdate (b\<lparr>br_diagnostics := setEnabled (to_qbool (member p ''enabled'')) (br_diagnostics b)\<rparr>)),
      frontend_error e', \<lambda>i. report_frames}"
    using map_of_SomeD [OF assms(1)] by (auto simp: other_commands_def)
  then show ?thesis
    using assms(2) core_mono [OF inv_core [OF assms(2)]]
    by (auto intro: bridge_mono discover_inv connect_discovered_inv recall_inv set_mode_inv frontend_error_inv report_inv)
qed

lemma run_command_inv: "bridge_inv e n b \<Longrightarrow> bridge_inv e (Suc n) (run_command e' extra type i p b)"
  using core_mono [OF inv_core [of e n b]]
  by (auto simp: run_command_def core_call call_controller_inv other_commands_inv split: option.split)

lemma dispatch_inv: "bridge_inv e n b \<Longrightarrow> bridge_inv e (Suc n) (dispatch e' extra text b)"
  using bridge_mono [of e n b]
  by (simp add: dispatch_def emitInvalidCommand_def Let_def run_command_inv split: option.split qjson.split sum.split)


section \<open>Runs\<close>

text \<open>Everything that happens to the bridge: commands of the page, its timer, and the signals of the parts.\<close>

datatype bridge_event =
    PageCommand string
  | PublishTimer
  | ControllerCall ctl_event
  | MlsResult string bool string string
  | AttachmentSignal attachment_signal
  | Datagrams "(string \<times> string \<times> bool) list"
  | ExpireHosts
  | ScanEnds
  | GraphicsRefresh "(rat \<times> rat \<times> string) option"
  | HostDefaults string string string string bool string

fun run_bridge :: "bridge_env \<Rightarrow> model_ref set \<Rightarrow> bridge_event \<Rightarrow> bridge \<Rightarrow> bridge" where
  "run_bridge e extra (PageCommand t) b = dispatch e extra t b"
| "run_bridge e extra PublishTimer b = publishState e b"
| "run_bridge e extra (ControllerCall ev) b = call_controller e extra ev b"
| "run_bridge e extra (MlsResult i ok code msg) b = on_mls_result i ok code msg b"
| "run_bridge e extra (AttachmentSignal a) b = on_attachment_event e a b"
| "run_bridge e extra (Datagrams ds) b = with_discovery (readPendingDatagrams (be_disc e) ds) b"
| "run_bridge e extra ExpireHosts b = with_discovery (expireStaleHosts (be_disc e)) b"
| "run_bridge e extra ScanEnds b = with_discovery finishScan b"
| "run_bridge e extra (GraphicsRefresh screen) b = graphics_refreshed screen b"
| "run_bridge e extra (HostDefaults exe cert key db ok why) b = setHostDefaults e exe cert key db ok why b"

lemma run_bridge_inv:
  assumes "bridge_inv e n b" "same_machine e e'"
  shows "bridge_inv e (Suc n) (run_bridge e' extra ev b)"
proof (cases ev)
  case (GraphicsRefresh screen)
  with assms core_mono [OF inv_core [OF assms(1)]] show ?thesis
    by (simp add: graphics_refreshed_def Let_def bridge_mono split: option.split)
next
  case (HostDefaults exe cert key db ok why)
  with assms core_mono [OF inv_core [OF assms(1)]] show ?thesis by (simp add: setHostDefaults_def rebuild_inv)
qed (use assms in \<open>simp_all add: dispatch_inv publish_inv bridge_mono call_controller_inv with_discovery_inv on_mls_result_def
  on_attachment_event_def\<close>)

text \<open>A run: each event with the environment in which it happens and the models that signal without a change.\<close>

definition run_page :: "(bridge_env \<times> model_ref set \<times> bridge_event) list \<Rightarrow> bridge \<Rightarrow> bridge" where
  "run_page evs b = fold (\<lambda>(e, extra, ev). run_bridge e extra ev) evs b"

text \<open>What the bridge publishes next is the state as it is, although only the changed models are serialized again.\<close>

lemma publish_fresh:
  assumes "bridge_inv e n b" "br_timer b"
  shows "br_out (publishState e b) = br_out b @ [StateChanged (safeState (fresh_state e b))]"
proof -
  have "br_latest (rebuildStateSnapshot e (b\<lparr>br_timer := False\<rparr>)) = safeState (fresh_state e b)"
    using rebuild_latest [of n "b\<lparr>br_timer := False\<rparr>" e] inv_core [OF assms(1)] by (simp add: fresh_state_def state_object_def)
  with assms(2) show ?thesis by (simp add: publishState_def Let_def br_emit_def rebuild_parts)
qed

definition page_env :: bridge_env where
  "page_env = \<lparr>be_ctl = sample_env, be_disc = announcing_env, be_diag = logging_env, be_toBase64 = id, be_fromBase64 = id,
     be_uuid = ''m1'', be_path = []\<rparr>"

end
