(* ===== verification/Bridge_Answers.thy ===== *)
theory Bridge_Answers
  imports Bridge_Cache
begin

text \<open>
  The answers to the page: every command gets at most one result, and exactly one unless the worker or the server answers it.
\<close>

fun result_of :: "bridge_signal \<Rightarrow> qobject list" where
  "result_of (CommandResult r) = [r]"
| "result_of s = []"

definition results :: "bridge \<Rightarrow> qobject list" where
  "results b = concat (map result_of (br_out b))"

lemma results_frame [simp]:
  "results (scheduleStateUpdate b) = results b" "results (b\<lparr>br_files := fs\<rparr>) = results b" "results (b\<lparr>br_recalls := rs\<rparr>) = results b"
  "results (b\<lparr>br_diagnostics := di\<rparr>) = results b" "results (b\<lparr>br_lastError := le\<rparr>) = results b" "results (b\<lparr>br_profile := p\<rparr>) = results b"
  "results (with_discovery f b) = results b" "results (models_after extra d b) = results b" "results (connectModel r t b) = results b"
  by (simp_all add: results_def scheduleStateUpdate_def with_discovery_def connectModel_def markModelDirty_def Let_def)

lemma results_profile [simp]: "results (with_profile f b) = results b" "results (fold (\<lambda>v. with_profile (g v)) vs b) = results b"
proof -
  show "results (with_profile f b) = results b" for f b by (simp add: with_profile_def Let_def split: option.split)
  then show "results (fold (\<lambda>v. with_profile (g v)) vs b) = results b" by (induction vs arbitrary: b) simp_all
qed

lemma results_answer [simp]: "results (answer i ok err b) = results b @ [makeCommandResult i ok err]"
  by (simp add: results_def answer_def br_emit_def)

lemma results_signal: "schedules s \<Longrightarrow> results (on_signal s b) = results b"
  by (cases s) (simp_all add: handleConnectionError_def br_emit_def Let_def, simp_all add: results_def scheduleStateUpdate_def)

lemma results_signals: "list_all schedules sigs \<Longrightarrow> results (fold on_signal sigs b) = results b"
  by (induction sigs arbitrary: b) (simp_all add: results_signal)

lemma results_call [simp]:
  assumes "\<not> from_server ev"
  shows "results (call_controller e extra ev b) = results b"
proof -
  have "quiet (run_event (be_ctl e) ev ((br_controller b)\<lparr>emitted := []\<rparr>))" using assms by (intro run_event_quiet) simp_all
  then show ?thesis by (simp add: call_controller_def with_controller_signals Let_def quiet_def results_signals)
qed

lemma command_events [simp]:
  "map_of (simple_commands e) type = Some ev \<Longrightarrow> \<not> from_server (ev p)"
  "map_of mls_commands type = Some mev \<Longrightarrow> \<not> from_server (mev p i)"
  "map_of (attachment_commands e) type = Some aev \<Longrightarrow> \<not> from_server (aev p i)"
  by (drule map_of_SomeD, force simp: simple_commands_def mls_commands_def attachment_commands_def)+

section \<open>Commands\<close>

text \<open>The types of the commands that are answered later or not at all.\<close>

definition deferred :: "string \<Rightarrow> bool" where
  "deferred type \<longleftrightarrow> type \<in> {''mls.keyPackage.fetch'', ''mls.group.add'', ''mls.group.remove'', ''attachment.init'', ''attachment.chooseUpload'',
     ''attachment.chunk'', ''attachment.resume'', ''attachment.commit'', ''attachment.download'', ''message.recall'',
     ''performance.reportFrameTimes''}"

lemma deferred_types:
  "map_of mls_commands type = Some mev \<Longrightarrow> deferred type" "map_of (attachment_commands e) type = Some aev \<Longrightarrow> deferred type"
  unfolding deferred_def by (drule map_of_SomeD, force simp: mls_commands_def attachment_commands_def)+

text \<open>At most one answer, and one for a command that is not deferred.\<close>

definition answered :: "string \<Rightarrow> bool \<Rightarrow> bridge \<Rightarrow> bridge \<Rightarrow> bool" where
  "answered i later b b' \<longleftrightarrow> (\<exists>ok err. results b' = results b @ [makeCommandResult i ok err]) \<or> later \<and> results b' = results b"

lemma answered_answer: "results b' = results b \<Longrightarrow> answered i later b (answer i ok err b')"
  unfolding answered_def by auto

lemma answered_frame [simp]: "answered i later b (scheduleStateUpdate b') = answered i later b b'"
  by (simp add: answered_def)

lemma succeed_answered: "results b' = results b \<Longrightarrow> answered i later b (succeed i b')"
  by (simp add: succeed_def answered_answer)

lemma discover_answered: "answered i later b (discover_hosts e i b)"
  by (simp add: discover_hosts_def Let_def succeed_answered answered_answer split: sum.split)

lemma connect_discovered_answered: "answered i later b (connect_discovered e extra i p b)"
  by (simp add: connect_discovered_def succeed_answered answered_answer split: sum.split prod.split)

lemma recall_answered: "answered i True b (recall_command e extra i p b)"
  by (auto simp: recall_command_def Let_def intro: answered_answer) (simp add: answered_def)

lemma other_answered:
  assumes "map_of (other_commands e extra) type = Some run"
  shows "answered i (deferred type) b (run i p b)"
proof -
  have "run = recall_command e extra \<and> deferred type \<or> run = (\<lambda>i. report_frames) \<and> deferred type \<or>
      run \<in> {\<lambda>i p. discover_hosts e i, connect_discovered e extra, set_mode_command (qt (be_ctl e)), frontend_error e,
        \<lambda>i p b. succeed i (scheduleStateUpdate (b\<lparr>br_diagnostics := setEnabled (to_qbool (member p ''enabled'')) (br_diagnostics b)\<rparr>))}"
    using map_of_SomeD [OF assms] by (auto simp: other_commands_def deferred_def)
  then show ?thesis
  proof (elim disjE conjE)
    assume "run = (\<lambda>i. report_frames)" "deferred type"
    then show ?thesis by (simp add: answered_def report_frames_def Let_def)
  next
    assume "run \<in> {\<lambda>i p. discover_hosts e i, connect_discovered e extra, set_mode_command (qt (be_ctl e)), frontend_error e,
        \<lambda>i p b. succeed i (scheduleStateUpdate (b\<lparr>br_diagnostics := setEnabled (to_qbool (member p ''enabled'')) (br_diagnostics b)\<rparr>))}"
    then show ?thesis
      by (auto simp: discover_answered connect_discovered_answered set_mode_command_def frontend_error_def succeed_answered answered_answer)
  qed (simp add: recall_answered)
qed

lemma run_command_answered: "answered i (deferred type) b (run_command e extra type i p b)"
  unfolding run_command_def
  by (auto simp: succeed_answered other_answered split: option.split) (auto simp: answered_def dest: deferred_types)


section \<open>Properties\<close>

definition command_of :: "bridge_env \<Rightarrow> string \<Rightarrow> qobject" where
  "command_of e text = (case parse_json (be_ctl e) text of Some (QObject command) \<Rightarrow> command | _ \<Rightarrow> [])"

lemma not_an_object: "validateCommand q [] = Inl ''invalid_command''"
  by (simp add: validateCommand_def nonEmptyString_def member_def)

lemma rejected_code: "validateCommand q c = Inl code \<Longrightarrow> code = ''invalid_command''"
  by (auto simp: validateCommand_def split: if_splits)

lemma dispatch_rejects:
  assumes "validateCommand (qt (be_ctl e)) (command_of e text) = Inl code"
  shows "dispatch e extra text b = emitInvalidCommand (str (command_of e text) ''id'') ''invalid_command'' b"
proof (cases "\<exists>command. parse_json (be_ctl e) text = Some (QObject command)")
  case True
  then obtain command where "parse_json (be_ctl e) text = Some (QObject command)" by blast
  with assms rejected_code [OF assms] show ?thesis by (simp add: dispatch_def command_of_def Let_def)
next
  case False
  then show ?thesis
    by (auto simp: dispatch_def command_of_def str_def member_def split: option.split qjson.split)
qed

lemma dispatch_accepts:
  assumes "validateCommand (qt (be_ctl e)) (command_of e text) = Inr ()"
  shows "dispatch e extra text b =
    run_command e extra (str (command_of e text) ''type'') (str (command_of e text) ''id'') (to_qobject (member (command_of e text) ''payload'')) b"
proof -
  obtain command where "parse_json (be_ctl e) text = Some (QObject command)"
    using assms not_an_object by (cases "parse_json (be_ctl e) text") (auto simp: command_of_def split: qjson.splits)
  with assms show ?thesis by (simp add: dispatch_def command_of_def Let_def)
qed


text \<open>
  A command that is not an object, has no id, no type or an invalid payload does nothing: the controller, the worker and the
  published state are untouched, and the page gets one failing result.
\<close>

theorem rejected_command_harmless:
  assumes "validateCommand (qt (be_ctl e)) (command_of e text) = Inl code"
  shows "let i = str (command_of e text) ''id'' in
    dispatch e extra text b = b\<lparr>br_out := br_out b @
      [CommandResult (makeCommandResult i False (makeError ''invalid_command'' txt_bad_command False ''bridge'' i))]\<rparr>"
  by (simp add: dispatch_rejects [OF assms] emitInvalidCommand_def answer_def br_emit_def Let_def)

theorem rejected_command_harmless_witness:
  "br_out (dispatch page_env {} ''not json'' (new_bridge page_env new_controller None None no_logs Map.empty)) =
     [CommandResult (makeCommandResult [] False (makeError ''invalid_command'' txt_bad_command False ''bridge'' []))]"
proof -
  have c: "command_of page_env ''not json'' = []" by (simp add: command_of_def page_env_def sample_env_def)
  have "br_out (new_bridge page_env new_controller None None no_logs Map.empty) = []"
    by (simp add: new_bridge_def rebuildStateSnapshot_def buildState_def connectModel_def markModelDirty_def Let_def)
  with rejected_command_harmless [of page_env "''not json''"] show ?thesis
    by (simp add: c not_an_object str_def member_def)
qed

end
