(* ===== verification/Bridge_Shown.thy ===== *)
theory Bridge_Shown
  imports Bridge_Answers
begin

text \<open>
  From the controller to the page: a message that reaches the shown conversation is in the state the bridge publishes next.
\<close>

section \<open>What happens to the controller\<close>

definition after_event :: "controller \<Rightarrow> controller \<Rightarrow> bool" where
  "after_event c d \<longleftrightarrow> d = c \<or> (\<exists>e ev. d = (run_event e ev (c\<lparr>emitted := []\<rparr>))\<lparr>emitted := []\<rparr>)"

lemma controller_frame [simp]:
  "br_controller (scheduleStateUpdate b) = br_controller b" "br_controller (answer i ok err b) = br_controller b"
  "br_controller (br_emit s b) = br_controller b" "br_controller (succeed i b) = br_controller b"
  "br_controller (with_discovery f b) = br_controller b" "br_controller (with_profile g b) = br_controller b"
  "br_controller (publishState e b) = br_controller b"
  by (simp_all add: scheduleStateUpdate_def answer_def br_emit_def succeed_def with_discovery_def with_profile_def publishState_def
      rebuild_parts Let_def split: option.split)

lemma controller_call: "br_controller (call_controller e extra ev b) = (run_event (be_ctl e) ev ((br_controller b)\<lparr>emitted := []\<rparr>))\<lparr>emitted := []\<rparr>"
  using followsD(8) [OF follows_signals] by (simp add: call_controller_def with_controller_signals Let_def)

lemma after_call: "after_event (br_controller b) (br_controller (call_controller e extra ev b))"
  unfolding controller_call after_event_def by blast

lemma after_same: "after_event c c"
  by (simp add: after_event_def)

lemma fold_frames [simp]: "br_controller (fold (\<lambda>v. with_profile (g v)) vs b) = br_controller b"
  by (induction vs arbitrary: b) simp_all

lemma other_after:
  assumes "map_of (other_commands e extra) type = Some run"
  shows "after_event (br_controller b) (br_controller (run i p b))"
proof -
  have "run \<in> {\<lambda>i p. discover_hosts e i, connect_discovered e extra, recall_command e extra, set_mode_command (qt (be_ctl e)),
      \<lambda>i p b. succeed i (scheduleStateUpdate (b\<lparr>br_diagnostics := setEnabled (to_qbool (member p ''enabled'')) (br_diagnostics b)\<rparr>)),
      frontend_error e, \<lambda>i. report_frames}"
    using map_of_SomeD [OF assms] by (auto simp: other_commands_def)
  moreover have "after_event (br_controller b) (br_controller (call_controller e extra ev (b\<lparr>br_files := fs\<rparr>)))"
    "after_event (br_controller b) (br_controller (call_controller e extra ev (b\<lparr>br_recalls := rs\<rparr>)))" for ev fs rs
    using after_call [of "b\<lparr>br_files := fs\<rparr>"] after_call [of "b\<lparr>br_recalls := rs\<rparr>"] by simp_all
  ultimately show ?thesis
    by (auto simp: after_same discover_hosts_def connect_discovered_def recall_command_def set_mode_command_def frontend_error_def
        report_frames_def Let_def split: sum.split prod.split)
qed

lemma dispatch_after: "after_event (br_controller b) (br_controller (dispatch e extra text b))"
  by (auto simp: dispatch_def run_command_def emitInvalidCommand_def after_same after_call other_after Let_def
      split: option.split qjson.split sum.split)

lemma run_bridge_after: "after_event (br_controller b) (br_controller (run_bridge e extra ev b))"
  by (cases ev) (simp_all add: dispatch_after after_call after_same on_mls_result_def on_attachment_event_def graphics_refreshed_def
      setHostDefaults_def rebuild_parts Let_def split: option.split)

lemma shown_roles: "all_models message_model (br_controller b) \<Longrightarrow> all_models message_model (br_controller (run_page evs b))"
proof (induction evs arbitrary: b)
  case (Cons x evs)
  obtain e extra ev where x: "x = (e, extra, ev)" by (cases x)
  have "all_models message_model (br_controller (run_bridge e extra ev b))"
    using Cons.prems run_bridge_after [of b e extra ev] by (auto simp: after_event_def conv_roles.run_event_keeps)
  with Cons.IH show ?case by (simp add: run_page_def x)
qed (simp add: run_page_def)

lemma new_bridge_parts:
  "br_controller (new_bridge e c p g di fs) = c" "br_out (new_bridge e c p g di fs) = []" "br_timer (new_bridge e c p g di fs) = False"
  by (simp_all add: new_bridge_def rebuild_parts connectModel_def markModelDirty_def Let_def)


section \<open>What is published\<close>

lemma published_latest:
  assumes "bridge_inv e n b"
  shows "\<exists>de d fs. br_latest (publishState e b) = safeState (fresh_state (e\<lparr>be_disc := de\<rparr>) (b\<lparr>br_discovery := d, br_files := fs\<rparr>))"
proof (cases "br_timer b")
  case True
  have "br_latest (rebuildStateSnapshot e (b\<lparr>br_timer := False\<rparr>)) = safeState (fresh_state e b)"
    using rebuild_latest [of n "b\<lparr>br_timer := False\<rparr>" e] inv_core [OF assms] by (simp add: fresh_state_def state_object_def)
  with True have "br_latest (publishState e b) = safeState (fresh_state (e\<lparr>be_disc := be_disc e\<rparr>)
      (b\<lparr>br_discovery := br_discovery b, br_files := br_files b\<rparr>))"
    by (simp add: publishState_def Let_def br_emit_def)
  then show ?thesis by blast
next
  case False
  with assms show ?thesis by (simp add: publishState_def bridge_inv_def up_to_date_def)
qed

lemma safe_member:
  assumes "k \<notin> set secretKeys" "k \<noteq> ''schemaVersion''"
  shows "map_of (safeState st) k = map_option withoutSecrets (map_of st k)"
proof -
  have look: "map_of (map (\<lambda>(k, v). (k, withoutSecrets v)) (filter (\<lambda>m. fst m \<notin> set secretKeys) ms)) k = map_option withoutSecrets (map_of ms k)" for ms
    using assms(1) by (induction ms) auto
  have ins: "map_of (qinsert ''schemaVersion'' v ms) k = map_of ms k" for v ms
    using assms(2) by (induction ms) auto
  show ?thesis unfolding safeState_def Let_def by (simp add: look ins)
qed

lemma active_member:
  "member (safeState (fresh_state e b)) ''activeMessages'' =
     QArray (map withoutSecrets (model_rows (Conversation (messageModel (br_controller b))) (br_controller b)))"
proof -
  have "map_of (fresh_state e b) ''activeMessages'' = Some (QArray (model_rows (Conversation (messageModel (br_controller b))) (br_controller b)))"
    by (simp add: fresh_state_def state_object_def Let_def)
  then show ?thesis by (simp add: member_def safe_member secretKeys_def)
qed

lemma last_row_item:
  assumes "message_model m" "rows m \<noteq> []" and row: "last (rows m) = row"
  shows "\<exists>items item. map withoutSecrets (serializeModel m) = items @ [QObject item] \<and>
    (\<forall>k t. k \<in> set kMessageRoles \<longrightarrow> value_of row k = VStr t \<longrightarrow> member item k = QString t)"
proof -
  define n where "n = length (rows m) - 1"
  have n: "length (rows m) = Suc n" "rows m ! n = row" using assms(2,3) by (auto simp: n_def last_conv_nth)
  define item where "item = map (\<lambda>(role, name). (name, variant_json (model_data m True (int n) role))) (roles m)"
  define safe where "safe = map (\<lambda>(k, v). (k, withoutSecrets v)) (filter (\<lambda>m. fst m \<notin> set secretKeys) item)"
  have "[Suc n - kMaxSerializedRows ..< Suc n] = [Suc n - kMaxSerializedRows ..< n] @ [n]" by (simp add: kMaxSerializedRows_def)
  then have "\<exists>items. serializeModel m = items @ [QObject item]"
    by (simp add: serializeModel_def rowCount_def n(1) item_def Let_def)
  then obtain items where ser: "map withoutSecrets (serializeModel m) = items @ [QObject safe]" by (auto simp: safe_def)
  have roles: "roles m = roles (new_model kMessageRoles)" using assms(1) by (simp add: message_model_def)
  have "\<forall>k \<in> set kMessageRoles. map_of item k = Some (variant_json (value_of row k))"
    unfolding item_def roles by (simp add: model_data_def n roles new_model_def kMessageRoles_def UserRole_def upt_rec)
  moreover have "map_of safe k = map_option withoutSecrets (map_of item k)" if "k \<notin> set secretKeys" for k
    using that unfolding safe_def by (induction item) auto
  moreover have "k \<notin> set secretKeys" if "k \<in> set kMessageRoles" for k using that by (auto simp: kMessageRoles_def secretKeys_def)
  ultimately have "member safe k = QString t" if "k \<in> set kMessageRoles" "value_of row k = VStr t" for k t
    using that by (simp add: member_def)
  with ser show ?thesis by blast
qed

text \<open>The newest row of the shown conversation is the last message published.\<close>

lemma published_last_row:
  assumes "bridge_inv e n b" "heap (br_controller b) (messageModel (br_controller b)) = Some m" "message_model m"
    "rows m \<noteq> []" "last (rows m) = row"
  shows "\<exists>items item. member (br_latest (publishState e b)) ''activeMessages'' = QArray (items @ [QObject item]) \<and>
    (\<forall>k t. k \<in> set kMessageRoles \<longrightarrow> value_of row k = VStr t \<longrightarrow> member item k = QString t)"
proof -
  obtain de d fs where "br_latest (publishState e b) = safeState (fresh_state (e\<lparr>be_disc := de\<rparr>) (b\<lparr>br_discovery := d, br_files := fs\<rparr>))"
    using published_latest [OF assms(1)] by blast
  then have "member (br_latest (publishState e b)) ''activeMessages'' = QArray (map withoutSecrets (serializeModel m))"
    by (simp add: active_member model_rows_def assms(2))
  with last_row_item [OF assms(3-5)] show ?thesis by auto
qed


section \<open>A received message\<close>

lemma chat_message_model:
  assumes "um_type u = ''chat''" "um_message_id u \<noteq> []" "um_room u \<noteq> []"
    and "map_of (conversationModels c) (''room:'' @ um_room u) = Some p"
  shows "messageModel (handleMessage e u c) = messageModel c"
proof -
  define key where "key = ''room:'' @ um_room u"
  have key: "conversation_key e u c = key" using assms(1,3) by (simp add: conversation_key_def key_def)
  let ?c = "c\<lparr>pendingAttachmentMetadata := hash_remove (um_message_id u) (pendingAttachmentMetadata c)\<rparr>"
  have "ensureConversationModel key ?c = (p, touch key ?c)" using assms(4) by (intro ensure_cached) (simp add: key_def)
  moreover have "messageModel (incrementUnreadForConversation e k n cd d) = messageModel d" for k n cd d
    by (simp add: incrementUnreadForConversation_def Let_def split: option.split)
  ultimately have "messageModel (on_chat e u c) = messageModel c"
    using assms(2) unfolding on_chat_def Let_def key by (simp add: append_to_def touch_def Let_def)
  moreover have "handleMessage e u c = on_chat e u c" using assms(1) by (simp add: handleMessage_def)
  ultimately show ?thesis by simp
qed

text \<open>The newest row of a model, if its id is new, is the one found under this id.\<close>

lemma appended_last:
  assumes "message_model m" "small m" "text_id row \<noteq> []" "value_of row ''messageId'' = VStr (text_id row)"
    and "findRow (rows m) ''messageId'' (VStr (text_id row)) = None"
  shows "\<exists>xs. rows (fst (append_row row m)) = xs @ [row] \<and>
    findRow (xs @ [row]) ''messageId'' (VStr (text_id row)) = Some (length xs)"
proof -
  let ?k = "Suc (length (rows m)) - kMaxRowsPerModel"
  have "roleForName m ''messageId'' \<noteq> DisplayRole" using assms(1) message_roles by (simp add: message_model_def roleForName_def)
  then have "rows (fst (append_row row m)) = drop ?k (rows m @ [row])"
    using append_single(2) [OF _ _ assms(3,5)] assms(2) by (simp add: small_def)
  moreover have "?k \<le> length (rows m)" by (simp add: kMaxRowsPerModel_def)
  moreover have "\<forall>x \<in> set (drop ?k (rows m)). value_of x ''messageId'' \<noteq> VStr (text_id row)"
    using assms(5) set_drop_subset [of ?k "rows m"] by (auto simp: findRow_def first_index_None)
  then have "findRow (drop ?k (rows m) @ [row]) ''messageId'' (VStr (text_id row)) = Some (length (drop ?k (rows m)))"
    unfolding findRow_def by (rule first_index_append_Some) (rule assms(4))
  ultimately show ?thesis by auto
qed

text \<open>A chat message for the shown room, not seen before, is the last message the bridge publishes.\<close>

lemma chat_published:
  assumes inv: "bridge_inv e n b" and roles: "all_models message_model (br_controller b)"
    and u: "um_type u = ''chat''" "um_message_id u \<noteq> []" "um_room u \<noteq> []"
    and shown: "activeConversationKey (br_controller b) = ''room:'' @ um_room u"
      "heap (br_controller b) (messageModel (br_controller b)) = Some m" "findRow (rows m) ''messageId'' (VStr (um_message_id u)) = None"
  shows "\<exists>items item. member (br_latest (publishState e (call_controller e extra (MessageEvent u) b))) ''activeMessages'' = QArray (items @ [QObject item]) \<and>
    member item ''messageId'' = QString (um_message_id u) \<and> member item ''content'' = QString (um_content u)"
proof -
  define c where "c = (br_controller b)\<lparr>emitted := []\<rparr>"
  define b' where "b' = call_controller e extra (MessageEvent u) b"
  have ctl: "ctl_inv n c" using inv_core [OF inv] by (simp add: c_def bridge_core_def)
  have p: "map_of (conversationModels c) (''room:'' @ um_room u) = Some (messageModel c)" "heap c (messageModel c) = Some m"
    using ctl shown(1,2) by (simp_all add: ctl_inv_def shows_active_def c_def)
  from chat_heap [OF u p, of "be_ctl e"] obtain row where
    row: "heap (handleMessage (be_ctl e) u c) (messageModel c) = Some (fst (append_row row m))" "text_id row = um_message_id u"
      "value_of row ''messageId'' = VStr (um_message_id u)" "value_of row ''content'' = VStr (um_content u)" by blast
  have m: "message_model m" "small m"
    using roles shown(2) inv_core [OF inv] by (auto simp: all_models_def ran_def bridge_core_def ctl_inv_def models_ok_def)
  from appended_last [OF this, of row] u(2) row(2,3) shown(3) have last: "rows (fst (append_row row m)) \<noteq> []" "last (rows (fst (append_row row m))) = row"
    by auto
  have "message_model (fst (append_row row m))" using m(1) conv_roles.ops_keep(1) by blast
  moreover have "messageModel (br_controller b') = messageModel c" "heap (br_controller b') = heap (handleMessage (be_ctl e) u c)"
    unfolding b'_def controller_call using chat_message_model [OF u p(1)] by (simp_all add: c_def)
  then have "heap (br_controller b') (messageModel (br_controller b')) = Some (fst (append_row row m))" by (simp add: row(1))
  moreover have "bridge_inv e (Suc n) b'" unfolding b'_def by (rule call_controller_inv [OF inv])
  ultimately show ?thesis
    using published_last_row [OF _ _ _ last] row(3,4) unfolding b'_def by (fastforce simp: kMessageRoles_def)
qed

end
