(* ===== verification/Gui_Start.thy ===== *)
theory Gui_Start
  imports Bridge_Shown
begin

text \<open>
  The entry point of the graphical client, \<open>client-cpp/gui/src/main.cpp\<close>: the objects of the client are built and wired, the
  local host is prepared, and the page is loaded. What the operating system and Qt decide is in \<open>start_env\<close>; the page
  holds a pointer to the one bridge, written \<open>()\<close>.
\<close>

section \<open>Start\<close>

text \<open>
  \<open>su_winsock\<close> is the result of \<open>WSAStartup\<close>. \<open>su_options\<close> is what the command line parser of Qt does: it ends the process
  with a code, for help or an unknown option, or tells whether \<open>--web-ui-dev\<close> is set. The settings of the controller, the
  performance mode, the diagnostics and the files are those that earlier runs have left.
\<close>

record start_env =
  su_winsock :: int
  su_options :: "int + bool"
  su_app_dir :: string
  su_paths :: path_env
  su_run :: "string \<Rightarrow> string list \<Rightarrow> bootstrap_run"
  su_bridge :: bridge_env
  su_settings :: "(string \<times> QVariant) list"
  su_saved_mode :: "string option"
  su_screen :: "(rat \<times> rat \<times> string) option"
  su_parse_url :: "string \<Rightarrow> url"
  su_diagnostics :: diagnostics
  su_files :: files

record gui_app =
  ga_bridge :: bridge
  ga_page :: "unit web_page"
  ga_view :: web_view
  ga_storage :: "(string \<times> string) option"
  ga_minimum :: "nat \<times> nat"
  ga_size :: "nat \<times> nat"
  ga_visible :: bool

text \<open>The local host: its paths, whether it can be used, the reason if it cannot, and the arguments its server was run with.\<close>

definition start_host :: "start_env \<Rightarrow> host_paths \<times> bool \<times> string \<times> string list option" where
  "start_host s =
    (let hostPaths = resolveHostPaths (su_paths s) (su_app_dir s);
         bundledHostAvailable = available (su_paths s) hostPaths;
         (bootstrap, run) = (if bundledHostAvailable then ensureInitialized (su_paths s) (su_run s) hostPaths else (Inl [], None));
         hostAvailable = (bundledHostAvailable \<and> bootstrap = Inr ());
         message = (if \<not> bundledHostAvailable then txt_no_local_host
           else ''Local host initialization failed: '' @ (case bootstrap of Inl what \<Rightarrow> what | Inr _ \<Rightarrow> [])) in
     (hostPaths, hostAvailable, if hostAvailable then [] else message, run))"

text \<open>Nothing is connected to the signals of the controller and of the profile before the bridge is built.\<close>

definition start_controller :: "start_env \<Rightarrow> controller" where
  "start_controller s =
    (case start_host s of (hostPaths, hostAvailable, _) \<Rightarrow>
       (setBundledCaFile (be_ctl (su_bridge s)) (if hostAvailable then hp_certFile hostPaths else [])
         (new_controller\<lparr>settings := su_settings s\<rparr>))\<lparr>emitted := []\<rparr>)"

definition start_profile :: "start_env \<Rightarrow> graphics \<Rightarrow> profile" where
  "start_profile s g =
     (graphics_changed g (graphics_changed g (new_profile (qt (be_ctl (su_bridge s))) (su_saved_mode s))))\<lparr>pp_emitted := []\<rparr>"

definition start_bridge :: "start_env \<Rightarrow> bridge" where
  "start_bridge s =
    (case start_host s of (hostPaths, hostAvailable, reason, _) \<Rightarrow>
     let g = gi_refresh (su_screen s) new_graphics;
         b = new_bridge (su_bridge s) (start_controller s) (Some (start_profile s g)) (Some g) (su_diagnostics s) (su_files s) in
     setHostDefaults (su_bridge s) (hp_serverExe hostPaths) (hp_certFile hostPaths) (hp_keyFile hostPaths) (hp_dbFile hostPaths)
       hostAvailable reason b)"

definition storage_paths :: "start_env \<Rightarrow> (string \<times> string) option" where
  "storage_paths s =
    (let root = test_root (su_paths s) in
     if root = [] then None
     else Some (pe_file_path (su_paths s) root ''web-ui/storage'', pe_file_path (su_paths s) root ''web-ui/cache''))"

definition kDevelopmentUrl :: string where "kDevelopmentUrl = ''http://127.0.0.1:5173''"

definition load_page :: "start_env \<Rightarrow> bool \<Rightarrow> web_view \<Rightarrow> bool \<times> web_view option" where
  "load_page s development view =
    (if development then loadDevelopment (qt (be_ctl (su_bridge s))) (Some view) (su_parse_url s kDevelopmentUrl)
     else loadRelease (su_parse_url s) (Some view))"

definition msg_no_bridge :: string where "msg_no_bridge = ''The modern UI bridge could not be initialized.''"
definition msg_no_resources :: string where "msg_no_resources = ''The modern UI resources are unavailable.''"
definition msg_not_loaded :: string where
  "msg_not_loaded = ''The modern UI could not be loaded. Run the source launcher again to rebuild its resources.''"

text \<open>
  The start ends with an exit code and perhaps a message, or with the running client; and the server may have been run to
  create the identity of the local host.
\<close>

definition gui_main :: "start_env \<Rightarrow> ((int \<times> string option) + gui_app) \<times> string list option" where
  "gui_main s =
    (if su_winsock s \<noteq> 0 then (Inl (-1, None), None)
     else case start_host s of (_, _, _, run) \<Rightarrow>
     case su_options s of
       Inl code \<Rightarrow> (Inl (code, None), run)
     | Inr development \<Rightarrow>
        case registerBridge (Some \<lparr>wp_channel = None\<rparr>) (Some ()) of
          (True, Some page) \<Rightarrow>
            (case load_page s development \<lparr>wv_url = None\<rparr> of
               (True, Some view) \<Rightarrow>
                 (Inr \<lparr>ga_bridge = start_bridge s, ga_page = page, ga_view = view, ga_storage = storage_paths s,
                   ga_minimum = (480, 600), ga_size = (1280, 800), ga_visible = True\<rparr>, run)
             | _ \<Rightarrow> (Inl (-1, Some msg_no_resources), run))
        | _ \<Rightarrow> (Inl (-1, Some msg_no_bridge), run))"

text \<open>The page has been loaded: the message shown and the exit code of the client, if it failed.\<close>

definition load_finished :: "bool \<Rightarrow> gui_app \<Rightarrow> (string \<times> int) option \<times> gui_app" where
  "load_finished ok a = (if \<not> ok then (Some (msg_not_loaded, -1), a\<lparr>ga_visible := False\<rparr>) else (None, a))"


section \<open>The started client\<close>

lemma started_bridge: "gui_main s = (Inr app, run) \<Longrightarrow> ga_bridge app = start_bridge s"
  by (auto simp: gui_main_def registerBridge_def split: if_splits sum.splits prod.splits bool.splits option.splits)

lemma start_controller_parts:
  "\<exists>ca. start_controller s = new_controller\<lparr>settings := su_settings s, bundledCaFile := ca, emitted := []\<rparr>"
  by (cases "start_host s") (auto simp: start_controller_def setBundledCaFile_def emit_sig_def)

lemma start_controller_inv: "ctl_inv 1 (start_controller s)"
proof -
  obtain ca where "start_controller s = new_controller\<lparr>settings := su_settings s, bundledCaFile := ca, emitted := []\<rparr>"
    using start_controller_parts by blast
  with new_controller_inv show ?thesis by (simp add: ctl_inv_def models_ok_def cache_ok_def shows_active_def)
qed

lemma start_bridge_parts:
  "br_controller (start_bridge s) = start_controller s" "br_out (start_bridge s) = []" "br_timer (start_bridge s) = False"
  by (simp_all add: start_bridge_def setHostDefaults_def rebuild_parts new_bridge_parts Let_def split: prod.split)

lemma start_bridge_inv: "bridge_inv (su_bridge s) 1 (start_bridge s)"
proof -
  have same: "same_machine (su_bridge s) (su_bridge s)" by (simp add: same_machine_def)
  from inv_core [OF new_bridge_inv [OF same start_controller_inv]]
  have "bridge_core 1 ((new_bridge (su_bridge s) (start_controller s) p g di fs)\<lparr>br_hostDefaults := hd\<rparr>)" for p g di fs hd
    by (simp add: bridge_core_def)
  with same show ?thesis
    by (auto simp: start_bridge_def setHostDefaults_def Let_def intro: rebuild_inv split: prod.split)
qed

lemma start_roles: "all_models message_model (br_controller (start_bridge s))"
proof -
  obtain ca where "start_controller s = new_controller\<lparr>settings := su_settings s, bundledCaFile := ca, emitted := []\<rparr>"
    using start_controller_parts by blast
  with conv_roles.new_controller_has show ?thesis by (simp add: start_bridge_parts all_models_def)
qed

interpretation bridge_run: invariant_system
    "\<lambda>(n, b). n = 1 \<and> (\<exists>s. su_bridge s = e \<and> b = start_bridge s)"
    "\<lambda>(n, b) (m, b'). m = Suc n \<and> (\<exists>e' extra ev. same_machine e e' \<and> b' = run_bridge e' extra ev b)"
    "\<lambda>(n, b). bridge_inv e n b" for e
  by unfold_locales (auto simp: run_bridge_inv start_bridge_inv [unfolded One_nat_def])

lemma run_page_reachable:
  assumes "list_all (\<lambda>(e', extra, ev). same_machine (su_bridge s) e') evs"
  shows "reachable (\<lambda>(n, b). n = 1 \<and> (\<exists>s'. su_bridge s' = su_bridge s \<and> b = start_bridge s'))
    (\<lambda>(n, b) (m, b'). m = Suc n \<and> (\<exists>e' extra ev. same_machine (su_bridge s) e' \<and> b' = run_bridge e' extra ev b))
    (Suc (length evs), run_page evs (start_bridge s))"
  using assms
proof (induction evs rule: rev_induct)
  case Nil
  show ?case by (rule reachable_init) (auto simp: run_page_def)
next
  case (snoc x evs)
  obtain e' extra ev where x: "x = (e', extra, ev)" by (cases x)
  with snoc show ?case by (intro reachable_step [OF snoc.IH]) (auto simp: run_page_def)
qed

lemma started_run_inv:
  assumes "gui_main s = (Inr app, run)" "list_all (\<lambda>(e', extra, ev). same_machine (su_bridge s) e') evs"
  shows "bridge_inv (su_bridge s) (Suc (length evs)) (run_page evs (ga_bridge app))"
  using bridge_run.reachable_inv [OF run_page_reachable [OF assms(2)]] by (simp add: started_bridge [OF assms(1)])

text \<open>A package with a server beside it, started for the first time: the server creates the identity of the host.\<close>

definition first_start :: start_env where
  "first_start = \<lparr>su_winsock = 0, su_options = Inr False, su_app_dir = ''repo/out'', su_paths = installed_env,
     su_run = (\<lambda>exe args. \<lparr>br_start = Inr (), br_finished = True, br_normal_exit = True, br_exit_code = 0, br_stderr = [], br_stdout = [],
       br_files_after = (\<lambda>f. True)\<rparr>),
     su_bridge = page_env, su_settings = [], su_saved_mode = None, su_screen = None,
     su_parse_url = (\<lambda>t. \<lparr>url_valid = True, url_scheme = ''qrc'', url_userInfo = [], url_host = []\<rparr>),
     su_diagnostics = no_logs, su_files = Map.empty\<rparr>"

definition first_gui :: gui_app where
  "first_gui = \<lparr>ga_bridge = start_bridge first_start, ga_page = \<lparr>wp_channel = Some [(''chatBridge'', ())]\<rparr>,
     ga_view = \<lparr>wv_url = Some \<lparr>url_valid = True, url_scheme = ''qrc'', url_userInfo = [], url_host = []\<rparr>\<rparr>,
     ga_storage = storage_paths first_start, ga_minimum = (480, 600), ga_size = (1280, 800), ga_visible = True\<rparr>"

lemma first_start_parts:
  "su_winsock first_start = 0" "su_options first_start = Inr False" "su_bridge first_start = page_env"
  "su_parse_url first_start t = \<lparr>url_valid = True, url_scheme = ''qrc'', url_userInfo = [], url_host = []\<rparr>"
  by (simp_all add: first_start_def)

lemma first_start_runs: "\<exists>run. gui_main first_start = (Inr first_gui, run)"
  by (cases "start_host first_start")
    (simp add: gui_main_def first_gui_def load_page_def loadRelease_def releaseUrl_def registerBridge_def first_start_parts)

section \<open>Hosting a room\<close>

lemma host_frame [simp]:
  "br_hostDefaults (scheduleStateUpdate b) = br_hostDefaults b" "br_hostDefaults (answer i ok err b) = br_hostDefaults b"
  "br_hostDefaults (br_emit s b) = br_hostDefaults b" "br_hostDefaults (succeed i b) = br_hostDefaults b"
  "br_hostDefaults (with_discovery f b) = br_hostDefaults b" "br_hostDefaults (with_profile g b) = br_hostDefaults b"
  "br_hostDefaults (publishState e b) = br_hostDefaults b" "br_hostDefaults (rebuildStateSnapshot e b) = br_hostDefaults b"
  by (simp_all add: scheduleStateUpdate_def answer_def br_emit_def succeed_def with_discovery_def with_profile_def publishState_def
      rebuildStateSnapshot_def buildState_def Let_def split: option.split)

lemma host_call [simp]: "br_hostDefaults (call_controller e extra ev b) = br_hostDefaults b"
  using followsD(1) [OF follows_signals]
  by (simp add: call_controller_def with_controller_def mark_changed_def forget_def same_parts_def scheduleStateUpdate_def Let_def)

lemma host_frames [simp]: "br_hostDefaults (fold (\<lambda>v. with_profile (g v)) vs b) = br_hostDefaults b"
  by (induction vs arbitrary: b) simp_all

lemma other_host:
  assumes "map_of (other_commands e extra) type = Some run"
  shows "br_hostDefaults (run i p b) = br_hostDefaults b"
proof -
  have "run \<in> {\<lambda>i p. discover_hosts e i, connect_discovered e extra, recall_command e extra, set_mode_command (qt (be_ctl e)),
      \<lambda>i p b. succeed i (scheduleStateUpdate (b\<lparr>br_diagnostics := setEnabled (to_qbool (member p ''enabled'')) (br_diagnostics b)\<rparr>)),
      frontend_error e, \<lambda>i. report_frames}"
    using map_of_SomeD [OF assms] by (auto simp: other_commands_def)
  then show ?thesis
    by (auto simp: discover_hosts_def connect_discovered_def recall_command_def set_mode_command_def frontend_error_def
        report_frames_def Let_def split: sum.split prod.split)
qed


fun sets_host :: "bridge_event \<Rightarrow> bool" where
  "sets_host (HostDefaults _ _ _ _ _ _) = True"
| "sets_host ev = False"

lemma run_bridge_host: "\<not> sets_host ev \<Longrightarrow> br_hostDefaults (run_bridge e extra ev b) = br_hostDefaults b"
  by (cases ev) (simp_all add: dispatch_def run_command_def emitInvalidCommand_def other_host on_mls_result_def on_attachment_event_def
      graphics_refreshed_def Let_def split: option.split qjson.split sum.split)

lemma run_page_host:
  "list_all (\<lambda>(e, extra, ev). \<not> sets_host ev) evs \<Longrightarrow> br_hostDefaults (run_page evs b) = br_hostDefaults b"
  by (induction evs arbitrary: b) (auto simp: run_page_def run_bridge_host)

text \<open>The local host is ready: the server is there, and its identity is, or the server has just created it.\<close>

definition identity_created :: "bootstrap_run \<Rightarrow> host_paths \<Rightarrow> bool" where
  "identity_created r p \<longleftrightarrow> br_start r = Inr () \<and> br_finished r \<and> br_normal_exit r \<and> br_exit_code r = 0 \<and>
     list_all (br_files_after r) [hp_certFile p, hp_keyFile p, hp_dbFile p]"

definition host_ready :: "start_env \<Rightarrow> bool" where
  "host_ready s \<longleftrightarrow>
    (let p = resolveHostPaths (su_paths s) (su_app_dir s) in
     available (su_paths s) p \<and>
     (list_all (pe_is_file (su_paths s)) [hp_certFile p, hp_keyFile p, hp_dbFile p] \<or>
      identity_created (su_run s (hp_serverExe p) (bootstrap_arguments p)) p))"

lemma available_file: "available e p \<Longrightarrow> pe_is_file e (hp_serverExe p)"
  by (simp add: available_def existingFile_def split: if_splits)

lemma initialized_iff:
  assumes "pe_is_file e (hp_serverExe p)"
  shows "fst (ensureInitialized e run p) = Inr () \<longleftrightarrow>
    list_all (pe_is_file e) [hp_certFile p, hp_keyFile p, hp_dbFile p] \<or> identity_created (run (hp_serverExe p) (bootstrap_arguments p)) p"
  using assms by (auto simp: ensureInitialized_def identity_created_def Let_def split: sum.split)

lemma start_host_ready:
  assumes "start_host s = (p, ok, reason, run)"
  shows "ok \<longleftrightarrow> host_ready s" "\<not> ok \<Longrightarrow> reason \<noteq> []"
proof -
  define q where "q = resolveHostPaths (su_paths s) (su_app_dir s)"
  have ready: "host_ready s \<longleftrightarrow> available (su_paths s) q \<and> fst (ensureInitialized (su_paths s) (su_run s) q) = Inr ()"
    using initialized_iff [OF available_file] by (auto simp: host_ready_def q_def Let_def)
  show "ok \<longleftrightarrow> host_ready s" "\<not> ok \<Longrightarrow> reason \<noteq> []"
    using assms unfolding ready start_host_def q_def [symmetric] Let_def
    by (auto simp: txt_no_local_host_def utf8_def split: prod.splits if_splits)
qed

lemma host_member:
  "member (safeState (fresh_state e b)) ''hostDefaults'' = withoutSecrets (QObject (br_hostDefaults b))"
proof -
  have "map_of (fresh_state e b) ''hostDefaults'' = Some (QObject (br_hostDefaults b))"
    by (simp add: fresh_state_def state_object_def Let_def)
  then show ?thesis by (simp add: member_def safe_member secretKeys_def)
qed

lemma start_bridge_host:
  assumes "start_host s = (p, ok, reason, run)"
  shows "br_hostDefaults (start_bridge s) =
    [(''serverExe'', QString (hp_serverExe p)), (''certFile'', QString (hp_certFile p)), (''keyFile'', QString (hp_keyFile p)),
     (''dbFile'', QString (hp_dbFile p)), (''available'', qjson.QBool ok), (''unavailableReason'', QString reason)]"
  by (simp add: start_bridge_def assms setHostDefaults_def Let_def)



text \<open>The page shown is the bundled one, or the one of the development server on this machine.\<close>

lemma started_page:
  assumes "gui_main s = (Inr app, run)"
  shows "wp_channel (ga_page app) = Some [(''chatBridge'', ())] \<and>
    (\<exists>u. wv_url (ga_view app) = Some u \<and>
      (if su_options s = Inr True then u = su_parse_url s kDevelopmentUrl \<and> isLoopbackHost (qt (be_ctl (su_bridge s))) (url_host u)
       else u = releaseUrl (su_parse_url s)))"
  using assms
  by (auto simp: gui_main_def registerBridge_def load_page_def loadDevelopment_def loadRelease_def isDevelopmentUrlAllowed_def
      split: if_splits sum.splits prod.splits)

end
