(* ===== verification/Gui_Client.thy ===== *)
theory Gui_Client
  imports Worker_Safety Gui_Start
begin

text \<open>
  The graphical client as a whole: the interface thread with the bridge and the controller, the worker thread, and its
  receive thread. The controller calls the slots of the worker by name (\<open>QMetaObject::invokeMethod\<close>) and the worker
  answers with signals; both are queued by Qt and handled in order. Constructor and destructor of \<open>GuiChatController\<close>
  make and end this composition.
\<close>

section \<open>Connections between the threads\<close>

text \<open>A queued call runs the slot of that name.\<close>

fun perform ::
    "('c, 's, 'j) worker_env \<Rightarrow> 'l link_ops \<Rightarrow> host_env \<Rightarrow> worker_call \<Rightarrow> ('l, 'c, 's, 'j) worker \<Rightarrow> ('l, 'c, 's, 'j) worker" where
  "perform e ops h (ConnectToServer ip port nm cd ca tls) w = connectToServer e ops ip port nm cd ca tls w"
| "perform e ops h (ConnectToLocalHost exe cert key db nm cd) w = connectToLocalHost e ops h exe cert key db nm cd w"
| "perform e ops h DisconnectFromServer w = disconnectFromServer ops w"
| "perform e ops h ScheduleReconnect w = scheduleReconnect ops w"
| "perform e ops h (SendChatToRoom t r i) w = sendChatToRoom e ops t r i w"
| "perform e ops h (SendPrivate t c i) w = sendPrivate e ops t c i w"
| "perform e ops h (JoinRoom r) w = joinRoom e ops r w"
| "perform e ops h (CreateRoom r b) w = createRoom e ops r b w"
| "perform e ops h (SendRoomAction a r t) w = sendRoomAction e ops a r t w"
| "perform e ops h RequestUsers w = requestUsers ops w"
| "perform e ops h RequestRooms w = requestRooms ops w"
| "perform e ops h (RequestHistory r t b i n q) w = requestHistory e ops r t b i n q w"
| "perform e ops h (SendAdminAction a t m i) w = sendAdminAction e ops a t m i w"
| "perform e ops h (SendAttachmentInit r n i) w = sendAttachmentInit e ops r n i w"
| "perform e ops h (StartAttachmentUpload r p ts i) w = startAttachmentUpload e ops r p ts i w"
| "perform e ops h (SendAttachmentChunk u n c s i) w = sendAttachmentChunk e ops u n c s i w"
| "perform e ops h (ResumeAttachment u i) w = resumeAttachment e ops u i w"
| "perform e ops h (SendAttachmentCommit u i) w = sendAttachmentCommit e ops u i w"
| "perform e ops h (StartAttachmentDownload a p i) w = startAttachmentDownload e ops a p i w"
| "perform e ops h (FetchMlsKeyPackage r t i) w = fetchMlsKeyPackage e ops r t i w"
| "perform e ops h (AddMlsMember r g t i) w = addMlsMember e ops r g t i w"
| "perform e ops h (RemoveMlsMember r g t i) w = removeMlsMember e ops r g t i w"
| "perform e ops h (InspectMlsGroup g i) w = inspectMlsGroup e g i w"
| "perform e ops h (ProtectMls g p i) w = protectMls e g p i w"
| "perform e ops h (UnprotectMls g c i) w = unprotectMls e g c i w"

definition forwarded :: "attachment_event \<Rightarrow> attachment_signal" where
  "forwarded a = \<lparr>as_type = ae_type a, as_attachmentId = ae_attachmentId a, as_uploadId = ae_uploadId a, as_commandId = ae_commandId a,
     as_chunkSize = ae_chunkSize a, as_chunkIndex = ae_chunkIndex a, as_ciphertext = ae_ciphertext a, as_cipherSha256 = ae_cipherSha256 a,
     as_expiresAt = ae_expiresAt a, as_receivedIndexes = ae_receivedIndexes a, as_content = ae_content a, as_logicalSize = ae_logicalSize a\<rparr>"

text \<open>
  The handlers the constructor connects to the signals of the worker. An attachment event is first forwarded to the bridge,
  then handled. Nothing is connected to \<open>disconnected\<close>, and the bridge uses none of the last four.
\<close>

fun deliver :: "bridge_env \<Rightarrow> model_ref set \<Rightarrow> worker_signal \<Rightarrow> bridge \<Rightarrow> bridge" where
  "deliver e extra (Connected a) b = call_controller e extra (ConnectedEvent a) b"
| "deliver e extra (ConnectionFailed r) b = call_controller e extra (FailedEvent r) b"
| "deliver e extra Disconnected b = b"
| "deliver e extra (ConnectionLost r) b = call_controller e extra (LostEvent r) b"
| "deliver e extra (ReconnectScheduled n d) b = call_controller e extra (ReconnectScheduledEvent n d) b"
| "deliver e extra (ReconnectAttempt n) b = call_controller e extra (ReconnectAttemptEvent n) b"
| "deliver e extra (ReconnectFailed r) b = call_controller e extra (ReconnectFailedEvent r) b"
| "deliver e extra (MessageDeliveryFailed i) b = call_controller e extra (DeliveryFailedEvent i) b"
| "deliver e extra (MessageReceived u) b = call_controller e extra (MessageEvent u) b"
| "deliver e extra (HistoryReceived r t p ms rest q) b = call_controller e extra (HistoryEvent r t p ms q) b"
| "deliver e extra (worker_signal.AttachmentEvent a) b =
     call_controller e extra (ctl_event.AttachmentEvent (ae_type a) (ae_attachmentId a) (ae_commandId a) (ae_content a))
       (on_attachment_event e (forwarded a) b)"
| "deliver e extra (MlsCommandResult i ok code msg) b = on_mls_result i ok code msg b"
| "deliver e extra (MlsKeyPackageAvailable t d) b = b"
| "deliver e extra (MlsWelcomeEvent g n p) b = b"
| "deliver e extra (MlsGroupState i ok g n m) b = b"
| "deliver e extra (MlsDataResult i ok d m) b = b"

section \<open>The client\<close>

record ('l, 'c, 's, 'j) gui_client =
  cl_bridge :: bridge
  cl_worker :: "('l, 'c, 's, 'j) worker"
  cl_calls :: "worker_call list"
  cl_signals :: "worker_signal list"

text \<open>What the interface thread or the worker does; the calls and signals it makes are queued.\<close>

definition on_interface :: "(bridge \<Rightarrow> bridge) \<Rightarrow> ('l, 'c, 's, 'j) gui_client \<Rightarrow> ('l, 'c, 's, 'j) gui_client" where
  "on_interface f cl =
    (let b = f (cl_bridge cl) in
     cl\<lparr>cl_bridge := b\<lparr>br_controller := (br_controller b)\<lparr>calls := []\<rparr>\<rparr>, cl_calls := cl_calls cl @ calls (br_controller b)\<rparr>)"

definition on_worker :: "(('l, 'c, 's, 'j) worker \<Rightarrow> ('l, 'c, 's, 'j) worker) \<Rightarrow> ('l, 'c, 's, 'j) gui_client \<Rightarrow> ('l, 'c, 's, 'j) gui_client" where
  "on_worker f cl =
    (let w = f (cl_worker cl) in cl\<lparr>cl_worker := w\<lparr>w_signals := []\<rparr>, cl_signals := cl_signals cl @ w_signals w\<rparr>)"

text \<open>
  The steps of the threads: an event of the bridge; the interface thread handles the next signal; the worker performs the
  next call; a reconnect timer fires; the receive thread handles a message.
\<close>

datatype ('c, 's, 'j) gui_event =
    InterfaceEvent bridge_env "model_ref set" bridge_event
  | HandleSignal bridge_env "model_ref set"
  | PerformCall "('c, 's, 'j) worker_env" host_env
  | TimerFires "('c, 's, 'j) worker_env" nat
  | ReceiveMessage "('c, 's, 'j) worker_env"

fun gui_step :: "'l link_ops \<Rightarrow> ('c, 's, 'j) gui_event \<Rightarrow> ('l, 'c, 's, 'j) gui_client \<Rightarrow> ('l, 'c, 's, 'j) gui_client" where
  "gui_step ops (InterfaceEvent e extra ev) cl = on_interface (run_bridge e extra ev) cl"
| "gui_step ops (HandleSignal e extra) cl =
    (case cl_signals cl of [] \<Rightarrow> cl | s # rest \<Rightarrow> on_interface (deliver e extra s) (cl\<lparr>cl_signals := rest\<rparr>))"
| "gui_step ops (PerformCall e h) cl =
    (case cl_calls cl of [] \<Rightarrow> cl | x # rest \<Rightarrow> on_worker (perform e ops h x) (cl\<lparr>cl_calls := rest\<rparr>))"
| "gui_step ops (TimerFires e i) cl = on_worker (timer_fires e ops i) cl"
| "gui_step ops (ReceiveMessage e) cl = on_worker (\<lambda>w. snd (receive_step e ops w)) cl"

definition run_gui :: "'l link_ops \<Rightarrow> ('c, 's, 'j) gui_event list \<Rightarrow> ('l, 'c, 's, 'j) gui_client \<Rightarrow> ('l, 'c, 's, 'j) gui_client" where
  "run_gui ops evs cl = fold (gui_step ops) evs cl"

definition new_gui_client :: "gui_app \<Rightarrow> 'l \<Rightarrow> files \<Rightarrow> ('l, 'c, 's, 'j) gui_client" where
  "new_gui_client app net fs = \<lparr>cl_bridge = ga_bridge app, cl_worker = new_worker net fs, cl_calls = [], cl_signals = []\<rparr>"

text \<open>
  The destructor of the controller waits until the worker has disconnected, which happens after the queued calls; then the
  thread ends and the worker is destroyed.
\<close>

definition worker_dtor :: "'l link_ops \<Rightarrow> ('l, 'c, 's, 'j) worker \<Rightarrow> ('l, 'c, 's, 'j) worker" where
  "worker_dtor ops w = stopHostedServer (stopReceiveLoop ops w)"

definition destroy_client :: "('c, 's, 'j) worker_env \<Rightarrow> 'l link_ops \<Rightarrow> host_env \<Rightarrow> ('l, 'c, 's, 'j) gui_client \<Rightarrow> ('l, 'c, 's, 'j) worker" where
  "destroy_client e ops h cl =
     worker_dtor ops (disconnectFromServer ops (fold (perform e ops h) (cl_calls cl) (cl_worker cl)))"


section \<open>The invariants of the parts hold in the composition\<close>

lemma quiet_worker_call:
  "x \<notin> {ConnectToServer ip port nm cd ca tls | ip port nm cd ca tls. True} \<union>
         {ConnectToLocalHost exe cert key db nm cd | exe cert key db nm cd. True} \<Longrightarrow> quiet_step ops w (perform e ops h x w)"
  by (cases x) (auto intro: quiet_step.intros)

lemma perform_step: "worker_step ops w (perform e ops h x w)"
  by (cases x) (auto intro: worker_step.intros quiet_step.intros)

lemma perform_one: "one_reconnect w \<Longrightarrow> one_reconnect (perform e ops h x w)"
  by (erule step_one) (rule perform_step)

lemma receive_one: "one_reconnect w \<Longrightarrow> one_reconnect (snd (receive_step e ops w))"
  by (erule step_one) (rule worker_step.quiet, rule quiet_step.intros)

lemma signals_frame [simp]: "one_reconnect (w\<lparr>w_signals := s\<rparr>) = one_reconnect w"
  by (simp add: one_reconnect_def plan_def)

text \<open>The queued calls are not part of the published state.\<close>

lemma rows_calls [simp]: "model_rows r (c\<lparr>calls := xs\<rparr>) = model_rows r c" "model_at r (c\<lparr>calls := xs\<rparr>) = model_at r c"
  by (cases r; simp add: model_rows_def)+

lemma view_calls [simp]: "ctl_view (c\<lparr>calls := xs\<rparr>) = ctl_view c"
  by (simp add: ctl_view_def Let_def)

lemma publish_calls: "br_latest (publishState e (b\<lparr>br_controller := (br_controller b)\<lparr>calls := xs\<rparr>\<rparr>)) = br_latest (publishState e b)"
proof -
  have "state_object e s (b\<lparr>br_controller := (br_controller b)\<lparr>calls := xs\<rparr>, br_timer := False, br_lastCount := k, br_serialized := t, br_dirty := {}\<rparr>) =
      state_object e s (b\<lparr>br_timer := False, br_lastCount := k, br_serialized := t, br_dirty := {}\<rparr>)" for s k t
    by (rule state_object_cong) simp_all
  then show ?thesis by (simp add: publishState_def rebuildStateSnapshot_def buildState_def br_emit_def Let_def cong: if_cong)
qed

lemma calls_frame [simp]: "bridge_inv e n (b\<lparr>br_controller := (br_controller b)\<lparr>calls := xs\<rparr>\<rparr>) = bridge_inv e n b"
proof -
  have fresh: "fresh_state e' (b\<lparr>br_controller := (br_controller b)\<lparr>calls := xs\<rparr>, br_discovery := d, br_files := fs\<rparr>) =
      fresh_state e' (b\<lparr>br_discovery := d, br_files := fs\<rparr>)" for e' d fs
    unfolding fresh_state_def by (intro state_object_cong) simp_all
  have "up_to_date e (b\<lparr>br_controller := (br_controller b)\<lparr>calls := xs\<rparr>\<rparr>) = up_to_date e b"
    by (simp add: up_to_date_def fresh)
  moreover have "ctl_inv n (c\<lparr>calls := xs\<rparr>) = ctl_inv n c" for c
    by (simp add: ctl_inv_def models_ok_def cache_ok_def shows_active_def)
  ultimately show ?thesis by (simp add: bridge_inv_def bridge_core_def shown_models_def)
qed

lemma deliver_inv: "bridge_inv e n b \<Longrightarrow> bridge_inv e (Suc n) (deliver e' extra s b)"
  by (cases s) (simp_all add: call_controller_inv bridge_mono on_mls_result_def on_attachment_event_def)

lemma deliver_after: "after_event (br_controller b) (br_controller (deliver e extra s b))"
proof (cases s)
  case (AttachmentEvent a)
  have "br_controller (on_attachment_event e (forwarded a) b) = br_controller b" by (simp add: on_attachment_event_def)
  with after_call [of "on_attachment_event e (forwarded a) b" e extra] show ?thesis by (simp add: AttachmentEvent)
qed (simp_all add: after_call after_same on_mls_result_def)

lemma after_roles: "all_models message_model c \<Longrightarrow> after_event c d \<Longrightarrow> all_models message_model d"
  by (auto simp: after_event_def conv_roles.run_event_keeps)

lemma calls_roles [simp]: "all_models Q (c\<lparr>calls := xs\<rparr>) = all_models Q c"
  by (simp add: all_models_def)

definition gui_inv :: "bridge_env \<Rightarrow> nat \<Rightarrow> ('l, 'c, 's, 'j) gui_client \<Rightarrow> bool" where
  "gui_inv e n cl \<longleftrightarrow> bridge_inv e n (cl_bridge cl) \<and> all_models message_model (br_controller (cl_bridge cl)) \<and>
     one_reconnect (cl_worker cl) \<and> w_signals (cl_worker cl) = []"

fun same_machine_event :: "bridge_env \<Rightarrow> ('c, 's, 'j) gui_event \<Rightarrow> bool" where
  "same_machine_event e (InterfaceEvent e' extra ev) = same_machine e e'"
| "same_machine_event e (HandleSignal e' extra) = same_machine e e'"
| "same_machine_event e ev = True"

lemma gui_step_inv:
  assumes "gui_inv e n cl" "same_machine_event e ev"
  shows "gui_inv e (Suc n) (gui_step ops ev cl)"
proof (cases ev)
  case (InterfaceEvent e' extra bev)
  with assms show ?thesis by (simp add: gui_inv_def on_interface_def run_bridge_inv after_roles [OF _ run_bridge_after] Let_def)
next
  case (HandleSignal e' extra)
  with assms show ?thesis
    by (simp add: gui_inv_def on_interface_def deliver_inv bridge_mono after_roles [OF _ deliver_after] Let_def split: list.split)
next
  case (PerformCall we h)
  with assms show ?thesis by (simp add: gui_inv_def on_worker_def bridge_mono perform_one Let_def split: list.split)
next
  case (TimerFires we i)
  with assms show ?thesis by (simp add: gui_inv_def on_worker_def bridge_mono timer_one Let_def)
next
  case (ReceiveMessage we)
  with assms show ?thesis by (simp add: gui_inv_def on_worker_def bridge_mono receive_one Let_def)
qed

lemma new_client_inv:
  "gui_main s = (Inr app, run) \<Longrightarrow> gui_inv (su_bridge s) (Suc 0) (new_gui_client app net fs)"
  using start_bridge_inv [of s] start_roles [of s] by (simp add: gui_inv_def new_gui_client_def new_one started_bridge) (simp add: new_worker_def)

interpretation gui: invariant_system
    "\<lambda>(n, cl). n = 1 \<and> (\<exists>s app run net fs. su_bridge s = e \<and> gui_main s = (Inr app, run) \<and> cl = new_gui_client app net fs)"
    "\<lambda>(n, cl) (m, cl'). m = Suc n \<and> (\<exists>ev. same_machine_event e ev \<and> cl' = gui_step ops ev cl)"
    "\<lambda>(n, cl). gui_inv e n cl" for e ops
  by unfold_locales
    (auto simp: gui_step_inv new_client_inv)

lemma run_gui_reachable:
  assumes "gui_main s = (Inr app, run)" "list_all (same_machine_event (su_bridge s)) evs"
  shows "reachable (\<lambda>(n, cl). n = 1 \<and> (\<exists>s' app run net fs. su_bridge s' = su_bridge s \<and> gui_main s' = (Inr app, run) \<and> cl = new_gui_client app net fs))
    (\<lambda>(n, cl) (m, cl'). m = Suc n \<and> (\<exists>ev. same_machine_event (su_bridge s) ev \<and> cl' = gui_step ops ev cl))
    (Suc (length evs), run_gui ops evs (new_gui_client app net fs))"
  using assms(2)
proof (induction evs rule: rev_induct)
  case Nil
  show ?case using assms(1) by (intro reachable_init) (auto simp: run_gui_def)
next
  case (snoc ev evs)
  then show ?case by (intro reachable_step [OF snoc.IH]) (auto simp: run_gui_def)
qed


lemma run_gui_inv:
  assumes "gui_main s = (Inr app, run)" "list_all (same_machine_event (su_bridge s)) evs"
  shows "gui_inv (su_bridge s) (Suc (length evs)) (run_gui ops evs (new_gui_client app net fs))"
  using gui.reachable_inv [OF run_gui_reachable [OF assms]] by simp



section \<open>From the receive thread to the page\<close>

text \<open>What a chat message makes the receive thread emit: an encrypted one may come with the manifest of an attachment.\<close>

definition before_chat :: "msg_fields \<Rightarrow> worker_signal list \<Rightarrow> bool" where
  "before_chat m sigs \<longleftrightarrow> sigs = [] \<or> (\<exists>i ok code text. sigs = [MlsCommandResult i ok code text]) \<or>
     (\<exists>a. sigs = [worker_signal.AttachmentEvent a] \<and> ae_commandId a = message_id m)"

lemma on_client_signals: "on_client p f w = (r, w') \<Longrightarrow> w_signals w' = w_signals w"
  by (auto simp: on_client_def split: option.splits prod.splits)

lemma encrypted_signals: "\<exists>sigs. w_signals (snd (on_encrypted_chat e m w)) = w_signals w @ sigs \<and>
    before_chat m sigs \<and> (fst (on_encrypted_chat e m w) \<noteq> None \<longrightarrow> sigs = [])"
  by (auto simp: on_encrypted_chat_def before_chat_def emit_def manifest_event_def dest!: on_client_signals
      split: sum.split option.split prod.split)

lemma chat_signals:
  assumes "mtype m = ''chat''"
  shows "\<exists>sigs. w_signals (processMlsMessage e ops m w) = w_signals w @ sigs \<and> before_chat m sigs"
proof -
  obtain r w1 where h: "mls_handler e ops m w = (r, w1)" by fastforce
  from assms h have "crypto m = [] \<and> r = None \<and> w1 = w \<or> on_encrypted_chat e m w = (r, w1)"
    by (cases "crypto m = []") (simp_all add: mls_handler_def)
  with encrypted_signals [of e m w] h show ?thesis
    by (cases r) (auto simp: processMlsMessage_def mls_caught_def mls_result_def emit_def before_chat_def)
qed

lemma received_signals:
  assumes "w_running w" "lk_receive ops (w_net w) = ((True, msg), l)" "mtype (mfields msg) = ''chat''"
  shows "\<exists>sigs. w_signals (snd (receive_step e ops w)) = w_signals w @ sigs @ [MessageReceived (ui_of (mfields msg))] \<and>
    before_chat (mfields msg) sigs"
proof -
  have "processAttachmentMessage e ops (mfields msg) v = v" for v using assms(3) by (simp add: processAttachmentMessage_def)
  with chat_signals [OF assms(3), of e ops "w\<lparr>w_net := l\<rparr>"] assms show ?thesis
    by (auto simp: receive_step_def handle_incoming_def attachment_types_def emit_def Let_def)
qed

text \<open>These signals leave the shown conversation alone.\<close>

definition same_shown :: "controller \<Rightarrow> controller \<Rightarrow> bool" where
  "same_shown c d \<longleftrightarrow> activeConversationKey d = activeConversationKey c \<and> messageModel d = messageModel c \<and>
     heap d (messageModel c) = heap c (messageModel c)"

lemma manifest_shown:
  assumes "heap c (messageModel c) = Some m" "findRow (rows m) ''messageId'' (VStr k) = None"
  shows "same_shown c (handleAttachmentEvent e t a k s c)"
proof -
  define hit where "hit = find (\<lambda>(k', p). case heap c p of None \<Rightarrow> False
      | Some m \<Rightarrow> findRow (rows m) ''messageId'' (VStr k) \<noteq> None) (conversationModels c)"
  have "p \<noteq> messageModel c" if "hit = Some (k', p)" for k' p
    using that assms by (auto simp: hit_def find_Some_iff split: option.splits)
  then have "heap (with_model p f c) (messageModel c) = heap c (messageModel c)" if "hit = Some (k', p)" for k' p f
    using that by (auto simp: with_model_def split: option.split)
  then show ?thesis
    unfolding handleAttachmentEvent_def hit_def [symmetric] Let_def same_shown_def by (auto split: option.split qjson.split)
qed

lemma before_chat_shown:
  assumes "before_chat f [s]" "heap (br_controller b) (messageModel (br_controller b)) = Some m"
    "findRow (rows m) ''messageId'' (VStr (message_id f)) = None"
  shows "same_shown (br_controller b) (br_controller (deliver e extra s b))"
  using assms(1) unfolding before_chat_def
proof (elim disjE exE conjE)
  fix a
  assume s: "[s] = [worker_signal.AttachmentEvent a]" "ae_commandId a = message_id f"
  define c where "c = (br_controller b)\<lparr>emitted := []\<rparr>"
  have "same_shown c (handleAttachmentEvent (be_ctl e) (ae_type a) (ae_attachmentId a) (ae_commandId a) (ae_content a) c)"
    using assms(2,3) by (intro manifest_shown [where m = m]) (simp_all add: c_def s(2))
  with s(1) show ?thesis by (simp add: controller_call on_attachment_event_def) (simp add: c_def same_shown_def)
qed (simp_all add: on_mls_result_def same_shown_def)

lemma handled_before:
  assumes "bridge_inv e n (cl_bridge cl)" "all_models message_model (br_controller (cl_bridge cl))"
    and "cl_signals cl = sigs @ rest" "before_chat f sigs"
    and "heap (br_controller (cl_bridge cl)) (messageModel (br_controller (cl_bridge cl))) = Some m"
      "findRow (rows m) ''messageId'' (VStr (message_id f)) = None"
  shows "\<exists>cl2 n. run_gui ops (replicate (length sigs) (HandleSignal e extra)) cl = cl2 \<and> cl_signals cl2 = rest \<and>
    bridge_inv e n (cl_bridge cl2) \<and> all_models message_model (br_controller (cl_bridge cl2)) \<and>
    same_shown (br_controller (cl_bridge cl)) (br_controller (cl_bridge cl2))"
proof (cases sigs)
  case Nil
  with assms show ?thesis by (auto simp: run_gui_def same_shown_def)
next
  case (Cons s ss)
  with assms(4) have ss: "sigs = [s]" "before_chat f [s]" by (auto simp: before_chat_def)
  define b where "b = deliver e extra s (cl_bridge cl)"
  have "bridge_inv e (Suc n) b" "all_models message_model (br_controller b)" "same_shown (br_controller (cl_bridge cl)) (br_controller b)"
    using assms deliver_inv [OF assms(1)] after_roles [OF assms(2) deliver_after] before_chat_shown [OF ss(2) assms(5,6)]
    by (simp_all add: b_def)
  with ss(1) assms(3) show ?thesis by (auto simp: run_gui_def on_interface_def b_def [symmetric] same_shown_def Let_def)
qed

lemma chat_reaches_page:
  assumes inv: "bridge_inv e n (cl_bridge cl)" "all_models message_model (br_controller (cl_bridge cl))"
    and sigs: "cl_signals cl = sigs @ [MessageReceived (ui_of f)]" "before_chat f sigs"
    and f: "mtype f = ''chat''" "message_id f \<noteq> []" "msg_fields.room f \<noteq> []"
    and shown: "activeConversationKey (br_controller (cl_bridge cl)) = ''room:'' @ msg_fields.room f"
      "heap (br_controller (cl_bridge cl)) (messageModel (br_controller (cl_bridge cl))) = Some m"
      "findRow (rows m) ''messageId'' (VStr (message_id f)) = None"
  shows "\<exists>items item. member (br_latest (cl_bridge (run_gui ops (replicate (length (cl_signals cl)) (HandleSignal e extra) @
      [InterfaceEvent e {} PublishTimer]) cl))) ''activeMessages'' = QArray (items @ [QObject item]) \<and>
    member item ''messageId'' = QString (message_id f) \<and> member item ''content'' = QString (content f)"
proof -
  from handled_before [OF inv sigs shown(2,3), of ops extra] obtain cl2 k where
    cl2: "run_gui ops (replicate (length sigs) (HandleSignal e extra)) cl = cl2" "cl_signals cl2 = [MessageReceived (ui_of f)]"
      "bridge_inv e k (cl_bridge cl2)" "all_models message_model (br_controller (cl_bridge cl2))"
      "same_shown (br_controller (cl_bridge cl)) (br_controller (cl_bridge cl2))" by blast
  have "run_gui ops (replicate (length (cl_signals cl)) (HandleSignal e extra) @ [InterfaceEvent e {} PublishTimer]) cl =
      run_gui ops [HandleSignal e extra, InterfaceEvent e {} PublishTimer] cl2"
    using cl2(1) by (simp add: run_gui_def sigs(1) replicate_append_same [symmetric] del: replicate_append_same)
  moreover have "br_latest (cl_bridge (run_gui ops [HandleSignal e extra, InterfaceEvent e {} PublishTimer] cl2)) =
      br_latest (publishState e (call_controller e extra (MessageEvent (ui_of f)) (cl_bridge cl2)))"
    by (simp add: run_gui_def cl2(2) on_interface_def publish_calls Let_def)
  ultimately show ?thesis
    using chat_published [OF cl2(3,4), of "ui_of f" m extra] f shown cl2(5) by (simp add: ui_of_def same_shown_def)
qed

section \<open>Who connects\<close>

fun is_connect :: "worker_call \<Rightarrow> bool" where
  "is_connect (ConnectToServer _ _ _ _ _ _) = True"
| "is_connect (ConnectToLocalHost _ _ _ _ _ _) = True"
| "is_connect x = False"

fun connecting :: "ctl_event \<Rightarrow> bool" where
  "connecting (ConnectEvent _ _ _ _ _ _) = True"
| "connecting (LocalHostEvent _ _ _ _ _ _) = True"
| "connecting (ForwardEvent x) = is_connect x"
| "connecting ev = False"

lemma ensure_calls [simp]: "calls (snd (ensureConversationModel key c)) = calls c"
  using ensure_frame [of key c] by auto

lemma calls_simps [simp]:
  "calls (append_to p row c) = calls c" "calls (appendSystemMessageToModel e p t c) = calls c" "calls (appendSystemMessage e t c) = calls c"
  "calls (set_can_manage b c) = calls c" "calls (set_identity n k c) = calls c" "calls (saveConnectionPreferences e ip port n k ca c) = calls c"
  "calls (resetSessionData c) = calls c" "calls (incrementUnreadForConversation e key n k c) = calls c"
  "calls (on_users_response e m c) = calls c" "calls (on_rooms_response m c) = calls c" "calls (on_chat e m c) = calls c"
  by (simp_all add: append_to_def appendSystemMessageToModel_def appendSystemMessage_def set_can_manage_def set_identity_def
      saveConnectionPreferences_def resetSessionData_def incrementUnreadForConversation_def on_users_response_def on_rooms_response_def
      on_chat_def case_prod_beta Let_def split: option.split)

lemma handleMessage_calls [simp]: "calls (handleMessage e u c) = calls c"
  unfolding handleMessage_def Let_def
  by (simp add: on_delivery_receipt_def on_approval_request_def on_approval_result_def on_recalled_def on_room_system_def on_error_def
      case_prod_beta Let_def)

lemma quiet_history: "list_all (Not \<circ> is_connect) (calls (requestActiveHistory i q c)) = list_all (Not \<circ> is_connect) (calls c)"
  by (simp add: requestActiveHistory_def Let_def)

lemma quiet_calls:
  assumes "\<not> connecting ev" "list_all (Not \<circ> is_connect) (calls c)"
  shows "list_all (Not \<circ> is_connect) (calls (run_event e ev c))"
  using assms
  by (cases ev) (auto simp: ctl_disconnectFromServer_def setBundledCaFile_def sendRoomMessage_def sendPrivateMessage_def refresh_tick_def quiet_history
      searchActiveHistory_def ctl_createRoom_def selectRoom_def selectDirectMessage_def openPrivateChat_def copyText_def removeLocalMessage_def
      recallMessage_def retryMessage_def chooseAndUploadAttachment_def ctl_sendAttachmentDownload_def handleConnected_def
      handleConnectionFailed_def handleConnectionLost_def handleReconnectScheduled_def handleReconnectAttempt_def handleReconnectFailed_def
      message_delivery_failed_def handleHistory_def handleAttachmentEvent_def Let_def
      case_prod_beta split: option.split qjson.split)


definition no_connect :: "bridge \<Rightarrow> bool" where
  "no_connect b \<longleftrightarrow> list_all (Not \<circ> is_connect) (calls (br_controller b))"

definition connect_commands :: "string list" where
  "connect_commands = [''session.connectRemote'', ''session.connectLocalHost'', ''session.connectDiscoveredHost'']"

text \<open>The events by which the user asks for a connection.\<close>

fun asks_connect :: "bridge_env \<Rightarrow> bridge_event \<Rightarrow> bool" where
  "asks_connect e (PageCommand t) = (str (command_of e t) ''type'' \<in> set connect_commands)"
| "asks_connect e (ControllerCall ev) = connecting ev"
| "asks_connect e ev = False"

lemma no_connect_simps [simp]:
  "no_connect (scheduleStateUpdate b) = no_connect b" "no_connect (answer i ok err b) = no_connect b" "no_connect (succeed i b) = no_connect b"
  "no_connect (br_emit s b) = no_connect b" "no_connect (with_discovery f b) = no_connect b" "no_connect (with_profile g b) = no_connect b"
  "no_connect (publishState e b) = no_connect b" "no_connect (rebuildStateSnapshot e b) = no_connect b"
  "no_connect (b\<lparr>br_recalls := rs\<rparr>) = no_connect b" "no_connect (b\<lparr>br_files := fs\<rparr>) = no_connect b"
  "no_connect (b\<lparr>br_diagnostics := d\<rparr>) = no_connect b" "no_connect (b\<lparr>br_graphics := gr\<rparr>) = no_connect b"
  "no_connect (b\<lparr>br_hostDefaults := h\<rparr>) = no_connect b"
  by (simp_all add: no_connect_def rebuild_parts)

lemma no_connect_call: "no_connect b \<Longrightarrow> \<not> connecting ev \<Longrightarrow> no_connect (call_controller e extra ev b)"
  by (simp add: no_connect_def controller_call quiet_calls)

lemma no_connect_frames [simp]: "no_connect (fold (\<lambda>v. with_profile (g v)) vs b) = no_connect b"
  by (simp add: no_connect_def)

lemma command_lists:
  "list_all (\<lambda>(k, ev). k \<in> set connect_commands \<or> (\<forall>p. \<not> connecting (ev p))) (simple_commands e)"
  "list_all (\<lambda>(k, ev). \<forall>p i. \<not> connecting (ev p i)) mls_commands"
  "list_all (\<lambda>(k, ev). \<forall>p i. \<not> connecting (ev p i)) (attachment_commands e)"
  by (simp_all add: simple_commands_def mls_commands_def attachment_commands_def connect_commands_def)

lemma map_of_all: "list_all P kvs \<Longrightarrow> map_of kvs k = Some v \<Longrightarrow> P (k, v)"
  by (auto simp: list_all_iff dest: map_of_SomeD)

lemma quiet_commands:
  "type \<notin> set connect_commands \<Longrightarrow> map_of (simple_commands e) type = Some ev \<Longrightarrow> \<not> connecting (ev p)"
  "map_of mls_commands type = Some ev' \<Longrightarrow> \<not> connecting (ev' p i)"
  "map_of (attachment_commands e) type = Some ev' \<Longrightarrow> \<not> connecting (ev' p i)"
  using map_of_all [OF command_lists(1)] map_of_all [OF command_lists(2)] map_of_all [OF command_lists(3)] by auto

lemma quiet_other:
  assumes "map_of (other_commands e extra) type = Some run" "type \<notin> set connect_commands" "no_connect b"
  shows "no_connect (run i p b)"
proof -
  have "list_all (\<lambda>(k, run). k \<in> set connect_commands \<or> run \<in> {\<lambda>i p. discover_hosts e i, recall_command e extra, set_mode_command (qt (be_ctl e)),
      \<lambda>i p b. succeed i (scheduleStateUpdate (b\<lparr>br_diagnostics := setEnabled (to_qbool (member p ''enabled'')) (br_diagnostics b)\<rparr>)),
      frontend_error e, \<lambda>i. report_frames}) (other_commands e extra)"
    by (simp add: other_commands_def connect_commands_def)
  from map_of_all [OF this assms(1)] assms(2)
  show ?thesis using assms(3)
    by (auto simp: discover_hosts_def recall_command_def set_mode_command_def frontend_error_def report_frames_def no_connect_call Let_def
        split: sum.split)
qed

lemma quiet_bridge:
  assumes "\<not> asks_connect e ev" "no_connect b"
  shows "no_connect (run_bridge e extra ev b)"
proof (cases ev)
  case (PageCommand t)
  have "no_connect (run_command e extra (str (command_of e t) ''type'') i p b)" for i p
    using assms PageCommand quiet_commands [where type = "str (command_of e t) ''type''"] quiet_other [of e extra "str (command_of e t) ''type''"]
    by (auto simp: run_command_def no_connect_call split: option.split)
  with assms(2) show ?thesis
    by (auto simp: PageCommand dispatch_def command_of_def emitInvalidCommand_def Let_def split: option.split qjson.split sum.split)
qed (use assms in \<open>simp_all add: no_connect_call on_mls_result_def on_attachment_event_def graphics_refreshed_def setHostDefaults_def
  Let_def split: option.split\<close>)

lemma quiet_deliver: "no_connect b \<Longrightarrow> no_connect (deliver e extra s b)"
  by (cases s) (simp_all add: no_connect_call on_mls_result_def on_attachment_event_def)


section \<open>A disconnect in the whole client\<close>

fun user_connects :: "('c, 's, 'j) gui_event \<Rightarrow> bool" where
  "user_connects (InterfaceEvent e extra ev) = asks_connect e ev"
| "user_connects ev = False"

fun performs :: "('c, 's, 'j) gui_event \<Rightarrow> bool" where
  "performs (PerformCall e h) = True"
| "performs ev = False"

lemma offline_signals [simp]: "offline (w\<lparr>w_signals := s\<rparr>) = offline w"
  by (simp add: offline_def)

lemma offline_timer: "offline w \<Longrightarrow> offline (timer_fires e ops i w)"
  by (rule offline_step [where ops = ops], assumption, rule quiet_step.intros)

lemma offline_receive: "offline w \<Longrightarrow> offline (snd (receive_step e ops w))"
  by (rule offline_step [where ops = ops], assumption, rule quiet_step.intros)

lemma offline_perform: "offline w \<Longrightarrow> \<not> is_connect x \<Longrightarrow> offline (perform e ops h x w)"
  by (rule offline_step [where ops = ops], assumption, rule quiet_worker_call) auto

text \<open>The disconnect is among the next \<open>k\<close> calls and no connect follows it, or it has been performed.\<close>

definition disconnecting :: "nat \<Rightarrow> ('l, 'c, 's, 'j) gui_client \<Rightarrow> bool" where
  "disconnecting k cl \<longleftrightarrow> calls (br_controller (cl_bridge cl)) = [] \<and>
    ((\<exists>pre post. cl_calls cl = pre @ DisconnectFromServer # post \<and> list_all (Not \<circ> is_connect) post \<and> length pre < k) \<or>
     offline (cl_worker cl) \<and> list_all (Not \<circ> is_connect) (cl_calls cl))"

lemma disconnecting_interface:
  assumes "disconnecting k cl" "no_connect (cl_bridge cl) \<Longrightarrow> no_connect (f (cl_bridge cl))"
  shows "disconnecting k (on_interface f cl)"
  using assms by (fastforce simp: disconnecting_def on_interface_def no_connect_def Let_def)

lemma disconnecting_worker:
  "disconnecting k cl \<Longrightarrow> (\<And>w. offline w \<Longrightarrow> offline (f w)) \<Longrightarrow> disconnecting k (on_worker f cl)"
  by (auto simp: disconnecting_def on_worker_def Let_def)

lemma disconnecting_perform:
  assumes "disconnecting k cl"
  shows "disconnecting (k - 1) (gui_step ops (PerformCall e h) cl)"
proof (cases "cl_calls cl")
  case Nil
  with assms show ?thesis by (auto simp: disconnecting_def)
next
  case (Cons x rest)
  from assms consider
    (queued) pre post where "x # rest = pre @ DisconnectFromServer # post" "list_all (Not \<circ> is_connect) post" "length pre < k" |
    (performed) "offline (cl_worker cl)" "list_all (Not \<circ> is_connect) (x # rest)"
    unfolding disconnecting_def Cons by blast
  then show ?thesis
  proof cases
    case queued
    have idle: "calls (br_controller (cl_bridge cl)) = []" using assms by (simp add: disconnecting_def)
    show ?thesis
    proof (cases pre)
      case Nil
      with queued idle show ?thesis by (simp add: disconnecting_def Cons on_worker_def offline_disconnect Let_def)
    next
      case (Cons y pre')
      with queued idle \<open>cl_calls cl = x # rest\<close> show ?thesis
        unfolding disconnecting_def by (intro conjI disjI1 exI [of _ pre'] exI [of _ post]) (simp_all add: on_worker_def Let_def)
    qed
  next
    case performed
    with assms show ?thesis by (simp add: disconnecting_def Cons on_worker_def offline_perform Let_def)
  qed
qed

lemma disconnecting_step:
  assumes "disconnecting k cl" "\<not> user_connects ev"
  shows "disconnecting (k - (if performs ev then 1 else 0)) (gui_step ops ev cl)"
proof (cases ev)
  case (HandleSignal e extra)
  have "disconnecting k (cl\<lparr>cl_signals := s\<rparr>)" for s using assms(1) by (simp add: disconnecting_def)
  with assms(1) HandleSignal show ?thesis
    by (auto intro!: disconnecting_interface quiet_deliver split: list.split)
next
  case (TimerFires e i)
  with assms(1) show ?thesis by (simp add: disconnecting_worker offline_timer)
next
  case (ReceiveMessage e)
  with assms(1) show ?thesis by (simp add: disconnecting_worker offline_receive)
qed (use assms disconnecting_perform in \<open>auto intro!: disconnecting_interface quiet_bridge\<close>)

lemma disconnecting_run:
  "disconnecting k cl \<Longrightarrow> list_all (\<lambda>ev. \<not> user_connects ev) evs \<Longrightarrow> disconnecting (k - length (filter performs evs)) (run_gui ops evs cl)"
proof (induction evs arbitrary: k cl)
  case (Cons ev evs)
  from Cons.prems have "disconnecting (k - (if performs ev then 1 else 0)) (gui_step ops ev cl)" by (simp add: disconnecting_step)
  from Cons.IH [OF this] Cons.prems(2) show ?case by (simp add: run_gui_def split: if_splits)
qed (simp add: run_gui_def)

definition disconnect_command :: "bridge_env \<Rightarrow> string \<Rightarrow> bool" where
  "disconnect_command e t \<longleftrightarrow> validateCommand (qt (be_ctl e)) (command_of e t) = Inr () \<and> str (command_of e t) ''type'' = ''session.disconnect''"

lemma disconnect_queued:
  assumes "disconnect_command e t"
  shows "cl_calls (gui_step ops (InterfaceEvent e extra (PageCommand t)) cl) =
      cl_calls cl @ calls (br_controller (cl_bridge cl)) @ [DisconnectFromServer]"
    "calls (br_controller (cl_bridge (gui_step ops (InterfaceEvent e extra (PageCommand t)) cl))) = []"
proof -
  have "map_of (simple_commands e) ''session.disconnect'' = Some (\<lambda>p. DisconnectEvent)" by (simp add: simple_commands_def)
  with assms have "calls (br_controller (dispatch e extra t b)) = calls (br_controller b) @ [DisconnectFromServer]" for b
    by (simp add: disconnect_command_def dispatch_accepts run_command_def controller_call ctl_disconnectFromServer_def Let_def)
  then show "cl_calls (gui_step ops (InterfaceEvent e extra (PageCommand t)) cl) =
      cl_calls cl @ calls (br_controller (cl_bridge cl)) @ [DisconnectFromServer]"
    "calls (br_controller (cl_bridge (gui_step ops (InterfaceEvent e extra (PageCommand t)) cl))) = []"
    by (simp_all add: on_interface_def Let_def)
qed

text \<open>
  C12. A disconnect command of the page wins over everything queued before it: once the worker has performed as many calls as
  were queued then, there is no connection and no receive loop, whatever the threads do in between and afterwards, until
  the user asks for a connection again; and a chat message is refused.
\<close>

theorem client_disconnect_final:
  assumes "disconnect_command e t" "list_all (\<lambda>ev. \<not> user_connects ev) evs"
    and "length (cl_calls (gui_step ops (InterfaceEvent e extra (PageCommand t)) cl)) \<le> length (filter performs evs)"
  shows "let w = cl_worker (run_gui ops (InterfaceEvent e extra (PageCommand t) # evs) cl) in
    \<not> w_connection w \<and> \<not> w_running w \<and> sendChatToRoom we ops text rm messageId w = delivery_failed messageId w"
proof -
  define cl1 where "cl1 = gui_step ops (InterfaceEvent e extra (PageCommand t)) cl"
  have "disconnecting (length (cl_calls cl1)) cl1"
    using disconnect_queued [OF assms(1), of ops extra cl] unfolding cl1_def [symmetric] disconnecting_def
    by (intro conjI disjI1 exI [of _ "cl_calls cl @ calls (br_controller (cl_bridge cl))"] exI [of _ "[]"]) simp_all
  from disconnecting_run [OF this assms(2), of ops] assms(3) have "offline (cl_worker (run_gui ops evs cl1))"
    by (simp add: cl1_def disconnecting_def)
  then show ?thesis by (simp add: run_gui_def cl1_def offline_def sendChatToRoom_def usable_def Let_def)
qed


section \<open>A cancelled connect\<close>

fun request :: "worker_call \<Rightarrow> bool" where
  "request RequestRooms = True"
| "request RequestUsers = True"
| "request (RequestHistory _ _ _ _ _ _) = True"
| "request x = False"

lemma request_silent: "offline w \<Longrightarrow> request x \<Longrightarrow> perform e ops h x w = w"
  by (cases x) (simp_all add: offline_def usable_def requestRooms_def requestUsers_def requestHistory_def Let_def)

lemma requests_silent:
  "offline (cl_worker cl) \<Longrightarrow> w_signals (cl_worker cl) = [] \<Longrightarrow> list_all request (cl_calls cl) \<Longrightarrow>
   run_gui ops (replicate (length (cl_calls cl)) (PerformCall e h)) cl = cl\<lparr>cl_calls := []\<rparr>"
proof (induction "length (cl_calls cl)" arbitrary: cl)
  case 0
  then show ?case by (simp add: run_gui_def)
next
  case (Suc n)
  then obtain x rest where x: "cl_calls cl = x # rest" by (cases "cl_calls cl") auto
  have "(cl_worker cl)\<lparr>w_signals := []\<rparr> = cl_worker cl" using Suc.prems(2) by (cases "cl_worker cl") simp
  with Suc.prems x request_silent [of "cl_worker cl" x e ops h] have step: "gui_step ops (PerformCall e h) cl = cl\<lparr>cl_calls := rest\<rparr>"
    by (simp add: on_worker_def Let_def)
  with Suc.hyps(1) [of "cl\<lparr>cl_calls := rest\<rparr>"] Suc.hyps(2) Suc.prems x show ?case by (simp add: run_gui_def)
qed

text \<open>A session that is not a recovered one begins in the empty lobby.\<close>

lemma new_session:
  assumes "ctl_inv n c" "\<not> reconnecting c"
  shows "activeConversationKey (handleConnected b c) = ''room:lobby''" "rows ` ran (heap (handleConnected b c)) \<subseteq> {[]}"
proof -
  have "activeConversationKey (snd (ensureConversationModel key d)) = activeConversationKey d" for key d
    using ensure_frame [of key d] by auto
  then have "activeConversationKey (resetSessionData c) = ''room:lobby''" by (simp add: resetSessionData_def case_prod_beta Let_def)
  then show "activeConversationKey (handleConnected b c) = ''room:lobby''" using assms(2) by (simp add: handleConnected_def Let_def)
  have "models_ok c" using assms(1) by (simp add: ctl_inv_def)
  from reset_empties [OF this] assms(2) show "rows ` ran (heap (handleConnected b c)) \<subseteq> {[]}"
    by (simp add: handleConnected_def Let_def)
qed

lemma connected_asks:
  "list_all request (calls c) \<Longrightarrow> list_all request (calls (handleConnected a c))" "connected (handleConnected a c)"
  by (simp_all add: handleConnected_def requestActiveHistory_def Let_def)

text \<open>
  C24. A connect that is cancelled while it is under way leaves the interface connected to nothing: the worker first connects and
  then disconnects, but the signal of the connect is handled after the disconnect of the controller, and the signal of the
  worker's disconnect by nobody. The interface shows a connected session, the worker has none, and with the requests of the
  new session dropped there is nothing left that could correct it.
\<close>

theorem cancelled_connect_shown_connected:
  assumes idle: "cl_calls cl = []" "cl_signals cl = []" "calls (br_controller (cl_bridge cl)) = []"
    and login: "w_signals (connectToServer we ops ip port nm cd ca tls (cl_worker cl)) = [Connected a]"
    and cl': "cl' = run_gui ops
      [InterfaceEvent e extra (ControllerCall (ConnectEvent ip port nm cd ca tls)), InterfaceEvent e extra (ControllerCall DisconnectEvent),
       PerformCall we h, PerformCall we h, HandleSignal e extra, HandleSignal e extra] cl"
    and quiescent: "cl'' = run_gui ops (replicate (length (cl_calls cl')) (PerformCall we h)) cl'"
  shows "connected (br_controller (cl_bridge cl'')) \<and> \<not> w_connection (cl_worker cl'') \<and> \<not> w_running (cl_worker cl'') \<and>
    cl_calls cl'' = [] \<and> cl_signals cl'' = []"
proof -
  define b1 where "b1 = call_controller e extra (ConnectEvent ip port nm cd ca tls) (cl_bridge cl)"
  define b2 where "b2 = call_controller e extra DisconnectEvent (b1\<lparr>br_controller := (br_controller b1)\<lparr>calls := []\<rparr>\<rparr>)"
  define b3 where "b3 = call_controller e extra (ConnectedEvent a) (b2\<lparr>br_controller := (br_controller b2)\<lparr>calls := []\<rparr>\<rparr>)"
  define w1 where "w1 = (connectToServer we ops ip port nm cd ca tls (cl_worker cl))\<lparr>w_signals := []\<rparr>"
  define w2 where "w2 = disconnectFromServer ops w1"
  have 1: "calls (br_controller b1) = [ConnectToServer ip port nm cd ca tls]"
    using idle(3) by (simp add: b1_def controller_call connectToServerWithTlsName_def)
  have 2: "calls (br_controller b2) = [DisconnectFromServer]"
    by (simp add: b2_def controller_call ctl_disconnectFromServer_def Let_def)
  have 3: "w_signals w2 = [Disconnected]"
    by (simp add: w2_def w1_def disconnectFromServer_def emit_def stopHostedServer_def reset_connection_def stopReceiveLoop_def Let_def)
  define idle_calls where "idle_calls b = b\<lparr>br_controller := (br_controller b)\<lparr>calls := []\<rparr>\<rparr>" for b :: bridge
  have queued: "fold (gui_step ops) [InterfaceEvent e extra (ControllerCall (ConnectEvent ip port nm cd ca tls)),
      InterfaceEvent e extra (ControllerCall DisconnectEvent)] cl =
      cl\<lparr>cl_bridge := idle_calls b2, cl_calls := [ConnectToServer ip port nm cd ca tls, DisconnectFromServer]\<rparr>"
    using idle(1) 1 2 by (simp add: on_interface_def Let_def b1_def [symmetric] b2_def [symmetric] idle_calls_def)
  have worked: "fold (gui_step ops) [PerformCall we h, PerformCall we h]
      (cl\<lparr>cl_bridge := idle_calls b2, cl_calls := [ConnectToServer ip port nm cd ca tls, DisconnectFromServer]\<rparr>) =
      cl\<lparr>cl_bridge := idle_calls b2, cl_worker := w2\<lparr>w_signals := []\<rparr>, cl_calls := [], cl_signals := [Connected a, Disconnected]\<rparr>"
    using idle(2) login 3 by (simp add: on_worker_def Let_def w1_def [symmetric] w2_def [symmetric])
  have "cl' = fold (gui_step ops) [HandleSignal e extra, HandleSignal e extra]
      (cl\<lparr>cl_bridge := idle_calls b2, cl_worker := w2\<lparr>w_signals := []\<rparr>, cl_calls := [], cl_signals := [Connected a, Disconnected]\<rparr>)"
    unfolding cl' run_gui_def worked [symmetric] queued [symmetric] by simp
  then have cl'_eq: "cl' = cl\<lparr>cl_bridge := idle_calls b3, cl_worker := w2\<lparr>w_signals := []\<rparr>,
      cl_calls := calls (br_controller b3), cl_signals := []\<rparr>"
    by (simp add: on_interface_def Let_def idle_calls_def b3_def [symmetric])
  have off: "offline (cl_worker cl')" "w_signals (cl_worker cl') = []" by (simp_all add: cl'_eq w2_def offline_disconnect)
  have b3: "connected (br_controller b3)" "list_all request (calls (br_controller b3))"
    by (simp_all add: b3_def controller_call connected_asks)
  with requests_silent [OF off, of ops we h] have "cl'' = cl'\<lparr>cl_calls := []\<rparr>" unfolding quiescent by (simp add: cl'_eq)
  with off(1) b3(1) show ?thesis by (simp add: cl'_eq idle_calls_def offline_def)
qed


section \<open>Examples\<close>

definition quiet_host :: host_env where
  "quiet_host = \<lparr>he_exists_before = (\<lambda>p. False), he_listening = (False, False), he_start = (\<lambda>exe args. Inr ()), he_observations = [],
     he_rest = [], he_running = False, he_error = [], he_exists_after = (\<lambda>p. False)\<rparr>"

definition page_disconnects :: bridge_env where
  "page_disconnects = page_env\<lparr>be_ctl := sample_env\<lparr>parse_json := (\<lambda>t. Some (QObject
     [(''id'', QString ''c1''), (''type'', QString ''session.disconnect''), (''payload'', QObject [])]))\<rparr>\<rparr>"

definition client_with :: "(bool \<times> message list, unit, unit, unit) worker \<Rightarrow> (bool \<times> message list, unit, unit, unit) gui_client" where
  "client_with w = \<lparr>cl_bridge = ga_bridge first_gui, cl_worker = w, cl_calls = [], cl_signals = []\<rparr>"

lemma first_calls [simp]: "calls (br_controller (ga_bridge first_gui)) = []"
  using start_controller_parts [of first_start] by (auto simp: first_gui_def start_bridge_parts new_controller_def)

theorem client_disconnect_final_witness:
  "let w = cl_worker (run_gui memory_link [InterfaceEvent page_disconnects {} (PageCommand ''{}''), PerformCall worker_sample_env quiet_host]
       (client_with online_worker)) in
     \<not> w_connection w \<and> \<not> w_running w"
proof -
  have "map_of (payload_checks q) ''session.disconnect'' = Some (\<lambda>p. p = [])" for q by (simp add: payload_checks_def Let_def)
  then have check: "validatePayload q ''session.disconnect'' []" for q by (simp add: validatePayload_def)
  have cmd: "disconnect_command page_disconnects ''{}''"
    by (simp add: disconnect_command_def page_disconnects_def page_env_def sample_env_def command_of_def validateCommand_def nonEmptyString_def
        member_def str_def check plain_text_def)
  show ?thesis
    using client_disconnect_final [OF cmd, of "[PerformCall worker_sample_env quiet_host]" memory_link "{}" "client_with online_worker"]
      disconnect_queued(1) [OF cmd, of memory_link "{}" "client_with online_worker"]
    by (simp add: client_with_def Let_def)
qed

lemma idle_login:
  "w_signals (connectToServer worker_sample_env (memory_link\<lparr>lk_receive := f\<rparr>) ''10.0.0.1'' 8888 ''Amy'' ''amy'' [] [] idle_worker) = [Connected False]"
  "w_running (connectToServer worker_sample_env (memory_link\<lparr>lk_receive := f\<rparr>) ''10.0.0.1'' 8888 ''Amy'' ''amy'' [] [] idle_worker)"
  by (simp_all add: connectToServer_def connectToServerWithRetries_def session_started_def sample_defs resetMlsState_def new_client_def
      mls_create_def publishMlsKeyPackage_def on_client_def keyPackage_def encodeMlsOpaque_def send_or_lose_def link_send_def usable_def
      stopReceiveLoop_def reset_connection_def emit_def no_saved_connection_def one_document_def kMaxMlsOpaqueBytes_def empty_message_def
      empty_fields_def mk_fields_def Let_def)

theorem cancelled_connect_witness:
  "let cl' = run_gui memory_link
      [InterfaceEvent page_env {} (ControllerCall (ConnectEvent ''10.0.0.1'' 8888 ''Amy'' ''amy'' [] [])),
       InterfaceEvent page_env {} (ControllerCall DisconnectEvent), PerformCall worker_sample_env quiet_host,
       PerformCall worker_sample_env quiet_host, HandleSignal page_env {}, HandleSignal page_env {}] (client_with idle_worker);
     cl'' = run_gui memory_link (replicate (length (cl_calls cl')) (PerformCall worker_sample_env quiet_host)) cl' in
   connected (br_controller (cl_bridge cl'')) \<and> \<not> w_connection (cl_worker cl'')"
  unfolding Let_def
  using cancelled_connect_shown_connected [OF _ _ _ _ refl refl, of "client_with idle_worker" worker_sample_env memory_link "''10.0.0.1''" 8888
      "''Amy''" "''amy''" "[]" "[]" False page_env "{}" quiet_host] idle_login(1) [of "lk_receive memory_link"]
  by (simp add: client_with_def)

end
