(* ===== verification/Gui_Delivery.thy ===== *)
theory Gui_Delivery
  imports Gui_Client
begin

text \<open>
  A message that cannot be sent, through the whole client: the page hands it to the controller, the controller queues it
  and calls the worker, the worker reports that the delivery failed, and the controller marks the row the page is shown.
\<close>

section \<open>The failed row\<close>

lemma update_last:
  assumes "rows m = xs @ [row]" "findRow (xs @ [row]) ''messageId'' (VStr i) = Some (length xs)" "vals \<noteq> []"
  shows "rows (update_message i vals m) = xs @ [row ++\<^sub>f fmap_of_list vals]"
proof -
  have "fmap_of_list vals \<noteq> fmempty" using assms(3) by (cases vals) (auto simp: fmap_of_list_simps)
  with assms(1,2) show ?thesis by (simp add: update_message_def update_row_def updateRow_def Let_def)
qed


section \<open>Sending without a connection\<close>

text \<open>A worker on whose connection nothing can be sent, reports the message first.\<close>

definition cannot_send :: "'l link_ops \<Rightarrow> ('l, 'c, 's, 'j) worker \<Rightarrow> bool" where
  "cannot_send ops w \<longleftrightarrow> \<not> usable ops w \<or> (\<forall>m. \<not> fst (lk_send ops m (w_net w)))"

lemma unsent_reported:
  assumes "cannot_send ops w" "i \<noteq> []"
  shows "\<exists>rest. w_signals (sendChatToRoom e ops t r i w) = w_signals w @ MessageDeliveryFailed i # rest"
  using assms
  by (auto simp: cannot_send_def sendChatToRoom_def send_tracked_def link_send_def delivery_failed_def emit_def split: prod.splits)
    (metis fst_conv)+

lemma each_model_frame:
  "heap (each_model f (c\<lparr>calls := xs\<rparr>)) = heap (each_model f c)" "heap (each_model f (c\<lparr>emitted := ys\<rparr>)) = heap (each_model f c)"
proof -
  have w: "with_model p f (c\<lparr>calls := xs\<rparr>) = (with_model p f c)\<lparr>calls := xs\<rparr>"
    "with_model p f (c\<lparr>emitted := ys\<rparr>) = (with_model p f c)\<lparr>emitted := ys\<rparr>" for p c
    by (simp_all add: with_model_def split: option.split)
  have "heap (fold (\<lambda>(k, p). with_model p f) ms (c\<lparr>calls := xs\<rparr>)) = heap (fold (\<lambda>(k, p). with_model p f) ms c)"
    "heap (fold (\<lambda>(k, p). with_model p f) ms (c\<lparr>emitted := ys\<rparr>)) = heap (fold (\<lambda>(k, p). with_model p f) ms c)" for ms
    by (induction ms arbitrary: c) (auto simp: w)
  then show "heap (each_model f (c\<lparr>calls := xs\<rparr>)) = heap (each_model f c)" "heap (each_model f (c\<lparr>emitted := ys\<rparr>)) = heap (each_model f c)"
    by (simp_all add: each_model_def)
qed

text \<open>The controller: queued, then marked as failed.\<close>

lemma failed_row:
  assumes inv: "ctl_inv n c" and roles: "all_models message_model c"
    and sent: "trimmed (qt e) t = t" "t \<noteq> []" "trimmed (qt e) r = r" "r \<noteq> []" "i \<noteq> []"
    and shown: "activeConversationKey c = ''room:'' @ r" "heap c (messageModel c) = Some m" "findRow (rows m) ''messageId'' (VStr i) = None"
  defines "d \<equiv> message_delivery_failed i (sendRoomMessage e i t r c)"
  shows "messageModel d = messageModel c \<and> (\<exists>m' row. heap d (messageModel c) = Some m' \<and> message_model m' \<and> rows m' \<noteq> [] \<and>
    last (rows m') = row \<and> value_of row ''messageId'' = VStr i \<and> value_of row ''content'' = VStr t \<and> value_of row ''deliveryState'' = VStr ''failed'')"
proof -
  have p: "map_of (conversationModels c) (''room:'' @ r) = Some (messageModel c)"
    using inv shown(1) by (simp add: ctl_inv_def shows_active_def)
  have m: "message_model m" "small m" using roles inv shown(2) by (auto simp: all_models_def ran_def ctl_inv_def models_ok_def)
  from room_message_queued [OF sent(1-4) p shown(2), of i] obtain own where
    own: "text_id own = i" "value_of own ''messageId'' = VStr i" "value_of own ''content'' = VStr t"
      "heap (sendRoomMessage e i t r c) (messageModel c) = Some (fst (append_row own m))"
      "messageModel (sendRoomMessage e i t r c) = messageModel c" by auto
  let ?vals = "[(''deliveryState'', VStr ''failed'')]"
  let ?m' = "update_message i ?vals (fst (append_row own m))"
  from appended_last [OF m, of own] own(1,2) sent(5) shown(3) obtain xs where
    "rows (fst (append_row own m)) = xs @ [own]" "findRow (xs @ [own]) ''messageId'' (VStr i) = Some (length xs)" by auto
  then have rows: "rows ?m' = xs @ [own ++\<^sub>f fmap_of_list ?vals]" by (rule update_last) simp
  have "ctl_inv (Suc n) (sendRoomMessage e i t r c)" using run_event_inv [OF inv, of e "RoomMessageEvent i t r"] by simp
  then have "heap d (messageModel c) = Some ?m'" by (simp add: d_def message_delivery_failed_def each_model_at own(4) ctl_inv_def)
  moreover have "message_model ?m'" using m(1) by simp
  moreover have "messageModel d = messageModel c" by (simp add: d_def message_delivery_failed_def own(5))
  ultimately show ?thesis using own(2,3) by (simp add: rows value_of_merge) (simp add: value_of_def fmap_of_list.rep_eq)
qed


text \<open>
  C4. A message that cannot be sent is shown as failed: in a client that has handled all calls and signals, with the
  worker unable to send, whatever happened before, a message the user sends to the shown room ends up as the last message of the
  published state, with its text and marked as failed, once the worker has performed the call, the controller has handled its
  answer and the bridge has published.
\<close>

theorem unsent_message_shown_failed:
  assumes "gui_main s = (Inr app, run)" "list_all (same_machine_event (su_bridge s)) evs"
    and cl: "cl = run_gui ops evs (new_gui_client app net fs)" and e: "e = su_bridge s"
    and idle: "cl_calls cl = []" "cl_signals cl = []" "calls (br_controller (cl_bridge cl)) = []"
    and off: "cannot_send ops (cl_worker cl)"
    and sent: "trimmed (qt (be_ctl e)) t = t" "t \<noteq> []" "trimmed (qt (be_ctl e)) r = r" "r \<noteq> []" "i \<noteq> []"
    and shown: "activeConversationKey (br_controller (cl_bridge cl)) = ''room:'' @ r"
      "heap (br_controller (cl_bridge cl)) (messageModel (br_controller (cl_bridge cl))) = Some m"
      "findRow (rows m) ''messageId'' (VStr i) = None"
  shows "\<exists>items item. member (br_latest (cl_bridge (run_gui ops [InterfaceEvent e extra (ControllerCall (RoomMessageEvent i t r)),
      PerformCall we h, HandleSignal e extra, InterfaceEvent e extra PublishTimer] cl))) ''activeMessages'' = QArray (items @ [QObject item]) \<and>
    member item ''messageId'' = QString i \<and> member item ''content'' = QString t \<and> member item ''deliveryState'' = QString ''failed''"
proof -
  define c where "c = (br_controller (cl_bridge cl))\<lparr>emitted := []\<rparr>"
  define b1 where "b1 = call_controller e extra (RoomMessageEvent i t r) (cl_bridge cl)"
  define b2 where "b2 = call_controller e extra (DeliveryFailedEvent i) (b1\<lparr>br_controller := (br_controller b1)\<lparr>calls := []\<rparr>\<rparr>)"
  define d where "d = message_delivery_failed i (sendRoomMessage (be_ctl e) i t r c)"
  obtain n where inv: "gui_inv e n cl" using run_gui_inv [OF assms(1,2), of ops net fs] unfolding cl e by blast
  then have b: "bridge_inv e n (cl_bridge cl)" "w_signals (cl_worker cl) = []" by (simp_all add: gui_inv_def)
  have c: "ctl_inv n c" "all_models message_model c" using inv inv_core [OF b(1)] by (simp_all add: gui_inv_def c_def bridge_core_def all_models_def)
  have p: "map_of (conversationModels c) (''room:'' @ r) = Some (messageModel c)" "heap c (messageModel c) = Some m"
    using c(1) shown(1,2) by (simp_all add: ctl_inv_def shows_active_def c_def)
  have 1: "calls (br_controller b1) = [SendChatToRoom t r i]"
    using room_message_queued [OF sent(1-4) p, of i] idle(3) by (auto simp: b1_def controller_call c_def)
  obtain rest where rest: "w_signals (sendChatToRoom we ops t r i (cl_worker cl)) = MessageDeliveryFailed i # rest"
    using unsent_reported [OF off sent(5), of we t r] b(2) by auto
  have "br_latest (cl_bridge (run_gui ops [InterfaceEvent e extra (ControllerCall (RoomMessageEvent i t r)),
      PerformCall we h, HandleSignal e extra, InterfaceEvent e extra PublishTimer] cl)) = br_latest (publishState e b2)"
    using idle(1,2) 1 rest by (simp add: run_gui_def on_interface_def on_worker_def publish_calls Let_def b1_def [symmetric] b2_def [symmetric])
  moreover have "bridge_inv e (Suc (Suc n)) b2" unfolding b2_def by (rule call_controller_inv) (simp add: b1_def call_controller_inv b(1))
  moreover from failed_row [OF c sent, of m] shown(1,3) p(2) obtain m' row where
    d: "messageModel d = messageModel c" "heap d (messageModel c) = Some m'" "message_model m'" "rows m' \<noteq> []" "last (rows m') = row"
      "value_of row ''messageId'' = VStr i" "value_of row ''content'' = VStr t" "value_of row ''deliveryState'' = VStr ''failed''"
    unfolding d_def by (auto simp: c_def)
  moreover have "heap (br_controller b2) = heap d" "messageModel (br_controller b2) = messageModel d"
    by (simp_all add: b2_def b1_def d_def c_def controller_call message_delivery_failed_def each_model_frame)
  ultimately show ?thesis
    using published_last_row [of e "Suc (Suc n)" b2 m' row] by (fastforce simp: kMessageRoles_def)
qed


theorem unsent_message_shown_failed_witness:
  "\<exists>items item. member (br_latest (cl_bridge (run_gui memory_link
      [InterfaceEvent page_env {} (ControllerCall (RoomMessageEvent ''u1'' ''hi'' ''lobby'')), PerformCall worker_sample_env quiet_host,
       HandleSignal page_env {}, InterfaceEvent page_env {} PublishTimer] (client_with idle_worker)))) ''activeMessages'' = QArray (items @ [QObject item]) \<and>
    member item ''messageId'' = QString ''u1'' \<and> member item ''content'' = QString ''hi'' \<and> member item ''deliveryState'' = QString ''failed''"
proof -
  obtain run where run: "gui_main first_start = (Inr first_gui, run)" using first_start_runs by blast
  have new: "client_with idle_worker = run_gui memory_link [] (new_gui_client first_gui (False, []) Map.empty)"
    by (simp add: run_gui_def client_with_def new_gui_client_def idle_worker_def)
  have off: "cannot_send memory_link (cl_worker (client_with idle_worker))" by (simp add: client_with_def cannot_send_def usable_def sample_defs)
  have shown: "activeConversationKey (br_controller (cl_bridge (client_with idle_worker))) = ''room:lobby''"
    "heap (br_controller (cl_bridge (client_with idle_worker))) (messageModel (br_controller (cl_bridge (client_with idle_worker)))) = Some (new_model kMessageRoles)"
    using start_controller_parts [of first_start] by (auto simp: client_with_def first_gui_def start_bridge_parts new_controller_def)
  show ?thesis
    using unsent_message_shown_failed [OF run _ new refl _ _ _ off, of "''hi''" "''lobby''" "''u1''" "new_model kMessageRoles" "{}" worker_sample_env quiet_host]
      shown by (simp add: client_with_def first_start_parts page_env_def sample_env_def plain_text_def findRow_def new_model_def)
qed

end
