(* ===== verification/Worker_Download.thy ===== *)
theory Worker_Download
  imports Gui_Session
begin

text \<open>
  A download of the worker: it asks for the chunks one after the other and hands the answers to the assembler of \<open>Download\<close>.
\<close>

section \<open>Connections and answers\<close>

text \<open>A connection that sends, and keeps what it sent in the order of sending.\<close>

definition sends :: "'l link_ops \<Rightarrow> ('l \<Rightarrow> message list) \<Rightarrow> bool" where
  "sends ops sent \<longleftrightarrow> (\<forall>m l. lk_ready ops l \<longrightarrow>
     (\<exists>l'. lk_send ops m l = (True, l') \<and> lk_ready ops l' \<and> sent l' = sent l @ [m]))"

text \<open>The receive loop adds the events for the page.\<close>

lemma handled_attachment:
  assumes "mtype (mfields msg) = ''attachment.init'' \<or> mtype (mfields msg) = ''attachment.chunk'' \<or>
    mtype (mfields msg) = ''attachment.download''"
  shows "\<exists>s. handle_incoming e ops msg w = (processAttachmentMessage e ops (mfields msg) w)\<lparr>w_signals := s\<rparr>"
proof -
  let ?t = "mtype (mfields msg)"
  have t: "?t \<in> set attachment_types" "?t \<noteq> ''chat''" "?t \<noteq> ''error''" "?t \<noteq> ''history_response''" "?t \<noteq> ''mls.key_package.fetch''"
    "?t \<noteq> ''mls.group.proposal''" "?t \<noteq> ''mls.group.welcome''" "?t \<noteq> ''mls.group.commit''"
    using assms by (elim disjE; simp add: attachment_types_def)+
  then have "processMlsMessage e ops (mfields msg) w = w" by (simp add: processMlsMessage_def mls_handler_def Let_def)
  with t(1,4) show ?thesis
    by (simp add: handle_incoming_def emit_def Let_def) (rule exI, rule refl)
qed

section \<open>A download in progress\<close>

text \<open>The request for a chunk, and the answer with one.\<close>

definition download_request :: "string \<Rightarrow> int \<Rightarrow> string \<Rightarrow> message" where
  "download_request att index cmd = Message ((simple ''attachment.download'' [] [] [])\<lparr>attachment_id := att,
     chunk_index := word_of_int index, command_id := cmd\<rparr>) []"

definition delivers :: "manifest_api \<Rightarrow> string \<Rightarrow> TransferChunk \<Rightarrow> bool \<Rightarrow> message \<Rightarrow> bool" where
  "delivers api att ch is_last msg \<longleftrightarrow>
     (let m = mfields msg in mtype m = ''attachment.download'' \<and> attachment_id m = att \<and> chunk_index m = word_of_int (tc_index ch) \<and>
      ciphertext m = toBase64 api (tc_ciphertext ch) \<and> cipher_sha256 m = tc_cipher_sha256 ch \<and> (content m = ''last'') = is_last)"

text \<open>\<open>n\<close> chunks are in the part file and the next one was asked for.\<close>

record download_run =
  dr_id :: string
  dr_path :: string
  dr_command :: string
  dr_key :: string
  dr_context :: ChunkContext
  dr_data :: string
  dr_before :: "message list"

definition downloading ::
    "'l link_ops \<Rightarrow> ('l \<Rightarrow> message list) \<Rightarrow> download_run \<Rightarrow> nat \<Rightarrow> ('l, 'c, 's, 'j) worker \<Rightarrow> bool" where
  "downloading ops sent r n w \<longleftrightarrow> usable ops w \<and>
     sent (w_net w) = dr_before r @ map (\<lambda>i. download_request (dr_id r) (int i) (dr_command r)) [0..<Suc n] \<and>
     (\<exists>job. w_downloads w (dr_id r) = Some job \<and> dj_commandId job = dr_command r \<and> \<not> assembler.complete (dj_assembler job) \<and>
        progress (dr_path r) (dr_key r) (dr_context r) (dr_data r) n (dj_assembler job, w_fs w))"

definition downloaded :: "('l \<Rightarrow> message list) \<Rightarrow> download_run \<Rightarrow> nat \<Rightarrow> ('l, 'c, 's, 'j) worker \<Rightarrow> bool" where
  "downloaded sent r n w \<longleftrightarrow>
     sent (w_net w) = dr_before r @ map (\<lambda>i. download_request (dr_id r) (int i) (dr_command r)) [0..<n] \<and>
     w_downloads w (dr_id r) = None \<and> w_fs w (dr_path r) = Some (dr_data r) \<and> w_fs w (partPathFor (dr_path r)) = None"

definition download_ok :: "('c, 's, 'j) worker_env \<Rightarrow> download_run \<Rightarrow> bool" where
  "download_ok e r \<longleftrightarrow>
     evp_ok (we_evp e) \<and> hex_ok (we_evp e) \<and> no_faults (we_faults e) \<and>
     (\<forall>x. fromBase64 (we_manifest e) (toBase64 (we_manifest e) x) = x) \<and>
     ctx_chunk_size (dr_context r) = ChunkSize \<and> ctx_logical_size (dr_context r) = int (length (dr_data r)) \<and> ctx_chunk_index (dr_context r) = 0 \<and>
     ctx_attachment_id (dr_context r) = dr_id r \<and> ctx_room (dr_context r) \<noteq> [] \<and>
     int (length (dr_data r)) \<le> MaxLogicalBytes \<and> dr_id r \<noteq> [] \<and> trimmed (we_text e) (dr_id r) = dr_id r \<and>
     dr_command r \<noteq> [] \<and> trimmed (we_text e) (dr_command r) = dr_command r \<and> dr_path r \<noteq> [] \<and> trimmed (we_text e) (dr_path r) = dr_path r"

lemma request_sent:
  assumes "sends ops sent" "usable ops w" "download_ok e r"
  shows "\<exists>l. sendAttachmentDownload e ops (dr_id r) (int i) (dr_command r) w = w\<lparr>w_net := l\<rparr> \<and> lk_ready ops l \<and>
    sent l = sent (w_net w) @ [download_request (dr_id r) (int i) (dr_command r)]"
proof -
  have use: "w_connection w" "lk_ready ops (w_net w)" using assms(2) by (simp_all add: usable_def)
  with assms(1) obtain l where "lk_send ops (download_request (dr_id r) (int i) (dr_command r)) (w_net w) = (True, l)" "lk_ready ops l"
    "sent l = sent (w_net w) @ [download_request (dr_id r) (int i) (dr_command r)]" by (meson sends_def)
  with use assms(3) show ?thesis unfolding download_request_def
    by (intro exI [of _ l]) (simp add: sendAttachmentDownload_def send_attachment_message_def usable_def link_send_def download_ok_def Let_def)
qed

lemma small_index:
  assumes "i * nat ChunkSize < L" "int L \<le> MaxLogicalBytes"
  shows "sint (word_of_int (int i) :: i64) = int i"
proof -
  have "int i * 48128 < int L" using assms(1) by (simp add: ChunkSize_def PlaintextChunkBytes_def)
  then have "int i < 2 ^ 63" using assms(2) by (simp add: MaxLogicalBytes_def)
  then show ?thesis by (subst sint_sbintrunc') (simp add: signed_take_bit_int_eq_self)
qed


text \<open>The worker starts with the first request.\<close>

lemma download_starts:
  assumes ok: "download_ok e r" "sends ops sent" and w: "usable ops w" "sent (w_net w) = dr_before r" "w_downloads w (dr_id r) = None"
    and mf: "w_received w (dr_id r) = Some mf" "mkey mf = dr_key r" "manifest_context mf = dr_context r" "length (dr_key r) = KeySize"
    and data: "dr_data r \<noteq> []"
  shows "downloading ops sent r 0 (startAttachmentDownload e ops (dr_id r) (dr_path r) (dr_command r) w)"
proof -
  let ?c = "dr_context r"
  have c: "ctx_attachment_id ?c \<noteq> []" "ctx_room ?c \<noteq> []" "ctx_logical_size ?c = int (length (dr_data r))" "ctx_chunk_size ?c = ChunkSize"
    "ctx_chunk_index ?c = 0" "no_faults (we_faults e)" "dr_path r \<noteq> []" using ok(1) by (simp_all add: download_ok_def)
  have att: "manifest.attachmentId mf = dr_id r"
    using ok(1) arg_cong [OF mf(3), of ctx_attachment_id] by (simp add: download_ok_def manifest_context_def)
  obtain a fs where beg: "begin_download (we_faults e) (dr_path r) (dr_key r) ?c (new_assembler, w_fs w) = (Inr (), a, fs)"
    and pr: "progress (dr_path r) (dr_key r) ?c (dr_data r) 0 (a, fs)"
    using begin_ok [OF c(6,7) data c(1-5), of "dr_key r" "(new_assembler, w_fs w)"] by blast
  from beg have new: "\<not> assembler.complete a"
    by (auto simp: begin_download_def discardPart_def new_assembler_def Let_def split: if_splits)
  define w1 where "w1 = w\<lparr>w_fs := fs, w_downloads := (w_downloads w)(dr_id r \<mapsto>
    \<lparr>dj_manifest = mf, dj_manifestKey = dr_key r, dj_assembler = a, dj_commandId = dr_command r\<rparr>)\<rparr>"
  have "usable ops w1" using w(1) by (simp add: w1_def usable_def)
  from request_sent [OF ok(2) this ok(1), of 0] obtain l where
    l: "sendAttachmentDownload e ops (dr_id r) 0 (dr_command r) w1 = w1\<lparr>w_net := l\<rparr>" "lk_ready ops l"
      "sent l = sent (w_net w) @ [download_request (dr_id r) 0 (dr_command r)]" by (auto simp: w1_def)
  have "startAttachmentDownload e ops (dr_id r) (dr_path r) (dr_command r) w = w1\<lparr>w_net := l\<rparr>"
    using ok(1) mf w(3) beg l(1) att unfolding startAttachmentDownload_def Let_def
    by (simp add: download_ok_def move_assign_def discardPart_def new_assembler_def w1_def)
  then show ?thesis using w(1,2) l(2,3) pr new by (simp add: downloading_def w1_def usable_def)
qed

text \<open>An answer is accepted; the last one completes the file.\<close>

lemma chunk_received:
  assumes ok: "download_ok e r" "sends ops sent" and down: "downloading ops sent r n w" and more: "n * nat ChunkSize < length (dr_data r)"
    and seal: "seals (we_evp e) (dr_key r) (dr_context r) (n, take (nat ChunkSize) (drop (n * nat ChunkSize) (dr_data r))) ch"
    and msg: "delivers (we_manifest e) (dr_id r) ch l msg" and lst: "l \<longleftrightarrow> length (dr_data r) \<le> Suc n * nat ChunkSize"
  defines "w' \<equiv> on_attachment_download e ops (mfields msg) w"
  shows "if l then downloaded sent r (Suc n) w' else downloading ops sent r (Suc n) w'"
proof -
  let ?c = "dr_context r" and ?m = "mfields msg"
  from down obtain job where job: "w_downloads w (dr_id r) = Some job" "dj_commandId job = dr_command r" "\<not> assembler.complete (dj_assembler job)"
      "progress (dr_path r) (dr_key r) ?c (dr_data r) n (dj_assembler job, w_fs w)" by (auto simp: downloading_def)
  have parts: "evp_ok (we_evp e)" "hex_ok (we_evp e)" "can_write (we_faults e) (partPathFor (dr_path r))" "ctx_chunk_size ?c = ChunkSize"
      "ctx_logical_size ?c = int (length (dr_data r))" "no_faults (we_faults e)" using ok(1) by (simp_all add: download_ok_def no_faults_def)
  from accept_piece [OF parts(1-5) job(4) more seal lst] obtain a1 fs1 where
    pr: "progress (dr_path r) (dr_key r) ?c (dr_data r) (Suc n) (a1, fs1)" "assembler.complete a1 = assembler.complete (dj_assembler job)"
    and acc: "acceptChunk (we_evp e) (we_faults e) (tc_index ch) (tc_ciphertext ch) (tc_cipher_sha256 ch) l (dj_assembler job, w_fs w) =
      (if l then finalize (we_faults e) (a1, fs1) else (Inr (), a1, fs1))" by blast
  have ch: "tc_index ch = int n" using seal by (auto simp: seals_def sealed_chunk_def)
  have index: "sint (chunk_index ?m) = int n"
    using msg small_index [OF more] ok(1) by (simp add: delivers_def ch download_ok_def Let_def)
  have m: "fromBase64 (we_manifest e) (ciphertext ?m) = tc_ciphertext ch" "cipher_sha256 ?m = tc_cipher_sha256 ch" "(content ?m = ''last'') = l"
      "attachment_id ?m = dr_id r" using msg ok(1) by (simp_all add: delivers_def download_ok_def Let_def)
  have sent: "usable ops w" "sent (w_net w) = dr_before r @ map (\<lambda>i. download_request (dr_id r) (int i) (dr_command r)) [0..<Suc n]"
    using down by (simp_all add: downloading_def)
  show ?thesis
  proof (cases l)
    case True
    with finalize_ok [OF parts(6) pr(1)] lst acc have
      fin: "acceptChunk (we_evp e) (we_faults e) (int n) (tc_ciphertext ch) (tc_cipher_sha256 ch) True (dj_assembler job, w_fs w) =
        (Inr (), a1\<lparr>partPath := [], assembler.complete := True\<rparr>, fs1(dr_path r := None, partPathFor (dr_path r) := None, dr_path r \<mapsto> dr_data r))"
      by (simp add: ch)
    with True sent(2) job(1) show ?thesis
      unfolding w'_def on_attachment_download_def Let_def m index by (simp add: discardPart_def emit_def downloaded_def)
  next
    case False
    define w1 where "w1 = w\<lparr>w_fs := fs1, w_downloads := (w_downloads w)(dr_id r \<mapsto> job\<lparr>dj_assembler := a1\<rparr>)\<rparr>"
    have "usable ops w1" using sent(1) by (simp add: w1_def usable_def)
    from request_sent [OF ok(2) this ok(1), of "Suc n"] obtain k where
      k: "sendAttachmentDownload e ops (dr_id r) (int n + 1) (dr_command r) w1 = w1\<lparr>w_net := k\<rparr>" "lk_ready ops k"
        "sent k = sent (w_net w) @ [download_request (dr_id r) (int (Suc n)) (dr_command r)]" by (auto simp: w1_def add.commute)
    have "w' = w1\<lparr>w_net := k\<rparr>"
      using False acc pr(2) job(1-3) k(1) unfolding w'_def on_attachment_download_def Let_def m index by (simp add: ch w1_def)
    with False pr job(2,3) k(2,3) sent show ?thesis by (simp add: downloading_def w1_def usable_def)
  qed
qed


lemma signals_downloading [simp]:
  "downloading ops sent r n (w\<lparr>w_signals := s\<rparr>) = downloading ops sent r n w" "downloaded sent r n (w\<lparr>w_signals := s\<rparr>) = downloaded sent r n w"
  by (simp_all add: downloading_def downloaded_def usable_def)

text \<open>The answers, in order, with the last one marked.\<close>

definition delivered :: "manifest_api \<Rightarrow> string \<Rightarrow> TransferChunk list \<Rightarrow> message list \<Rightarrow> bool" where
  "delivered api att chs replies \<longleftrightarrow> length replies = length chs \<and>
     (\<forall>i < length chs. delivers api att (chs ! i) (Suc i = length chs) (replies ! i))"

lemma delivered_Cons [simp]:
  "delivered api att (ch # chs) replies \<longleftrightarrow> (\<exists>msg rest. replies = msg # rest \<and> delivers api att ch (chs = []) msg \<and> delivered api att chs rest)"
  by (cases replies) (auto simp: delivered_def All_less_Suc2)

lemma answers_handled:
  assumes ok: "download_ok e r" "sends ops sent"
    and "downloading ops sent r n w" "n * nat ChunkSize < length (dr_data r)" "delivered (we_manifest e) (dr_id r) chs replies"
    and "list_all2 (seals (we_evp e) (dr_key r) (dr_context r)) (enumerate n (pieces (drop (n * nat ChunkSize) (dr_data r)))) chs"
  shows "downloaded sent r (n + length chs) (fold (handle_incoming e ops) replies w)"
  using assms(3-6)
proof (induction chs arbitrary: n w replies)
  case Nil
  from Nil(2,4) show ?case by (simp add: pieces.simps)
next
  case (Cons ch chs)
  from Cons.prems(3) obtain msg rest where replies: "replies = msg # rest" "delivers (we_manifest e) (dr_id r) ch (chs = []) msg"
    "delivered (we_manifest e) (dr_id r) chs rest" by auto
  note next_piece = sealed_pieces [OF Cons.prems(2,4)]
  obtain s where s: "handle_incoming e ops msg w = (on_attachment_download e ops (mfields msg) w)\<lparr>w_signals := s\<rparr>"
    using handled_attachment [of msg e ops w] replies(2) by (auto simp: delivers_def processAttachmentMessage_def Let_def)
  note step = chunk_received [OF ok Cons.prems(1,2) next_piece(1) replies(2) next_piece(3)]
  show ?case
  proof (cases "chs = []")
    case True
    with step s replies(1,3) show ?thesis by (simp add: delivered_def)
  next
    case False
    with next_piece(3) have "Suc n * nat ChunkSize < length (dr_data r)" by simp
    with Cons.IH [of "Suc n" "handle_incoming e ops msg w" rest] step s replies(1,3) next_piece(2) False show ?thesis by simp
  qed
qed

end
