(* ===== verification/Worker_Upload.thy ===== *)
theory Worker_Upload
  imports Worker_Download
begin

text \<open>
  An upload of the worker from the server's answer to \<open>attachment.init\<close> to the commit: the loop with at most eight
  unacknowledged chunks sends what \<open>stream_encrypt\<close> makes of the file, each chunk once and in order, however the
  acknowledgements arrive. With the download of \<open>Worker_Download\<close>, the file reaches another client.
\<close>

section \<open>Chunks by index\<close>

lemma pieces_at: "length (pieces d) = nat ((int (length d) + ChunkSize - 1) div ChunkSize) \<and>
    (\<forall>i < length (pieces d). i * nat ChunkSize < length d \<and> pieces d ! i = take (nat ChunkSize) (drop (i * nat ChunkSize) d))"
proof (induction d rule: pieces.induct)
  case (1 d)
  have C: "ChunkSize = 48128" by (simp add: ChunkSize_def PlaintextChunkBytes_def)
  show ?case
  proof (cases "d = []")
    case True
    then show ?thesis by (simp add: pieces.simps C)
  next
    case False
    let ?d = "drop (nat ChunkSize) d"
    have p: "pieces d = take (nat ChunkSize) d # pieces ?d" using False by (subst pieces.simps) simp
    have ih: "length (pieces ?d) = nat ((int (length ?d) + ChunkSize - 1) div ChunkSize)"
      "\<forall>i < length (pieces ?d). i * nat ChunkSize < length ?d \<and> pieces ?d ! i = take (nat ChunkSize) (drop (i * nat ChunkSize) ?d)"
      using 1 [OF False] by blast+
    have "length (pieces d) = nat ((int (length d) + ChunkSize - 1) div ChunkSize)"
    proof (cases "length d \<le> 48128")
      case True
      then have "(int (length d) + ChunkSize - 1) div ChunkSize = 1" using False unfolding C by (intro int_div_pos_eq [of _ _ _ "int (length d) - 1"]) (auto simp: Suc_leI)
      with True ih(1) show ?thesis by (simp add: p C)
    next
      case long: False
      then have "int (length d) + ChunkSize - 1 = (int (length ?d) + ChunkSize - 1) + ChunkSize" unfolding C by simp
      then have "(int (length d) + ChunkSize - 1) div ChunkSize = (int (length ?d) + ChunkSize - 1) div ChunkSize + 1"
        unfolding C by (simp only: div_add_self2 [of 48128, simplified])
      moreover have "0 \<le> (int (length ?d) + ChunkSize - 1) div ChunkSize" unfolding C by (intro pos_imp_zdiv_nonneg_iff [THEN iffD2]) simp_all
      ultimately show ?thesis using ih(1) by (simp add: p nat_add_distrib)
    qed
    moreover have "i * nat ChunkSize < length d \<and> pieces d ! i = take (nat ChunkSize) (drop (i * nat ChunkSize) d)" if "i < length (pieces d)" for i
      using that ih(2) False by (cases i) (auto simp: p add.commute)
    ultimately show ?thesis by blast
  qed
qed

lemma enumerate_all2:
  "list_all2 P (enumerate k xs) ys \<longleftrightarrow> length xs = length ys \<and> (\<forall>i < length ys. P (k + i, xs ! i) (ys ! i))"
  by (auto simp: list_all2_conv_all_nth nth_enumerate_eq)

text \<open>The next chunk of the device is the chunk of that index.\<close>

definition device_at :: "string \<Rightarrow> nat \<Rightarrow> device" where
  "device_at data n = \<lparr>dev_usable = True, dev_rest = drop (n * nat ChunkSize) data\<rparr>"

lemma stream_pieces:
  assumes "ctx_chunk_size c = ChunkSize" "ctx_logical_size c = int (length data)"
    and "stream_encrypt api key collect_sink c (device_at data 0) [] = (Inr (), chs)"
  shows "length (pieces data) = length chs \<and> (\<forall>i < length chs. seals api key c (i, pieces data ! i) (chs ! i))"
    and "int (length chs) = (int (length data) + ChunkSize - 1) div ChunkSize"
proof -
  have C: "ChunkSize = 48128" by (simp add: ChunkSize_def PlaintextChunkBytes_def)
  have "stream_loop api key collect_sink c (int 0) (int (length data)) (device_at data 0) [] = (Inr (), chs)"
    using assms by (simp add: stream_encrypt_def device_at_def C)
  from stream_collects [OF this] show all: "length (pieces data) = length chs \<and> (\<forall>i < length chs. seals api key c (i, pieces data ! i) (chs ! i))"
    by (auto simp: device_at_def enumerate_all2)
  have "0 \<le> (int (length data) + ChunkSize - 1) div ChunkSize" unfolding C by (intro pos_imp_zdiv_nonneg_iff [THEN iffD2]) simp_all
  moreover have "length chs = nat ((int (length data) + ChunkSize - 1) div ChunkSize)" using all pieces_at [of data] by metis
  ultimately show "int (length chs) = (int (length data) + ChunkSize - 1) div ChunkSize" by simp
qed

lemma next_chunk:
  assumes c: "ctx_chunk_size c = ChunkSize" "ctx_logical_size c = int (length data)" "ctx_chunk_index c = 0"
    and chs: "stream_encrypt api key collect_sink c (device_at data 0) [] = (Inr (), chs)" and n: "n < length chs"
  shows "encrypt_next_chunk api key (c\<lparr>ctx_chunk_index := int n\<rparr>) (device_at data n) =
      (Inr (chs ! n, Suc n = length chs), device_at data (Suc n))"
    and "\<exists>x. chs ! n = sealed_chunk api (int n) x \<and> (evp_ok api \<longrightarrow> x \<noteq> [])"
proof -
  let ?C = "nat ChunkSize"
  have C: "ChunkSize = 48128" by (simp add: ChunkSize_def PlaintextChunkBytes_def)
  note all = stream_pieces(1) [OF c(1,2) chs] and count = stream_pieces(2) [OF c(1,2) chs]
  with n pieces_at [of data] have p: "n * ?C < length data" "pieces data ! n = take ?C (drop (n * ?C) data)" by auto
  from p(1) have pos: "0 < length data" by (rule le_less_trans [OF le0])
  from all n p(2) obtain x where x: "encrypt api key (c\<lparr>ctx_chunk_index := int n\<rparr>) (take ?C (drop (n * ?C) data)) = Some x"
    "chs ! n = sealed_chunk api (int n) x" by (auto simp: seals_def)
  then show "\<exists>x. chs ! n = sealed_chunk api (int n) x \<and> (evp_ok api \<longrightarrow> x \<noteq> [])" using aes_gcm.enc_nonempty by blast
  define k where "k = min ChunkSize (int (length data) - int n * ChunkSize)"
  have k: "0 < int (length data) - int n * ChunkSize" "nat k = min ?C (length (drop (n * ?C) data))" "0 \<le> k"
    using p(1) unfolding k_def C by (simp_all add: min_def nat_le_iff nat_diff_distrib) linarith+
  then have read: "dev_read k (device_at data n) = (take ?C (drop (n * ?C) data), device_at data (Suc n))"
    by (auto simp: dev_read_def device_at_def min_def add.commute)
  have "length (take ?C (drop (n * ?C) data)) = nat k" by (simp add: k(2) min.commute)
  then have "int (length (take ?C (drop (n * ?C) data))) = k" using k(3) by (simp del: length_take)
  moreover have "((int (length data) + ChunkSize - 1) div ChunkSize \<le> int n + 1) = (Suc n = length chs)"
    unfolding count [symmetric] using n by linarith
  moreover have "\<not> ChunkSize \<le> 0" by (simp add: C)
  ultimately show "encrypt_next_chunk api key (c\<lparr>ctx_chunk_index := int n\<rparr>) (device_at data n) =
      (Inr (chs ! n, Suc n = length chs), device_at data (Suc n))"
    using c pos k(1) x read unfolding encrypt_next_chunk_def by (simp add: device_at_def [of data n] Let_def k_def [symmetric])
qed


section \<open>An upload in progress\<close>

text \<open>The upload id, the job as it was started, the chunks of its file, and what the connection had sent before.\<close>

record upload_run =
  ur_id :: string
  ur_job :: upload_job
  ur_chunks :: "TransferChunk list"
  ur_before :: "message list"

definition chunk_command :: "upload_run \<Rightarrow> nat \<Rightarrow> string" where
  "chunk_command r i = uj_baseCommand (ur_job r) @ ''-chunk-'' @ to_string (int i)"

definition commit_command :: "upload_run \<Rightarrow> string" where
  "commit_command r = uj_baseCommand (ur_job r) @ ''-commit''"

definition sent_chunk :: "manifest_api \<Rightarrow> upload_run \<Rightarrow> nat \<Rightarrow> message" where
  "sent_chunk api r i =
    (let ch = ur_chunks r ! i in chunk_message api (ur_id r) (tc_index ch) (tc_ciphertext ch) (tc_cipher_sha256 ch) (chunk_command r i))"

text \<open>
  What an upload needs: the job describes the file, the chunks are those of the encrypted stream, and Qt's trimming
  leaves the ids alone.
\<close>

definition run_ok :: "('c, 's, 'j) worker_env \<Rightarrow> upload_run \<Rightarrow> bool" where
  "run_ok e r \<longleftrightarrow>
     (let job = ur_job r; c = uj_context job in
      evp_ok (we_evp e) \<and> hex_ok (we_evp e) \<and>
      ctx_chunk_size c = ChunkSize \<and> ctx_logical_size c = int (length (dev_rest (uj_input job))) \<and> ctx_chunk_index c = 0 \<and>
      uj_input job = device_at (dev_rest (uj_input job)) 0 \<and> \<not> uj_lastChunkSent job \<and> uj_inFlightChunks job = 0 \<and>
      stream_encrypt (we_evp e) (uj_key job) collect_sink c (uj_input job) [] = (Inr (), ur_chunks r) \<and> ur_chunks r \<noteq> [] \<and>
      ur_id r \<noteq> [] \<and> trimmed (we_text e) (ur_id r) = ur_id r \<and>
      (\<forall>i. trimmed (we_text e) (chunk_command r i) = chunk_command r i) \<and> trimmed (we_text e) (commit_command r) = commit_command r)"

definition job_at :: "upload_run \<Rightarrow> nat \<Rightarrow> nat set \<Rightarrow> upload_job" where
  "job_at r n acked = (ur_job r)\<lparr>uj_context := (uj_context (ur_job r))\<lparr>ctx_chunk_index := int n\<rparr>,
     uj_input := device_at (dev_rest (uj_input (ur_job r))) n, uj_lastChunkSent := (n = length (ur_chunks r)),
     uj_inFlightChunks := int n - int (card acked)\<rparr>"

text \<open>The transfer after \<open>n\<close> chunks were sent and those in \<open>acked\<close> acknowledged, and the worker then.\<close>

definition transfer_at :: "upload_run \<Rightarrow> nat \<Rightarrow> nat set \<Rightarrow> transfer \<Rightarrow> bool" where
  "transfer_at r n acked t \<longleftrightarrow> status t = Uploading \<and> chunkCount t = int (length (ur_chunks r)) \<and> received t = int ` acked \<and>
     (\<forall>i < length (ur_chunks r). pendingChunkCommands t (chunk_command r i) = (if i < n \<and> i \<notin> acked then Some (int i) else None))"

definition uploading ::
    "('c, 's, 'j) worker_env \<Rightarrow> 'l link_ops \<Rightarrow> ('l \<Rightarrow> message list) \<Rightarrow> upload_run \<Rightarrow> nat \<Rightarrow> nat set \<Rightarrow> ('l, 'c, 's, 'j) worker \<Rightarrow> bool" where
  "uploading e ops sent r n acked w \<longleftrightarrow>
     n \<le> length (ur_chunks r) \<and> acked \<subseteq> {..<n} \<and> w_jobs w (ur_id r) = Some (job_at r n acked) \<and>
     (\<exists>t. w_transfers w (ur_id r) = Some t \<and> transfer_at r n acked t) \<and>
     (\<forall>i < n. i \<notin> acked \<longrightarrow> map_of (w_chunks w) (chunk_command r i) = Some (ur_id r, int i)) \<and>
     usable ops w \<and> sent (w_net w) = ur_before r @ map (sent_chunk (we_manifest e) r) [0..<n]"

lemma command_inject [simp]: "chunk_command r i = chunk_command r j \<longleftrightarrow> i = j"
  by (simp add: chunk_command_def)

lemma run_next:
  assumes "run_ok e r" "n < length (ur_chunks r)"
  shows "encrypt_next_chunk (we_evp e) (uj_key (ur_job r)) (uj_context (job_at r n acked)) (uj_input (job_at r n acked)) =
      (Inr (ur_chunks r ! n, Suc n = length (ur_chunks r)), uj_input (job_at r (Suc n) acked))"
    and "\<exists>x. ur_chunks r ! n = sealed_chunk (we_evp e) (int n) x \<and> x \<noteq> [] \<and> length (qt_sha256_hex (we_evp e) x) = 64"
    and "trimmed (we_text e) (chunk_command r i) = chunk_command r i \<and> chunk_command r i \<noteq> []"
proof -
  let ?c = "uj_context (ur_job r)" and ?d = "dev_rest (uj_input (ur_job r))"
  have c: "ctx_chunk_size ?c = ChunkSize" "ctx_logical_size ?c = int (length ?d)" "ctx_chunk_index ?c = 0"
    using assms(1) by (simp_all add: run_ok_def Let_def)
  have chs: "stream_encrypt (we_evp e) (uj_key (ur_job r)) collect_sink ?c (device_at ?d 0) [] = (Inr (), ur_chunks r)"
    using assms(1) unfolding run_ok_def Let_def by metis
  note nc = next_chunk [OF c chs assms(2)]
  show "encrypt_next_chunk (we_evp e) (uj_key (ur_job r)) (uj_context (job_at r n acked)) (uj_input (job_at r n acked)) =
      (Inr (ur_chunks r ! n, Suc n = length (ur_chunks r)), uj_input (job_at r (Suc n) acked))"
    using nc(1) by (simp add: job_at_def)
  show "\<exists>x. ur_chunks r ! n = sealed_chunk (we_evp e) (int n) x \<and> x \<noteq> [] \<and> length (qt_sha256_hex (we_evp e) x) = 64"
    using nc(2) assms(1) by (auto simp: run_ok_def hex_ok_def Let_def)
  show "trimmed (we_text e) (chunk_command r i) = chunk_command r i \<and> chunk_command r i \<noteq> []"
    using assms(1) by (simp add: run_ok_def Let_def) (simp add: chunk_command_def)
qed


text \<open>One round of the sending loop sends the next chunk.\<close>

lemma register_next:
  assumes "transfer_at r n acked t" "acked \<subseteq> {..<n}" "n < length (ur_chunks r)"
  shows "\<exists>t'. registerChunkCommand (chunk_command r n) (int n) t = (True, t') \<and> transfer_at r (Suc n) acked t'"
proof -
  let ?t' = "t\<lparr>pendingChunkCommands := (pendingChunkCommands t)(chunk_command r n \<mapsto> int n)\<rparr>"
  have "n \<notin> acked" using assms(2) by auto
  then have "registerChunkCommand (chunk_command r n) (int n) t = (True, ?t')"
    using assms by (auto simp: registerChunkCommand_def transfer_at_def validIndex_def) (simp add: chunk_command_def)
  moreover have "transfer_at r (Suc n) acked ?t'" using assms \<open>n \<notin> acked\<close> by (auto simp: transfer_at_def less_Suc_eq)
  ultimately show ?thesis by blast
qed

lemma chunk_sent:
  assumes ok: "run_ok e r" "sends ops sent" and up: "uploading e ops sent r n acked w" and n: "n < length (ur_chunks r)"
  shows "\<exists>w'. send_one_chunk e ops (ur_id r) (job_at r n acked) w = (True, w') \<and> uploading e ops sent r (Suc n) acked w'"
proof -
  let ?u = "ur_id r"
  from up obtain t where t: "w_transfers w ?u = Some t" "transfer_at r n acked t" by (auto simp: uploading_def)
  have acked: "acked \<subseteq> {..<n}" using up by (simp add: uploading_def)
  from register_next [OF t(2) acked n] obtain t' where
    t': "registerChunkCommand (chunk_command r n) (int n) t = (True, t')" "transfer_at r (Suc n) acked t'" by blast
  from run_next(2) [OF ok(1) n] obtain x where x: "ur_chunks r ! n = sealed_chunk (we_evp e) (int n) x" "x \<noteq> []"
    "length (qt_sha256_hex (we_evp e) x) = 64" by blast
  have use: "w_connection w" "lk_ready ops (w_net w)" using up by (simp_all add: uploading_def usable_def)
  with ok(2) obtain l where l: "lk_send ops (sent_chunk (we_manifest e) r n) (w_net w) = (True, l)" "lk_ready ops l"
    "sent l = sent (w_net w) @ [sent_chunk (we_manifest e) r n]" by (meson sends_def)
  have id: "trimmed (we_text e) ?u = ?u" "?u \<noteq> []" using ok(1) by (simp_all add: run_ok_def Let_def)
  define w' where "w' = w\<lparr>w_jobs := (w_jobs w)(?u \<mapsto> job_at r (Suc n) acked), w_transfers := (w_transfers w)(?u \<mapsto> t'),
    w_chunks := map_put (chunk_command r n) (?u, int n) (w_chunks w), w_net := l\<rparr>"
  have msg: "chunk_message (we_manifest e) ?u (int n) x (qt_sha256_hex (we_evp e) x) (chunk_command r n) = sent_chunk (we_manifest e) r n"
    by (simp add: sent_chunk_def x(1) sealed_chunk_def)
  have "sendAttachmentChunk e ops ?u (int n) x (qt_sha256_hex (we_evp e) x) (chunk_command r n)
      (w\<lparr>w_jobs := (w_jobs w)(?u \<mapsto> job_at r (Suc n) acked)\<rparr>) = w'"
    using use id t(1) t'(1) l(1) x(2,3) run_next(3) [OF ok(1) n, of n]
    by (simp add: sendAttachmentChunk_def usable_def link_send_def w'_def msg Let_def)
  moreover have "job_at r n acked\<lparr>uj_lastChunkSent := Suc n = length (ur_chunks r),
      uj_context := (uj_context (job_at r n acked))\<lparr>ctx_chunk_index := ctx_chunk_index (uj_context (job_at r n acked)) + 1\<rparr>,
      uj_inFlightChunks := uj_inFlightChunks (job_at r n acked) + 1, uj_input := uj_input (job_at r (Suc n) acked)\<rparr> = job_at r (Suc n) acked"
    by (simp add: job_at_def)
  moreover have "uj_baseCommand (job_at r n acked) @ ''-chunk-'' @ to_string (int n) = chunk_command r n" "uj_key (job_at r n acked) = uj_key (ur_job r)"
    by (simp_all add: job_at_def chunk_command_def)
  moreover have "\<not> upload_failed w' ?u" using t'(2) by (simp add: upload_failed_def w'_def transfer_at_def)
  ultimately have "send_one_chunk e ops ?u (job_at r n acked) w = (True, w')"
    using x(2) unfolding send_one_chunk_def Let_def id(1) by (simp add: run_next(1) [OF ok(1) n] x(1) sealed_chunk_def)
  moreover have "uploading e ops sent r (Suc n) acked w'"
    using up n t'(2) l(2,3) use(1) by (auto simp: uploading_def w'_def usable_def less_Suc_eq)
  ultimately show ?thesis by blast
qed

text \<open>The loop fills the window.\<close>

definition window :: "upload_run \<Rightarrow> nat \<Rightarrow> nat" where
  "window r a = min (length (ur_chunks r)) (a + 8)"

lemma window_filled:
  assumes ok: "run_ok e r" "sends ops sent" and up: "uploading e ops sent r n acked w" and n: "n \<le> window r (card acked)"
  shows "uploading e ops sent r (window r (card acked)) acked (sendNextAttachmentChunk e ops (ur_id r) w)"
  using up n
proof (induction "window r (card acked) - n" arbitrary: n w)
  case 0
  then have n: "n = window r (card acked)" by simp
  have id: "trimmed (we_text e) (ur_id r) = ur_id r" using ok(1) by (simp add: run_ok_def Let_def)
  have job: "w_jobs w (ur_id r) = Some (job_at r n acked)" using 0 by (simp add: uploading_def)
  have "uj_lastChunkSent (job_at r n acked) \<or> WindowSize \<le> uj_inFlightChunks (job_at r n acked)"
    by (auto simp: job_at_def n window_def WindowSize_def min_def)
  with 0(2) n show ?case by (subst sendNextAttachmentChunk.simps) (simp add: id job)
next
  case (Suc k)
  then have n: "n < length (ur_chunks r)" "n < card acked + 8" by (simp_all add: window_def)
  from chunk_sent [OF ok Suc.prems(1) n(1)] obtain w' where
    w': "send_one_chunk e ops (ur_id r) (job_at r n acked) w = (True, w')" "uploading e ops sent r (Suc n) acked w'" by blast
  have id: "trimmed (we_text e) (ur_id r) = ur_id r" using ok(1) by (simp add: run_ok_def Let_def)
  have job: "w_jobs w (ur_id r) = Some (job_at r n acked)" using Suc.prems(1) by (simp add: uploading_def)
  have "\<not> uj_lastChunkSent (job_at r n acked) \<and> \<not> WindowSize \<le> uj_inFlightChunks (job_at r n acked)"
    using n by (simp add: job_at_def WindowSize_def)
  then have "sendNextAttachmentChunk e ops (ur_id r) w = sendNextAttachmentChunk e ops (ur_id r) w'"
    by (subst sendNextAttachmentChunk.simps) (simp add: id job w'(1))
  moreover have "k = window r (card acked) - Suc n" "Suc n \<le> window r (card acked)" using Suc(2) by linarith+
  ultimately show ?case using Suc.hyps(1) [OF _ w'(2)] by simp
qed


section \<open>Acknowledgements\<close>

lemma ack_accepted:
  assumes t: "transfer_at r n acked t" and i: "i < n" "i \<notin> acked" and n: "n \<le> length (ur_chunks r)" "acked \<subseteq> {..<n}"
  shows "\<exists>t'. acceptCommandAck (chunk_command r i) (int i) t = (True, t') \<and>
    (if Suc (card acked) = length (ur_chunks r) then status t' = Completed else transfer_at r n (insert i acked) t')"
proof -
  let ?t1 = "t\<lparr>pendingChunkCommands := (pendingChunkCommands t)(chunk_command r i := None), received := insert (int i) (received t),
    failedAttempts := (failedAttempts t)(int i := 0)\<rparr>"
  have fin: "finite acked" using n(2) finite_subset by blast
  have "received ?t1 = int ` insert i acked" using t by (simp add: transfer_at_def)
  then have "receivedCount ?t1 = int (card (insert i acked))" unfolding receivedCount_def by (simp only: card_image inj_on_of_nat)
  then have count: "receivedCount ?t1 = int (Suc (card acked))" using fin i(2) by simp
  have cc: "chunkCount t = int (length (ur_chunks r))" "status t = Uploading" using t by (simp_all add: transfer_at_def)
  have "pendingChunkCommands t (chunk_command r i) = Some (int i)" using t i n(1) by (simp add: transfer_at_def)
  moreover have "validIndex t (int i)" using cc i n(1) by (simp add: validIndex_def)
  ultimately have "acceptCommandAck (chunk_command r i) (int i) t =
      (True, if receivedCount ?t1 = chunkCount t then ?t1\<lparr>status := Completed\<rparr> else ?t1)"
    using cc(2) by (simp add: acceptCommandAck_def acceptChunkAck_def Let_def)
  moreover have "transfer_at r n (insert i acked) ?t1" using t i by (auto simp: transfer_at_def)
  ultimately show ?thesis unfolding cc(1) count by auto
qed

text \<open>The upload is over: all chunks and the commit were sent, and the manifest waits for the answer.\<close>

definition commit_message :: "upload_run \<Rightarrow> message" where
  "commit_message r = Message ((simple ''attachment.commit'' [] [] [])\<lparr>upload_id := ur_id r, command_id := commit_command r\<rparr>) []"

definition uploaded ::
    "('c, 's, 'j) worker_env \<Rightarrow> ('l \<Rightarrow> message list) \<Rightarrow> upload_run \<Rightarrow> ('l, 'c, 's, 'j) worker \<Rightarrow> bool" where
  "uploaded e sent r w \<longleftrightarrow>
     sent (w_net w) = ur_before r @ map (sent_chunk (we_manifest e) r) [0..<length (ur_chunks r)] @ [commit_message r] \<and>
     w_jobs w (ur_id r) = None \<and> map_option status (w_transfers w (ur_id r)) = Some Completed \<and>
     w_manifests w (commit_command r) = Some (manifest_of (w_groups w (ctx_group_id (uj_context (ur_job r)))) (ur_job r))"

definition acknowledges :: "upload_run \<Rightarrow> nat \<Rightarrow> message \<Rightarrow> bool" where
  "acknowledges r i msg \<longleftrightarrow> mtype (mfields msg) = ''attachment.chunk'' \<and> command_id (mfields msg) = chunk_command r i"

lemma committed:
  assumes ok: "run_ok e r" "sends ops sent" and last: "card (insert i acked) = length (ur_chunks r)" "i \<notin> acked" "finite acked"
    and w: "usable ops w" "sent (w_net w) = ur_before r @ map (sent_chunk (we_manifest e) r) [0..<length (ur_chunks r)]"
      "map_option status (w_transfers w (ur_id r)) = Some Completed"
  shows "uploaded e sent r (chunk_acknowledged e ops (ur_id r) (job_at r (length (ur_chunks r)) acked) w)"
proof -
  let ?job = "job_at r (length (ur_chunks r)) (insert i acked)"
  have job: "(job_at r (length (ur_chunks r)) acked)\<lparr>uj_inFlightChunks := uj_inFlightChunks (job_at r (length (ur_chunks r)) acked) - 1\<rparr> = ?job"
    using last(2,3) by (simp add: job_at_def)
  have j: "uj_lastChunkSent ?job" "uj_inFlightChunks ?job = 0" "uj_baseCommand ?job = uj_baseCommand (ur_job r)"
    "ctx_group_id (uj_context ?job) = ctx_group_id (uj_context (ur_job r))" "manifest_of g ?job = manifest_of g (ur_job r)" for g
    using last(1) by (simp_all add: job_at_def manifest_of_def)
  have use: "w_connection w" "lk_ready ops (w_net w)" using w(1) by (simp_all add: usable_def)
  with ok(2) obtain l where l: "lk_send ops (commit_message r) (w_net w) = (True, l)" "sent l = sent (w_net w) @ [commit_message r]"
    by (meson sends_def)
  have ids: "trimmed (we_text e) (ur_id r) = ur_id r" "ur_id r \<noteq> []"
    "trimmed (we_text e) (commit_command r) = commit_command r" "commit_command r \<noteq> []"
    using ok(1) by (simp_all add: run_ok_def Let_def) (simp add: commit_command_def)
  have msg: "Message ((simple ''attachment.commit'' [] [] [])\<lparr>upload_id := ur_id r, command_id := commit_command r\<rparr>) [] = commit_message r"
    by (simp add: commit_message_def)
  show ?thesis
    unfolding chunk_acknowledged_def Let_def job j(3) commit_command_def [symmetric]
    using use j l w(2,3) ids
    by (simp add: sendAttachmentCommit_def send_attachment_message_def usable_def link_send_def msg uploaded_def Let_def)
qed

lemma ack_handled:
  assumes ok: "run_ok e r" "sends ops sent" and up: "uploading e ops sent r (window r (card acked)) acked w"
    and i: "i < window r (card acked)" "i \<notin> acked" and ack: "command_id m = chunk_command r i"
  defines "w' \<equiv> on_attachment_chunk e ops m w"
  shows "if Suc (card acked) = length (ur_chunks r) then uploaded e sent r w'
    else uploading e ops sent r (window r (Suc (card acked))) (insert i acked) w'"
proof -
  let ?n = "window r (card acked)" and ?u = "ur_id r" and ?a = "insert i acked"
  from up obtain t where t: "w_transfers w ?u = Some t" "transfer_at r ?n acked t" by (auto simp: uploading_def)
  have n: "?n \<le> length (ur_chunks r)" "acked \<subseteq> {..<?n}" using up by (simp_all add: uploading_def)
  then have fin: "finite acked" using finite_subset by blast
  from ack_accepted [OF t(2) i n] obtain t' where t': "acceptCommandAck (chunk_command r i) (int i) t = (True, t')"
    "if Suc (card acked) = length (ur_chunks r) then status t' = Completed else transfer_at r ?n ?a t'" by blast
  define w2 where "w2 = w\<lparr>w_chunks := map_erase (chunk_command r i) (w_chunks w), w_transfers := (w_transfers w)(?u \<mapsto> t')\<rparr>"
  have w': "w' = chunk_acknowledged e ops ?u (job_at r ?n acked) w2"
    using up i ack t(1) t'(1) by (simp add: w'_def on_attachment_chunk_def pending_chunk_def uploading_def w2_def)
  have use: "usable ops w2" "sent (w_net w2) = ur_before r @ map (sent_chunk (we_manifest e) r) [0..<?n]"
    using up by (simp_all add: uploading_def w2_def usable_def)
  show ?thesis
  proof (cases "Suc (card acked) = length (ur_chunks r)")
    case True
    have "card ?a \<le> ?n" using n(2) i(1) card_mono [of "{..<?n}" ?a] by simp
    then have full: "?n = length (ur_chunks r)" using n(1) True fin i(2) by simp
    with committed [OF ok, of i acked w2] True fin i(2) use t'(2) show ?thesis by (simp add: w' full) (simp add: w2_def)
  next
    case False
    let ?job = "job_at r ?n ?a" and ?w3 = "w2\<lparr>w_jobs := (w_jobs w2)(?u \<mapsto> job_at r ?n ?a)\<rparr>"
    have job: "(job_at r ?n acked)\<lparr>uj_inFlightChunks := uj_inFlightChunks (job_at r ?n acked) - 1\<rparr> = ?job"
      using fin i(2) by (simp add: job_at_def)
    have "map_of (map_erase k kvs) x = map_of kvs x" if "x \<noteq> k" for k x and kvs :: "(string \<times> string \<times> int) list"
      using that by (induction kvs) (auto simp: map_erase_def)
    then have "uploading e ops sent r ?n ?a ?w3"
      using up use i(1) t'(2) False by (auto simp: uploading_def w2_def usable_def)
    moreover have "?n \<le> window r (card ?a)" using fin i(2) by (simp add: window_def)
    moreover have "\<not> (uj_lastChunkSent ?job \<and> uj_inFlightChunks ?job = 0)" using fin i(2) False by (auto simp: job_at_def)
    then have "w' = sendNextAttachmentChunk e ops ?u ?w3" unfolding w' chunk_acknowledged_def Let_def job by (simp only: if_False)
    ultimately show ?thesis using window_filled [OF ok, of ?n ?a ?w3] False fin i(2) by simp
  qed
qed


lemma signals_uploading [simp]:
  "uploading e ops sent r n acked (w\<lparr>w_signals := s\<rparr>) = uploading e ops sent r n acked w" "uploaded e sent r (w\<lparr>w_signals := s\<rparr>) = uploaded e sent r w"
  by (simp_all add: uploading_def uploaded_def usable_def)

text \<open>
  The acknowledgements may come in any order in which each is for a chunk already sent: the chunk acknowledged as the
  \<open>p\<close>th, from zero, is one of the first \<open>p + 8\<close>.
\<close>

definition ack_order :: "nat \<Rightarrow> nat list \<Rightarrow> bool" where
  "ack_order N order \<longleftrightarrow> distinct order \<and> set order = {..<N} \<and> (\<forall>p < N. order ! p < p + 8)"

lemma acks_handled:
  assumes ok: "run_ok e r" "sends ops sent"
    and "uploading e ops sent r (window r (card acked)) acked w" "list_all2 (acknowledges r) order acks"
    and "distinct order" "set order \<inter> acked = {}" "set order \<union> acked = {..<length (ur_chunks r)}"
    and "\<forall>p < length order. order ! p < card acked + p + 8" "order \<noteq> []"
  shows "uploaded e sent r (fold (handle_incoming e ops) acks w)"
  using assms(3-9)
proof (induction order arbitrary: acked w acks)
  case (Cons i order)
  then obtain msg rest where acks: "acks = msg # rest" "acknowledges r i msg" "list_all2 (acknowledges r) order rest"
    by (auto simp: list_all2_Cons1)
  have i: "i \<notin> acked" "i < window r (card acked)" using Cons.prems(4-6) by (auto simp: window_def)
  have fin: "finite acked" using Cons.prems(5) by (metis finite_Un finite_lessThan)
  obtain s where s: "handle_incoming e ops msg w = (on_attachment_chunk e ops (mfields msg) w)\<lparr>w_signals := s\<rparr>"
    using handled_attachment [of msg e ops w] acks(2) by (auto simp: acknowledges_def processAttachmentMessage_def)
  have "command_id (mfields msg) = chunk_command r i" using acks(2) by (simp add: acknowledges_def)
  note step = ack_handled [OF ok Cons.prems(1) i(2,1) this]
  have card: "Suc (card acked) + length order = length (ur_chunks r)"
    using arg_cong [OF Cons.prems(5), of card] Cons.prems(3,4) fin card_Un_disjoint [of "set (i # order)" acked] distinct_card [of "i # order"] by simp
  show ?case
  proof (cases "order = []")
    case True
    with step card acks(1,3) s show ?thesis by simp
  next
    case False
    then have "Suc (card acked) \<noteq> length (ur_chunks r)" using card by (cases order) simp_all
    with step s have "uploading e ops sent r (window r (card (insert i acked))) (insert i acked) (handle_incoming e ops msg w)"
      using fin i(1) by simp
    moreover have "distinct order" "set order \<inter> insert i acked = {}" "set order \<union> insert i acked = {..<length (ur_chunks r)}"
      using Cons.prems(3-5) by auto
    moreover have "order ! p < card (insert i acked) + p + 8" if "p < length order" for p
      using Cons.prems(6) [rule_format, of "Suc p"] that fin i(1) by simp
    ultimately show ?thesis using Cons.IH [OF _ acks(3)] False acks(1) by simp
  qed
qed simp

section \<open>From the file to the commit\<close>

text \<open>The members have been added to the group: the worker makes the key and announces the file.\<close>

definition init_message :: "string \<Rightarrow> int \<Rightarrow> string \<Rightarrow> message" where
  "init_message rm sz k = Message ((simple ''attachment.init'' [] [] rm)\<lparr>logical_size := word_of_int sz, command_id := k\<rparr>) []"

lemma upload_announced:
  assumes "sends ops sent" "usable ops w" "w_setups w k = Some s" "length (ms_targetUsers s) \<le> ms_nextTarget s"
    "generate_key (we_evp e) = Some key" "we_is_file e (ms_filePath s)" "w_fs w (we_absolute e (ms_filePath s)) = Some data" "data \<noteq> []"
    "int (length data) \<le> MaxLogicalBytes" "k \<noteq> []" "trimmed (we_text e) k = k" "ms_room s \<noteq> []" "trimmed (we_text e) (ms_room s) = ms_room s"
  defines "w1 \<equiv> startNextAttachmentMlsSetup e ops k w"
  shows "usable ops w1 \<and> sent (w_net w1) = sent (w_net w) @ [init_message (ms_room s) (int (length data)) k] \<and> w_fs w1 = w_fs w \<and>
    w_inits w1 k = Some (snd (begin_transfer (int (length data)) ChunkSize new_transfer)) \<and>
    w_files w1 k = Some \<lparr>pf_room = ms_room s, pf_groupId = ms_groupId s, pf_filePath = we_absolute e (ms_filePath s),
      pf_key = key, pf_logicalSize = int (length data)\<rparr>"
proof -
  have use: "w_connection w" "lk_ready ops (w_net w)" using assms(2) by (simp_all add: usable_def)
  with assms(1) obtain l where l: "lk_send ops (init_message (ms_room s) (int (length data)) k) (w_net w) = (True, l)" "lk_ready ops l"
    "sent l = sent (w_net w) @ [init_message (ms_room s) (int (length data)) k]" by (meson sends_def)
  obtain t where t: "begin_transfer (int (length data)) ChunkSize new_transfer = (True, t)"
    using assms(8) by (simp add: begin_transfer_def new_transfer_def not_le)
  show ?thesis
    using use l t assms(3-13) unfolding init_message_def
    by (simp add: w1_def startNextAttachmentMlsSetup_def readable_def file_size_def sendAttachmentInit_def link_send_def usable_def
        not_less Let_def)
qed

text \<open>The server's answer starts the job and fills the window.\<close>

lemma upload_begins:
  assumes ok: "run_ok e r" "sends ops sent" and use: "usable ops w" "sent (w_net w) = ur_before r"
    and w: "w_inits w k = Some (snd (begin_transfer (int (length data)) ChunkSize new_transfer))" "w_files w k = Some f"
      "we_can_open e (pf_filePath f)" "w_fs w (pf_filePath f) = Some data" "data \<noteq> []"
    and m: "command_id m = k" "upload_id m = ur_id r" "attachment_id m \<noteq> []" "expires_at m \<noteq> []" "sint (chunk_size m) = ChunkSize"
    and job: "ur_job r = \<lparr>uj_room = pf_room f, uj_fileName = we_file_name e (pf_filePath f), uj_baseCommand = k, uj_key = pf_key f,
       uj_context = \<lparr>ctx_attachment_id = attachment_id m, ctx_room = pf_room f, ctx_group_id = pf_groupId f,
         ctx_logical_size = pf_logicalSize f, ctx_chunk_size = ChunkSize, ctx_chunk_index = 0\<rparr>,
       uj_input = \<lparr>dev_usable = True, dev_rest = data\<rparr>, uj_lastChunkSent = False, uj_inFlightChunks = 0\<rparr>"
  shows "uploading e ops sent r (window r 0) {} (on_attachment_init e ops m w)"
proof -
  have id: "ur_id r \<noteq> []" "ur_chunks r \<noteq> []" using ok(1) by (simp_all add: run_ok_def Let_def)
  obtain t where t: "acceptInit (attachment_id m) (ur_id r) ChunkSize (expires_at m) (snd (begin_transfer (int (length data)) ChunkSize new_transfer)) = (True, t)"
      "status t = Uploading" "transfer.logicalSize t = int (length data)" "transfer.chunkSize t = ChunkSize" "received t = {}" "pendingChunkCommands t = Map.empty"
    using w(5) m id by (simp add: acceptInit_def begin_transfer_def new_transfer_def not_le)
  define w1 where "w1 = w\<lparr>w_inits := (w_inits w)(k := None), w_transfers := (w_transfers w)(ur_id r \<mapsto> t),
    w_files := (w_files w)(k := None), w_jobs := (w_jobs w)(ur_id r \<mapsto> ur_job r)\<rparr>"
  have init: "on_attachment_init e ops m w = sendNextAttachmentChunk e ops (ur_id r) w1"
    using w m job t(1) by (simp add: on_attachment_init_def w1_def Let_def)
  have start: "ur_job r = job_at r 0 {}" using id(2) by (simp add: job_at_def job device_at_def)
  have "ctx_logical_size (uj_context (ur_job r)) = int (length data)" using ok(1) by (simp add: run_ok_def job Let_def)
  moreover have "0 \<le> int (length data) + ChunkSize - 1" using ChunkSize_pos by linarith
  ultimately have "chunkCount t = int (length (ur_chunks r))"
    using ok(1) stream_pieces(2) [of "uj_context (ur_job r)" data "we_evp e" "uj_key (ur_job r)"]
    by (simp add: run_ok_def job device_at_def Let_def chunkCount_def t)
  then have "transfer_at r 0 {} t" by (simp add: transfer_at_def t)
  then have "uploading e ops sent r 0 {} w1" using use start by (simp add: uploading_def w1_def usable_def)
  then have "uploading e ops sent r (window r (card ({} :: nat set))) {} (sendNextAttachmentChunk e ops (ur_id r) w1)"
    by (rule window_filled [OF ok]) simp
  then show ?thesis by (simp add: init)
qed


lemma upload_completes:
  assumes ok: "run_ok e r" "sends ops sent" and begun: "uploading e ops sent r (window r 0) {} (on_attachment_init e ops (mfields reply) w)"
    and reply: "mtype (mfields reply) = ''attachment.init''"
    and acks: "ack_order (length (ur_chunks r)) order" "list_all2 (acknowledges r) order acks"
  shows "uploaded e sent r (fold (handle_incoming e ops) (reply # acks) w)"
proof -
  have "uploading e ops sent r (window r (card ({} :: nat set))) {} (handle_incoming e ops reply w)"
    using handled_attachment [of reply e ops w] begun reply by (auto simp: processAttachmentMessage_def)
  moreover have "ur_chunks r \<noteq> []" using ok(1) by (simp add: run_ok_def Let_def)
  then have "distinct order" "set order = {..<length (ur_chunks r)}" "\<forall>p < length order. order ! p < p + 8" "order \<noteq> []"
    using acks(1) distinct_card [of order] by (auto simp: ack_order_def)
  ultimately show ?thesis using acks_handled [OF ok, of "{}" _ order acks] acks(2) by simp
qed

lemma sent_chunks:
  assumes "run_ok e r"
  shows "map (sent_chunk api r) [0..<length (ur_chunks r)] = map (\<lambda>ch. chunk_message api (ur_id r) (tc_index ch)
    (tc_ciphertext ch) (tc_cipher_sha256 ch) (uj_baseCommand (ur_job r) @ ''-chunk-'' @ to_string (tc_index ch))) (ur_chunks r)"
proof -
  have "tc_index (ur_chunks r ! i) = int i" if "i < length (ur_chunks r)" for i
    using run_next(2) [OF assms that] by (auto simp: sealed_chunk_def)
  then show ?thesis by (intro nth_equalityI) (simp_all add: sent_chunk_def chunk_command_def Let_def)
qed

lemma stream_of_file:
  assumes "evp_live api" "ctx_attachment_id c \<noteq> []" "ctx_room c \<noteq> []" "ctx_logical_size c = int (length data)"
    "ctx_chunk_size c = ChunkSize" "ctx_chunk_index c = 0" "data \<noteq> []"
  shows "\<exists>chs. stream_encrypt api key collect_sink c (device_at data 0) [] = (Inr (), chs)"
proof -
  have "valid_context (c\<lparr>ctx_chunk_index := 0\<rparr>)" using assms by (simp add: valid_context_def)
  from stream_succeeds [OF assms(1) this, of "length data" "device_at data 0" key 0 "[]"] assms(4,5) show ?thesis
    by (simp add: stream_encrypt_def device_at_def ChunkSize_def PlaintextChunkBytes_def)
qed

text \<open>What the worker sends and keeps for an upload that the server accepts.\<close>

definition chunk_total :: "string \<Rightarrow> nat" where
  "chunk_total data = nat ((int (length data) + ChunkSize - 1) div ChunkSize)"

lemma upload_result:
  assumes link: "sends ops sent" "usable ops w"
    and api: "evp_ok (we_evp e)" "evp_live (we_evp e)" "hex_ok (we_evp e)"
    and members: "w_setups w k = Some s" "length (ms_targetUsers s) \<le> ms_nextTarget s" "generate_key (we_evp e) = Some key"
    and source: "we_is_file e (ms_filePath s)" "we_can_open e (we_absolute e (ms_filePath s))"
      "w_fs w (we_absolute e (ms_filePath s)) = Some data" "data \<noteq> []" "int (length data) \<le> MaxLogicalBytes"
    and plain: "k \<noteq> []" "trimmed (we_text e) k = k" "\<forall>i. trimmed (we_text e) (k @ ''-chunk-'' @ to_string (int i)) = k @ ''-chunk-'' @ to_string (int i)"
      "trimmed (we_text e) (k @ ''-commit'') = k @ ''-commit''" "ms_room s \<noteq> []" "trimmed (we_text e) (ms_room s) = ms_room s"
    and reply: "mtype (mfields reply) = ''attachment.init''" "command_id (mfields reply) = k" "upload_id (mfields reply) = u" "u \<noteq> []"
      "trimmed (we_text e) u = u" "attachment_id (mfields reply) \<noteq> []" "expires_at (mfields reply) \<noteq> []" "sint (chunk_size (mfields reply)) = ChunkSize"
    and acks: "ack_order (chunk_total data) order"
      "list_all2 (\<lambda>i msg. mtype (mfields msg) = ''attachment.chunk'' \<and> command_id (mfields msg) = k @ ''-chunk-'' @ to_string (int i)) order acks"
  defines "w' \<equiv> fold (handle_incoming e ops) (reply # acks) (startNextAttachmentMlsSetup e ops k w)"
    and "c \<equiv> \<lparr>ctx_attachment_id = attachment_id (mfields reply), ctx_room = ms_room s, ctx_group_id = ms_groupId s,
      ctx_logical_size = int (length data), ctx_chunk_size = ChunkSize, ctx_chunk_index = 0\<rparr>"
  shows "\<exists>chs mf. stream_encrypt (we_evp e) key collect_sink c (device_at data 0) [] = (Inr (), chs) \<and>
    sent (w_net w') = sent (w_net w) @ init_message (ms_room s) (int (length data)) k #
      map (\<lambda>ch. chunk_message (we_manifest e) u (tc_index ch) (tc_ciphertext ch) (tc_cipher_sha256 ch) (k @ ''-chunk-'' @ to_string (tc_index ch))) chs @
      [Message ((simple ''attachment.commit'' [] [] [])\<lparr>upload_id := u, command_id := k @ ''-commit''\<rparr>) []] \<and>
    w_jobs w' u = None \<and> w_manifests w' (k @ ''-commit'') = Some mf \<and> mkey mf = key \<and> manifest_context mf = c"
proof -
  define w1 where "w1 = startNextAttachmentMlsSetup e ops k w"
  from upload_announced [OF link members source(1,3-5) plain(1,2,5,6)] have
    w1: "usable ops w1" "sent (w_net w1) = sent (w_net w) @ [init_message (ms_room s) (int (length data)) k]" "w_fs w1 = w_fs w"
      "w_inits w1 k = Some (snd (begin_transfer (int (length data)) ChunkSize new_transfer))"
      "w_files w1 k = Some \<lparr>pf_room = ms_room s, pf_groupId = ms_groupId s, pf_filePath = we_absolute e (ms_filePath s),
        pf_key = key, pf_logicalSize = int (length data)\<rparr>" unfolding w1_def by blast+
  have c: "ctx_attachment_id c \<noteq> []" "ctx_room c \<noteq> []" "ctx_logical_size c = int (length data)" "ctx_chunk_size c = ChunkSize" "ctx_chunk_index c = 0"
    using reply(6) plain(5) by (simp_all add: c_def)
  from stream_of_file [OF api(2) c source(4)] obtain chs where
    enc: "stream_encrypt (we_evp e) key collect_sink c (device_at data 0) [] = (Inr (), chs)" by blast
  have count: "int (length chs) = (int (length data) + ChunkSize - 1) div ChunkSize" by (rule stream_pieces(2) [OF c(4,3) enc])
  moreover have "0 < (int (length data) + ChunkSize - 1) div ChunkSize"
    using source(4) by (cases data) (simp_all add: pos_imp_zdiv_pos_iff)
  ultimately have ne: "chs \<noteq> []" by auto
  define r where "r = \<lparr>ur_id = u, ur_job = \<lparr>uj_room = ms_room s, uj_fileName = we_file_name e (we_absolute e (ms_filePath s)), uj_baseCommand = k,
      uj_key = key, uj_context = c, uj_input = device_at data 0, uj_lastChunkSent = False, uj_inFlightChunks = 0\<rparr>,
    ur_chunks = chs, ur_before = sent (w_net w1)\<rparr>"
  have r: "ur_id r = u" "ur_chunks r = chs" "ur_before r = sent (w_net w1)" "uj_baseCommand (ur_job r) = k"
    "ctx_group_id (uj_context (ur_job r)) = ms_groupId s" by (simp_all add: r_def c_def)
  have ok: "run_ok e r"
    using api(1,3) enc ne reply(4,5) plain(3,4) c by (simp add: run_ok_def r_def device_at_def chunk_command_def commit_command_def Let_def)
  have "uploading e ops sent r (window r 0) {} (on_attachment_init e ops (mfields reply) w1)"
    using upload_begins [OF ok link(1) w1(1) _ w1(4,5)] source(2-4) reply(2-8) w1(3) by (simp add: r_def c_def device_at_def)
  moreover have "list_all2 (acknowledges r) order acks"
    using acks(2) by (simp add: acknowledges_def [abs_def] chunk_command_def r)
  moreover have "ack_order (length (ur_chunks r)) order" using acks(1) by (simp add: chunk_total_def count [symmetric] r)
  ultimately have up: "uploaded e sent r w'"
    using upload_completes [OF ok link(1)] reply(1) unfolding w'_def w1_def [symmetric] by blast
  define mf where "mf = manifest_of (w_groups w' (ms_groupId s)) (ur_job r)"
  have mf: "mkey mf = key" "manifest_context mf = c" by (simp_all add: mf_def r_def manifest_of_def manifest_context_def c_def)
  note sent = up [unfolded uploaded_def r commit_message_def commit_command_def w1(2) sent_chunks [OF ok, unfolded r] mf_def [symmetric]
      append_assoc append.simps]
  show ?thesis unfolding append.simps using enc sent mf by blast
qed

section \<open>From client to client\<close>

text \<open>The server answers the requests for an attachment with the chunks it was sent.\<close>

definition relays :: "string \<Rightarrow> message \<Rightarrow> bool \<Rightarrow> message \<Rightarrow> bool" where
  "relays att chunk is_last msg \<longleftrightarrow>
     (let m = mfields msg; d = mfields chunk in mtype m = ''attachment.download'' \<and> attachment_id m = att \<and> chunk_index m = chunk_index d \<and>
      ciphertext m = ciphertext d \<and> cipher_sha256 m = cipher_sha256 d \<and> (content m = ''last'') = is_last)"

definition relayed :: "string \<Rightarrow> message list \<Rightarrow> message list \<Rightarrow> bool" where
  "relayed att chunks replies \<longleftrightarrow> length replies = length chunks \<and>
     (\<forall>i < length chunks. relays att (chunks ! i) (Suc i = length chunks) (replies ! i))"

definition is_chunk :: "message \<Rightarrow> bool" where
  "is_chunk m \<longleftrightarrow> mtype (mfields m) = ''attachment.chunk''"

lemma relayed_delivered:
  assumes "relayed att (map (\<lambda>ch. chunk_message api u (tc_index ch) (tc_ciphertext ch) (tc_cipher_sha256 ch) (cmd ch)) chs) replies"
    and "\<forall>ch \<in> set chs. map lower_ascii (tc_cipher_sha256 ch) = tc_cipher_sha256 ch"
  shows "delivered api att chs replies"
  using assms by (auto simp: relayed_def delivered_def relays_def delivers_def chunk_message_def simple_def mk_fields_def Let_def)

lemma chunks_sent:
  "filter is_chunk (drop (length xs) (xs @ init_message rm sz k #
     map (\<lambda>ch. chunk_message api u (tc_index ch) (tc_ciphertext ch) (tc_cipher_sha256 ch) (cmd ch)) chs @
     [Message ((simple ''attachment.commit'' [] [] [])\<lparr>upload_id := u, command_id := k'\<rparr>) []])) =
   map (\<lambda>ch. chunk_message api u (tc_index ch) (tc_ciphertext ch) (tc_cipher_sha256 ch) (cmd ch)) chs"
  by (simp add: is_chunk_def init_message_def chunk_message_def simple_def mk_fields_def filter_id_conv)

text \<open>
  C7. A file uploaded by one client is the file another downloads. The members of the group are set up, the server accepts the
  announced file and acknowledges the chunks in any order in which each was sent before: then the uploading worker has sent the announcement,
  every chunk once and in order, and the commit, and has no job left. A worker that received the manifest kept for the commit
  and starts the download, and that the server answers with the chunks it was sent, asks for each chunk once and in order, and
  afterwards the bytes of the file are at the chosen path and the download is over.
\<close>

theorem uploaded_file_downloads:
  assumes link: "sends ops sent" "usable ops w"
    and api: "evp_ok (we_evp e)" "evp_live (we_evp e)" "hex_ok (we_evp e)" "\<forall>x. fromBase64 (we_manifest e) (toBase64 (we_manifest e) x) = x"
    and members: "w_setups w k = Some s" "length (ms_targetUsers s) \<le> ms_nextTarget s" "generate_key (we_evp e) = Some key" "length key = KeySize"
    and source: "we_is_file e (ms_filePath s)" "we_can_open e (we_absolute e (ms_filePath s))"
      "w_fs w (we_absolute e (ms_filePath s)) = Some data" "data \<noteq> []" "int (length data) \<le> MaxLogicalBytes"
    and plain: "k \<noteq> []" "trimmed (we_text e) k = k" "\<forall>i. trimmed (we_text e) (k @ ''-chunk-'' @ to_string (int i)) = k @ ''-chunk-'' @ to_string (int i)"
      "trimmed (we_text e) (k @ ''-commit'') = k @ ''-commit''" "ms_room s \<noteq> []" "trimmed (we_text e) (ms_room s) = ms_room s"
    and reply: "mtype (mfields reply) = ''attachment.init''" "command_id (mfields reply) = k" "upload_id (mfields reply) = u" "u \<noteq> []"
      "trimmed (we_text e) u = u" "attachment_id (mfields reply) = att" "att \<noteq> []" "expires_at (mfields reply) \<noteq> []" "sint (chunk_size (mfields reply)) = ChunkSize"
    and acks: "ack_order (chunk_total data) order"
      "list_all2 (\<lambda>i msg. mtype (mfields msg) = ''attachment.chunk'' \<and> command_id (mfields msg) = k @ ''-chunk-'' @ to_string (int i)) order acks"
    and uploaded: "w' = fold (handle_incoming e ops) (reply # acks) (startNextAttachmentMlsSetup e ops k w)"
    and receiver: "sends ops2 sent2" "usable ops2 v" "we_evp e2 = we_evp e" "we_manifest e2 = we_manifest e" "no_faults (we_faults e2)"
      "trimmed (we_text e2) att = att" "cmd \<noteq> []" "trimmed (we_text e2) cmd = cmd" "path \<noteq> []" "trimmed (we_text e2) path = path"
      "w_downloads v att = None" "w_received v att = w_manifests w' (k @ ''-commit'')"
    and served: "relayed att (filter is_chunk (drop (length (sent (w_net w))) (sent (w_net w')))) replies"
  shows "let v' = fold (handle_incoming e2 ops2) replies (startAttachmentDownload e2 ops2 att path cmd v) in
    (\<exists>chs :: TransferChunk list. length chs = chunk_total data \<and> sent (w_net w') = sent (w_net w) @ init_message (ms_room s) (int (length data)) k #
       map (\<lambda>ch. chunk_message (we_manifest e) u (tc_index ch) (tc_ciphertext ch) (tc_cipher_sha256 ch) (k @ ''-chunk-'' @ to_string (tc_index ch))) chs @
       [Message ((simple ''attachment.commit'' [] [] [])\<lparr>upload_id := u, command_id := k @ ''-commit''\<rparr>) []]) \<and> w_jobs w' u = None \<and>
    sent2 (w_net v') = sent2 (w_net v) @ map (\<lambda>i. download_request att (int i) cmd) [0..<chunk_total data] \<and>
    w_fs v' path = Some data \<and> w_fs v' (partPathFor path) = None \<and> w_downloads v' att = None"
proof -
  define c where "c = \<lparr>ctx_attachment_id = att, ctx_room = ms_room s, ctx_group_id = ms_groupId s,
    ctx_logical_size = int (length data), ctx_chunk_size = ChunkSize, ctx_chunk_index = 0\<rparr>"
  have reply': "attachment_id (mfields reply) \<noteq> []" using reply(6,7) by simp
  from upload_result [OF link api(1-3) members(1-3) source plain reply(1-5) reply' reply(8,9) acks] obtain chs mf where
    enc: "stream_encrypt (we_evp e) key collect_sink c (device_at data 0) [] = (Inr (), chs)"
    and sent: "sent (w_net w') = sent (w_net w) @ init_message (ms_room s) (int (length data)) k #
      map (\<lambda>ch. chunk_message (we_manifest e) u (tc_index ch) (tc_ciphertext ch) (tc_cipher_sha256 ch) (k @ ''-chunk-'' @ to_string (tc_index ch))) chs @
      [Message ((simple ''attachment.commit'' [] [] [])\<lparr>upload_id := u, command_id := k @ ''-commit''\<rparr>) []]"
    and mf: "w_jobs w' u = None" "w_manifests w' (k @ ''-commit'') = Some mf" "mkey mf = key" "manifest_context mf = c"
    unfolding uploaded [symmetric] reply(6) c_def [symmetric] by blast
  have c: "ctx_chunk_size c = ChunkSize" "ctx_logical_size c = int (length data)" by (simp_all add: c_def)
  note all = stream_pieces [OF c enc]
  have total: "length chs = chunk_total data" using all(2) by (simp add: chunk_total_def)
  have "\<forall>ch \<in> set chs. map lower_ascii (tc_cipher_sha256 ch) = tc_cipher_sha256 ch"
    using all(1) api(3) by (fastforce simp: in_set_conv_nth seals_def sealed_chunk_def hex_ok_def)
  from relayed_delivered [OF served [unfolded sent chunks_sent] this] have "delivered (we_manifest e2) att chs replies" by (simp add: receiver(4))
  moreover define r where "r = \<lparr>dr_id = att, dr_path = path, dr_command = cmd, dr_key = key, dr_context = c, dr_data = data, dr_before = sent2 (w_net v)\<rparr>"
  have ok: "download_ok e2 r" using api receiver(3-10) plain(5) reply(7) source(5) by (simp add: download_ok_def r_def c_def)
  have "downloading ops2 sent2 r 0 (startAttachmentDownload e2 ops2 att path cmd v)"
    using download_starts [OF ok receiver(1,2), of mf] receiver(11,12) mf(2-4) members(4) source(4) by (simp add: r_def)
  moreover have "list_all2 (seals (we_evp e2) key c) (enumerate 0 (pieces (drop (0 * nat ChunkSize) data))) chs"
    using all(1) by (simp add: enumerate_all2 receiver(3))
  ultimately have "downloaded sent2 r (0 + length chs) (fold (handle_incoming e2 ops2) replies (startAttachmentDownload e2 ops2 att path cmd v))"
    using answers_handled [OF ok receiver(1), of 0 _ chs replies] source(4) by (simp add: r_def)
  then show ?thesis
    unfolding Let_def using mf(1) total by (intro conjI exI [of _ chs]) (simp_all add: downloaded_def r_def sent)
qed

text \<open>A file of ten chunks; the server acknowledges the second before the first.\<close>

definition ten_chunks :: string where
  "ten_chunks = replicate 481280 (CHR ''x'')"

definition ready_setup :: mls_setup where
  "ready_setup = \<lparr>ms_room = ''lobby'', ms_filePath = ''doc'', ms_groupId = ''g'', ms_commandId = ''k1'', ms_targetUsers = [''bob''], ms_nextTarget = 1\<rparr>"

definition upload_worker :: "(bool \<times> message list, unit, unit, unit) worker" where
  "upload_worker = online_worker\<lparr>w_setups := [''k1'' \<mapsto> ready_setup], w_fs := [''doc'' \<mapsto> ten_chunks]\<rparr>"

definition init_reply :: message where
  "init_reply = Message ((simple ''attachment.init'' [] [] [])\<lparr>command_id := ''k1'', upload_id := ''u1'', attachment_id := ''a1'',
     expires_at := ''later'', chunk_size := 48128\<rparr>) []"

definition chunk_reply :: "nat \<Rightarrow> message" where
  "chunk_reply i = Message ((simple ''attachment.chunk'' [] [] [])\<lparr>command_id := ''k1-chunk-'' @ to_string (int i)\<rparr>) []"

text \<open>A server that answers as it should.\<close>

definition serve :: "string \<Rightarrow> message list \<Rightarrow> message list" where
  "serve att ms = map (\<lambda>i. let d = mfields (ms ! i) in Message ((simple ''attachment.download'' (if Suc i = length ms then ''last'' else []) [] [])
     \<lparr>attachment_id := att, chunk_index := chunk_index d, ciphertext := ciphertext d, cipher_sha256 := cipher_sha256 d\<rparr>) []) [0..<length ms]"

lemma serve_relays: "relayed att ms (serve att ms)"
  by (simp add: relayed_def relays_def serve_def simple_def mk_fields_def Let_def)

definition ten_acks :: "nat list" where
  "ten_acks = [1, 0, 2, 3, 4, 5, 6, 7, 8, 9]"

definition uploaded_worker :: "(bool \<times> message list, unit, unit, unit) worker" where
  "uploaded_worker = fold (handle_incoming worker_sample_env memory_link) (init_reply # map chunk_reply ten_acks)
     (startNextAttachmentMlsSetup worker_sample_env memory_link ''k1'' upload_worker)"

definition receiving_worker :: "(bool \<times> message list, unit, unit, unit) worker" where
  "receiving_worker = online_worker\<lparr>w_received := (\<lambda>a. if a = ''a1'' then w_manifests uploaded_worker ''k1-commit'' else None)\<rparr>"

lemma memory_sends: "sends memory_link snd"
  by (simp add: sends_def memory_link_def)

theorem uploaded_file_downloads_witness:
  "w_fs (fold (handle_incoming worker_sample_env memory_link) (serve ''a1'' (filter is_chunk (snd (w_net uploaded_worker))))
     (startAttachmentDownload worker_sample_env memory_link ''a1'' ''out'' ''d1'' receiving_worker)) ''out'' = Some ten_chunks"
proof -
  have env: "we_evp worker_sample_env = toy_evp" "trimmed (we_text worker_sample_env) = id" "we_absolute worker_sample_env = id"
    "we_is_file worker_sample_env p" "we_can_open worker_sample_env p" "we_faults worker_sample_env = reliable"
    "\<forall>x. fromBase64 (we_manifest worker_sample_env) (toBase64 (we_manifest worker_sample_env) x) = x" for p
    by (simp_all add: worker_sample_env_def plain_text_def one_document_def fun_eq_iff)
  have w: "usable memory_link upload_worker" "w_setups upload_worker ''k1'' = Some ready_setup" "w_fs upload_worker ''doc'' = Some ten_chunks"
    "snd (w_net upload_worker) = []" by (simp_all add: upload_worker_def sample_defs usable_def)
  have v: "usable memory_link receiving_worker" "w_downloads receiving_worker ''a1'' = None"
    "w_received receiving_worker ''a1'' = w_manifests uploaded_worker (''k1'' @ ''-commit'')"
    by (simp_all add: receiving_worker_def sample_defs usable_def)
  have s: "ms_room ready_setup = ''lobby''" "ms_filePath ready_setup = ''doc''" "length (ms_targetUsers ready_setup) \<le> ms_nextTarget ready_setup"
    by (simp_all add: ready_setup_def)
  have m: "mtype (mfields init_reply) = ''attachment.init''" "command_id (mfields init_reply) = ''k1''" "upload_id (mfields init_reply) = ''u1''"
    "attachment_id (mfields init_reply) = ''a1''" "expires_at (mfields init_reply) = ''later''" "sint (chunk_size (mfields init_reply)) = ChunkSize"
    by (simp_all add: init_reply_def simple_def mk_fields_def ChunkSize_def PlaintextChunkBytes_def)
  have d: "ten_chunks \<noteq> []" "int (length ten_chunks) \<le> MaxLogicalBytes" "chunk_total ten_chunks = 10"
    by (simp_all add: chunk_total_def ten_chunks_def MaxLogicalBytes_def ChunkSize_def PlaintextChunkBytes_def)
  have order: "ack_order (chunk_total ten_chunks) ten_acks"
    unfolding d(3) by (auto simp: ack_order_def ten_acks_def eval_nat_numeral less_Suc_eq)
  have replies: "list_all2 (\<lambda>i msg. mtype (mfields msg) = ''attachment.chunk'' \<and> command_id (mfields msg) = ''k1'' @ ''-chunk-'' @ to_string (int i)) ten_acks (map chunk_reply ten_acks)"
    by (simp add: list_all2_map2 list_all2_same chunk_reply_def simple_def mk_fields_def)
  have key: "generate_key toy_evp = Some (replicate 32 (CHR ''r''))" "length (replicate 32 (CHR ''r'')) = KeySize"
    by (simp_all add: generate_key_def toy_evp_def KeySize_def)
  have served: "relayed ''a1'' (filter is_chunk (drop (length (snd (w_net upload_worker))) (snd (w_net uploaded_worker))))
      (serve ''a1'' (filter is_chunk (snd (w_net uploaded_worker))))" by (simp add: w(4) serve_relays)
  note run = uploaded_file_downloads [of memory_link snd upload_worker worker_sample_env "''k1''" ready_setup "replicate 32 (CHR ''r'')" ten_chunks
      init_reply "''u1''" "''a1''" ten_acks "map chunk_reply ten_acks" uploaded_worker memory_link snd receiving_worker worker_sample_env "''d1''" "''out''",
      unfolded env(1-3,6) s(1,2) m Let_def id_apply]
  show ?thesis
    using run [OF memory_sends w(1) toy_evp_ok reliable_ok(2) env(7) w(2) s(3) key env(4,5) w(3) d(1,2) _ _ _ _ _ _ _ _ _ _ _ _ _ _ _
        order replies uploaded_worker_def memory_sends v(1) _ _ reliable_ok(1) _ _ _ _ _ v(2,3) served] by simp
qed

end
