(* ===== verification/Source_Launcher.thy ===== *)
theory Source_Launcher
  imports Prelude
begin

text \<open>
  The launcher of the source package, \<open>tools/bootstrap/launcher.cpp\<close>: it looks for the bootstrap script beside or above
  its own executable, or below the directory given with \<open>--root\<close>, and runs it with PowerShell in that directory.

  Wide strings are character lists. The path functions of \<open>std::filesystem\<close>, which follow the rules of Windows, and the
  functions of the Windows API are parameters; \<open>is_regular_file\<close> raises an exception if the status of the file cannot be
  read, and nothing catches it. What the launcher does to its surroundings is the list of its effects, in their order.
\<close>

section \<open>Surroundings\<close>

record launch_info =
  li_fMask :: string
  li_lpVerb :: string
  li_lpFile :: string
  li_lpParameters :: string
  li_lpDirectory :: string
  li_nShow :: string

datatype launch_effect =
    MessageBox string string
  | PrintLine string
  | ShellExecute launch_info
  | CloseProcessHandle

text \<open>
  \<open>le_module\<close> is \<open>GetModuleFileNameW\<close>: the length it returns for a buffer of the given size, and the characters it has put
  there. \<open>le_execute\<close> is \<open>ShellExecuteExW\<close>: whether it succeeds, and whether it returns the handle of a process.
\<close>

record launcher_env =
  le_is_regular_file :: "string \<Rightarrow> bool option"
  le_parent_path :: "string \<Rightarrow> string"
  le_append :: "string \<Rightarrow> string \<Rightarrow> string"
  le_same_path :: "string \<Rightarrow> string \<Rightarrow> bool"
  le_module :: "nat \<Rightarrow> nat \<times> string"
  le_execute :: "launch_info \<Rightarrow> bool \<times> bool"

section \<open>Finding the script\<close>

definition kBootstrapScript :: string where
  "kBootstrapScript = ''scripts'' @ [CHR 0x5C] @ ''bootstrap-github.ps1''"

definition MAX_PATH :: nat where "MAX_PATH = 260"

text \<open>\<open>std::wstring::resize\<close>.\<close>

definition resized :: "nat \<Rightarrow> string \<Rightarrow> string" where
  "resized n s = take n s @ replicate (n - length s) (CHR 0x00)"

definition executablePath :: "launcher_env \<Rightarrow> string" where
  "executablePath e =
    (case le_module e MAX_PATH of (len, buffer) \<Rightarrow>
     if len = 0 \<or> len = MAX_PATH then [] else resized len (resized MAX_PATH buffer))"

definition script_at :: "launcher_env \<Rightarrow> string \<Rightarrow> string" where
  "script_at e dir = le_append e dir kBootstrapScript"

text \<open>The loop of \<open>sourceRootFrom\<close>, with the number of rounds left; \<open>None\<close> is the exception.\<close>

fun source_walk :: "launcher_env \<Rightarrow> nat \<Rightarrow> string \<Rightarrow> string option" where
  "source_walk e 0 cursor = Some []"
| "source_walk e (Suc n) cursor =
    (case le_is_regular_file e (script_at e cursor) of
       None \<Rightarrow> None
     | Some True \<Rightarrow> Some cursor
     | Some False \<Rightarrow>
        let parent = le_parent_path e cursor in
        if parent = [] \<or> le_same_path e parent cursor then Some [] else source_walk e n parent)"

definition sourceRootFrom :: "launcher_env \<Rightarrow> string \<Rightarrow> string option" where
  "sourceRootFrom e start = source_walk e 10 start"

section \<open>Arguments\<close>

definition quoted :: "string \<Rightarrow> string" where
  "quoted s = [CHR 0x22] @ s @ [CHR 0x22]"

definition hasArgument :: "string list \<Rightarrow> string \<Rightarrow> bool" where
  "hasArgument argv s \<longleftrightarrow> s \<in> set (drop 1 argv)"

fun root_value :: "string list \<Rightarrow> string" where
  "root_value (a # b # rest) = (if a = ''--root'' then b else root_value (b # rest))"
| "root_value _ = []"

definition rootOverride :: "string list \<Rightarrow> string" where
  "rootOverride argv = root_value (drop 1 argv)"

section \<open>Launching\<close>

text \<open>An action ends with the exit code, or with \<open>None\<close> if an exception ended the process.\<close>

type_synonym launched = "int option \<times> launch_effect list"

definition showError :: "string \<Rightarrow> launched" where
  "showError msg = (Some 1, [MessageBox ''LAN Chat source launcher'' msg])"

definition powershell_arguments :: "string \<Rightarrow> string" where
  "powershell_arguments script = ''-NoLogo -NoProfile -ExecutionPolicy Bypass -File '' @ quoted script"

definition launch_command :: "string \<Rightarrow> string" where
  "launch_command script = ''powershell.exe '' @ powershell_arguments script"

definition launch_of :: "string \<Rightarrow> string \<Rightarrow> launch_info" where
  "launch_of dir script =
     \<lparr>li_fMask = ''SEE_MASK_NOCLOSEPROCESS'', li_lpVerb = ''open'', li_lpFile = ''powershell.exe'',
      li_lpParameters = drop (length ''powershell.exe '') (launch_command script), li_lpDirectory = dir, li_nShow = ''SW_SHOWNORMAL''\<rparr>"

definition msg_not_started :: string where
  "msg_not_started = ''Could not start PowerShell. Please run '' @ kBootstrapScript @ '' manually.''"

definition start_powershell :: "launcher_env \<Rightarrow> launch_info \<Rightarrow> launched" where
  "start_powershell e launch =
    (case le_execute e launch of (ok, handle) \<Rightarrow>
     if \<not> ok
     then (fst (showError msg_not_started), ShellExecute launch # snd (showError msg_not_started))
     else (Some 0, ShellExecute launch # (if handle then [CloseProcessHandle] else [])))"

definition msg_outside :: string where
  "msg_outside = ''The launcher must stay inside the LAN Chat source package.'' @ [CHR 0x0A, CHR 0x0A] @
     ''Expected '' @ kBootstrapScript @ '' beside the source tree.''"

definition launch_from :: "launcher_env \<Rightarrow> string list \<Rightarrow> string \<Rightarrow> launched" where
  "launch_from e argv dir =
    (if dir = [] then showError msg_outside
     else case le_is_regular_file e (script_at e dir) of
       None \<Rightarrow> (None, [])
     | Some False \<Rightarrow> showError msg_outside
     | Some True \<Rightarrow>
        if hasArgument argv ''--dry-run'' then (Some 0, [PrintLine (launch_command (script_at e dir))])
        else start_powershell e (launch_of dir (script_at e dir)))"

definition runLauncher :: "launcher_env \<Rightarrow> string list \<Rightarrow> launched" where
  "runLauncher e argv =
    (if rootOverride argv \<noteq> [] then launch_from e argv (rootOverride argv)
     else let exe = executablePath e in
          if exe = [] then showError ''Cannot locate LANChat-Launcher.exe.''
          else case sourceRootFrom e (le_parent_path e exe) of
            None \<Rightarrow> (None, [])
          | Some dir \<Rightarrow> launch_from e argv dir)"

text \<open>\<open>CommandLineToArgvW\<close> fails with a null pointer.\<close>

definition runFromProcessCommandLine :: "launcher_env \<Rightarrow> string list option \<Rightarrow> launched" where
  "runFromProcessCommandLine e commandLine =
    (case commandLine of None \<Rightarrow> showError ''Cannot read launcher command line.'' | Some argv \<Rightarrow> runLauncher e argv)"


section \<open>Properties\<close>

text \<open>The directories above a directory, as far as the loop follows them.\<close>

fun above :: "launcher_env \<Rightarrow> nat \<Rightarrow> string \<Rightarrow> string option" where
  "above e 0 dir = Some dir"
| "above e (Suc k) dir =
    (let parent = le_parent_path e dir in if parent = [] \<or> le_same_path e parent dir then None else above e k parent)"

definition script_check :: "launcher_env \<Rightarrow> nat \<Rightarrow> string \<Rightarrow> bool option option" where
  "script_check e k dir = map_option (\<lambda>d. le_is_regular_file e (script_at e d)) (above e k dir)"

text \<open>The nearest directory with the script, among the first \<open>n\<close>, and no check before it failed.\<close>

definition nearest_root :: "launcher_env \<Rightarrow> nat \<Rightarrow> string \<Rightarrow> string \<Rightarrow> bool" where
  "nearest_root e n dir root \<longleftrightarrow>
     (\<exists>k<n. above e k dir = Some root \<and> script_check e k dir = Some (Some True) \<and> (\<forall>j<k. script_check e j dir = Some (Some False)))"

lemma nearest_root_step:
  assumes "le_is_regular_file e (script_at e dir) = Some False"
  shows "nearest_root e (Suc n) dir root \<longleftrightarrow>
    \<not> (le_parent_path e dir = [] \<or> le_same_path e (le_parent_path e dir) dir) \<and> nearest_root e n (le_parent_path e dir) root"
proof -
  have zero: "script_check e 0 dir = Some (Some False)" using assms by (simp add: script_check_def)
  have step: "script_check e (Suc k) dir =
      (if le_parent_path e dir = [] \<or> le_same_path e (le_parent_path e dir) dir then None else script_check e k (le_parent_path e dir))" for k
    by (simp add: script_check_def Let_def)
  show ?thesis
    unfolding nearest_root_def Ex_less_Suc2 All_less_Suc2
    by (auto simp: zero step Let_def)
qed

lemma source_walk_nearest:
  "source_walk e n dir = Some root \<and> root \<noteq> [] \<longleftrightarrow> nearest_root e n dir root \<and> root \<noteq> []"
proof (induction n arbitrary: dir)
  case 0
  then show ?case by (auto simp: nearest_root_def)
next
  case (Suc n)
  consider "le_is_regular_file e (script_at e dir) = Some False" |
    b where "le_is_regular_file e (script_at e dir) = b" "b \<noteq> Some False" by blast
  then show ?case
  proof cases
    case 1
    with Suc show ?thesis by (auto simp: nearest_root_step Let_def)
  next
    case 2
    then have "nearest_root e (Suc n) dir root \<longleftrightarrow> b = Some True \<and> root = dir"
      unfolding nearest_root_def Ex_less_Suc2 All_less_Suc2 by (auto simp: script_check_def)
    with 2 show ?thesis by (auto split: option.split bool.split)
  qed
qed

text \<open>The directory the script is run from.\<close>

definition launch_root :: "launcher_env \<Rightarrow> string list \<Rightarrow> string \<Rightarrow> bool" where
  "launch_root e argv root \<longleftrightarrow> root \<noteq> [] \<and> le_is_regular_file e (script_at e root) = Some True \<and>
     (if rootOverride argv \<noteq> [] then root = rootOverride argv
      else executablePath e \<noteq> [] \<and> nearest_root e 10 (le_parent_path e (executablePath e)) root)"

lemma launch_from_starts:
  "ShellExecute x \<in> set (snd (launch_from e argv dir)) \<longleftrightarrow>
     dir \<noteq> [] \<and> le_is_regular_file e (script_at e dir) = Some True \<and> \<not> hasArgument argv ''--dry-run'' \<and>
     x = launch_of dir (script_at e dir)"
  by (auto simp: launch_from_def showError_def start_powershell_def split: option.split bool.split prod.split if_splits)



text \<open>The exit code is 1 exactly if a message told the user why, and it is 0 otherwise, unless a file could not be checked.\<close>

lemma launch_from_code:
  "fst (launch_from e argv dir) = Some 1 \<longleftrightarrow> (\<exists>t m. MessageBox t m \<in> set (snd (launch_from e argv dir)))"
  "fst (launch_from e argv dir) \<in> {None, Some 0, Some 1}"
  by (auto simp: launch_from_def showError_def start_powershell_def split: option.split bool.split prod.split)

lemma failure_is_told:
  "(fst (runFromProcessCommandLine e commandLine) = Some 1 \<longleftrightarrow>
      (\<exists>t m. MessageBox t m \<in> set (snd (runFromProcessCommandLine e commandLine)))) \<and>
   fst (runFromProcessCommandLine e commandLine) \<in> {None, Some 0, Some 1}"
  using launch_from_code by (simp add: runFromProcessCommandLine_def runLauncher_def showError_def Let_def split: option.split)

end
