(* ===== verification/Platform_Socket.thy ===== *)
theory Platform_Socket
  imports Prelude
begin

text \<open>
  The shim \<open>client-cpp/include/platform_socket.hpp\<close> for systems other than Windows: the names of Winsock over the POSIX calls.
  The calls of the system and \<open>errno\<close> are parameters. On Windows the names are those of the system itself.
\<close>

unbundle bit_operations_syntax

type_synonym SOCKET = "32 word"

definition INVALID_SOCKET :: SOCKET where "INVALID_SOCKET = -1"

definition SOCKET_ERROR :: "32 word" where "SOCKET_ERROR = -1"

definition closesocket :: "(SOCKET \<Rightarrow> 32 word) \<Rightarrow> SOCKET \<Rightarrow> 32 word" where
  "closesocket posix_close socket_handle = posix_close socket_handle"

definition WSAGetLastError :: "32 word \<Rightarrow> 32 word" where
  "WSAGetLastError errno = errno"

text \<open>\<open>data\<close> is what the pointer points to, if it is not null.\<close>

definition WSAStartup :: "16 word \<Rightarrow> 32 word option \<Rightarrow> 32 word \<times> 32 word option" where
  "WSAStartup version data = (0, case data of None \<Rightarrow> None | Some _ \<Rightarrow> Some 0)"

definition WSACleanup :: "32 word" where "WSACleanup = 0"

definition MAKEWORD :: "32 word \<Rightarrow> 32 word \<Rightarrow> 16 word" where
  "MAKEWORD low high = ucast ((low AND 0xff) OR push_bit 8 (high AND 0xff))"

section \<open>Properties\<close>

text \<open>A version number keeps its two bytes apart.\<close>

lemma byte_mask: "x AND 0xff = take_bit 8 (x :: 'a::len word)"
proof -
  have "(0xff :: 'a word) = mask 8" by (simp add: mask_eq_exp_minus_1)
  then show ?thesis by (simp only: take_bit_eq_mask)
qed

lemma MAKEWORD_bytes:
  "take_bit 8 (MAKEWORD low high) = ucast (take_bit 8 low)" "drop_bit 8 (MAKEWORD low high) = ucast (take_bit 8 high)"
  unfolding MAKEWORD_def byte_mask by (rule bit_word_eqI, auto simp: bit_simps)+

lemma winsock_version: "MAKEWORD 2 2 = 0x0202"
  by (simp add: MAKEWORD_def)

end
