(* ===== verification/Spec2Isabelle.thy ===== *)
theory Spec2Isabelle
  imports Console_Client Chat_Model Gui_Behaviour Gui_Delivery Worker_Upload Source_Launcher Platform_Socket
begin

text \<open>
  LAN Chat, the C++ clients (\<open>src/client-cpp\<close>): a console client and a graphical client that talk to a chat
  server over TLS.

  \<^bold>\<open>Parts and theories.\<close> Both clients share the lower layers (\<open>client-cpp/src\<close>):

  \<^item> \<open>Protocol\<close>: \<open>protocol.cpp\<close>, frames with a 32-bit length over a socket or a TLS connection.
  \<^item> \<open>Json\<close>, \<open>Attachment_Limits\<close>, \<open>Message\<close>: \<open>message.cpp\<close>, the messages and their JSON form.
  \<^item> \<open>Command\<close>: \<open>command.cpp\<close>, the slash commands. \<open>Auth\<close>: \<open>auth.cpp\<close>, command line and login.
  \<^item> \<open>Connection\<close>: \<open>connection.cpp\<close>, connecting, logging in, sending and receiving with a shared session
    that several threads use, stopping and the back-off delays.
  \<^item> \<open>Console_Input\<close>, \<open>Console_Client\<close>: \<open>main.cpp\<close>, reading lines and keys, and the two threads.

  The graphical client (\<open>client-cpp/gui/src\<close>) adds:

  \<^item> \<open>Transfer_State\<close>, \<open>Attachment_Crypto\<close>, \<open>Download\<close>, \<open>Manifest\<close>: \<open>attachments/\<close>, the upload state machine, chunk
    encryption, the download assembler over an explicit file system, and the manifest.
  \<^item> \<open>Chat_Model\<close>: \<open>chat_model.cpp\<close>, the list models and the signals for their views.
  \<^item> \<open>Gui_Controller\<close>: \<open>gui_chat_controller.cpp\<close>, with \<open>Gui_Invariant\<close> (models stay alive, the cache stays within
    its limit), \<open>Gui_Behaviour\<close> (echoes, retries, recovery, history) and \<open>Gui_Models\<close> (what all conversations have). \<open>Ui_Texts\<close> holds its Chinese texts.
  \<^item> \<open>Bridge_Protocol\<close>: \<open>bridge_protocol.cpp\<close>, validation of the page's commands and the published state.
  \<^item> \<open>Chat_Bridge\<close>: \<open>chat_bridge.cpp\<close>, dispatch of the page's commands and publishing of the state, over the controller and
    the parts below. \<open>Bridge_Cache\<close> shows that the incrementally built state is the present one, \<open>Bridge_Answers\<close> that
    commands are answered once, \<open>Bridge_Shown\<close> that a received message is published.
  \<^item> \<open>Performance\<close>: \<open>performance_profile.cpp\<close>, \<open>graphics_info.cpp\<close>, \<open>performance_benchmark_gate.cpp\<close>.
    \<open>Lan_Discovery\<close>: \<open>lan_discovery_service.cpp\<close>. \<open>Host_Setup\<close>: where the host's files are, their creation, the launcher,
    the connection log, the OpenSSL libraries and the navigation rules of the web view.
  \<^item> \<open>Gui_Start\<close>: \<open>main.cpp\<close>, the local host, the objects of the client and the page it loads.
  \<^item> \<open>Reconnect_Policy\<close>: \<open>reconnect_policy.cpp\<close>. \<open>Mls_Client\<close>: \<open>crypto/mls_client.cpp\<close>.
  \<^item> The connection worker, \<open>gui_connection_worker.cpp\<close>: \<open>Gui_Worker\<close> (state, signals, sending), \<open>Gui_Mls\<close> (MLS
    requests), \<open>Gui_Link\<close> (connecting, hosting, reconnecting), \<open>Gui_Attachments\<close> (uploads and downloads) and
    \<open>Gui_Receive\<close> (the receive loop). \<open>Worker_Frame\<close> has what the operations leave alone, as two locales;
    \<open>Gui_Session\<close> connects the worker to \<open>Connection\<close> and gives its steps; \<open>Worker_Safety\<close> has the properties,
    \<open>Worker_Upload\<close> follows an upload from the announcement to the commit, \<open>Worker_Download\<close> a download up to the file.
  \<^item> \<open>Gui_Client\<close>: the threads together. The interface thread (bridge and controller), the worker and its receive thread
    exchange queued calls and signals in any interleaving, from the state \<open>Gui_Start\<close> builds; the invariants of the
    parts hold in it, and it carries the properties that span the threads. \<open>Gui_Delivery\<close> follows a message that cannot be
    sent through it.

  Beside them, \<open>Source_Launcher\<close>: \<open>tools/bootstrap/launcher.cpp\<close>, which finds the bootstrap script and runs it, and
  \<open>Platform_Socket\<close>: \<open>include/platform_socket.hpp\<close>, the names of Winsock on other systems.

  \<open>Prelude\<close> has the shared lemmas and \<open>Transition\<close> reachable states and the locale of invariant systems.

  \<^bold>\<open>State and operations.\<close> A class is a record of its members, an operation a function to the result and the new
  record; objects behind pointers are heap maps from addresses; strings are their UTF-8 bytes; an exception or a
  failing result is the left value of a sum. What the code gets from elsewhere is a parameter: the sockets and
  OpenSSL (\<open>ssl_api\<close>, \<open>conn_api\<close>), the JSON library (\<open>json_codec\<close>), the cryptographic primitives (\<open>evp_api\<close>),
  the file system's faults (\<open>faults\<close>), Qt's text functions, clock and dialogs (\<open>ctl_env\<close>). Threads are step
  relations over the critical sections of the code, with every interleaving.

  \<^bold>\<open>Loops.\<close> Loops over data are recursive functions with measures. The send and receive loops of \<open>Protocol\<close> and
  the wait for the login answer in \<open>Connection\<close> end only if the peer lets them; they are partial functions, and
  that they return is proved from the contract of the calls.

  \<^bold>\<open>What is shown.\<close> End to end: a message sent is the message received, whatever way the bytes are cut, and a message the worker
  receives is published to the page, as is the failure of one it cannot send; a file
  the worker uploads in encrypted chunks, acknowledged in whatever order, is the file another worker downloads with its manifest; the published state has no secrets and is the
  present one whenever no update is pending. Invariants over
  all interleavings: no use of a freed session, no dangling conversation model, an upload is complete exactly when
  nothing is missing, at most one reconnect is due and none after a disconnect, a chosen host is met with the
  certificate it announced, hosting is offered exactly when the host is ready, and a disconnect wins over everything queued
  before it. Error paths: refused frames, rejected chunks, failed moves. Termination of connecting and of a stopped
  receiver. Some theorems record behaviour that is hardly intended; they are listed as findings.

  \<^bold>\<open>Not modelled.\<close> Of the worker, the entries of the diagnostic log and the build without MLS++; of the bridge, the time a
  rebuild takes; of the controller, the hook for tests. What Qt, OpenSSL and Windows do is a parameter; the Go server and
  the page's TypeScript are other programs.
\<close>

section \<open>Worker, controller and bridge\<close>


definition greeting :: message where
  "greeting = Message ((simple ''chat'' ''hello'' [] ''lobby'')\<lparr>message_id := ''m7''\<rparr>) []"

text \<open>A connection on which the greeting arrives, and a client that has connected and shows the lobby.\<close>

definition greeting_link :: "(bool \<times> message list) link_ops" where
  "greeting_link = memory_link\<lparr>lk_receive := (\<lambda>l. ((True, greeting), l))\<rparr>"

definition connects :: "(unit, unit, unit) gui_event list" where
  "connects = [InterfaceEvent page_env {} (ControllerCall (ConnectEvent ''10.0.0.1'' 8888 ''Amy'' ''amy'' [] [])),
     PerformCall worker_sample_env quiet_host, HandleSignal page_env {}]"

lemma connected_example:
  defines "cl \<equiv> run_gui greeting_link connects (new_gui_client first_gui (False, []) Map.empty)"
  shows "cl_signals cl = []" "w_running (cl_worker cl)" "activeConversationKey (br_controller (cl_bridge cl)) = ''room:lobby''"
    "rows ` ran (heap (br_controller (cl_bridge cl))) \<subseteq> {[]}"
proof -
  define c where "c = (connectToServerWithTlsName (be_ctl page_env) ''10.0.0.1'' 8888 ''Amy'' ''amy'' [] []
    ((start_controller first_start)\<lparr>emitted := []\<rparr>))\<lparr>calls := [], emitted := []\<rparr>"
  have "ctl_inv (Suc 1) (run_event (be_ctl page_env) (ConnectEvent ''10.0.0.1'' 8888 ''Amy'' ''amy'' [] []) ((start_controller first_start)\<lparr>emitted := []\<rparr>))"
    using start_controller_inv [of first_start] by (intro run_event_inv) simp
  then have "ctl_inv (Suc 1) c" by (simp add: c_def ctl_inv_def models_ok_def cache_ok_def shows_active_def)
  moreover have "\<not> reconnecting c"
    using start_controller_parts [of first_start]
    by (auto simp: c_def connectToServerWithTlsName_def set_identity_def saveConnectionPreferences_def new_controller_def Let_def)
  moreover have "calls (start_controller first_start) = []" using first_calls by (simp add: first_gui_def start_bridge_parts)
  then have "br_controller (cl_bridge cl) = (handleConnected False c)\<lparr>calls := [], emitted := []\<rparr> \<and> cl_signals cl = [] \<and> w_running (cl_worker cl)"
    unfolding cl_def run_gui_def connects_def greeting_link_def c_def
    by (simp add: new_gui_client_def idle_worker_def [symmetric] on_interface_def on_worker_def controller_call idle_login first_gui_def
        start_bridge_parts connectToServerWithTlsName_def Let_def)
  ultimately show "cl_signals cl = []" "w_running (cl_worker cl)" "activeConversationKey (br_controller (cl_bridge cl)) = ''room:lobby''"
    "rows ` ran (heap (br_controller (cl_bridge cl))) \<subseteq> {[]}"
    using new_session [of "Suc 1" c False] by simp_all
qed


text \<open>
  C25. A recall may never be answered: an author who recalls a message while the worker has no connection gets no result from the
  bridge, which keeps the command as pending, and the queued call of the worker does nothing.
\<close>

theorem recall_unanswered:
  assumes "canRecallMessage (be_ctl e) (str p ''messageId'') (br_controller b)" and "\<not> usable ops w"
  shows "let mid = str p ''messageId''; b' = recall_command e extra i p b in
    results b' = results b \<and> map_of (br_recalls b') i = Some i \<and>
    calls (br_controller b') = calls (br_controller b) @ [SendAdminAction ''recall'' [] mid i] \<and>
    sendAdminAction we ops ''recall'' [] mid i w = w"
proof -
  define mid where "mid = str p ''messageId''"
  have can: "canRecallMessage (be_ctl e) mid (c\<lparr>emitted := []\<rparr>) = canRecallMessage (be_ctl e) mid c" for c
    by (simp add: canRecallMessage_def Let_def cong: option.case_cong)
  have "map_of (hash_put i i rs) i = Some i" for rs :: "(string \<times> string) list"
    by (induction rs) (auto simp: hash_put_def)
  then show ?thesis
    using assms can [of "br_controller b"] unfolding mid_def [symmetric]
    by (simp add: recall_command_def call_controller_def with_controller_signals recallMessage_def invoke_def Let_def mid_def [symmetric]
        sendAdminAction_def) (simp add: scheduleStateUpdate_def)
qed

theorem recall_unanswered_witness:
  "results (recall_command page_env {} ''c1'' [(''messageId'', QString ''m1'')]
      (new_bridge page_env (new_controller\<lparr>admin := True\<rparr>) None None no_logs Map.empty)) = [] \<and>
   (\<forall>we ops. sendAdminAction we ops ''recall'' [] ''m1'' ''c1'' (new_worker () Map.empty) =
      (new_worker () Map.empty :: (unit, unit, unit, unit) worker))"
proof -
  define b where "b = new_bridge page_env (new_controller\<lparr>admin := True\<rparr>) None None no_logs Map.empty"
  have b: "br_controller b = new_controller\<lparr>admin := True\<rparr>" "br_out b = []"
    by (simp_all add: b_def new_bridge_def rebuildStateSnapshot_def buildState_def connectModel_def markModelDirty_def Let_def)
  have m: "str [(''messageId'', QString ''m1'')] ''messageId'' = ''m1''" by (simp add: str_def member_def)
  have can: "canRecallMessage (be_ctl page_env) (str [(''messageId'', QString ''m1'')] ''messageId'') (br_controller b)"
    by (simp add: m b canRecallMessage_def)
  have off: "\<not> usable ops (new_worker () Map.empty :: (unit, unit, unit, unit) worker)" for ops
    by (simp add: usable_def new_worker_def)
  show ?thesis
    using recall_unanswered [OF can off] b(2) unfolding b_def [symmetric] m Let_def by (simp add: results_def)
qed

end
